(* ===== verification/Prelude.thy ===== *)
theory Prelude
  imports Main "HOL-Library.Word" "HOL-Library.State_Monad"
begin

text \<open>
  Shared ground of the development: the machine types of the Go sources, Go errors and
  results, the effect type of every operation that touches the outside world, and the
  generic lemmas and fact collections the component theories use.

  Effects. An operation that reads the clock, draws a UUID, bumps a metric or talks to
  PostgreSQL or Redis is a value of type \<open>('w, 'a) io\<close>: a function from the state \<open>'w\<close> of
  the outside world to a result and the next state. The type \<open>'w\<close> is a parameter
  everywhere; the servers behind it are handles passed as arguments (theory Runtime and
  theory Repository), so no component fixes what they do.
\<close>

section \<open>Machine types\<close>

text \<open>
  A UUID is 16 bytes (\<open>type UUID [16]byte\<close>). A Go string or byte slice is a list of bytes.
  A \<open>time.Time\<close> is the number of nanoseconds since January 1 of year 1 UTC, so that the
  zero time is 0; a \<open>time.Duration\<close> is a number of nanoseconds. Go's \<open>int\<close>, \<open>int64\<close> and
  \<open>Duration\<close> are 64 bits wide: \<open>wrap64\<close> is applied where arithmetic may leave that range.
\<close>

type_synonym uuid = "128 word"
type_synonym bytes = string
type_synonym time = int
type_synonym duration = int

definition uuid_Nil :: uuid where
  "uuid_Nil = 0"

definition wrap64 :: "int \<Rightarrow> int" where
  "wrap64 x = signed_take_bit 63 x"

lemma wrap64_id: "- (2 ^ 63) \<le> x \<Longrightarrow> x < 2 ^ 63 \<Longrightarrow> wrap64 x = x"
  by (simp add: wrap64_def signed_take_bit_int_eq_self_iff)

lemma wrap64_range: "- (2 ^ 63) \<le> wrap64 x \<and> wrap64 x < 2 ^ 63"
  by (simp only: wrap64_def signed_take_bit_int_greater_eq_minus_exp signed_take_bit_int_less_exp
      simp_thms)

definition Nanosecond :: duration where "Nanosecond = 1"
definition Millisecond :: duration where "Millisecond = 1000000"
definition Second :: duration where "Second = 1000000000"
definition Minute :: duration where "Minute = 60 * 1000000000"
definition Hour :: duration where "Hour = 3600 * 1000000000"

lemmas duration_units = Nanosecond_def Millisecond_def Second_def Minute_def Hour_def

text \<open>
  Go's integer division and conversion from floating point round towards zero.
  \<open>int(d.Seconds())\<close> is the number of whole seconds of \<open>d\<close>.
\<close>

definition go_quot :: "int \<Rightarrow> int \<Rightarrow> int" where
  "go_quot a b = sgn a * sgn b * (\<bar>a\<bar> div \<bar>b\<bar>)"

definition whole_seconds :: "duration \<Rightarrow> int" where
  "whole_seconds d = go_quot d Second"

lemma go_quot_pos: "0 \<le> a \<Longrightarrow> 0 < b \<Longrightarrow> go_quot a b = a div b"
  by (cases "a = 0") (simp_all add: go_quot_def)

lemma go_quot_nonneg: "0 \<le> a \<Longrightarrow> 0 < b \<Longrightarrow> 0 \<le> go_quot a b"
  by (simp add: go_quot_pos pos_imp_zdiv_nonneg_iff)

lemma whole_seconds_sub_second: "0 \<le> d \<Longrightarrow> d < Second \<Longrightarrow> whole_seconds d = 0"
  by (simp add: whole_seconds_def go_quot_pos duration_units)

text \<open>A Go slice distinguishes nil from empty; \<open>elems\<close> is what a loop over it visits.\<close>

type_synonym 'a slice = "'a list option"

definition elems :: "'a slice \<Rightarrow> 'a list" where
  "elems s = (case s of None \<Rightarrow> [] | Some xs \<Rightarrow> xs)"

lemma elems_simps [simp]: "elems None = []" "elems (Some xs) = xs"
  by (simp_all add: elems_def)

section \<open>Errors\<close>

text \<open>
  The error values of the program: the sentinels of \<open>internal/service/service.go\<close> and of
  \<open>internal/engine/engine.go\<close>, those of \<open>database/sql\<close> and go-redis that the code compares
  with, a PostgreSQL error with its code, and any other error with its text.
\<close>

datatype go_error =
    ErrAgentNotFound
  | ErrAgentAlreadyExists
  | ErrMessageNotFound
  | ErrUnauthorized
  | ErrInvalidToken
  | ErrInvalidMessage
  | ErrServiceUnavailable
  | ErrEngineDependenciesNotConfigured
  | ErrInvalidEngineMessage
  | ErrNoRows
  | ErrConnDone
  | ErrRedisNil
  | ErrRedisClosed
  | PqError string string
  | OtherError string

definition err_Error :: "go_error \<Rightarrow> string" where
  "err_Error e = (case e of
     ErrAgentNotFound \<Rightarrow> ''agent not found''
   | ErrAgentAlreadyExists \<Rightarrow> ''agent already exists''
   | ErrMessageNotFound \<Rightarrow> ''message not found''
   | ErrUnauthorized \<Rightarrow> ''unauthorized''
   | ErrInvalidToken \<Rightarrow> ''invalid token''
   | ErrInvalidMessage \<Rightarrow> ''invalid message''
   | ErrServiceUnavailable \<Rightarrow> ''service dependencies not configured''
   | ErrEngineDependenciesNotConfigured \<Rightarrow> ''engine dependencies not configured''
   | ErrInvalidEngineMessage \<Rightarrow> ''invalid message''
   | ErrNoRows \<Rightarrow> ''sql: no rows in result set''
   | ErrConnDone \<Rightarrow> ''sql: connection is already closed''
   | ErrRedisNil \<Rightarrow> ''redis: nil''
   | ErrRedisClosed \<Rightarrow> ''redis: client is closed''
   | PqError code msg \<Rightarrow> ''pq: '' @ msg
   | OtherError msg \<Rightarrow> msg)"

type_synonym 'a result = "go_error + 'a"

section \<open>Effects\<close>

type_synonym ('w, 'a) io = "('w, 'a) state"

abbreviation ret :: "'a \<Rightarrow> ('w, 'a) io" where
  "ret \<equiv> State_Monad.return"

text \<open>
  The Go idiom \<open>if err != nil { return err }\<close> with nothing else in the branch: the error
  is returned as it is, the value goes on.
\<close>

definition try_io :: "('w, 'a result) io \<Rightarrow> ('a \<Rightarrow> ('w, 'b result) io) \<Rightarrow> ('w, 'b result) io" where
  "try_io m f = do { r \<leftarrow> m; (case r of Inl e \<Rightarrow> ret (Inl e) | Inr x \<Rightarrow> f x) }"

lemma run_try_io [simp]:
  "run_state (try_io m f) w =
     (case run_state m w of (Inl e, w') \<Rightarrow> (Inl e, w') | (Inr x, w') \<Rightarrow> run_state (f x) w')"
  by (simp add: try_io_def split: prod.split sum.split)

text \<open>A loop whose body has effects only, in the order of the list.\<close>

fun for_io :: "('a \<Rightarrow> ('w, unit) io) \<Rightarrow> 'a list \<Rightarrow> ('w, unit) io" where
  "for_io f [] = ret ()"
| "for_io f (x # xs) = do { f x; for_io f xs }"

text \<open>A loop that breaks on the first error.\<close>

fun for_err :: "('a \<Rightarrow> ('w, unit result) io) \<Rightarrow> 'a list \<Rightarrow> ('w, unit result) io" where
  "for_err f [] = ret (Inr ())"
| "for_err f (x # xs) = try_io (f x) (\<lambda>_. for_err f xs)"

text \<open>A loop that collects one result for each element.\<close>

fun map_io :: "('a \<Rightarrow> ('w, 'b) io) \<Rightarrow> 'a list \<Rightarrow> ('w, 'b list) io" where
  "map_io f [] = ret []"
| "map_io f (x # xs) = do { y \<leftarrow> f x; ys \<leftarrow> map_io f xs; ret (y # ys) }"

text \<open>
  An invariant of the world kept by an operation, and its rules: the collection
  \<open>preserves\<close> holds, for every operation of a component, the fact that it keeps an
  invariant, and \<open>preserves_rules\<close> the composition rules.
\<close>

definition keeps :: "('w \<Rightarrow> bool) \<Rightarrow> ('w, 'a) io \<Rightarrow> bool" where
  "keeps I m \<longleftrightarrow> (\<forall>w. I w \<longrightarrow> I (snd (run_state m w)))"

named_theorems keeps_rules \<open>composition rules for invariants\<close>

lemma keepsI [intro?]: "(\<And>w. I w \<Longrightarrow> I (snd (run_state m w))) \<Longrightarrow> keeps I m"
  by (simp add: keeps_def)

lemma keepsD: "keeps I m \<Longrightarrow> I w \<Longrightarrow> I (snd (run_state m w))"
  by (simp add: keeps_def)

lemma keeps_ret [keeps_rules]: "keeps I (ret x)"
  by (simp add: keeps_def)

lemma keeps_bind [keeps_rules]:
  "keeps I m \<Longrightarrow> (\<And>x. keeps I (f x)) \<Longrightarrow> keeps I (State_Monad.bind m f)"
  by (fastforce simp: keeps_def split: prod.split dest: spec)

lemma keeps_try [keeps_rules]: "keeps I m \<Longrightarrow> (\<And>x. keeps I (f x)) \<Longrightarrow> keeps I (try_io m f)"
  unfolding try_io_def by (intro keeps_rules) (auto split: sum.split intro: keeps_rules)

lemma keeps_for_io [keeps_rules]: "(\<And>x. x \<in> set xs \<Longrightarrow> keeps I (f x)) \<Longrightarrow> keeps I (for_io f xs)"
  by (induction xs) (auto intro!: keeps_rules)

lemma keeps_for_err [keeps_rules]: "(\<And>x. x \<in> set xs \<Longrightarrow> keeps I (f x)) \<Longrightarrow> keeps I (for_err f xs)"
  by (induction xs) (auto intro!: keeps_rules)

lemma keeps_map_io [keeps_rules]: "(\<And>x. x \<in> set xs \<Longrightarrow> keeps I (f x)) \<Longrightarrow> keeps I (map_io f xs)"
  by (induction xs) (auto intro!: keeps_rules)

lemma keeps_if [keeps_rules]: "(b \<Longrightarrow> keeps I m) \<Longrightarrow> (\<not> b \<Longrightarrow> keeps I n) \<Longrightarrow> keeps I (if b then m else n)"
  by simp

lemma keeps_sum [keeps_rules]:
  "(\<And>e. r = Inl e \<Longrightarrow> keeps I (f e)) \<Longrightarrow> (\<And>x. r = Inr x \<Longrightarrow> keeps I (g x)) \<Longrightarrow> keeps I (case r of Inl e \<Rightarrow> f e | Inr x \<Rightarrow> g x)"
  by (cases r) simp_all

lemma keeps_option [keeps_rules]:
  "(r = None \<Longrightarrow> keeps I f) \<Longrightarrow> (\<And>x. r = Some x \<Longrightarrow> keeps I (g x)) \<Longrightarrow> keeps I (case r of None \<Rightarrow> f | Some x \<Rightarrow> g x)"
  by (cases r) simp_all

lemma keeps_prod [keeps_rules]:
  "(\<And>x y. r = (x, y) \<Longrightarrow> keeps I (f x y)) \<Longrightarrow> keeps I (case r of (x, y) \<Rightarrow> f x y)"
  by (cases r) simp_all

lemma keeps_Let [keeps_rules]: "(\<And>x. x = a \<Longrightarrow> keeps I (f x)) \<Longrightarrow> keeps I (Let a f)"
  by simp

text \<open>
  What every result of an operation satisfies, whatever the world it runs in, with its
  composition rules in the collection \<open>yields_rules\<close>.
\<close>

definition yields :: "('a \<Rightarrow> bool) \<Rightarrow> ('w, 'a) io \<Rightarrow> bool" where
  "yields P m \<longleftrightarrow> (\<forall>w. P (fst (run_state m w)))"

named_theorems yields_rules \<open>composition rules for results\<close>

lemma yieldsI: "(\<And>w r w'. run_state m w = (r, w') \<Longrightarrow> P r) \<Longrightarrow> yields P m"
  by (simp add: yields_def) (metis prod.collapse)

lemma yieldsD: "yields P m \<Longrightarrow> run_state m w = (r, w') \<Longrightarrow> P r"
  by (metis yields_def fst_conv)

lemma yields_True: "yields (\<lambda>_. True) m"
  by (simp add: yields_def)

lemma yields_mono: "yields Q m \<Longrightarrow> (\<And>x. Q x \<Longrightarrow> P x) \<Longrightarrow> yields P m"
  by (simp add: yields_def)

lemma yields_ret [yields_rules]: "P x \<Longrightarrow> yields P (ret x)"
  by (simp add: yields_def)

lemma yields_bind:
  assumes "yields Q m" "\<And>x. Q x \<Longrightarrow> yields P (f x)"
  shows "yields P (State_Monad.bind m f)"
proof (rule yieldsI)
  fix w r w'
  assume run: "run_state (State_Monad.bind m f) w = (r, w')"
  obtain x v where x: "run_state m w = (x, v)" by fastforce
  then show "P r" using run yieldsD [OF assms(2) [OF yieldsD [OF assms(1) x]]] by simp
qed

lemmas yields_then [yields_rules] = yields_bind [OF yields_True]

lemma yields_if [yields_rules]: "(b \<Longrightarrow> yields P m) \<Longrightarrow> (\<not> b \<Longrightarrow> yields P n) \<Longrightarrow> yields P (if b then m else n)"
  by simp

lemma yields_sum [yields_rules]:
  "(\<And>e. r = Inl e \<Longrightarrow> yields P (f e)) \<Longrightarrow> (\<And>x. r = Inr x \<Longrightarrow> yields P (g x)) \<Longrightarrow> yields P (case r of Inl e \<Rightarrow> f e | Inr x \<Rightarrow> g x)"
  by (cases r) simp_all

lemma yields_option [yields_rules]:
  "(r = None \<Longrightarrow> yields P f) \<Longrightarrow> (\<And>x. r = Some x \<Longrightarrow> yields P (g x)) \<Longrightarrow> yields P (case r of None \<Rightarrow> f | Some x \<Rightarrow> g x)"
  by (cases r) simp_all

lemma yields_prod [yields_rules]:
  "(\<And>x y. r = (x, y) \<Longrightarrow> yields P (f x y)) \<Longrightarrow> yields P (case r of (x, y) \<Rightarrow> f x y)"
  by (cases r) simp_all

lemma yields_Let [yields_rules]: "(\<And>x. x = a \<Longrightarrow> yields P (f x)) \<Longrightarrow> yields P (Let a f)"
  by simp

lemma yields_try:
  assumes "\<And>e. P (Inl e)" "yields (\<lambda>r. \<forall>x. r = Inr x \<longrightarrow> Q x) m" "\<And>x. Q x \<Longrightarrow> yields P (f x)"
  shows "yields P (try_io m f)"
  unfolding try_io_def by (rule yields_bind [OF assms(2)]) (auto intro!: yields_rules assms split: sum.split)

text \<open>
  \<open>leads A m B\<close>: from a state with \<open>A\<close>, \<open>m\<close> ends with a result and a state with \<open>B\<close>. The rules
  of the collection \<open>leads_rules\<close> follow the branches of \<open>m\<close>.
\<close>

definition leads :: "('w \<Rightarrow> bool) \<Rightarrow> ('w, 'a) io \<Rightarrow> ('a \<Rightarrow> 'w \<Rightarrow> bool) \<Rightarrow> bool" where
  "leads A m B \<longleftrightarrow> (\<forall>w. A w \<longrightarrow> B (fst (run_state m w)) (snd (run_state m w)))"

named_theorems leads_rules \<open>branches of a triple\<close>

lemma leadsI: "(\<And>w x w'. A w \<Longrightarrow> run_state m w = (x, w') \<Longrightarrow> B x w') \<Longrightarrow> leads A m B"
  by (simp add: leads_def)

lemma leadsD: "leads A m B \<Longrightarrow> A w \<Longrightarrow> run_state m w = (x, w') \<Longrightarrow> B x w'"
  unfolding leads_def by (metis fst_conv snd_conv)

lemma leads_ret: "(\<And>w. A w \<Longrightarrow> B x w) \<Longrightarrow> leads A (ret x) B"
  by (simp add: leads_def)

lemma leads_bind:
  assumes "leads A m B" "\<And>x. leads (B x) (f x) C"
  shows "leads A (State_Monad.bind m f) C"
  using assms unfolding leads_def by (auto split: prod.split)

lemma leads_post: "leads A m B \<Longrightarrow> (\<And>x w. B x w \<Longrightarrow> C x w) \<Longrightarrow> leads A m C"
  by (simp add: leads_def)

lemma leads_pure: "(Q \<Longrightarrow> leads A m B) \<Longrightarrow> leads (\<lambda>w. Q \<and> A w) m B"
  by (simp add: leads_def)

lemma leads_if [leads_rules]: "(b \<Longrightarrow> leads A m B) \<Longrightarrow> (\<not> b \<Longrightarrow> leads A n B) \<Longrightarrow> leads A (if b then m else n) B"
  by simp

lemma leads_sum [leads_rules]:
  "(\<And>e. r = Inl e \<Longrightarrow> leads A (f e) B) \<Longrightarrow> (\<And>x. r = Inr x \<Longrightarrow> leads A (g x) B) \<Longrightarrow>
    leads A (case r of Inl e \<Rightarrow> f e | Inr x \<Rightarrow> g x) B"
  by (cases r) simp_all

lemma leads_option [leads_rules]:
  "(r = None \<Longrightarrow> leads A f B) \<Longrightarrow> (\<And>x. r = Some x \<Longrightarrow> leads A (g x) B) \<Longrightarrow>
    leads A (case r of None \<Rightarrow> f | Some x \<Rightarrow> g x) B"
  by (cases r) simp_all

text \<open>An operation before the rest that keeps what the rest starts from.\<close>

lemma leads_keeps: "keeps A m \<Longrightarrow> leads A m (\<lambda>_. A)"
  by (simp add: leads_def keeps_def)

lemmas leads_after = leads_bind [OF leads_keeps]

lemma leads_after_yields:
  assumes "keeps A m" "yields Q m" "\<And>x. Q x \<Longrightarrow> leads A (f x) B"
  shows "leads A (State_Monad.bind m f) B"
proof (rule leads_bind)
  show "leads A m (\<lambda>x w. Q x \<and> A w)" using assms(1,2) by (simp add: leads_def keeps_def yields_def)
qed (rule leads_pure [OF assms(3)])

lemma leads_yields: "yields Q m \<Longrightarrow> (\<And>x w. Q x \<Longrightarrow> B x w) \<Longrightarrow> leads A m B"
  by (simp add: leads_def yields_def)

lemma length_map_io: "length (fst (run_state (map_io f xs) w)) = length xs"
  by (induction xs arbitrary: w) (auto split: prod.split, metis fst_conv)

text \<open>From an evaluated result back to a run.\<close>

lemma run_fst: "fst (run_state m w) = r \<Longrightarrow> run_state m w = (r, snd (run_state m w))"
  by (cases "run_state m w") simp

end
