(* ===== verification/Go_Base64.thy ===== *)
theory Go_Base64
  imports Go_Strings
begin

text \<open>
  Package \<open>encoding/base64\<close>: the standard encoding with padding, which \<open>encoding/json\<close>
  uses for \<open>[]byte\<close>, and \<open>RawURLEncoding\<close>, which the JWT code uses. Decoding is Go's: line
  breaks are skipped wherever they stand and the unused low bits of the last character
  are not checked.
\<close>

definition b64_std :: string where
  "b64_std = ''ABCDEFGHIJKLMNOPQRSTUVWXYZabcdefghijklmnopqrstuvwxyz0123456789+/''"

definition b64_url :: string where
  "b64_url = ''ABCDEFGHIJKLMNOPQRSTUVWXYZabcdefghijklmnopqrstuvwxyz0123456789-_''"

fun index_of :: "'a list \<Rightarrow> 'a \<Rightarrow> nat option" where
  "index_of [] x = None"
| "index_of (y # ys) x = (if x = y then Some 0 else map_option Suc (index_of ys x))"

lemma index_of_nth: "distinct xs \<Longrightarrow> i < length xs \<Longrightarrow> index_of xs (xs ! i) = Some i"
  by (induction xs arbitrary: i) (auto simp: nth_Cons split: nat.split)

lemma index_of_Some: "index_of xs x = Some i \<Longrightarrow> i < length xs \<and> xs ! i = x"
  by (induction xs arbitrary: i) (auto split: if_splits)

lemma index_of_None: "index_of xs x = None \<longleftrightarrow> x \<notin> set xs"
  by (induction xs) auto

fun b64_encode :: "string \<Rightarrow> bool \<Rightarrow> bytes \<Rightarrow> string" where
  "b64_encode al pad [] = []"
| "b64_encode al pad [a] =
     [al ! (byte a div 4), al ! (byte a mod 4 * 16)] @ (if pad then ''=='' else [])"
| "b64_encode al pad [a, b] =
     [al ! (byte a div 4), al ! (byte a mod 4 * 16 + byte b div 16), al ! (byte b mod 16 * 4)]
     @ (if pad then ''='' else [])"
| "b64_encode al pad (a # b # c # s) =
     [al ! (byte a div 4), al ! (byte a mod 4 * 16 + byte b div 16),
      al ! (byte b mod 16 * 4 + byte c div 64), al ! (byte c mod 64)] @ b64_encode al pad s"

text \<open>A final group of two characters yields one byte, of three characters two bytes.\<close>

definition b64_two :: "nat option \<Rightarrow> nat option \<Rightarrow> bytes option" where
  "b64_two i j = (case (i, j) of (Some i, Some j) \<Rightarrow> Some [chr (i * 4 + j div 16)] | _ \<Rightarrow> None)"

definition b64_three :: "nat option \<Rightarrow> nat option \<Rightarrow> nat option \<Rightarrow> bytes option" where
  "b64_three i j k = (case (i, j, k) of
     (Some i, Some j, Some k) \<Rightarrow> Some [chr (i * 4 + j div 16), chr (j mod 16 * 16 + k div 4)]
   | _ \<Rightarrow> None)"

definition b64_four :: "nat option \<Rightarrow> nat option \<Rightarrow> nat option \<Rightarrow> nat option \<Rightarrow> bytes option" where
  "b64_four i j k l = (case (i, j, k, l) of
     (Some i, Some j, Some k, Some l) \<Rightarrow>
       Some [chr (i * 4 + j div 16), chr (j mod 16 * 16 + k div 4), chr (k mod 4 * 64 + l)]
   | _ \<Rightarrow> None)"

fun b64_decode_raw :: "string \<Rightarrow> string \<Rightarrow> bytes option" where
  "b64_decode_raw al [] = Some []"
| "b64_decode_raw al [w] = None"
| "b64_decode_raw al [w, x] = b64_two (index_of al w) (index_of al x)"
| "b64_decode_raw al [w, x, y] = b64_three (index_of al w) (index_of al x) (index_of al y)"
| "b64_decode_raw al (w # x # y # z # s) =
     (case b64_four (index_of al w) (index_of al x) (index_of al y) (index_of al z) of
        None \<Rightarrow> None
      | Some bs \<Rightarrow> map_option (\<lambda>t. bs @ t) (b64_decode_raw al s))"

fun b64_decode_pad :: "string \<Rightarrow> string \<Rightarrow> bytes option" where
  "b64_decode_pad al [] = Some []"
| "b64_decode_pad al (w # x # y # z # s) =
     (if z = CHR ''='' then
        (if s \<noteq> [] then None
         else if y = CHR ''='' then b64_two (index_of al w) (index_of al x)
         else b64_three (index_of al w) (index_of al x) (index_of al y))
      else case b64_four (index_of al w) (index_of al x) (index_of al y) (index_of al z) of
             None \<Rightarrow> None
           | Some bs \<Rightarrow> map_option (\<lambda>t. bs @ t) (b64_decode_pad al s))"
| "b64_decode_pad al _ = None"

definition skip_breaks :: "string \<Rightarrow> string" where
  "skip_breaks s = filter (\<lambda>c. byte c \<noteq> 10 \<and> byte c \<noteq> 13) s"

definition RawURLEncoding_EncodeToString :: "bytes \<Rightarrow> string" where
  "RawURLEncoding_EncodeToString bs = b64_encode b64_url False bs"

definition RawURLEncoding_DecodeString :: "string \<Rightarrow> bytes option" where
  "RawURLEncoding_DecodeString s = b64_decode_raw b64_url (skip_breaks s)"

definition StdEncoding_EncodeToString :: "bytes \<Rightarrow> string" where
  "StdEncoding_EncodeToString bs = b64_encode b64_std True bs"

definition StdEncoding_DecodeString :: "string \<Rightarrow> bytes option" where
  "StdEncoding_DecodeString s = b64_decode_pad b64_std (skip_breaks s)"

section \<open>Round trip\<close>

text \<open>An alphabet: 64 different characters, none of them padding or a line break.\<close>

definition b64_alphabet :: "string \<Rightarrow> bool" where
  "b64_alphabet al \<longleftrightarrow> length al = 64 \<and> distinct al \<and> list_all (\<lambda>c. byte c \<notin> {10, 13, 61}) al"

lemma b64_alphabet_std: "b64_alphabet b64_std"
  by (simp add: b64_alphabet_def b64_std_def byte_def)

lemma b64_alphabet_url: "b64_alphabet b64_url"
  by (simp add: b64_alphabet_def b64_url_def byte_def)

lemma b64_index: "b64_alphabet al \<Longrightarrow> i < 64 \<Longrightarrow> index_of al (al ! i) = Some i"
  by (simp add: b64_alphabet_def index_of_nth)

lemma b64_nth_plain:
  "b64_alphabet al \<Longrightarrow> i < 64 \<Longrightarrow> byte (al ! i) \<noteq> 10 \<and> byte (al ! i) \<noteq> 13 \<and> byte (al ! i) \<noteq> 61"
  unfolding b64_alphabet_def by (metis (mono_tags, lifting) insertCI list_all_length)

lemma b64_nth_not_pad [simp]: "b64_alphabet al \<Longrightarrow> i < 64 \<Longrightarrow> al ! i \<noteq> CHR ''=''"
  using b64_nth_plain [of al i] by (auto simp: byte_def)

text \<open>The arithmetic of three bytes cut into four sextets and put together again.\<close>

lemma sextet_split: "r < n \<Longrightarrow> (k * n + r) div n = (k :: nat)" "r < n \<Longrightarrow> (k * n + r) mod n = r"
  by simp_all

lemma byte_parts: "byte a div 4 < 64" "byte a mod 4 < 4" "byte a div 16 < 16" "byte a mod 16 < 16"
  "byte a div 64 < 4" "byte a mod 64 < 64"
  using byte_less [of a] by (simp_all only: less_mult_imp_div_less mod_less_divisor less_mult_imp_div_less)

lemma sextet_bounds [simp]:
  "byte a div 4 < 64" "byte a mod 4 * 16 < 64" "byte a mod 4 * 16 + byte b div 16 < 64"
  "byte b mod 16 * 4 < 64" "byte b mod 16 * 4 + byte c div 64 < 64" "byte c mod 64 < 64"
  using byte_parts(1,2) [of a] byte_parts(3,4) [of b] byte_parts(5,6) [of c] by linarith+

lemma sextet_join:
  fixes a b c :: nat
  assumes "b div 16 < 16" "c div 64 < 4"
  shows "a div 4 * 4 + (a mod 4 * 16) div 16 = a"
    "a div 4 * 4 + (a mod 4 * 16 + b div 16) div 16 = a"
    "(a mod 4 * 16 + b div 16) mod 16 * 16 + (b mod 16 * 4) div 4 = b"
    "(a mod 4 * 16 + b div 16) mod 16 * 16 + (b mod 16 * 4 + c div 64) div 4 = b"
    "(b mod 16 * 4 + c div 64) mod 4 * 64 + c mod 64 = c"
  by (simp_all only: sextet_split [OF assms(1)] sextet_split [OF assms(2)] div_mult_mod_eq
      nonzero_mult_div_cancel_right [of 16] nonzero_mult_div_cancel_right [of 4] simp_thms)

lemmas byte_join = sextet_join [OF byte_parts(3) byte_parts(5)]

lemma b64_groups:
  assumes "b64_alphabet al"
  shows "b64_two (index_of al (al ! (byte a div 4))) (index_of al (al ! (byte a mod 4 * 16))) = Some [a]"
    "b64_three (index_of al (al ! (byte a div 4))) (index_of al (al ! (byte a mod 4 * 16 + byte b div 16)))
       (index_of al (al ! (byte b mod 16 * 4))) = Some [a, b]"
    "b64_four (index_of al (al ! (byte a div 4))) (index_of al (al ! (byte a mod 4 * 16 + byte b div 16)))
       (index_of al (al ! (byte b mod 16 * 4 + byte c div 64))) (index_of al (al ! (byte c mod 64)))
     = Some [a, b, c]"
  unfolding b64_two_def b64_three_def b64_four_def b64_index [OF assms sextet_bounds(1)]
    b64_index [OF assms sextet_bounds(2)] b64_index [OF assms sextet_bounds(3)]
    b64_index [OF assms sextet_bounds(4)] b64_index [OF assms sextet_bounds(5)]
    b64_index [OF assms sextet_bounds(6)] prod.case option.case byte_join chr_byte
  by (rule refl)+

lemma b64_raw_roundtrip:
  assumes "b64_alphabet al"
  shows "b64_decode_raw al (b64_encode al False bs) = Some bs"
  using assms by (induction al "False" bs rule: b64_encode.induct) (simp_all add: b64_groups)

lemma b64_pad_roundtrip:
  assumes "b64_alphabet al"
  shows "b64_decode_pad al (b64_encode al True bs) = Some bs"
  using assms by (induction al "True" bs rule: b64_encode.induct) (simp_all add: b64_groups)

lemma b64_encode_chars:
  "b64_alphabet al \<Longrightarrow> set (b64_encode al pad bs) \<subseteq> set al \<union> {CHR ''=''}"
  by (induction al pad bs rule: b64_encode.induct)
    (auto simp: b64_alphabet_def intro!: nth_mem)

lemma b64_raw_chars:
  "b64_alphabet al \<Longrightarrow> set (b64_encode al False bs) \<subseteq> set al"
  by (induction al "False" bs rule: b64_encode.induct)
    (auto simp: b64_alphabet_def intro!: nth_mem)

lemma skip_breaks_encode: "b64_alphabet al \<Longrightarrow> skip_breaks (b64_encode al pad bs) = b64_encode al pad bs"
  unfolding skip_breaks_def
  by (rule filter_True)
    (use b64_encode_chars [of al pad bs] in \<open>auto simp: b64_alphabet_def list_all_iff byte_def dest!: subsetD\<close>)

lemma RawURLEncoding_roundtrip [simp]:
  "RawURLEncoding_DecodeString (RawURLEncoding_EncodeToString bs) = Some bs"
  by (simp add: RawURLEncoding_DecodeString_def RawURLEncoding_EncodeToString_def
      skip_breaks_encode b64_raw_roundtrip b64_alphabet_url)

lemma StdEncoding_roundtrip [simp]:
  "StdEncoding_DecodeString (StdEncoding_EncodeToString bs) = Some bs"
  by (simp add: StdEncoding_DecodeString_def StdEncoding_EncodeToString_def
      skip_breaks_encode b64_pad_roundtrip b64_alphabet_std)

lemma RawURLEncoding_inj:
  "RawURLEncoding_EncodeToString s = RawURLEncoding_EncodeToString t \<Longrightarrow> s = t"
  by (metis RawURLEncoding_roundtrip option.inject)

lemma RawURLEncoding_no_dot: "CHR ''.'' \<notin> set (RawURLEncoding_EncodeToString bs)"
proof -
  have "CHR ''.'' \<notin> set b64_url" by (simp add: b64_url_def)
  with b64_raw_chars [OF b64_alphabet_url] show ?thesis
    by (auto simp: RawURLEncoding_EncodeToString_def)
qed

lemma StdEncoding_ascii: "list_all is_ascii (StdEncoding_EncodeToString bs)"
proof -
  have "list_all is_ascii (CHR ''='' # b64_std)" by (simp add: b64_std_def is_ascii_def byte_def)
  with b64_encode_chars [OF b64_alphabet_std, of True bs] show ?thesis
    by (auto simp: StdEncoding_EncodeToString_def list_all_iff)
qed

end
