(* ===== verification/Model.thy ===== *)
theory Model
  imports Go_Json
begin

text \<open>
  The data of \<open>internal/model\<close>: every struct as a record with the source's fields, every
  string enumeration as its Go type (any string) with the declared constants. Pointers are
  options, slices keep the difference between nil and empty, a \<open>map[string]any\<close> is a list
  sorted by key, a \<open>float64\<close> is represented by its shortest decimal lexeme.
\<close>

section \<open>What the environment supplies\<close>

text \<open>
  Pure functions the model does not fix: the text form of UUIDs (package google/uuid), the
  RFC 3339 text of times, which depends on the local time zone, and the rounding of a
  decimal lexeme to the nearest \<open>float64\<close>.
\<close>

record go_env = unicode_tables +
  uuid_String :: "uuid \<Rightarrow> string"
  uuid_Parse :: "string \<Rightarrow> uuid option"
  time_Text :: "time \<Rightarrow> string option"
  time_Parse :: "string \<Rightarrow> time option"
  float_Round :: "string \<Rightarrow> string option"

type_synonym float64 = string

section \<open>Messages\<close>

type_synonym MessageType = string
type_synonym DeliveryGuarantee = string
type_synonym MessageStatus = string
type_synonym DeadLetterStatus = string
type_synonym AckStatus = string

definition MessageTypeTaskRequest :: MessageType where "MessageTypeTaskRequest = ''task.request''"
definition MessageTypeGeneric :: MessageType where "MessageTypeGeneric = ''generic''"

definition DeliveryAtMostOnce :: DeliveryGuarantee where "DeliveryAtMostOnce = ''at_most_once''"
definition DeliveryAtLeastOnce :: DeliveryGuarantee where "DeliveryAtLeastOnce = ''at_least_once''"
definition DeliveryExactlyOnce :: DeliveryGuarantee where "DeliveryExactlyOnce = ''exactly_once''"

definition MessageStatusPending :: MessageStatus where "MessageStatusPending = ''pending''"
definition MessageStatusSent :: MessageStatus where "MessageStatusSent = ''sent''"
definition MessageStatusDelivered :: MessageStatus where "MessageStatusDelivered = ''delivered''"
definition MessageStatusProcessed :: MessageStatus where "MessageStatusProcessed = ''processed''"
definition MessageStatusFailed :: MessageStatus where "MessageStatusFailed = ''failed''"
definition MessageStatusDeadLetter :: MessageStatus where "MessageStatusDeadLetter = ''dead_letter''"

definition DeadLetterStatusPending :: DeadLetterStatus where "DeadLetterStatusPending = ''pending''"
definition DeadLetterStatusProcessed :: DeadLetterStatus where "DeadLetterStatusProcessed = ''processed''"
definition DeadLetterStatusExhausted :: DeadLetterStatus where "DeadLetterStatusExhausted = ''exhausted''"

definition AckStatusReceived :: AckStatus where "AckStatusReceived = ''received''"
definition AckStatusProcessed :: AckStatus where "AckStatusProcessed = ''processed''"
definition AckStatusRejected :: AckStatus where "AckStatusRejected = ''rejected''"
definition AckStatusFailed :: AckStatus where "AckStatusFailed = ''failed''"

lemmas message_status_defs = MessageStatusPending_def MessageStatusSent_def MessageStatusDelivered_def
  MessageStatusProcessed_def MessageStatusFailed_def MessageStatusDeadLetter_def
lemmas dead_letter_status_defs = DeadLetterStatusPending_def DeadLetterStatusProcessed_def
  DeadLetterStatusExhausted_def
lemmas ack_status_defs = AckStatusReceived_def AckStatusProcessed_def AckStatusRejected_def
  AckStatusFailed_def
lemmas delivery_defs = DeliveryAtMostOnce_def DeliveryAtLeastOnce_def DeliveryExactlyOnce_def

record RoutingHints =
  Hints_PreferredAgents :: "string slice"
  Hints_ExcludedAgents :: "string slice"
  Hints_MaxHops :: int
  Hints_PriceLimit :: float64

record MessageMetadata =
  Meta_Tags :: "(string \<times> string) list"
  Meta_CorrelationID :: string
  Meta_ReplyTo :: "uuid option"
  Meta_RoutingHints :: "RoutingHints option"
  Meta_Compression :: string
  Meta_Encoding :: string
  Meta_Custom :: "(string \<times> json) list"

record RetryPolicy =
  Retry_MaxAttempts :: int
  Retry_InitialDelayMs :: int
  Retry_MaxDelayMs :: int
  Retry_BackoffMultiplier :: float64

record TaskContext =
  Task_TaskID :: uuid
  Task_ParentTaskID :: "uuid option"
  Task_RootTaskID :: "uuid option"
  Task_Priority :: int
  Task_Deadline :: "time option"
  Task_Dependencies :: "uuid slice"
  Task_Blocking :: bool
  Task_RetryPolicy :: "RetryPolicy option"
  Task_RetryCount :: int

record Message =
  Message_ID :: uuid
  Message_ConversationID :: uuid
  Message_MessageType :: MessageType
  Message_SenderID :: uuid
  Message_RecipientIDs :: "uuid slice"
  Message_RecipientStr :: string
  Message_Content :: "char slice"
  Message_ContentSize :: int
  Message_ContentType :: string
  Message_Metadata :: MessageMetadata
  Message_DeliveryGuarantee :: DeliveryGuarantee
  Message_Status :: MessageStatus
  Message_TaskContext :: "TaskContext option"
  Message_TraceID :: string
  Message_TenantID :: uuid
  Message_CreatedAt :: time
  Message_ExpiresAt :: "time option"
  Message_ProcessedAt :: "time option"

record Acknowledgement =
  Ack_ID :: uuid
  Ack_MessageID :: uuid
  Ack_AgentID :: uuid
  Ack_Status :: AckStatus
  Ack_Details :: string
  Ack_ProcessedAt :: "time option"
  Ack_Nonce :: string
  Ack_Signature :: string
  Ack_CreatedAt :: time

record DeadLetterEntry =
  DL_ID :: uuid
  DL_MessageID :: uuid
  DL_Reason :: string
  DL_RetryCount :: int
  DL_MaxRetries :: int
  DL_Payload :: bytes
  DL_Status :: DeadLetterStatus
  DL_CreatedAt :: time
  DL_ProcessedAt :: "time option"

text \<open>The zero value of \<open>int\<close>-like fields is 0, of strings empty, of pointers nil.\<close>

definition zero_float :: float64 where "zero_float = ''0''"

definition zero_RoutingHints :: RoutingHints where
  "zero_RoutingHints = \<lparr>Hints_PreferredAgents = None, Hints_ExcludedAgents = None, Hints_MaxHops = 0,
     Hints_PriceLimit = zero_float\<rparr>"

definition zero_MessageMetadata :: MessageMetadata where
  "zero_MessageMetadata = \<lparr>Meta_Tags = [], Meta_CorrelationID = [], Meta_ReplyTo = None,
     Meta_RoutingHints = None, Meta_Compression = [], Meta_Encoding = [], Meta_Custom = []\<rparr>"

definition zero_RetryPolicy :: RetryPolicy where
  "zero_RetryPolicy = \<lparr>Retry_MaxAttempts = 0, Retry_InitialDelayMs = 0, Retry_MaxDelayMs = 0,
     Retry_BackoffMultiplier = zero_float\<rparr>"

definition zero_TaskContext :: TaskContext where
  "zero_TaskContext = \<lparr>Task_TaskID = uuid_Nil, Task_ParentTaskID = None, Task_RootTaskID = None,
     Task_Priority = 0, Task_Deadline = None, Task_Dependencies = None, Task_Blocking = False,
     Task_RetryPolicy = None, Task_RetryCount = 0\<rparr>"

definition zero_Message :: Message where
  "zero_Message = \<lparr>Message_ID = uuid_Nil, Message_ConversationID = uuid_Nil, Message_MessageType = [],
     Message_SenderID = uuid_Nil, Message_RecipientIDs = None, Message_RecipientStr = [],
     Message_Content = None, Message_ContentSize = 0, Message_ContentType = [],
     Message_Metadata = zero_MessageMetadata, Message_DeliveryGuarantee = [], Message_Status = [],
     Message_TaskContext = None, Message_TraceID = [], Message_TenantID = uuid_Nil,
     Message_CreatedAt = 0, Message_ExpiresAt = None, Message_ProcessedAt = None\<rparr>"

section \<open>Agents\<close>

type_synonym AgentStatus = string
type_synonym CapabilityType = string

definition AgentStatusOnline :: AgentStatus where "AgentStatusOnline = ''online''"
definition AgentStatusAway :: AgentStatus where "AgentStatusAway = ''away''"
definition AgentStatusBusy :: AgentStatus where "AgentStatusBusy = ''busy''"
definition AgentStatusOffline :: AgentStatus where "AgentStatusOffline = ''offline''"

lemmas agent_status_defs = AgentStatusOnline_def AgentStatusAway_def AgentStatusBusy_def
  AgentStatusOffline_def

record CapabilityParams =
  Params_InputFormat :: string
  Params_OutputFormat :: string
  Params_MaxDurationMs :: int
  Params_MaxTokens :: int

record CapabilityConstraints =
  Constraints_RateLimit :: int
  Constraints_CostPerCall :: float64
  Constraints_Quota :: int
  Constraints_QuotaUsed :: int

record CapabilityQuality =
  Quality_SuccessRate :: float64
  Quality_AvgLatencyMs :: int
  Quality_Rating :: float64

record Capability =
  Capability_Type :: CapabilityType
  Capability_Description :: string
  Capability_Examples :: "string slice"
  Capability_Parameters :: "CapabilityParams option"
  Capability_Constraints :: "CapabilityConstraints option"
  Capability_Quality :: "CapabilityQuality option"

record Endpoint =
  Endpoint_Type :: string
  Endpoint_URL :: string
  Endpoint_Weight :: int
  Endpoint_IsPrimary :: bool

record Agent =
  Agent_ID :: uuid
  Agent_TenantID :: uuid
  Agent_DID :: string
  Agent_PublicKey :: string
  Agent_Name :: string
  Agent_Version :: string
  Agent_Provider :: string
  Agent_Tier :: string
  Agent_Capabilities :: "Capability slice"
  Agent_Endpoints :: "Endpoint slice"
  Agent_TrustLevel :: int
  Agent_VerifiedAt :: "time option"
  Agent_Status :: AgentStatus
  Agent_LastHeartbeat :: time
  Agent_CreatedAt :: time
  Agent_UpdatedAt :: time

record AgentStats =
  Stats_Total :: int
  Stats_Online :: int
  Stats_Away :: int
  Stats_Busy :: int
  Stats_Offline :: int
  Stats_Timestamp :: int

definition zero_Agent :: Agent where
  "zero_Agent = \<lparr>Agent_ID = uuid_Nil, Agent_TenantID = uuid_Nil, Agent_DID = [], Agent_PublicKey = [],
     Agent_Name = [], Agent_Version = [], Agent_Provider = [], Agent_Tier = [],
     Agent_Capabilities = None, Agent_Endpoints = None, Agent_TrustLevel = 0, Agent_VerifiedAt = None,
     Agent_Status = [], Agent_LastHeartbeat = 0, Agent_CreatedAt = 0, Agent_UpdatedAt = 0\<rparr>"

section \<open>Tenants, tokens and subscriptions\<close>

record SendResult =
  Send_MessageID :: uuid
  Send_Status :: string
  Send_DeliveredAt :: "int option"

record TokenClaims =
  Claims_AgentID :: uuid
  Claims_TenantID :: uuid
  Claims_IssuedAt :: int
  Claims_ExpiresAt :: int

record TenantLimits =
  Limits_MessagePerMonth :: int
  Limits_MaxAgents :: int
  Limits_MaxConnections :: int
  Limits_RetentionDays :: int
  Limits_SlaPercent :: float64

record TenantUsage =
  Usage_MessageCount :: int
  Usage_BandwidthBytes :: int
  Usage_StorageBytes :: int
  Usage_ApiCalls :: int
  Usage_ResetAt :: int

record Tenant =
  Tenant_ID :: uuid
  Tenant_Name :: string
  Tenant_Slug :: string
  Tenant_Plan :: string
  Tenant_Limits :: TenantLimits
  Tenant_Usage :: TenantUsage
  Tenant_MessageUsed :: int
  Tenant_AgentCount :: int
  Tenant_Status :: string
  Tenant_SSOEnabled :: bool
  Tenant_BillingEmail :: string

type_synonym SubType = string
type_synonym SubStatus = string

definition SubStatusActive :: SubStatus where "SubStatusActive = ''active''"

record SubscriptionFilter =
  Filter_AgentIDs :: "uuid slice"
  Filter_CapabilityTypes :: "string slice"
  Filter_Topics :: "string slice"
  Filter_MessageTypes :: "string slice"
  Filter_Tags :: "(string \<times> string) list"

record Subscription =
  Sub_ID :: uuid
  Sub_AgentID :: uuid
  Sub_TenantID :: uuid
  Sub_Type :: SubType
  Sub_Filter :: SubscriptionFilter
  Sub_Status :: SubStatus
  Sub_CreatedAt :: int

definition zero_SubscriptionFilter :: SubscriptionFilter where
  "zero_SubscriptionFilter = \<lparr>Filter_AgentIDs = None, Filter_CapabilityTypes = None, Filter_Topics = None,
     Filter_MessageTypes = None, Filter_Tags = []\<rparr>"

definition zero_Subscription :: Subscription where
  "zero_Subscription = \<lparr>Sub_ID = uuid_Nil, Sub_AgentID = uuid_Nil, Sub_TenantID = uuid_Nil, Sub_Type = [],
     Sub_Filter = zero_SubscriptionFilter, Sub_Status = [], Sub_CreatedAt = 0\<rparr>"

section \<open>Audit log\<close>

text \<open>The metadata of an entry: \<open>map[string]any\<close>, of which the code stores strings and ints.\<close>

record AuditLog =
  Audit_ID :: uuid
  Audit_TenantID :: "uuid option"
  Audit_AgentID :: "uuid option"
  Audit_RequestID :: string
  Audit_TraceID :: string
  Audit_Action :: string
  Audit_ResourceType :: string
  Audit_ResourceID :: string
  Audit_Method :: string
  Audit_Path :: string
  Audit_StatusCode :: int
  Audit_ClientIP :: string
  Audit_UserAgent :: string
  Audit_Metadata :: "(string \<times> json) list"
  Audit_CreatedAt :: time

end
