(* ===== verification/Go_Json_Roundtrip.thy ===== *)
theory Go_Json_Roundtrip
  imports Go_Json
begin

text \<open>
  The decoder inverts the encoder (\<open>json_roundtrip\<close>) on values whose strings are valid UTF-8,
  whose numbers are lexemes of the grammar and whose nesting is within the limit; and the
  fuel of the parser never decides a result (\<open>parse_fuel_enough\<close>).
\<close>

section \<open>String literals\<close>

declare rune_len.simps [simp del] p_string.simps [simp del]

lemmas p_string_Cons = p_string.simps(2)

lemma rune_len_1 [simp]: "byte c < 128 \<Longrightarrow> rune_len (c # s) = 1"
  by (rule rune_len_ascii)

lemma hex4_u_escape: "r < 65536 \<Longrightarrow> hex4 (hex2 (r div 256) @ hex2 (r mod 256) @ s) = Some (r, s)"
proof -
  assume r: "r < 65536"
  then have q: "r div 256 < 256" by linarith
  then have "r div 256 div 16 < 16" by linarith
  moreover have "r mod 256 < 256" by simp
  then have "r mod 256 div 16 < 16" by linarith
  moreover have "((r div 256 div 16 * 16 + r div 256 mod 16) * 16 + r mod 256 div 16) * 16 + r mod 256 mod 16 = r"
  proof -
    have "(r div 256 div 16 * 16 + r div 256 mod 16) = r div 256" by (rule div_mult_mod_eq)
    moreover have "(r div 256 * 16 + r mod 256 div 16) * 16 + r mod 256 mod 16
      = r div 256 * 256 + (r mod 256 div 16 * 16 + r mod 256 mod 16)" by simp
    ultimately show ?thesis by (simp only: div_mult_mod_eq)
  qed
  ultimately show ?thesis by (simp add: hex2_def)
qed

lemma p_string_plain: "32 \<le> byte c \<Longrightarrow> byte c < 128 \<Longrightarrow> byte c \<noteq> 34 \<Longrightarrow> byte c \<noteq> 92 \<Longrightarrow>
    p_string (c # s) = push_str [c] (p_string s)"
  by (auto simp: byte_def p_string_Cons)

lemma p_string_u:
  assumes "r < 65536" "r < 55296 \<or> 57343 < r"
  shows "p_string (u_escape r @ s) = push_str (encode_rune r) (p_string s)"
  using assms by (simp add: u_escape_def simple_escape_def read_u_def hex4_u_escape p_string_Cons)

lemma byte_is: "byte c = n \<Longrightarrow> c = chr n"
  by auto

lemma chr_consts: "chr 34 = CHR 0x22" "chr 92 = CHR 0x5C"
  using chr_byte [of "CHR 0x22"] chr_byte [of "CHR 0x5C"] by (simp_all add: byte_def)

lemma p_string_escape_ascii:
  assumes "byte c < 128"
  shows "p_string (escape_ascii c @ s) = push_str [c] (p_string s)"
proof -
  consider "c = CHR 0x22 \<or> c = CHR 0x5C" | "byte c = 10" | "byte c = 13" | "byte c = 9"
    | "byte c \<notin> {34, 92, 10, 13, 9}" "byte c < 32 \<or> byte c = 60 \<or> byte c = 62 \<or> byte c = 38"
    | "32 \<le> byte c" "byte c \<notin> {34, 92, 60, 62, 38}"
    using byte_is [of c 34] byte_is [of c 92] unfolding chr_consts by fastforce
  then show ?thesis
  proof cases
    case 1
    then show ?thesis by (auto simp: escape_ascii_def byte_def simple_escape_def p_string_Cons)
  next
    case 2
    then show ?thesis using byte_is [OF 2] by (simp add: escape_ascii_def simple_escape_def p_string_Cons)
  next
    case 3
    then show ?thesis using byte_is [OF 3] by (simp add: escape_ascii_def simple_escape_def p_string_Cons)
  next
    case 4
    then show ?thesis using byte_is [OF 4] by (simp add: escape_ascii_def simple_escape_def p_string_Cons)
  next
    case 5
    then have "escape_ascii c = u_escape (byte c)" by (auto simp: escape_ascii_def)
    with assms show ?thesis by (simp add: p_string_u encode_rune_def)
  next
    case 6
    then have "escape_ascii c = [c]" by (auto simp: escape_ascii_def)
    with 6 assms show ?thesis by (simp add: p_string_plain)
  qed
qed

lemma rune_split: "0 < rune_len (c # s) \<Longrightarrow> take (rune_len (c # s)) (c # s) @ drop (rune_len (c # s) - 1) s = c # s"
  by (metis append_take_drop_id drop_Cons' less_numeral_extra(3))

lemma p_string_rune:
  assumes "\<not> byte c < 128" "0 < rune_len (c # s)"
  shows "p_string (take (rune_len (c # s)) (c # s) @ r) = push_str (take (rune_len (c # s)) (c # s)) (p_string r)"
proof -
  define n where "n = rune_len (c # s)"
  obtain t where t: "take n (c # s) = c # t" using assms(2) by (cases n) (simp_all add: n_def)
  have len: "length t = n - 1"
    using arg_cong [OF t, of length] rune_len_le [of "c # s"] by (simp add: n_def min_def split: if_splits)
  have "rune_len (c # t @ r) = n"
    using rune_len_take [of "c # s" r] assms(2) t by (simp add: n_def)
  moreover have "c \<noteq> CHR 0x22" "c \<noteq> CHR 0x5C" using assms(1) by (auto simp: byte_def)
  ultimately have "p_string (c # t @ r) = push_str (take n (c # t @ r)) (p_string (drop (n - 1) (t @ r)))"
    using assms by (simp add: n_def [symmetric] p_string_Cons Let_def)
  moreover have "take n (c # t @ r) = c # t"
    using len assms(2) by (cases n) (simp_all add: n_def)
  ultimately show ?thesis using t len by (simp add: n_def [symmetric])
qed

lemma push_push [simp]: "push_str p (push_str q r) = push_str (p @ q) r"
  by (cases r) (auto simp: push_str_def)

lemma push_Some [simp]: "push_str p (Some (x, u)) = Some (p @ x, u)"
  by (simp add: push_str_def)

lemma p_string_quote: "utf8_ok s \<Longrightarrow> p_string (quote_body s @ CHR 0x22 # r) = Some (s, r)"
proof (induction s rule: utf8_ok.induct)
  case 1
  show ?case by (simp add: p_string_Cons)
next
  case (2 c s)
  let ?n = "rune_len (c # s)"
  have n: "0 < ?n" using 2(2) by (simp add: Let_def)
  have IH: "p_string (quote_body (drop (?n - 1) s) @ CHR 0x22 # r) = Some (drop (?n - 1) s, r)"
    using 2 by (simp add: Let_def)
  show ?case
  proof (cases "byte c < 128")
    case True
    with IH show ?thesis by (simp add: p_string_escape_ascii)
  next
    case False
    note facts = False n IH rune_split [OF n]
    consider "take ?n (c # s) = line_sep" | "take ?n (c # s) = para_sep" "take ?n (c # s) \<noteq> line_sep"
      | "take ?n (c # s) \<noteq> line_sep" "take ?n (c # s) \<noteq> para_sep" by blast
    then show ?thesis
    proof cases
      case 1
      with facts show ?thesis by (simp add: p_string_u line_sep_def [symmetric] Let_def)
    next
      case 2
      with facts show ?thesis by (simp add: p_string_u para_sep_def [symmetric] Let_def)
    next
      case 3
      with facts show ?thesis by (simp add: p_string_rune Let_def)
    qed
  qed
qed

section \<open>Numbers\<close>

definition num_ok :: "string \<Rightarrow> bool" where
  "num_ok l \<longleftrightarrow> p_number l = Some (l, [])"

text \<open>What may follow a value: nothing a number could go on with.\<close>

definition safe_rest :: "string \<Rightarrow> bool" where
  "safe_rest r \<longleftrightarrow> (case r of [] \<Rightarrow> True | c # _ \<Rightarrow> c = CHR '','' \<or> c = CHR '']'' \<or> c = CHR ''}'' \<or> is_ws c)"

lemma is_digit_chars [simp]: "\<not> is_digit (CHR '','')" "\<not> is_digit (CHR '']'')" "\<not> is_digit (CHR ''}'')"
  "\<not> is_digit (CHR ''.'')" "\<not> is_digit (CHR ''e'')" "\<not> is_digit (CHR ''E'')" "is_ws c \<Longrightarrow> \<not> is_digit c"
  by (auto simp: is_digit_def is_ws_def byte_def)

lemma safe_rest_hd: "safe_rest (c # r) \<Longrightarrow> \<not> is_digit c \<and> c \<noteq> CHR ''.'' \<and> c \<noteq> CHR ''e'' \<and> c \<noteq> CHR ''E''"
  by (auto simp: safe_rest_def is_ws_def byte_def)

lemma digits_append [simp]:
  assumes "safe_rest r"
  shows "takeWhile is_digit (s @ r) = takeWhile is_digit s" "dropWhile is_digit (s @ r) = dropWhile is_digit s @ r"
  using assms by (induction s; cases r; simp add: safe_rest_hd)+

lemma lex_int_append: "lex_int s = Some (i, u) \<Longrightarrow> safe_rest r \<Longrightarrow> lex_int (s @ r) = Some (i, u @ r)"
  using digits_append [of r s] by (cases s) (auto simp: lex_int_def split: if_splits)

lemma lex_frac_append: "lex_frac s = Some (i, u) \<Longrightarrow> safe_rest r \<Longrightarrow> lex_frac (s @ r) = Some (i, u @ r)"
  by (auto simp: lex_frac_def split: list.splits if_splits dest: safe_rest_hd)

lemma lex_exp_append: "lex_exp s = Some (i, u) \<Longrightarrow> safe_rest r \<Longrightarrow> lex_exp (s @ r) = Some (i, u @ r)"
proof -
  assume l: "lex_exp s = Some (i, u)" and r: "safe_rest r"
  show ?thesis
  proof (cases s)
    case Nil
    with l r show ?thesis by (cases r) (auto simp: lex_exp_def dest: safe_rest_hd)
  next
    case (Cons c t)
    with l r show ?thesis by (cases t) (auto simp: lex_exp_def Let_def split: if_splits)
  qed
qed

lemma lex_int_ne: "lex_int s \<noteq> None \<Longrightarrow> s \<noteq> []"
  by (cases s) (simp_all add: lex_int_def)

definition num_sign :: "string \<Rightarrow> string" where
  "num_sign s = (if s \<noteq> [] \<and> hd s = CHR ''-'' then [hd s] else [])"

lemma p_number_Some:
  "p_number s = Some (l, w) \<longleftrightarrow>
     (\<exists>i u f v e. lex_int (drop (length (num_sign s)) s) = Some (i, u) \<and> lex_frac u = Some (f, v) \<and>
        lex_exp v = Some (e, w) \<and> l = num_sign s @ i @ f @ e)"
  unfolding p_number_def Let_def num_sign_def [symmetric] by (auto split: option.splits)

lemma num_sign_append: "s \<noteq> [] \<Longrightarrow> num_sign (s @ r) = num_sign s \<and> length (num_sign s) \<le> length s"
  by (cases s) (simp_all add: num_sign_def)

lemma p_number_append:
  assumes l: "num_ok l" and r: "safe_rest r"
  shows "p_number (l @ r) = Some (l, r)"
proof -
  let ?t = "drop (length (num_sign l)) l"
  from l obtain i u f v e where lx: "lex_int ?t = Some (i, u)" "lex_frac u = Some (f, v)"
      "lex_exp v = Some (e, [])" "l = num_sign l @ i @ f @ e"
    unfolding num_ok_def p_number_Some by blast
  have "l \<noteq> []" using lex_int_ne [of ?t] lx(1) by auto
  note sg = num_sign_append [OF this, of r]
  show ?thesis
    unfolding p_number_Some
    by (intro exI [of _ i] exI [of _ "u @ r"] exI [of _ f] exI [of _ "v @ r"] exI [of _ e])
      (use lx(4) lex_int_append [OF lx(1) r] lex_frac_append [OF lx(2) r] lex_exp_append [OF lx(3) r] sg in simp)
qed

lemma num_ok_hd:
  assumes "num_ok l"
  obtains c t where "l = c # t" "c = CHR ''-'' \<or> is_digit c"
proof (cases l)
  case Nil
  with assms show ?thesis by (simp add: num_ok_def p_number_def lex_int_def)
next
  case (Cons c t)
  with assms have "c = CHR ''-'' \<or> lex_int l \<noteq> None"
    by (auto simp: num_ok_def p_number_def Let_def split: option.splits if_splits)
  then have "c = CHR ''-'' \<or> is_digit c"
    using Cons by (auto simp: lex_int_def is_digit_def byte_def split: if_splits)
  with Cons show ?thesis by (rule that)
qed

lemma takeWhile_digits: "list_all is_digit s \<Longrightarrow> takeWhile is_digit s = s \<and> dropWhile is_digit s = []"
  by (induction s) auto

lemma nat_text_no_zero: "0 < n \<Longrightarrow> hd (nat_text n) \<noteq> CHR ''0''"
proof (induction n rule: nat_text.induct)
  case (1 n)
  show ?case
  proof (cases "n < 10")
    case True
    with 1 show ?thesis
      using digit_char_simps(2) [of n] by (auto simp: nat_text.simps [of n] digit_val_def byte_def)
  next
    case False
    with 1 show ?thesis by (simp add: nat_text.simps [of n])
  qed
qed

lemma num_ok_nat_text: "lex_int (nat_text n) = Some (nat_text n, [])"
proof (cases "n = 0")
  case True
  have "digit_char 0 = CHR ''0''" using chr_byte [of "CHR ''0''"] by (simp add: digit_char_def byte_def)
  with True show ?thesis by (simp add: nat_text.simps lex_int_def)
next
  case False
  obtain c t where ct: "nat_text n = c # t" by (metis list.exhaust nat_text_facts(1))
  then have "c \<noteq> CHR ''0''" "is_digit c" using nat_text_no_zero [of n] nat_text_hd [of n] False by auto
  moreover have "list_all is_digit (c # t)" using nat_text_facts(2) [of n] ct by simp
  ultimately show ?thesis using takeWhile_digits [of "c # t"] ct by (simp add: lex_int_def)
qed

lemma num_ok_Itoa: "num_ok (strconv_Itoa i)"
  using digit_not_sign [OF nat_text_hd [of "nat i"]] num_ok_nat_text
  by (simp add: num_ok_def p_number_def strconv_Itoa_def lex_frac_def lex_exp_def Let_def)

section \<open>Values\<close>

fun json_wf :: "json \<Rightarrow> bool" where
  "json_wf (JNum l) = num_ok l"
| "json_wf (JStr s) = utf8_ok s"
| "json_wf (JArr xs) = list_all json_wf xs"
| "json_wf (JObj kvs) = list_all (\<lambda>(k, x). utf8_ok k \<and> json_wf x) kvs"
| "json_wf _ = True"

fun json_depth :: "json \<Rightarrow> nat" where
  "json_depth (JArr xs) = Suc (Max (insert 0 (set (map json_depth xs))))"
| "json_depth (JObj kvs) = Suc (Max (insert 0 (set (map (\<lambda>(k, x). json_depth x) kvs))))"
| "json_depth _ = 0"

lemma skip_ws_Cons: "skip_ws (c # s) = (if is_ws c then skip_ws s else c # s)"
  by (simp add: skip_ws_def)

lemma is_ws_chars [simp]:
  "\<not> is_ws (CHR '','')" "\<not> is_ws (CHR '']'')" "\<not> is_ws (CHR ''}'')" "\<not> is_ws (CHR '':'')" "\<not> is_ws (CHR 0x22)"
  "\<not> is_ws (CHR ''['')" "\<not> is_ws (CHR ''{'')" "\<not> is_ws (CHR ''t'')" "\<not> is_ws (CHR ''f'')" "\<not> is_ws (CHR ''n'')"
  "\<not> is_ws (CHR ''-'')" "is_digit c \<Longrightarrow> \<not> is_ws c"
  by (auto simp: is_ws_def is_digit_def byte_def)

lemma safe_rest_simps [simp]: "safe_rest []" "safe_rest (CHR '','' # r)" "safe_rest (CHR '']'' # r)"
    "safe_rest (CHR ''}'' # r)"
  by (simp_all add: safe_rest_def)

lemma json_text_hd:
  assumes "json_wf j"
  obtains c t where "json_text j = c # t" "\<not> is_ws c" "c \<noteq> CHR '']''" "c \<noteq> CHR ''}''"
proof (cases j)
  case (JNum l)
  with assms obtain c t where l: "l = c # t" "c = CHR ''-'' \<or> is_digit c"
    by (auto elim: num_ok_hd)
  then have "\<not> is_ws c" "c \<noteq> CHR '']''" "c \<noteq> CHR ''}''" by auto
  with JNum l that show ?thesis by simp
next
  case (JBool b)
  with that show ?thesis by (cases b) simp_all
qed (use that in \<open>auto simp: json_quote_def\<close>)

lemma p_value_num:
  assumes "num_ok l" "safe_rest r"
  shows "p_value (Suc f) d (l @ r) = Some (JNum l, r)"
proof -
  obtain c t where l: "l = c # t" "c = CHR ''-'' \<or> is_digit c" using assms(1) by (rule num_ok_hd)
  then have "c \<noteq> CHR ''{''" "c \<noteq> CHR ''[''" "c \<noteq> CHR 0x22" "c \<noteq> CHR ''t''" "c \<noteq> CHR ''f''" "c \<noteq> CHR ''n''"
    "\<not> is_ws c" by (auto simp: is_digit_def byte_def)
  with p_number_append [OF assms] l(1) show ?thesis by (simp add: skip_ws_Cons)
qed

lemma json_text_pos: "json_wf j \<Longrightarrow> 0 < length (json_text j)"
  by (metis json_text_hd length_greater_0_conv list.distinct(1))

lemma parse_text:
  "json_wf j \<Longrightarrow> json_depth j \<le> d \<Longrightarrow> safe_rest r \<Longrightarrow> 2 * length (json_text j) \<le> f \<Longrightarrow>
     p_value f d (json_text j @ r) = Some (j, r)"
  "list_all json_wf xs \<Longrightarrow> \<forall>x \<in> set xs. json_depth x \<le> d \<Longrightarrow> xs \<noteq> [] \<Longrightarrow> 2 * length (json_elems xs) < f \<Longrightarrow>
     p_elems f d (json_elems xs @ CHR '']'' # r) = Some (xs, r)"
  "list_all (\<lambda>(k, x). utf8_ok k \<and> json_wf x) kvs \<Longrightarrow> \<forall>(k, x) \<in> set kvs. json_depth x \<le> d \<Longrightarrow> kvs \<noteq> [] \<Longrightarrow>
     2 * length (json_members kvs) < f \<Longrightarrow>
     p_members f d (json_members kvs @ CHR ''}'' # r) = Some (kvs, r)"
proof (induction j and xs and kvs arbitrary: f d r and f d r and f d r rule: json_text_json_elems_json_members.induct)
  case 1
  then show ?case by (cases f) (simp_all add: skip_ws_Cons p_literal_def strings_HasPrefix_def)
next
  case (2 b)
  then show ?case by (cases f; cases b) (simp_all add: skip_ws_Cons p_literal_def strings_HasPrefix_def)
next
  case (3 l)
  then have "0 < length l" using json_text_pos [of "JNum l"] by simp
  with 3 show ?case by (cases f) (simp_all add: p_value_num del: p_value.simps(2))
next
  case (4 s)
  then show ?case by (cases f) (simp_all add: skip_ws_Cons json_quote_def p_string_quote)
next
  case (5 xs)
  then obtain f' where f: "f = Suc f'" by (cases f) simp_all
  obtain d' where d: "d = Suc d'" using 5(3) by (cases d) simp_all
  show ?case
  proof (cases xs)
    case Nil
    with f d show ?thesis by (simp add: skip_ws_Cons)
  next
    case (Cons x ys)
    have "json_wf x" using 5(2) Cons by simp
    then obtain c t where c: "json_text x = c # t" "\<not> is_ws c" "c \<noteq> CHR '']''" "c \<noteq> CHR ''}''"
      by (rule json_text_hd)
    have "p_elems f' d' (json_elems xs @ CHR '']'' # r) = Some (xs, r)"
      by (rule 5(1)) (use 5(2,3,5) f d Cons in auto)
    moreover have "skip_ws (json_elems xs @ CHR '']'' # r) = json_elems xs @ CHR '']'' # r"
      "json_elems xs = c # t @ (if ys = [] then [] else CHR '','' # json_elems ys)"
      using c Cons by (simp_all add: skip_ws_Cons)
    ultimately show ?thesis using f d c(3) by (simp add: skip_ws_Cons)
  qed
next
  case (6 kvs)
  then obtain f' where f: "f = Suc f'" by (cases f) simp_all
  obtain d' where d: "d = Suc d'" using 6(3) by (cases d) simp_all
  show ?case
  proof (cases kvs)
    case Nil
    with f d show ?thesis by (simp add: skip_ws_Cons)
  next
    case (Cons kv ys)
    obtain k x where kv: "kv = (k, x)" by fastforce
    have "p_members f' d' (json_members kvs @ CHR ''}'' # r) = Some (kvs, r)"
      by (rule 6(1)) (use 6(2,3,5) f d Cons in auto)
    with f d kv Cons show ?thesis by (simp add: skip_ws_Cons json_quote_def)
  qed
next
  case 7
  then show ?case by simp
next
  case (8 x xs)
  then obtain f' where f: "f = Suc f'" by (cases f) simp_all
  show ?case
  proof (cases xs)
    case Nil
    then have "p_value f' d (json_text x @ CHR '']'' # r) = Some (x, CHR '']'' # r)"
      by (intro 8(1)) (use 8(3,4,6) f Nil in auto)
    with f Nil show ?thesis by (simp add: skip_ws_Cons)
  next
    case (Cons y ys)
    have pos: "0 < length (json_text x)" using 8(3) json_text_pos by simp
    have "p_value f' d (json_text x @ CHR '','' # json_elems xs @ CHR '']'' # r)
        = Some (x, CHR '','' # json_elems xs @ CHR '']'' # r)"
      by (rule 8(1)) (use 8(3,4,6) f Cons in auto)
    moreover have "p_elems f' d (json_elems xs @ CHR '']'' # r) = Some (xs, r)"
      by (rule 8(2)) (use 8(3,4,6) f Cons pos in auto)
    ultimately show ?thesis using f Cons by (simp add: skip_ws_Cons)
  qed
next
  case 9
  then show ?case by simp
next
  case (10 k x kvs)
  then obtain f' where f: "f = Suc f'" by (cases f) simp_all
  have k: "p_string (quote_body k @ CHR 0x22 # s) = Some (k, s)" for s
    using 10(3) by (simp add: p_string_quote)
  show ?case
  proof (cases kvs)
    case Nil
    then have "p_value f' d (json_text x @ CHR ''}'' # r) = Some (x, CHR ''}'' # r)"
      by (intro 10(1)) (use 10(3,4,6) f in auto)
    with f k Nil show ?thesis by (simp add: skip_ws_Cons json_quote_def)
  next
    case (Cons y ys)
    have "p_value f' d (json_text x @ CHR '','' # json_members kvs @ CHR ''}'' # r)
        = Some (x, CHR '','' # json_members kvs @ CHR ''}'' # r)"
      by (rule 10(1)) (use 10(3,4,6) f Cons in auto)
    moreover have "p_members f' d (json_members kvs @ CHR ''}'' # r) = Some (kvs, r)"
      by (rule 10(2)) (use 10(3,4,6) f Cons in auto)
    ultimately show ?thesis using f k Cons by (simp add: skip_ws_Cons json_quote_def)
  qed
qed

theorem json_roundtrip:
  assumes "json_wf j" "json_depth j \<le> max_nesting"
  shows "json_parse (json_text j) = Some j"
  using parse_text(1) [OF assms, of "[]" "2 * length (json_text j) + 2"]
  by (simp add: json_parse_def skip_ws_def)

section \<open>Fuel\<close>

lemma skip_ws_length: "length (skip_ws s) \<le> length s"
  by (simp add: skip_ws_def length_dropWhile_le)

lemma skip_ws_shorter: "skip_ws s = c # t \<Longrightarrow> length t < length s"
  using skip_ws_length [of s] by simp

lemma skip_ws_tl: "skip_ws s \<noteq> [] \<Longrightarrow> length (tl (skip_ws s)) < length s"
  using skip_ws_length [of s] by (cases "skip_ws s") simp_all

lemma p_string_shorter: "p_string s = Some (x, u) \<Longrightarrow> length u < length s"
proof (induction s arbitrary: x u rule: p_string.induct)
  case 1
  then show ?case by (simp add: p_string.simps)
next
  case (2 c s)
  show ?case
  proof (cases "c = CHR 0x22 \<or> byte c < 32 \<and> c \<noteq> CHR 0x5C")
    case True
    with 2(6) show ?thesis by (auto simp: p_string_Cons split: if_splits)
  next
    case False
    then show ?thesis
      using 2 read_u_length
      by (fastforce simp: p_string_Cons push_str_def Let_def split: if_splits list.splits option.splits prod.splits)
  qed
qed

lemma dropWhile_le: "length (dropWhile p s) \<le> length s"
  by (rule length_dropWhile_le)

lemma p_number_shorter: "p_number s = Some (l, w) \<Longrightarrow> length w < length s"
proof -
  assume "p_number s = Some (l, w)"
  then obtain i u f v e where lx: "lex_int (drop (length (num_sign s)) s) = Some (i, u)" "lex_frac u = Some (f, v)"
      "lex_exp v = Some (e, w)" unfolding p_number_Some by blast
  have 1: "length u < length s"
  proof (cases "drop (length (num_sign s)) s")
    case Nil
    with lx(1) show ?thesis by (simp add: lex_int_def)
  next
    case (Cons c t)
    then have "length (c # t) \<le> length s" by (metis length_drop diff_le_self)
    with lx(1) Cons show ?thesis
      using dropWhile_le [of is_digit t] by (auto simp: lex_int_def split: if_splits)
  qed
  moreover have "length v \<le> length u"
    using lx(2) by (auto simp: lex_frac_def intro: le_SucI dropWhile_le split: list.splits if_splits)
  moreover have "length w \<le> length v"
  proof (cases v)
    case (Cons c t)
    have "length (dropWhile is_digit (drop k t)) \<le> Suc (length t)" for k
      using dropWhile_le [of is_digit "drop k t"] by simp
    from this [of 0] this [of 1] lx(3) Cons show ?thesis
      by (auto simp: lex_exp_def Let_def split: if_splits)
  qed (use lx(3) in \<open>simp add: lex_exp_def\<close>)
  ultimately show ?thesis by simp
qed

lemma parse_shorter:
  "p_value f d s = Some (x, u) \<Longrightarrow> length u < length s"
  "p_elems f d s = Some (xs, u) \<Longrightarrow> length u < length s"
  "p_members f d s = Some (kvs, u) \<Longrightarrow> length u < length s"
proof (induction f d s and f d s and f d s arbitrary: x u and xs u and kvs u rule: p_value_p_elems_p_members.induct)
  case (2 f d s)
  show ?case
  proof (cases "skip_ws s")
    case Nil
    with 2(3) show ?thesis by simp
  next
    case (Cons c t)
    note t = skip_ws_shorter [OF Cons] skip_ws_length [of t] skip_ws_tl [of t]
    from 2(3) Cons consider "c = CHR ''{''" | "c = CHR ''[''" | "c = CHR 0x22"
      | l v where "p_literal l v (c # t) = Some (x, u)" "l \<noteq> []" | l where "p_number (c # t) = Some (l, u)"
      by (auto split: if_splits)
    then show ?thesis
    proof cases
      case 1
      with 2 Cons t show ?thesis by (fastforce split: if_splits)
    next
      case 2
      with "2.IH" "2.prems" Cons t show ?thesis by (fastforce split: if_splits)
    next
      case 3
      with "2.prems" Cons t show ?thesis by (auto dest!: p_string_shorter)
    next
      case 4
      then have "u = drop (length l) (c # t)" "l \<noteq> []" by (auto simp: p_literal_def split: if_splits)
      with t(1) show ?thesis by (cases l) simp_all
    next
      case 5
      then show ?thesis using p_number_shorter [OF 5] t(1) by simp
    qed
  qed
next
  case (4 f d s)
  from 4(3) obtain y v where y: "p_value f d s = Some (y, v)" by (auto split: option.splits)
  then obtain c w where c: "skip_ws v = c # w" using 4(3) by (auto split: list.splits)
  have "length v < length s" "length w < length v" using 4(1) [OF y] skip_ws_shorter [OF c] by auto
  moreover have "length u \<le> length w"
    using 4(2) [OF y refl c] 4(3) y c by (fastforce split: if_splits)
  ultimately show ?case by simp
next
  case (6 f d s)
  from 6(3) obtain q t where q: "skip_ws s = q # t" "q = CHR 0x22" by (auto split: list.splits if_splits)
  then obtain k v where k: "p_string t = Some (k, v)" using 6(3) by (auto split: option.splits)
  then obtain w where w: "skip_ws v = CHR '':'' # w" using 6(3) q by (auto split: list.splits if_splits)
  then obtain y a where y: "p_value f d w = Some (y, a)" using 6(3) q k by (auto split: option.splits)
  then obtain c b where c: "skip_ws a = c # b" using 6(3) q k w by (auto split: list.splits)
  have "length t < length s" "length v < length t" "length w < length v" "length b < length a"
    using skip_ws_shorter q(1) p_string_shorter k w c by blast+
  moreover have "length a < length w"
    using 6(1) q k w y by simp
  moreover have "length u \<le> length b"
    using 6(2) 6(3) q k w y c by (fastforce split: if_splits)
  ultimately show ?case by simp
qed simp_all

lemmas p_Suc = p_value.simps(2) p_elems.simps(2) p_members.simps(2)

declare p_Suc [simp del]

lemma parse_more_fuel:
  "2 * length s < f \<Longrightarrow> p_value (Suc f) d s = p_value f d s"
  "2 * length s + 1 < f \<Longrightarrow> p_elems (Suc f) d s = p_elems f d s"
  "2 * length s + 1 < f \<Longrightarrow> p_members (Suc f) d s = p_members f d s"
proof (induction f d s and f d s and f d s rule: p_value_p_elems_p_members.induct)
  case (2 f d s)
  show ?case
  proof (cases "skip_ws s")
    case Nil
    then show ?thesis by (simp add: p_Suc)
  next
    case (Cons c t)
    then have "2 * length t + 1 < f" using 2(3) skip_ws_shorter [OF Cons] by simp
    with 2(1,2) Cons show ?thesis by (auto simp: p_Suc(1) [of f d s] p_Suc(1) [of "Suc f" d s])
  qed
next
  case (4 f d s)
  then have v: "p_value (Suc f) d s = p_value f d s" by simp
  have e: "p_elems (Suc f) d w = p_elems f d w"
    if "p_value f d s = Some (y, u)" "skip_ws u = CHR '','' # w" for y u w
  proof -
    have "length w < length s"
      using skip_ws_shorter [OF that(2)] parse_shorter(1) [OF that(1)] by simp
    with 4(3) have "2 * length w + 1 < f" by simp
    with 4(2) that show ?thesis by simp
  qed
  show ?case by (auto simp: p_Suc(2) [of f d s] p_Suc(2) [of "Suc f" d s] v e split: option.split list.split)
next
  case (6 f d s)
  have pv: "p_value (Suc f) d w = p_value f d w"
    and pm: "p_value f d w = Some (x, a) \<Longrightarrow> skip_ws a = CHR '','' # b \<Longrightarrow> p_members (Suc f) d b = p_members f d b"
    if "skip_ws s = CHR 0x22 # t" "p_string t = Some (k, v)" "skip_ws v = CHR '':'' # w" for t k v w x a b
  proof -
    have len: "length w + 1 < length s"
      using skip_ws_shorter [OF that(1)] skip_ws_shorter [OF that(3)] p_string_shorter [OF that(2)] by simp
    with 6(1,3) that show "p_value (Suc f) d w = p_value f d w" by simp
    assume ab: "p_value f d w = Some (x, a)" "skip_ws a = CHR '','' # b"
    then have "length b < length w" using skip_ws_shorter [OF ab(2)] parse_shorter(1) [OF ab(1)] by simp
    with len 6(3) have "2 * length b + 1 < f" by simp
    with 6(2) that ab show "p_members (Suc f) d b = p_members f d b" by simp
  qed
  show ?case by (auto simp: p_Suc(3) [of f d s] p_Suc(3) [of "Suc f" d s] pv pm split: option.split list.split)
qed simp_all

theorem parse_fuel_enough:
  "2 * length s + 2 \<le> f \<Longrightarrow> p_value f d s = p_value (2 * length s + 2) d s"
proof (induction f)
  case (Suc f)
  show ?case
  proof (cases "2 * length s + 2 \<le> f")
    case True
    with Suc.IH show ?thesis by (simp only: parse_more_fuel(1))
  next
    case False
    with Suc.prems have "Suc f = 2 * length s + 2" by simp
    then show ?thesis by simp
  qed
qed simp

end
