(* ===== verification/Model_Json.thy ===== *)
theory Model_Json
  imports Model Go_Json_Roundtrip
begin

text \<open>
  The JSON form of the structs that travel as text (messages, dead letter envelopes,
  subscriptions, recipient lists), from their field tags: names, \<open>omitempty\<close>, \<open>json:"-"\<close>.
  Encoders give a JSON value, or None where a time has no RFC 3339 text. Decoders are
  \<open>json.Unmarshal\<close> into a given current value: keys match without regard to case, unknown
  keys are skipped, a later duplicate wins, \<open>null\<close> leaves a plain field alone and clears
  a pointer, slice or map, and a type mismatch is an error.
\<close>

section \<open>Combinators\<close>

definition key_fold :: "string \<Rightarrow> string" where
  "key_fold k = map (\<lambda>c. if 97 \<le> byte c \<and> byte c \<le> 122 then chr (byte c - 32) else c) k"

text \<open>Two runes outside ASCII fold to an ASCII letter: the long s and the Kelvin sign.\<close>

fun fold_specials :: "string \<Rightarrow> string" where
  "fold_specials (a # b # c # s) =
     (if byte a = 197 \<and> byte b = 191 then CHR ''S'' # fold_specials (c # s)
      else if byte a = 226 \<and> byte b = 132 \<and> byte c = 170 then CHR ''K'' # fold_specials s
      else a # fold_specials (b # c # s))"
| "fold_specials [a, b] = (if byte a = 197 \<and> byte b = 191 then [CHR ''S''] else [a, b])"
| "fold_specials s = s"

definition key_matches :: "string \<Rightarrow> string \<Rightarrow> bool" where
  "key_matches k name \<longleftrightarrow> key_fold (fold_specials k) = key_fold name"

fun find_field :: "(string \<times> 'a) list \<Rightarrow> string \<Rightarrow> 'a option" where
  "find_field [] k = None"
| "find_field ((n, x) # fs) k = (if key_matches k n then Some x else find_field fs k)"

fun dec_members :: "(string \<times> (json \<Rightarrow> 'r \<Rightarrow> 'r option)) list \<Rightarrow> (string \<times> json) list \<Rightarrow> 'r \<Rightarrow> 'r option" where
  "dec_members fs [] r = Some r"
| "dec_members fs ((k, v) # kvs) r =
     (case find_field fs k of
        None \<Rightarrow> dec_members fs kvs r
      | Some f \<Rightarrow> (case f v r of None \<Rightarrow> None | Some r' \<Rightarrow> dec_members fs kvs r'))"

definition dec_struct :: "(string \<times> (json \<Rightarrow> 'r \<Rightarrow> 'r option)) list \<Rightarrow> json \<Rightarrow> 'r \<Rightarrow> 'r option" where
  "dec_struct fs j r = (case j of JObj kvs \<Rightarrow> dec_members fs kvs r | JNull \<Rightarrow> Some r | _ \<Rightarrow> None)"

lemma dec_members_append:
  "dec_members fs (xs @ ys) r = (case dec_members fs xs r of None \<Rightarrow> None | Some r' \<Rightarrow> dec_members fs ys r')"
  by (induction fs xs r rule: dec_members.induct) (auto split: option.split)

text \<open>A field: its setter from the decoder of its type.\<close>

definition field :: "('r \<Rightarrow> 'a) \<Rightarrow> (('a \<Rightarrow> 'a) \<Rightarrow> 'r \<Rightarrow> 'r) \<Rightarrow> (json \<Rightarrow> 'a \<Rightarrow> 'a option) \<Rightarrow> json \<Rightarrow> 'r \<Rightarrow> 'r option" where
  "field get upd d j r = map_option (\<lambda>x. upd (\<lambda>_. x) r) (d j (get r))"

section \<open>Decoders of the basic types\<close>

definition dec_string :: "json \<Rightarrow> string \<Rightarrow> string option" where
  "dec_string j s = (case j of JStr t \<Rightarrow> Some t | JNull \<Rightarrow> Some s | _ \<Rightarrow> None)"

definition dec_bool :: "json \<Rightarrow> bool \<Rightarrow> bool option" where
  "dec_bool j b = (case j of JBool c \<Rightarrow> Some c | JNull \<Rightarrow> Some b | _ \<Rightarrow> None)"

definition dec_int :: "json \<Rightarrow> int \<Rightarrow> int option" where
  "dec_int j i = (case j of JNum l \<Rightarrow> strconv_Atoi l | JNull \<Rightarrow> Some i | _ \<Rightarrow> None)"

definition dec_float :: "go_env \<Rightarrow> json \<Rightarrow> float64 \<Rightarrow> float64 option" where
  "dec_float G j x = (case j of JNum l \<Rightarrow> float_Round G l | JNull \<Rightarrow> Some x | _ \<Rightarrow> None)"

definition dec_uuid :: "go_env \<Rightarrow> json \<Rightarrow> uuid \<Rightarrow> uuid option" where
  "dec_uuid G j u = (case j of JStr t \<Rightarrow> uuid_Parse G t | JNull \<Rightarrow> Some u | _ \<Rightarrow> None)"

definition dec_time :: "go_env \<Rightarrow> json \<Rightarrow> time \<Rightarrow> time option" where
  "dec_time G j t = (case j of JStr s \<Rightarrow> time_Parse G s | JNull \<Rightarrow> Some t | _ \<Rightarrow> None)"

definition dec_bytes :: "json \<Rightarrow> char slice \<Rightarrow> char slice option" where
  "dec_bytes j b = (case j of JStr s \<Rightarrow> map_option Some (StdEncoding_DecodeString s) | JNull \<Rightarrow> Some None | _ \<Rightarrow> None)"

definition dec_ptr :: "(json \<Rightarrow> 'a \<Rightarrow> 'a option) \<Rightarrow> 'a \<Rightarrow> json \<Rightarrow> 'a option \<Rightarrow> 'a option option" where
  "dec_ptr d z j p = (case j of
     JNull \<Rightarrow> Some None
   | _ \<Rightarrow> map_option Some (d j (case p of None \<Rightarrow> z | Some x \<Rightarrow> x)))"

definition dec_slice :: "(json \<Rightarrow> 'a \<Rightarrow> 'a option) \<Rightarrow> 'a \<Rightarrow> json \<Rightarrow> 'a slice \<Rightarrow> 'a slice option" where
  "dec_slice d z j s = (case j of
     JNull \<Rightarrow> Some None
   | JArr xs \<Rightarrow> map_option Some (those (map (\<lambda>x. d x z) xs))
   | _ \<Rightarrow> None)"

text \<open>Maps are kept sorted by key, the order in which the encoder writes them.\<close>

fun str_less :: "string \<Rightarrow> string \<Rightarrow> bool" where
  "str_less _ [] = False"
| "str_less [] (y # ys) = True"
| "str_less (x # xs) (y # ys) = (byte x < byte y \<or> byte x = byte y \<and> str_less xs ys)"

fun map_put :: "string \<Rightarrow> 'v \<Rightarrow> (string \<times> 'v) list \<Rightarrow> (string \<times> 'v) list" where
  "map_put k v [] = [(k, v)]"
| "map_put k v ((k', v') # m) =
     (if k = k' then (k, v) # m
      else if str_less k k' then (k, v) # (k', v') # m
      else (k', v') # map_put k v m)"

definition dec_map :: "(json \<Rightarrow> 'v option) \<Rightarrow> json \<Rightarrow> (string \<times> 'v) list \<Rightarrow> (string \<times> 'v) list option" where
  "dec_map d j m = (case j of
     JNull \<Rightarrow> Some []
   | JObj kvs \<Rightarrow> map_option (\<lambda>vs. foldl (\<lambda>a (k, v). map_put k v a) m (zip (map fst kvs) vs))
                  (those (map (\<lambda>kv. d (snd kv)) kvs))
   | _ \<Rightarrow> None)"

text \<open>A value of type \<open>any\<close>: numbers become \<open>float64\<close>, objects become maps.\<close>

fun any_of_json :: "go_env \<Rightarrow> json \<Rightarrow> json option" where
  "any_of_json G (JNum l) = map_option JNum (float_Round G l)"
| "any_of_json G (JArr xs) = map_option JArr (those (map (any_of_json G) xs))"
| "any_of_json G (JObj kvs) =
     map_option (\<lambda>vs. JObj (foldl (\<lambda>a (k, v). map_put k v a) [] (zip (map fst kvs) vs)))
       (those (map (\<lambda>(k, v). any_of_json G v) kvs))"
| "any_of_json G j = Some j"

section \<open>Encoders of the basic types\<close>

definition enc_int :: "int \<Rightarrow> json" where "enc_int i = JNum (strconv_Itoa i)"
definition enc_uuid :: "go_env \<Rightarrow> uuid \<Rightarrow> json" where "enc_uuid G u = JStr (uuid_String G u)"
definition enc_time :: "go_env \<Rightarrow> time \<Rightarrow> json option" where "enc_time G t = map_option JStr (time_Text G t)"

definition enc_slice :: "('a \<Rightarrow> json) \<Rightarrow> 'a slice \<Rightarrow> json" where
  "enc_slice e s = (case s of None \<Rightarrow> JNull | Some xs \<Rightarrow> JArr (map e xs))"

definition enc_bytes :: "char slice \<Rightarrow> json" where
  "enc_bytes b = (case b of None \<Rightarrow> JNull | Some bs \<Rightarrow> JStr (StdEncoding_EncodeToString bs))"

definition omit_if :: "bool \<Rightarrow> string \<Rightarrow> json \<Rightarrow> (string \<times> json) list" where
  "omit_if b k j = (if b then [] else [(k, j)])"

definition omit_nil :: "string \<Rightarrow> ('a \<Rightarrow> json) \<Rightarrow> 'a option \<Rightarrow> (string \<times> json) list" where
  "omit_nil k e p = (case p of None \<Rightarrow> [] | Some x \<Rightarrow> [(k, e x)])"

definition enc_time_opt :: "go_env \<Rightarrow> string \<Rightarrow> time option \<Rightarrow> (string \<times> json) list option" where
  "enc_time_opt G k p = (case p of None \<Rightarrow> Some [] | Some t \<Rightarrow> map_option (\<lambda>j. [(k, j)]) (enc_time G t))"

definition float_zero :: "float64 \<Rightarrow> bool" where
  "float_zero x \<longleftrightarrow> x = ''0'' \<or> x = ''-0''"

section \<open>Recipients\<close>

definition Marshal_Recipients :: "go_env \<Rightarrow> uuid slice \<Rightarrow> string" where
  "Marshal_Recipients G rs = json_text (enc_slice (enc_uuid G) rs)"

definition Unmarshal_Recipients :: "go_env \<Rightarrow> string \<Rightarrow> uuid slice \<Rightarrow> uuid slice option" where
  "Unmarshal_Recipients G s cur = (case json_parse s of
     None \<Rightarrow> None
   | Some j \<Rightarrow> dec_slice (dec_uuid G) uuid_Nil j cur)"

definition decode_error :: go_error where
  "decode_error = OtherError ''json: cannot decode value''"

definition encode_error :: go_error where
  "encode_error = OtherError ''json: cannot encode value''"

definition ScanRecipients :: "go_env \<Rightarrow> Message \<Rightarrow> Message \<times> unit result" where
  "ScanRecipients G m =
     (if Message_RecipientStr m \<noteq> [] then
        (case Unmarshal_Recipients G (Message_RecipientStr m) (Message_RecipientIDs m) of
           None \<Rightarrow> (m, Inl decode_error)
         | Some rs \<Rightarrow> (m\<lparr>Message_RecipientIDs := rs\<rparr>, Inr ()))
      else (m\<lparr>Message_RecipientIDs := Some []\<rparr>, Inr ()))"

definition SetRecipients :: "go_env \<Rightarrow> Message \<Rightarrow> Message \<times> unit result" where
  "SetRecipients G m =
     (if elems (Message_RecipientIDs m) = [] then (m\<lparr>Message_RecipientStr := ''[]''\<rparr>, Inr ())
      else (m\<lparr>Message_RecipientStr := Marshal_Recipients G (Message_RecipientIDs m)\<rparr>, Inr ()))"

section \<open>Messages\<close>

definition RoutingHints_fields where
  "RoutingHints_fields G =
   [(''preferredAgents'', field Hints_PreferredAgents Hints_PreferredAgents_update (dec_slice dec_string [])),
    (''excludedAgents'', field Hints_ExcludedAgents Hints_ExcludedAgents_update (dec_slice dec_string [])),
    (''maxHops'', field Hints_MaxHops Hints_MaxHops_update dec_int),
    (''priceLimit'', field Hints_PriceLimit Hints_PriceLimit_update (dec_float G))]"

definition RoutingHints_of_json :: "go_env \<Rightarrow> json \<Rightarrow> RoutingHints \<Rightarrow> RoutingHints option" where
  "RoutingHints_of_json G = dec_struct (RoutingHints_fields G)"

definition RoutingHints_json :: "RoutingHints \<Rightarrow> json" where
  "RoutingHints_json h = JObj
    (omit_if (elems (Hints_PreferredAgents h) = []) ''preferredAgents'' (enc_slice JStr (Hints_PreferredAgents h)) @
     omit_if (elems (Hints_ExcludedAgents h) = []) ''excludedAgents'' (enc_slice JStr (Hints_ExcludedAgents h)) @
     omit_if (Hints_MaxHops h = 0) ''maxHops'' (enc_int (Hints_MaxHops h)) @
     omit_if (float_zero (Hints_PriceLimit h)) ''priceLimit'' (JNum (Hints_PriceLimit h)))"

definition MessageMetadata_fields where
  "MessageMetadata_fields G =
   [(''tags'', field Meta_Tags Meta_Tags_update (dec_map (\<lambda>j. dec_string j []))),
    (''correlationId'', field Meta_CorrelationID Meta_CorrelationID_update dec_string),
    (''replyTo'', field Meta_ReplyTo Meta_ReplyTo_update (dec_ptr (dec_uuid G) uuid_Nil)),
    (''routingHints'', field Meta_RoutingHints Meta_RoutingHints_update (dec_ptr (RoutingHints_of_json G) zero_RoutingHints)),
    (''compression'', field Meta_Compression Meta_Compression_update dec_string),
    (''encoding'', field Meta_Encoding Meta_Encoding_update dec_string),
    (''custom'', field Meta_Custom Meta_Custom_update (dec_map (any_of_json G)))]"

definition MessageMetadata_of_json :: "go_env \<Rightarrow> json \<Rightarrow> MessageMetadata \<Rightarrow> MessageMetadata option" where
  "MessageMetadata_of_json G = dec_struct (MessageMetadata_fields G)"

definition MessageMetadata_json :: "go_env \<Rightarrow> MessageMetadata \<Rightarrow> json" where
  "MessageMetadata_json G m = JObj
    (omit_if (Meta_Tags m = []) ''tags'' (JObj (map (\<lambda>(k, v). (k, JStr v)) (Meta_Tags m))) @
     omit_if (Meta_CorrelationID m = []) ''correlationId'' (JStr (Meta_CorrelationID m)) @
     omit_nil ''replyTo'' (enc_uuid G) (Meta_ReplyTo m) @
     omit_nil ''routingHints'' RoutingHints_json (Meta_RoutingHints m) @
     omit_if (Meta_Compression m = []) ''compression'' (JStr (Meta_Compression m)) @
     omit_if (Meta_Encoding m = []) ''encoding'' (JStr (Meta_Encoding m)) @
     omit_if (Meta_Custom m = []) ''custom'' (JObj (Meta_Custom m)))"

definition RetryPolicy_fields where
  "RetryPolicy_fields G =
   [(''maxAttempts'', field Retry_MaxAttempts Retry_MaxAttempts_update dec_int),
    (''initialDelayMs'', field Retry_InitialDelayMs Retry_InitialDelayMs_update dec_int),
    (''maxDelayMs'', field Retry_MaxDelayMs Retry_MaxDelayMs_update dec_int),
    (''backoffMultiplier'', field Retry_BackoffMultiplier Retry_BackoffMultiplier_update (dec_float G))]"

definition RetryPolicy_of_json :: "go_env \<Rightarrow> json \<Rightarrow> RetryPolicy \<Rightarrow> RetryPolicy option" where
  "RetryPolicy_of_json G = dec_struct (RetryPolicy_fields G)"

definition RetryPolicy_json :: "RetryPolicy \<Rightarrow> json" where
  "RetryPolicy_json p = JObj
    [(''maxAttempts'', enc_int (Retry_MaxAttempts p)),
     (''initialDelayMs'', enc_int (Retry_InitialDelayMs p)),
     (''maxDelayMs'', enc_int (Retry_MaxDelayMs p)),
     (''backoffMultiplier'', JNum (Retry_BackoffMultiplier p))]"

definition TaskContext_fields where
  "TaskContext_fields G =
   [(''taskId'', field Task_TaskID Task_TaskID_update (dec_uuid G)),
    (''parentTaskId'', field Task_ParentTaskID Task_ParentTaskID_update (dec_ptr (dec_uuid G) uuid_Nil)),
    (''rootTaskId'', field Task_RootTaskID Task_RootTaskID_update (dec_ptr (dec_uuid G) uuid_Nil)),
    (''priority'', field Task_Priority Task_Priority_update dec_int),
    (''deadline'', field Task_Deadline Task_Deadline_update (dec_ptr (dec_time G) 0)),
    (''dependencies'', field Task_Dependencies Task_Dependencies_update (dec_slice (dec_uuid G) uuid_Nil)),
    (''blocking'', field Task_Blocking Task_Blocking_update dec_bool),
    (''retryPolicy'', field Task_RetryPolicy Task_RetryPolicy_update (dec_ptr (RetryPolicy_of_json G) zero_RetryPolicy)),
    (''retryCount'', field Task_RetryCount Task_RetryCount_update dec_int)]"

definition TaskContext_of_json :: "go_env \<Rightarrow> json \<Rightarrow> TaskContext \<Rightarrow> TaskContext option" where
  "TaskContext_of_json G = dec_struct (TaskContext_fields G)"

definition TaskContext_json :: "go_env \<Rightarrow> TaskContext \<Rightarrow> json option" where
  "TaskContext_json G t =
     (case enc_time_opt G ''deadline'' (Task_Deadline t) of
        None \<Rightarrow> None
      | Some deadline \<Rightarrow> Some (JObj
         ([(''taskId'', enc_uuid G (Task_TaskID t))] @
          omit_nil ''parentTaskId'' (enc_uuid G) (Task_ParentTaskID t) @
          omit_nil ''rootTaskId'' (enc_uuid G) (Task_RootTaskID t) @
          [(''priority'', enc_int (Task_Priority t))] @
          deadline @
          omit_if (elems (Task_Dependencies t) = []) ''dependencies'' (enc_slice (enc_uuid G) (Task_Dependencies t)) @
          omit_if (\<not> Task_Blocking t) ''blocking'' (JBool (Task_Blocking t)) @
          omit_nil ''retryPolicy'' RetryPolicy_json (Task_RetryPolicy t) @
          [(''retryCount'', enc_int (Task_RetryCount t))])))"

definition Message_fields where
  "Message_fields G =
   [(''id'', field Message_ID Message_ID_update (dec_uuid G)),
    (''conversationId'', field Message_ConversationID Message_ConversationID_update (dec_uuid G)),
    (''messageType'', field Message_MessageType Message_MessageType_update dec_string),
    (''senderId'', field Message_SenderID Message_SenderID_update (dec_uuid G)),
    (''recipientIds'', field Message_RecipientIDs Message_RecipientIDs_update (dec_slice (dec_uuid G) uuid_Nil)),
    (''content'', field Message_Content Message_Content_update dec_bytes),
    (''contentSize'', field Message_ContentSize Message_ContentSize_update dec_int),
    (''contentType'', field Message_ContentType Message_ContentType_update dec_string),
    (''metadata'', field Message_Metadata Message_Metadata_update (MessageMetadata_of_json G)),
    (''deliveryGuarantee'', field Message_DeliveryGuarantee Message_DeliveryGuarantee_update dec_string),
    (''status'', field Message_Status Message_Status_update dec_string),
    (''taskContext'', field Message_TaskContext Message_TaskContext_update (dec_ptr (TaskContext_of_json G) zero_TaskContext)),
    (''traceId'', field Message_TraceID Message_TraceID_update dec_string),
    (''tenantId'', field Message_TenantID Message_TenantID_update (dec_uuid G)),
    (''createdAt'', field Message_CreatedAt Message_CreatedAt_update (dec_time G)),
    (''expiresAt'', field Message_ExpiresAt Message_ExpiresAt_update (dec_ptr (dec_time G) 0)),
    (''processedAt'', field Message_ProcessedAt Message_ProcessedAt_update (dec_ptr (dec_time G) 0))]"

definition Message_of_json :: "go_env \<Rightarrow> json \<Rightarrow> Message \<Rightarrow> Message option" where
  "Message_of_json G = dec_struct (Message_fields G)"

definition enc_ptr_opt :: "string \<Rightarrow> ('a \<Rightarrow> json option) \<Rightarrow> 'a option \<Rightarrow> (string \<times> json) list option" where
  "enc_ptr_opt k e p = (case p of None \<Rightarrow> Some [] | Some x \<Rightarrow> map_option (\<lambda>j. [(k, j)]) (e x))"

definition Message_json :: "go_env \<Rightarrow> Message \<Rightarrow> json option" where
  "Message_json G m =
     (case (enc_ptr_opt ''taskContext'' (TaskContext_json G) (Message_TaskContext m),
            enc_time G (Message_CreatedAt m),
            enc_time_opt G ''expiresAt'' (Message_ExpiresAt m),
            enc_time_opt G ''processedAt'' (Message_ProcessedAt m)) of
        (Some task, Some created, Some expires, Some processed) \<Rightarrow> Some (JObj
          ([(''id'', enc_uuid G (Message_ID m)),
            (''conversationId'', enc_uuid G (Message_ConversationID m)),
            (''messageType'', JStr (Message_MessageType m)),
            (''senderId'', enc_uuid G (Message_SenderID m)),
            (''recipientIds'', enc_slice (enc_uuid G) (Message_RecipientIDs m)),
            (''content'', enc_bytes (Message_Content m)),
            (''contentSize'', enc_int (Message_ContentSize m)),
            (''contentType'', JStr (Message_ContentType m)),
            (''metadata'', MessageMetadata_json G (Message_Metadata m)),
            (''deliveryGuarantee'', JStr (Message_DeliveryGuarantee m)),
            (''status'', JStr (Message_Status m))] @
           task @
           [(''traceId'', JStr (Message_TraceID m)),
            (''tenantId'', enc_uuid G (Message_TenantID m)),
            (''createdAt'', created)] @
           expires @ processed))
      | _ \<Rightarrow> None)"

definition Marshal_Message :: "go_env \<Rightarrow> Message \<Rightarrow> string result" where
  "Marshal_Message G m = (case Message_json G m of None \<Rightarrow> Inl encode_error | Some j \<Rightarrow> Inr (json_text j))"

definition Unmarshal_Message :: "go_env \<Rightarrow> string \<Rightarrow> Message result" where
  "Unmarshal_Message G s = (case json_parse s of
     None \<Rightarrow> Inl decode_error
   | Some j \<Rightarrow> (case Message_of_json G j zero_Message of None \<Rightarrow> Inl decode_error | Some m \<Rightarrow> Inr m))"

section \<open>Dead letter envelopes\<close>

text \<open>
  The payload of a dead letter entry, \<open>map[string]any\<close> with the message, the reason and
  the time. The caller drops the encoder's error, and with it the payload is empty.
\<close>

definition Marshal_Envelope :: "go_env \<Rightarrow> Message \<Rightarrow> string \<Rightarrow> time \<Rightarrow> bytes" where
  "Marshal_Envelope G m reason t =
     (case (Message_json G m, enc_time G t) of
        (Some jm, Some jt) \<Rightarrow> json_text (JObj [(''message'', jm), (''reason'', JStr reason), (''time'', jt)])
      | _ \<Rightarrow> [])"

text \<open>The struct with the one field \<open>Message *model.Message\<close>.\<close>

definition Unmarshal_Envelope :: "go_env \<Rightarrow> bytes \<Rightarrow> Message option result" where
  "Unmarshal_Envelope G s = (case json_parse s of
     None \<Rightarrow> Inl decode_error
   | Some j \<Rightarrow>
       (case dec_struct [(''message'', dec_ptr (Message_of_json G) zero_Message)] j None of
          None \<Rightarrow> Inl decode_error
        | Some p \<Rightarrow> Inr p))"

section \<open>Subscriptions\<close>

definition SubscriptionFilter_fields where
  "SubscriptionFilter_fields G =
   [(''agentIds'', field Filter_AgentIDs Filter_AgentIDs_update (dec_slice (dec_uuid G) uuid_Nil)),
    (''capabilityTypes'', field Filter_CapabilityTypes Filter_CapabilityTypes_update (dec_slice dec_string [])),
    (''topics'', field Filter_Topics Filter_Topics_update (dec_slice dec_string [])),
    (''messageTypes'', field Filter_MessageTypes Filter_MessageTypes_update (dec_slice dec_string [])),
    (''tags'', field Filter_Tags Filter_Tags_update (dec_map (\<lambda>j. dec_string j [])))]"

definition SubscriptionFilter_of_json :: "go_env \<Rightarrow> json \<Rightarrow> SubscriptionFilter \<Rightarrow> SubscriptionFilter option" where
  "SubscriptionFilter_of_json G = dec_struct (SubscriptionFilter_fields G)"

definition SubscriptionFilter_json :: "go_env \<Rightarrow> SubscriptionFilter \<Rightarrow> json" where
  "SubscriptionFilter_json G f = JObj
    (omit_if (elems (Filter_AgentIDs f) = []) ''agentIds'' (enc_slice (enc_uuid G) (Filter_AgentIDs f)) @
     omit_if (elems (Filter_CapabilityTypes f) = []) ''capabilityTypes'' (enc_slice JStr (Filter_CapabilityTypes f)) @
     omit_if (elems (Filter_Topics f) = []) ''topics'' (enc_slice JStr (Filter_Topics f)) @
     omit_if (elems (Filter_MessageTypes f) = []) ''messageTypes'' (enc_slice JStr (Filter_MessageTypes f)) @
     omit_if (Filter_Tags f = []) ''tags'' (JObj (map (\<lambda>(k, v). (k, JStr v)) (Filter_Tags f))))"

definition Subscription_fields where
  "Subscription_fields G =
   [(''id'', field Sub_ID Sub_ID_update (dec_uuid G)),
    (''agentId'', field Sub_AgentID Sub_AgentID_update (dec_uuid G)),
    (''tenantId'', field Sub_TenantID Sub_TenantID_update (dec_uuid G)),
    (''type'', field Sub_Type Sub_Type_update dec_string),
    (''filter'', field Sub_Filter Sub_Filter_update (SubscriptionFilter_of_json G)),
    (''status'', field Sub_Status Sub_Status_update dec_string),
    (''createdAt'', field Sub_CreatedAt Sub_CreatedAt_update dec_int)]"

definition Subscription_of_json :: "go_env \<Rightarrow> json \<Rightarrow> Subscription \<Rightarrow> Subscription option" where
  "Subscription_of_json G = dec_struct (Subscription_fields G)"

definition Subscription_json :: "go_env \<Rightarrow> Subscription \<Rightarrow> json" where
  "Subscription_json G s = JObj
    [(''id'', enc_uuid G (Sub_ID s)), (''agentId'', enc_uuid G (Sub_AgentID s)),
     (''tenantId'', enc_uuid G (Sub_TenantID s)), (''type'', JStr (Sub_Type s)),
     (''filter'', SubscriptionFilter_json G (Sub_Filter s)), (''status'', JStr (Sub_Status s)),
     (''createdAt'', enc_int (Sub_CreatedAt s))]"

definition Marshal_Subscription :: "go_env \<Rightarrow> Subscription \<Rightarrow> string" where
  "Marshal_Subscription G s = json_text (Subscription_json G s)"

definition Unmarshal_Subscription :: "go_env \<Rightarrow> string \<Rightarrow> Subscription result" where
  "Unmarshal_Subscription G s = (case json_parse s of
     None \<Rightarrow> Inl decode_error
   | Some j \<Rightarrow> (case Subscription_of_json G j zero_Subscription of None \<Rightarrow> Inl decode_error | Some x \<Rightarrow> Inr x))"

end
