(* ===== verification/Uuid_Text.thy ===== *)
theory Uuid_Text
  imports Model_Json
begin

text \<open>
  What the code relies on of package \<open>google/uuid\<close>: that \<open>uuid.Parse\<close> reads back what
  \<open>UUID.String\<close> writes, and that the text has 36 bytes, all of them hexadecimal digits or
  dashes. The locale states this contract, its clients are the encoders of \<open>internal/model\<close>,
  and the reference form (8-4-4-4-12 digits, RFC 4122) satisfies it.
\<close>

section \<open>The contract\<close>

definition uuid_char :: "char \<Rightarrow> bool" where
  "uuid_char c \<longleftrightarrow> hex_val c \<noteq> None \<or> c = CHR ''-''"

lemma uuid_char_ascii: "uuid_char c \<Longrightarrow> is_ascii c"
  by (auto simp: uuid_char_def hex_val_def is_ascii_def byte_def Let_def split: if_splits)

lemma uuid_char_not [simp]: "\<not> uuid_char (CHR '':'')" "\<not> uuid_char (CHR ''.'')"
  by (simp_all add: uuid_char_def hex_val_def byte_def)

locale uuid_text =
  fixes ustr :: "uuid \<Rightarrow> string"
    and parse :: "string \<Rightarrow> uuid option"
  assumes parse_text: "parse (ustr u) = Some u"
    and text_length: "length (ustr u) = 36"
    and text_chars: "list_all uuid_char (ustr u)"
begin

lemma text_inject [simp]: "ustr u = ustr v \<longleftrightarrow> u = v"
  by (metis parse_text option.inject)

lemma text_ascii: "list_all is_ascii (ustr u)"
  using text_chars uuid_char_ascii by (auto simp: list_all_iff)

lemma text_utf8: "utf8_ok (ustr u)"
  by (rule utf8_ok_ascii [OF text_ascii])

lemma text_no_colon: "CHR '':'' \<notin> set (ustr u)"
  using text_chars [of u] uuid_char_not(1) by (metis list_all_iff)

lemma text_ne [simp]: "ustr u \<noteq> []"
  using text_length [of u] by auto

lemma parse_texts: "those (map (\<lambda>u. parse (ustr u)) us) = Some us"
  by (induction us) (simp_all add: parse_text)

lemma text_append_inject: "ustr u @ s = ustr v @ t \<longleftrightarrow> u = v \<and> s = t"
  by (metis append_eq_append_conv text_inject text_length)

end

text \<open>The contract of the uuid functions of an environment.\<close>

definition uuid_laws :: "go_env \<Rightarrow> bool" where
  "uuid_laws G \<longleftrightarrow> uuid_text (uuid_String G) (uuid_Parse G)"

lemma uuid_lawsD: "uuid_laws G \<Longrightarrow> uuid_text (uuid_String G) (uuid_Parse G)"
  by (simp add: uuid_laws_def)

section \<open>The reference form\<close>

fun nibbles :: "nat \<Rightarrow> nat \<Rightarrow> nat list" where
  "nibbles 0 n = []"
| "nibbles (Suc k) n = nibbles k (n div 16) @ [n mod 16]"

definition nibbles_val :: "nat list \<Rightarrow> nat" where
  "nibbles_val ds = foldl (\<lambda>a d. 16 * a + d) 0 ds"

lemma length_nibbles [simp]: "length (nibbles k n) = k"
  by (induction k n rule: nibbles.induct) simp_all

lemma nibbles_small: "d \<in> set (nibbles k n) \<Longrightarrow> d < 16"
  by (induction k n rule: nibbles.induct) auto

lemma nibbles_val_nibbles: "n < 16 ^ k \<Longrightarrow> nibbles_val (nibbles k n) = n"
proof (induction k n rule: nibbles.induct)
  case (2 k n)
  then have "n div 16 < 16 ^ k" by (simp add: less_mult_imp_div_less mult.commute)
  with 2 show ?case by (simp add: nibbles_val_def)
qed (simp add: nibbles_val_def)

definition dashes :: "string \<Rightarrow> string" where
  "dashes h = take 8 h @ CHR ''-'' # take 4 (drop 8 h) @ CHR ''-'' # take 4 (drop 12 h) @
     CHR ''-'' # take 4 (drop 16 h) @ CHR ''-'' # drop 20 h"

definition undash :: "string \<Rightarrow> string option" where
  "undash s = (if length s = 36 \<and> s ! 8 = CHR ''-'' \<and> s ! 13 = CHR ''-'' \<and> s ! 18 = CHR ''-'' \<and> s ! 23 = CHR ''-''
     then Some (take 8 s @ take 4 (drop 9 s) @ take 4 (drop 14 s) @ take 4 (drop 19 s) @ drop 24 s)
     else None)"

definition rfc4122_String :: "uuid \<Rightarrow> string" where
  "rfc4122_String u = dashes (map hex_digit (nibbles 32 (unat u)))"

definition rfc4122_Parse :: "string \<Rightarrow> uuid option" where
  "rfc4122_Parse s = (case undash s of
     None \<Rightarrow> None
   | Some h \<Rightarrow> map_option (\<lambda>ds. of_nat (nibbles_val ds)) (those (map hex_val h)))"

lemma take_drop_join: "take n (drop m h) @ drop (n + m) h = drop m h"
  by (metis append_take_drop_id drop_drop)

lemma undash_dashes: "length h = 32 \<Longrightarrow> undash (dashes h) = Some h"
  using take_drop_join [of 8 0 h] take_drop_join [of 4 8 h] take_drop_join [of 4 12 h] take_drop_join [of 4 16 h]
  by (simp add: undash_def dashes_def nth_append)

lemma length_dashes: "length h = 32 \<Longrightarrow> length (dashes h) = 36"
  by (simp add: dashes_def)

lemma hex_val_map: "(\<And>d. d \<in> set ds \<Longrightarrow> d < 16) \<Longrightarrow> those (map (hex_val \<circ> hex_digit) ds) = Some ds"
  by (induction ds) simp_all

lemma rfc4122_roundtrip: "rfc4122_Parse (rfc4122_String u) = Some u"
proof -
  have "unat u < 16 ^ 32" using unsigned_less [of u] by simp
  then show ?thesis
    using hex_val_map [of "nibbles 32 (unat u)"] nibbles_small
    by (simp add: rfc4122_Parse_def rfc4122_String_def undash_dashes nibbles_val_nibbles)
qed

lemma dashes_chars: "list_all uuid_char h \<Longrightarrow> list_all uuid_char (dashes h)"
  by (auto simp: dashes_def list_all_iff uuid_char_def dest!: in_set_takeD in_set_dropD)

interpretation rfc4122: uuid_text rfc4122_String rfc4122_Parse
proof
  show "rfc4122_Parse (rfc4122_String u) = Some u" for u by (rule rfc4122_roundtrip)
  show "length (rfc4122_String u) = 36" for u by (simp add: rfc4122_String_def length_dashes)
  show "list_all uuid_char (rfc4122_String u)" for u
    unfolding rfc4122_String_def using nibbles_small
    by (intro dashes_chars) (auto simp: list_all_iff uuid_char_def)
qed

end
