(* ===== verification/Model_Roundtrip.thy ===== *)
theory Model_Roundtrip
  imports Uuid_Text
begin

text \<open>
  Round trips of the JSON codecs of theory Model_Json: what a producer writes to the
  pending queue, a worker reads back. The locale \<open>codec\<close> adds to the contract of UUIDs the
  one of times: a text \<open>Time.MarshalJSON\<close> writes is read back to the same instant.
\<close>

section \<open>Decoding a struct member by member\<close>

lemma find_field_map_of:
  assumes "distinct (map (key_fold \<circ> fst) fs)" "k \<in> fst ` set fs" "fold_specials k = k"
  shows "find_field fs k = map_of fs k"
  using assms
proof (induction fs)
  case (Cons f fs)
  obtain n x where f: "f = (n, x)" by fastforce
  show ?case
  proof (cases "k = n")
    case True
    then show ?thesis using Cons.prems(3) by (simp add: f key_matches_def)
  next
    case False
    then have "k \<in> fst ` set fs" using Cons.prems(2) f by auto
    then have "key_fold k \<noteq> key_fold n" using Cons.prems(1) f by (auto simp: image_iff)
    with Cons \<open>k \<in> fst ` set fs\<close> False f show ?thesis by (simp add: key_matches_def)
  qed
qed simp

definition pick :: "bool \<Rightarrow> 'a \<Rightarrow> 'a \<Rightarrow> 'a" where
  "pick b x y = (if b then x else y)"

lemma pick_simps [simp]:
  "pick (s = []) [] s = s" "pick (i = 0) 0 i = (i :: int)" "pick (\<not> b) False b = b"
  by (simp_all add: pick_def)

lemma dec_members_omit:
  assumes "find_field fs k = Some (field get upd d)" "upd (\<lambda>x. x) r = r" "\<not> b \<Longrightarrow> d j (get r) \<noteq> None"
  shows "dec_members fs (omit_if b k j) r = Some (upd (\<lambda>x. pick b x (the (d j (get r)))) r)"
  using assms by (auto simp: omit_if_def field_def pick_def)

lemma omit_if_simps [simp]: "omit_if True k j = []" "omit_if False k j = [(k, j)]"
  by (simp_all add: omit_if_def)

lemma omit_nil_simps [simp]: "omit_nil k e None = []" "omit_nil k e (Some x) = [(k, e x)]"
  by (simp_all add: omit_nil_def)

lemma dec_members_ptr:
  assumes "find_field fs k = Some (field get upd (dec_ptr d z))" "get r = None" "upd (\<lambda>_. None) r = r"
    and "\<And>x. p = Some x \<Longrightarrow> e x \<noteq> JNull \<and> d (e x) z \<noteq> None"
  shows "dec_members fs (omit_nil k e p) r = Some (upd (\<lambda>_. map_option (\<lambda>x. the (d (e x) z)) p) r)"
  using assms by (cases p) (auto simp: omit_nil_def field_def dec_ptr_def split: json.split)

section \<open>Basic types\<close>

definition int64 :: "int \<Rightarrow> bool" where
  "int64 i \<longleftrightarrow> - (2 ^ 63) \<le> i \<and> i < 2 ^ 63"

lemma dec_enc_int [simp]: "int64 i \<Longrightarrow> dec_int (enc_int i) x = Some i"
  by (simp add: dec_int_def enc_int_def strconv_Atoi_Itoa int64_def)

lemma dec_string_JStr [simp]: "dec_string (JStr s) x = Some s"
  by (simp add: dec_string_def)

lemma dec_enc_bytes [simp]: "dec_bytes (enc_bytes b) x = Some b"
  by (simp add: dec_bytes_def enc_bytes_def split: option.split)

lemma dec_JBool [simp]: "dec_bool (JBool b) x = Some b"
  by (simp add: dec_bool_def)

lemma dec_enc_slice:
  assumes "\<And>x. x \<in> set (elems s) \<Longrightarrow> d (e x) z = Some x"
  shows "dec_slice d z (enc_slice e s) y = Some s"
proof -
  have "those (map (\<lambda>x. d (e x) z) xs) = Some xs" if "\<And>x. x \<in> set xs \<Longrightarrow> d (e x) z = Some x" for xs
    using that by (induction xs) simp_all
  then show ?thesis using assms by (cases s) (simp_all add: dec_slice_def enc_slice_def comp_def)
qed

lemma dec_ptr_Some [simp]: "j \<noteq> JNull \<Longrightarrow> dec_ptr d z j None = map_option Some (d j z)"
  by (simp add: dec_ptr_def split: json.split)

text \<open>A float is a canonical lexeme: the decoder reads it as itself.\<close>

definition float_ok :: "go_env \<Rightarrow> float64 \<Rightarrow> bool" where
  "float_ok G l \<longleftrightarrow> num_ok l \<and> float_Round G l = Some l"

lemma dec_float_ok [simp]: "float_ok G l \<Longrightarrow> dec_float G (JNum l) x = Some l"
  by (simp add: dec_float_def float_ok_def)

section \<open>Maps\<close>

lemma str_less_irrefl [simp]: "\<not> str_less s s"
  by (induction s) auto

lemma str_less_trans: "str_less s t \<Longrightarrow> str_less t u \<Longrightarrow> str_less s u"
proof (induction s t arbitrary: u rule: str_less.induct)
  case (2 y ys)
  then show ?case by (cases u) simp_all
next
  case (3 x xs y ys)
  then show ?case by (cases u) (auto dest: less_trans)
qed simp

lemma str_less_asym: "str_less s t \<Longrightarrow> \<not> str_less t s"
  using str_less_trans str_less_irrefl by blast

fun sorted_keys :: "(string \<times> 'v) list \<Rightarrow> bool" where
  "sorted_keys [] = True"
| "sorted_keys [x] = True"
| "sorted_keys (x # y # m) = (str_less (fst x) (fst y) \<and> sorted_keys (y # m))"

lemma map_put_last: "sorted_keys (m @ [(k, v)]) \<Longrightarrow> map_put k v m = m @ [(k, v)]"
proof (induction m rule: sorted_keys.induct)
  case (2 x)
  then show ?case using str_less_asym by (cases x) auto
next
  case (3 x y m)
  have "str_less (fst x) k"
  proof -
    have "sorted_keys (y # m @ [(k, v)]) \<Longrightarrow> str_less (fst y) k"
    proof (induction m arbitrary: y)
      case (Cons z m)
      then show ?case using str_less_trans [of "fst y" "fst z" k] by simp
    qed simp
    then show ?thesis using 3 str_less_trans by auto
  qed
  then show ?case using 3 str_less_asym by (cases x) auto
qed simp

lemma sorted_keys_append: "sorted_keys (m @ m') \<Longrightarrow> sorted_keys m"
proof (induction m rule: sorted_keys.induct)
  case (3 x y m)
  then show ?case by simp
qed simp_all

lemma foldl_map_put: "sorted_keys (m @ m') \<Longrightarrow> foldl (\<lambda>a (k, v). map_put k v a) m m' = m @ m'"
proof (induction m' arbitrary: m)
  case (Cons x m')
  obtain k v where x: "x = (k, v)" by fastforce
  have "sorted_keys ((m @ [(k, v)]) @ m')" using Cons.prems x by simp
  then have "map_put k v m = m @ [(k, v)]" by (intro map_put_last) (rule sorted_keys_append)
  with Cons.IH [of "m @ [(k, v)]"] Cons.prems x show ?case by simp
qed simp

lemma zip_fst_snd: "zip (map fst m) (map snd m) = m"
  by (induction m) simp_all

lemma dec_map_object:
  assumes "sorted_keys m" "\<And>k v. (k, v) \<in> set m \<Longrightarrow> d (e v) = Some v"
  shows "dec_map d (JObj (map (\<lambda>(k, v). (k, e v)) m)) [] = Some m"
proof -
  have "those (map (\<lambda>x. d (e (snd x))) ys) = Some (map snd ys)" if "set ys \<subseteq> set m" for ys
    using that
  proof (induction ys)
    case (Cons y ys)
    then have "d (e (snd y)) = Some (snd y)" using assms(2) [of "fst y" "snd y"] by simp
    with Cons show ?case by simp
  qed simp
  then have "those (map (\<lambda>x. d (e (snd x))) m) = Some (map snd m)" by simp
  then show ?thesis
    using foldl_map_put [of "[]" m] assms(1)
    by (simp add: dec_map_def case_prod_unfold comp_def zip_fst_snd)
qed

section \<open>Normal forms\<close>

text \<open>
  What survives the encoding: an empty slice of an \<open>omitempty\<close> field comes back nil, a zero
  price limit comes back as 0, and the database column \<open>RecipientStr\<close> is not encoded.
\<close>

definition norm_slice :: "'a slice \<Rightarrow> 'a slice" where
  "norm_slice s = (if elems s = [] then None else s)"

definition norm_float :: "float64 \<Rightarrow> float64" where
  "norm_float x = (if float_zero x then zero_float else x)"

definition norm_hints :: "RoutingHints \<Rightarrow> RoutingHints" where
  "norm_hints h = h\<lparr>Hints_PreferredAgents := norm_slice (Hints_PreferredAgents h),
     Hints_ExcludedAgents := norm_slice (Hints_ExcludedAgents h), Hints_PriceLimit := norm_float (Hints_PriceLimit h)\<rparr>"

definition norm_metadata :: "MessageMetadata \<Rightarrow> MessageMetadata" where
  "norm_metadata m = m\<lparr>Meta_RoutingHints := map_option norm_hints (Meta_RoutingHints m)\<rparr>"

definition norm_task :: "TaskContext \<Rightarrow> TaskContext" where
  "norm_task t = t\<lparr>Task_Dependencies := norm_slice (Task_Dependencies t)\<rparr>"

definition norm_message :: "Message \<Rightarrow> Message" where
  "norm_message m = m\<lparr>Message_RecipientStr := [], Message_Metadata := norm_metadata (Message_Metadata m),
     Message_TaskContext := map_option norm_task (Message_TaskContext m)\<rparr>"

text \<open>
  Values Go can hold: integers of 64 bits, canonical floats, sorted maps with distinct keys;
  texts in UTF-8, which the encoder would otherwise repair; and values of \<open>Custom\<close> nested
  less deeply than the decoder's limit.
\<close>

definition hints_ok :: "go_env \<Rightarrow> RoutingHints \<Rightarrow> bool" where
  "hints_ok G h \<longleftrightarrow> list_all utf8_ok (elems (Hints_PreferredAgents h)) \<and>
     list_all utf8_ok (elems (Hints_ExcludedAgents h)) \<and> int64 (Hints_MaxHops h) \<and> float_ok G (Hints_PriceLimit h)"

definition custom_ok :: "go_env \<Rightarrow> string \<times> json \<Rightarrow> bool" where
  "custom_ok G kv \<longleftrightarrow> utf8_ok (fst kv) \<and> json_wf (snd kv) \<and> json_depth (snd kv) \<le> 9000 \<and> any_of_json G (snd kv) = Some (snd kv)"

definition metadata_ok :: "go_env \<Rightarrow> MessageMetadata \<Rightarrow> bool" where
  "metadata_ok G m \<longleftrightarrow> sorted_keys (Meta_Tags m) \<and> list_all (\<lambda>kv. utf8_ok (fst kv) \<and> utf8_ok (snd kv)) (Meta_Tags m) \<and>
     utf8_ok (Meta_CorrelationID m) \<and> (case Meta_RoutingHints m of None \<Rightarrow> True | Some h \<Rightarrow> hints_ok G h) \<and>
     utf8_ok (Meta_Compression m) \<and> utf8_ok (Meta_Encoding m) \<and>
     sorted_keys (Meta_Custom m) \<and> list_all (custom_ok G) (Meta_Custom m)"

definition policy_ok :: "go_env \<Rightarrow> RetryPolicy \<Rightarrow> bool" where
  "policy_ok G p \<longleftrightarrow> int64 (Retry_MaxAttempts p) \<and> int64 (Retry_InitialDelayMs p) \<and> int64 (Retry_MaxDelayMs p) \<and>
     float_ok G (Retry_BackoffMultiplier p)"

definition task_ok :: "go_env \<Rightarrow> TaskContext \<Rightarrow> bool" where
  "task_ok G t \<longleftrightarrow> int64 (Task_Priority t) \<and> int64 (Task_RetryCount t) \<and>
     (case Task_RetryPolicy t of None \<Rightarrow> True | Some p \<Rightarrow> policy_ok G p)"

definition message_ok :: "go_env \<Rightarrow> Message \<Rightarrow> bool" where
  "message_ok G m \<longleftrightarrow> utf8_ok (Message_MessageType m) \<and> int64 (Message_ContentSize m) \<and> utf8_ok (Message_ContentType m) \<and>
     metadata_ok G (Message_Metadata m) \<and> utf8_ok (Message_DeliveryGuarantee m) \<and> utf8_ok (Message_Status m) \<and>
     (case Message_TaskContext m of None \<Rightarrow> True | Some t \<Rightarrow> task_ok G t) \<and> utf8_ok (Message_TraceID m)"

definition norm_filter :: "SubscriptionFilter \<Rightarrow> SubscriptionFilter" where
  "norm_filter f = f\<lparr>Filter_AgentIDs := norm_slice (Filter_AgentIDs f),
     Filter_CapabilityTypes := norm_slice (Filter_CapabilityTypes f), Filter_Topics := norm_slice (Filter_Topics f),
     Filter_MessageTypes := norm_slice (Filter_MessageTypes f)\<rparr>"

definition filter_ok :: "SubscriptionFilter \<Rightarrow> bool" where
  "filter_ok f \<longleftrightarrow> list_all utf8_ok (elems (Filter_CapabilityTypes f)) \<and> list_all utf8_ok (elems (Filter_Topics f)) \<and>
     list_all utf8_ok (elems (Filter_MessageTypes f)) \<and> sorted_keys (Filter_Tags f) \<and>
     list_all (\<lambda>kv. utf8_ok (fst kv) \<and> utf8_ok (snd kv)) (Filter_Tags f)"

definition subscription_ok :: "Subscription \<Rightarrow> bool" where
  "subscription_ok x \<longleftrightarrow> utf8_ok (Sub_Type x) \<and> filter_ok (Sub_Filter x) \<and> utf8_ok (Sub_Status x) \<and> int64 (Sub_CreatedAt x)"

lemmas value_ok_defs = hints_ok_def metadata_ok_def policy_ok_def task_ok_def message_ok_def
lemmas norm_defs = norm_slice_def norm_hints_def norm_metadata_def norm_task_def norm_message_def

section \<open>The contract of an environment\<close>

text \<open>The field names of each struct differ, also when case is ignored.\<close>

definition RoutingHints_names :: "string list" where
  "RoutingHints_names = [''preferredAgents'', ''excludedAgents'', ''maxHops'', ''priceLimit'']"

definition MessageMetadata_names :: "string list" where
  "MessageMetadata_names = [''tags'', ''correlationId'', ''replyTo'', ''routingHints'', ''compression'', ''encoding'', ''custom'']"

definition RetryPolicy_names :: "string list" where
  "RetryPolicy_names = [''maxAttempts'', ''initialDelayMs'', ''maxDelayMs'', ''backoffMultiplier'']"

definition TaskContext_names :: "string list" where
  "TaskContext_names = [''taskId'', ''parentTaskId'', ''rootTaskId'', ''priority'', ''deadline'', ''dependencies'', ''blocking'', ''retryPolicy'', ''retryCount'']"

definition Message_names :: "string list" where
  "Message_names = [''id'', ''conversationId'', ''messageType'', ''senderId'', ''recipientIds'', ''content'', ''contentSize'', ''contentType'', ''metadata'', ''deliveryGuarantee'', ''status'', ''taskContext'', ''traceId'', ''tenantId'', ''createdAt'', ''expiresAt'', ''processedAt'']"

definition SubscriptionFilter_names :: "string list" where
  "SubscriptionFilter_names = [''agentIds'', ''capabilityTypes'', ''topics'', ''messageTypes'', ''tags'']"

definition Subscription_names :: "string list" where
  "Subscription_names = [''id'', ''agentId'', ''tenantId'', ''type'', ''filter'', ''status'', ''createdAt'']"

lemma field_names:
  "map fst (RoutingHints_fields G) = RoutingHints_names"
  "map fst (MessageMetadata_fields G) = MessageMetadata_names"
  "map fst (RetryPolicy_fields G) = RetryPolicy_names"
  "map fst (TaskContext_fields G) = TaskContext_names"
  "map fst (Message_fields G) = Message_names"
  "map fst (SubscriptionFilter_fields G) = SubscriptionFilter_names"
  "map fst (Subscription_fields G) = Subscription_names"
  by (simp_all add: RoutingHints_fields_def RoutingHints_names_def MessageMetadata_fields_def MessageMetadata_names_def RetryPolicy_fields_def RetryPolicy_names_def TaskContext_fields_def TaskContext_names_def Message_fields_def Message_names_def SubscriptionFilter_fields_def SubscriptionFilter_names_def Subscription_fields_def Subscription_names_def)

lemma names_distinct:
  "distinct (map key_fold RoutingHints_names)" "list_all (\<lambda>k. fold_specials k = k) RoutingHints_names"
  "distinct (map key_fold MessageMetadata_names)" "list_all (\<lambda>k. fold_specials k = k) MessageMetadata_names"
  "distinct (map key_fold RetryPolicy_names)" "list_all (\<lambda>k. fold_specials k = k) RetryPolicy_names"
  "distinct (map key_fold TaskContext_names)" "list_all (\<lambda>k. fold_specials k = k) TaskContext_names"
  "distinct (map key_fold Message_names)" "list_all (\<lambda>k. fold_specials k = k) Message_names"
  "distinct (map key_fold SubscriptionFilter_names)" "list_all (\<lambda>k. fold_specials k = k) SubscriptionFilter_names"
  "distinct (map key_fold Subscription_names)" "list_all (\<lambda>k. fold_specials k = k) Subscription_names"
  unfolding RoutingHints_names_def MessageMetadata_names_def RetryPolicy_names_def TaskContext_names_def
    Message_names_def SubscriptionFilter_names_def Subscription_names_def
  by (simp_all add: key_fold_def byte_def chr_def)

lemma find_field_named:
  assumes "map fst fs = names" "distinct (map key_fold names)" "list_all (\<lambda>k. fold_specials k = k) names"
  shows "k \<in> set names \<Longrightarrow> find_field fs k = map_of fs k"
  by (rule find_field_map_of) (use assms in \<open>auto simp: list_all_iff\<close>)

lemmas find_fields =
  find_field_named [OF field_names(1) names_distinct(1,2)]
  find_field_named [OF field_names(2) names_distinct(3,4)]
  find_field_named [OF field_names(3) names_distinct(5,6)]
  find_field_named [OF field_names(4) names_distinct(7,8)]
  find_field_named [OF field_names(5) names_distinct(9,10)]
  find_field_named [OF field_names(6) names_distinct(11,12)]
  find_field_named [OF field_names(7) names_distinct(13,14)]

text \<open>The decoder each field name selects.\<close>

lemma RoutingHints_find:
  "find_field (RoutingHints_fields G) ''preferredAgents'' = Some (field Hints_PreferredAgents Hints_PreferredAgents_update (dec_slice dec_string []))"
  "find_field (RoutingHints_fields G) ''excludedAgents'' = Some (field Hints_ExcludedAgents Hints_ExcludedAgents_update (dec_slice dec_string []))"
  "find_field (RoutingHints_fields G) ''maxHops'' = Some (field Hints_MaxHops Hints_MaxHops_update dec_int)"
  "find_field (RoutingHints_fields G) ''priceLimit'' = Some (field Hints_PriceLimit Hints_PriceLimit_update (dec_float G))"
  by (simp_all add: find_fields(1) RoutingHints_names_def) (simp_all add: RoutingHints_fields_def)

lemma MessageMetadata_find:
  "find_field (MessageMetadata_fields G) ''tags'' = Some (field Meta_Tags Meta_Tags_update (dec_map (\<lambda>j. dec_string j [])))"
  "find_field (MessageMetadata_fields G) ''correlationId'' = Some (field Meta_CorrelationID Meta_CorrelationID_update dec_string)"
  "find_field (MessageMetadata_fields G) ''replyTo'' = Some (field Meta_ReplyTo Meta_ReplyTo_update (dec_ptr (dec_uuid G) uuid_Nil))"
  "find_field (MessageMetadata_fields G) ''routingHints'' = Some (field Meta_RoutingHints Meta_RoutingHints_update (dec_ptr (RoutingHints_of_json G) zero_RoutingHints))"
  "find_field (MessageMetadata_fields G) ''compression'' = Some (field Meta_Compression Meta_Compression_update dec_string)"
  "find_field (MessageMetadata_fields G) ''encoding'' = Some (field Meta_Encoding Meta_Encoding_update dec_string)"
  "find_field (MessageMetadata_fields G) ''custom'' = Some (field Meta_Custom Meta_Custom_update (dec_map (any_of_json G)))"
  by (simp_all add: find_fields(2) MessageMetadata_names_def) (simp_all add: MessageMetadata_fields_def)

lemma RetryPolicy_find:
  "find_field (RetryPolicy_fields G) ''maxAttempts'' = Some (field Retry_MaxAttempts Retry_MaxAttempts_update dec_int)"
  "find_field (RetryPolicy_fields G) ''initialDelayMs'' = Some (field Retry_InitialDelayMs Retry_InitialDelayMs_update dec_int)"
  "find_field (RetryPolicy_fields G) ''maxDelayMs'' = Some (field Retry_MaxDelayMs Retry_MaxDelayMs_update dec_int)"
  "find_field (RetryPolicy_fields G) ''backoffMultiplier'' = Some (field Retry_BackoffMultiplier Retry_BackoffMultiplier_update (dec_float G))"
  by (simp_all add: find_fields(3) RetryPolicy_names_def) (simp_all add: RetryPolicy_fields_def)

lemma TaskContext_find:
  "find_field (TaskContext_fields G) ''taskId'' = Some (field Task_TaskID Task_TaskID_update (dec_uuid G))"
  "find_field (TaskContext_fields G) ''parentTaskId'' = Some (field Task_ParentTaskID Task_ParentTaskID_update (dec_ptr (dec_uuid G) uuid_Nil))"
  "find_field (TaskContext_fields G) ''rootTaskId'' = Some (field Task_RootTaskID Task_RootTaskID_update (dec_ptr (dec_uuid G) uuid_Nil))"
  "find_field (TaskContext_fields G) ''priority'' = Some (field Task_Priority Task_Priority_update dec_int)"
  "find_field (TaskContext_fields G) ''deadline'' = Some (field Task_Deadline Task_Deadline_update (dec_ptr (dec_time G) 0))"
  "find_field (TaskContext_fields G) ''dependencies'' = Some (field Task_Dependencies Task_Dependencies_update (dec_slice (dec_uuid G) uuid_Nil))"
  "find_field (TaskContext_fields G) ''blocking'' = Some (field Task_Blocking Task_Blocking_update dec_bool)"
  "find_field (TaskContext_fields G) ''retryPolicy'' = Some (field Task_RetryPolicy Task_RetryPolicy_update (dec_ptr (RetryPolicy_of_json G) zero_RetryPolicy))"
  "find_field (TaskContext_fields G) ''retryCount'' = Some (field Task_RetryCount Task_RetryCount_update dec_int)"
  by (simp_all add: find_fields(4) TaskContext_names_def) (simp_all add: TaskContext_fields_def)

lemma Message_find:
  "find_field (Message_fields G) ''id'' = Some (field Message_ID Message_ID_update (dec_uuid G))"
  "find_field (Message_fields G) ''conversationId'' = Some (field Message_ConversationID Message_ConversationID_update (dec_uuid G))"
  "find_field (Message_fields G) ''messageType'' = Some (field Message_MessageType Message_MessageType_update dec_string)"
  "find_field (Message_fields G) ''senderId'' = Some (field Message_SenderID Message_SenderID_update (dec_uuid G))"
  "find_field (Message_fields G) ''recipientIds'' = Some (field Message_RecipientIDs Message_RecipientIDs_update (dec_slice (dec_uuid G) uuid_Nil))"
  "find_field (Message_fields G) ''content'' = Some (field Message_Content Message_Content_update dec_bytes)"
  "find_field (Message_fields G) ''contentSize'' = Some (field Message_ContentSize Message_ContentSize_update dec_int)"
  "find_field (Message_fields G) ''contentType'' = Some (field Message_ContentType Message_ContentType_update dec_string)"
  "find_field (Message_fields G) ''metadata'' = Some (field Message_Metadata Message_Metadata_update (MessageMetadata_of_json G))"
  "find_field (Message_fields G) ''deliveryGuarantee'' = Some (field Message_DeliveryGuarantee Message_DeliveryGuarantee_update dec_string)"
  "find_field (Message_fields G) ''status'' = Some (field Message_Status Message_Status_update dec_string)"
  "find_field (Message_fields G) ''taskContext'' = Some (field Message_TaskContext Message_TaskContext_update (dec_ptr (TaskContext_of_json G) zero_TaskContext))"
  "find_field (Message_fields G) ''traceId'' = Some (field Message_TraceID Message_TraceID_update dec_string)"
  "find_field (Message_fields G) ''tenantId'' = Some (field Message_TenantID Message_TenantID_update (dec_uuid G))"
  "find_field (Message_fields G) ''createdAt'' = Some (field Message_CreatedAt Message_CreatedAt_update (dec_time G))"
  "find_field (Message_fields G) ''expiresAt'' = Some (field Message_ExpiresAt Message_ExpiresAt_update (dec_ptr (dec_time G) 0))"
  "find_field (Message_fields G) ''processedAt'' = Some (field Message_ProcessedAt Message_ProcessedAt_update (dec_ptr (dec_time G) 0))"
  by (simp_all add: find_fields(5) Message_names_def) (simp_all add: Message_fields_def)

lemma SubscriptionFilter_find:
  "find_field (SubscriptionFilter_fields G) ''agentIds'' = Some (field Filter_AgentIDs Filter_AgentIDs_update (dec_slice (dec_uuid G) uuid_Nil))"
  "find_field (SubscriptionFilter_fields G) ''capabilityTypes'' = Some (field Filter_CapabilityTypes Filter_CapabilityTypes_update (dec_slice dec_string []))"
  "find_field (SubscriptionFilter_fields G) ''topics'' = Some (field Filter_Topics Filter_Topics_update (dec_slice dec_string []))"
  "find_field (SubscriptionFilter_fields G) ''messageTypes'' = Some (field Filter_MessageTypes Filter_MessageTypes_update (dec_slice dec_string []))"
  "find_field (SubscriptionFilter_fields G) ''tags'' = Some (field Filter_Tags Filter_Tags_update (dec_map (\<lambda>j. dec_string j [])))"
  by (simp_all add: find_fields(6) SubscriptionFilter_names_def) (simp_all add: SubscriptionFilter_fields_def)

lemma Subscription_find:
  "find_field (Subscription_fields G) ''id'' = Some (field Sub_ID Sub_ID_update (dec_uuid G))"
  "find_field (Subscription_fields G) ''agentId'' = Some (field Sub_AgentID Sub_AgentID_update (dec_uuid G))"
  "find_field (Subscription_fields G) ''tenantId'' = Some (field Sub_TenantID Sub_TenantID_update (dec_uuid G))"
  "find_field (Subscription_fields G) ''type'' = Some (field Sub_Type Sub_Type_update dec_string)"
  "find_field (Subscription_fields G) ''filter'' = Some (field Sub_Filter Sub_Filter_update (SubscriptionFilter_of_json G))"
  "find_field (Subscription_fields G) ''status'' = Some (field Sub_Status Sub_Status_update dec_string)"
  "find_field (Subscription_fields G) ''createdAt'' = Some (field Sub_CreatedAt Sub_CreatedAt_update dec_int)"
  by (simp_all add: find_fields(7) Subscription_names_def) (simp_all add: Subscription_fields_def)

text \<open>Well-formedness and nesting of objects built from pieces.\<close>

definition members_ok :: "nat \<Rightarrow> (string \<times> json) list \<Rightarrow> bool" where
  "members_ok n kvs \<longleftrightarrow> list_all (\<lambda>(k, x). utf8_ok k \<and> json_wf x \<and> json_depth x \<le> n) kvs"

definition value_ok :: "nat \<Rightarrow> json \<Rightarrow> bool" where
  "value_ok n j \<longleftrightarrow> json_wf j \<and> json_depth j \<le> n"

lemma value_ok_obj: "value_ok (Suc n) (JObj kvs) \<longleftrightarrow> members_ok n kvs"
  by (auto simp: value_ok_def members_ok_def list_all_iff)

lemma value_ok_mono: "value_ok n j \<Longrightarrow> n \<le> m \<Longrightarrow> value_ok m j"
  by (simp add: value_ok_def)

lemma members_ok_simps [simp]:
  "members_ok n []"
  "members_ok n ((k, j) # kvs) \<longleftrightarrow> utf8_ok k \<and> value_ok n j \<and> members_ok n kvs"
  "members_ok n (kvs @ kvs') \<longleftrightarrow> members_ok n kvs \<and> members_ok n kvs'"
  "members_ok n (omit_if b k j) \<longleftrightarrow> b \<or> utf8_ok k \<and> value_ok n j"
  "members_ok n (omit_nil k e p) \<longleftrightarrow> (case p of None \<Rightarrow> True | Some x \<Rightarrow> utf8_ok k \<and> value_ok n (e x))"
  by (auto simp: members_ok_def value_ok_def omit_if_def omit_nil_def split: option.split)

lemma value_ok_flat [simp]:
  "value_ok n (JStr s) \<longleftrightarrow> utf8_ok s" "value_ok n (JNum l) \<longleftrightarrow> num_ok l" "value_ok n (enc_int i)" "value_ok n (JBool b)"
  "value_ok n (enc_bytes bs)"
  using StdEncoding_ascii
  by (auto simp: value_ok_def enc_int_def num_ok_Itoa enc_bytes_def intro: utf8_ok_ascii split: option.split)

lemma value_ok_slice: "(\<And>x. x \<in> set (elems s) \<Longrightarrow> value_ok n (e x)) \<Longrightarrow> value_ok (Suc n) (enc_slice e s)"
  by (auto simp: value_ok_def enc_slice_def list_all_iff split: option.split)

lemma value_ok_strings: "list_all utf8_ok (elems s) \<Longrightarrow> value_ok (Suc n) (enc_slice JStr s)"
  by (rule value_ok_slice) (simp add: list_all_iff)

lemma members_ok_map: "(\<And>k x. (k, x) \<in> set m \<Longrightarrow> utf8_ok k \<and> value_ok n (e x)) \<Longrightarrow>
    members_ok n (map (\<lambda>(k, x). (k, e x)) m)"
  by (auto simp: members_ok_def value_ok_def list_all_iff)

lemma value_ok_parse: "value_ok 10000 j \<Longrightarrow> json_parse (json_text j) = Some j"
  by (rule json_roundtrip) (simp_all add: value_ok_def max_nesting_def)

lemma names_utf8: "list_all utf8_ok (RoutingHints_names @ MessageMetadata_names @ RetryPolicy_names @ TaskContext_names @
    Message_names @ SubscriptionFilter_names @ Subscription_names @ [''message'', ''reason'', ''time''])"
  unfolding RoutingHints_names_def MessageMetadata_names_def RetryPolicy_names_def TaskContext_names_def
    Message_names_def SubscriptionFilter_names_def Subscription_names_def list_all_append list.pred_inject append_Cons append_Nil
  by (intro conjI utf8_ok_ascii TrueI) (simp_all add: is_ascii_def byte_def)

lemmas literal_utf8 [simp] = names_utf8 [unfolded RoutingHints_names_def MessageMetadata_names_def RetryPolicy_names_def
    TaskContext_names_def Message_names_def SubscriptionFilter_names_def Subscription_names_def, simplified]

locale codec = uuid_text "uuid_String G" "uuid_Parse G" for G :: go_env +
  assumes time_parse: "time_Text G t = Some s \<Longrightarrow> time_Parse G s = Some t"
    and time_utf8: "time_Text G t = Some s \<Longrightarrow> utf8_ok s"
begin

lemma dec_enc_uuid [simp]: "dec_uuid G (enc_uuid G u) x = Some u"
  by (simp add: dec_uuid_def enc_uuid_def parse_text)

lemma dec_enc_time: "enc_time G t = Some j \<Longrightarrow> dec_time G j x = Some t"
  by (auto simp: enc_time_def dec_time_def time_parse)

lemma enc_not_null [simp]: "enc_uuid G u \<noteq> JNull" "enc_time G t = Some j \<Longrightarrow> j \<noteq> JNull"
  by (auto simp: enc_uuid_def enc_time_def)

lemma dec_members_time:
  assumes "enc_time_opt G k p = Some ps" "find_field fs k = Some (field get upd (dec_ptr (dec_time G) 0))"
    and "get r = None" "upd (\<lambda>_. None) r = r"
  shows "dec_members fs ps r = Some (upd (\<lambda>_. p) r)"
  using assms by (auto simp: enc_time_opt_def field_def dec_enc_time split: option.splits)

lemma hints_roundtrip:
  "hints_ok G h \<Longrightarrow> RoutingHints_of_json G (RoutingHints_json h) zero_RoutingHints = Some (norm_hints h)"
  by (cases h)
    (auto simp: RoutingHints_of_json_def RoutingHints_json_def dec_struct_def dec_members_append dec_members_omit
      RoutingHints_find zero_RoutingHints_def dec_enc_slice norm_hints_def norm_slice_def norm_float_def pick_def hints_ok_def)

lemma dec_string_map:
  "sorted_keys m \<Longrightarrow> dec_map (\<lambda>j. dec_string j []) (JObj (map (\<lambda>(k, v). (k, JStr v)) m)) [] = Some m"
  by (rule dec_map_object) simp_all

lemma dec_any_map:
  assumes "sorted_keys m" "list_all (custom_ok G) m"
  shows "dec_map (any_of_json G) (JObj m) [] = Some m"
proof -
  have "any_of_json G (id v) = Some v" if "(k, v) \<in> set m" for k v
    using assms(2) that by (auto simp: list_all_iff custom_ok_def)
  then have "dec_map (any_of_json G) (JObj (map (\<lambda>(k, v). (k, id v)) m)) [] = Some m"
    by (rule dec_map_object [OF assms(1)])
  then show ?thesis by (simp add: case_prod_unfold)
qed

lemma objects_not_null [simp]: "RoutingHints_json h \<noteq> JNull" "RetryPolicy_json p \<noteq> JNull"
  by (simp_all add: RoutingHints_json_def RetryPolicy_json_def)

lemma metadata_roundtrip:
  "metadata_ok G m \<Longrightarrow> MessageMetadata_of_json G (MessageMetadata_json G m) zero_MessageMetadata = Some (norm_metadata m)"
  by (cases m, cases "Meta_RoutingHints m")
    (simp_all add: MessageMetadata_of_json_def MessageMetadata_json_def dec_struct_def dec_members_append dec_members_omit
      dec_members_ptr MessageMetadata_find zero_MessageMetadata_def dec_string_map dec_any_map hints_roundtrip
      norm_metadata_def metadata_ok_def field_def option.map_ident)

lemma policy_roundtrip:
  "policy_ok G p \<Longrightarrow> RetryPolicy_of_json G (RetryPolicy_json p) zero_RetryPolicy = Some p"
  by (cases p)
    (simp add: RetryPolicy_of_json_def RetryPolicy_json_def dec_struct_def field_def RetryPolicy_find
      zero_RetryPolicy_def policy_ok_def)

lemmas dec_members_deadline = dec_members_time [OF _ TaskContext_find(5)]
lemmas dec_members_expires = dec_members_time [OF _ Message_find(16)]
lemmas dec_members_processed = dec_members_time [OF _ Message_find(17)]

lemma task_roundtrip:
  assumes ok: "task_ok G t" and j: "TaskContext_json G t = Some j"
  shows "TaskContext_of_json G j zero_TaskContext = Some (norm_task t)"
proof -
  obtain ps where ps: "enc_time_opt G ''deadline'' (Task_Deadline t) = Some ps"
    using j by (auto simp: TaskContext_json_def split: option.splits)
  have deadline: "dec_members (TaskContext_fields G) ps r = Some (r\<lparr>Task_Deadline := Task_Deadline t\<rparr>)"
    if "Task_Deadline r = None" for r
    by (rule dec_members_deadline [OF ps]) (use that in \<open>cases r; simp\<close>)+
  have policy: "Task_RetryPolicy t = Some p \<Longrightarrow> RetryPolicy_of_json G (RetryPolicy_json p) zero_RetryPolicy = Some p" for p
    using ok policy_roundtrip by (simp add: task_ok_def)
  show ?thesis
    using ok j ps
    by (cases "Task_RetryPolicy t")
      (auto simp: TaskContext_of_json_def TaskContext_json_def dec_struct_def dec_members_append dec_members_omit
        dec_members_ptr field_def TaskContext_find zero_TaskContext_def dec_enc_slice norm_task_def norm_slice_def
        pick_def task_ok_def option.map_ident policy deadline intro!: TaskContext.equality)
qed

lemma message_json_roundtrip:
  assumes ok: "message_ok G m" and j: "Message_json G m = Some j"
  shows "Message_of_json G j zero_Message = Some (norm_message m)"
proof -
  obtain tk cr ex pr where
      tk: "enc_ptr_opt ''taskContext'' (TaskContext_json G) (Message_TaskContext m) = Some tk"
    and cr: "enc_time G (Message_CreatedAt m) = Some cr"
    and ex: "enc_time_opt G ''expiresAt'' (Message_ExpiresAt m) = Some ex"
    and pr: "enc_time_opt G ''processedAt'' (Message_ProcessedAt m) = Some pr"
    using j by (auto simp: Message_json_def split: option.splits)
  have expires: "dec_members (Message_fields G) ex r = Some (r\<lparr>Message_ExpiresAt := Message_ExpiresAt m\<rparr>)"
    if "Message_ExpiresAt r = None" for r
    by (rule dec_members_expires [OF ex]) (use that in \<open>cases r; simp\<close>)+
  have processed: "dec_members (Message_fields G) pr r = Some (r\<lparr>Message_ProcessedAt := Message_ProcessedAt m\<rparr>)"
    if "Message_ProcessedAt r = None" for r
    by (rule dec_members_processed [OF pr]) (use that in \<open>cases r; simp\<close>)+
  have created: "dec_time G cr x = Some (Message_CreatedAt m)" for x
    by (rule dec_enc_time [OF cr])
  have task: "dec_members (Message_fields G) tk r =
      Some (r\<lparr>Message_TaskContext := map_option norm_task (Message_TaskContext m)\<rparr>)"
    if "Message_TaskContext r = None" for r
  proof (cases "Message_TaskContext m")
    case None
    then show ?thesis using tk that by (cases r) (simp add: enc_ptr_opt_def)
  next
    case (Some t)
    then obtain jt where jt: "TaskContext_json G t = Some jt" "tk = [(''taskContext'', jt)]"
      using tk by (auto simp: enc_ptr_opt_def)
    moreover have "task_ok G t" using ok Some by (simp add: message_ok_def)
    moreover have "jt \<noteq> JNull" using jt(1) by (auto simp: TaskContext_json_def split: option.splits)
    ultimately show ?thesis using that Some task_roundtrip [of t jt]
      by (simp add: Message_find field_def)
  qed
  have meta: "MessageMetadata_of_json G (MessageMetadata_json G (Message_Metadata m)) zero_MessageMetadata =
      Some (norm_metadata (Message_Metadata m))"
    using ok by (intro metadata_roundtrip) (simp add: message_ok_def)
  have j: "j = JObj
          ([(''id'', enc_uuid G (Message_ID m)),
            (''conversationId'', enc_uuid G (Message_ConversationID m)),
            (''messageType'', JStr (Message_MessageType m)),
            (''senderId'', enc_uuid G (Message_SenderID m)),
            (''recipientIds'', enc_slice (enc_uuid G) (Message_RecipientIDs m)),
            (''content'', enc_bytes (Message_Content m)),
            (''contentSize'', enc_int (Message_ContentSize m)),
            (''contentType'', JStr (Message_ContentType m)),
            (''metadata'', MessageMetadata_json G (Message_Metadata m)),
            (''deliveryGuarantee'', JStr (Message_DeliveryGuarantee m)),
            (''status'', JStr (Message_Status m))] @
           tk @
           [(''traceId'', JStr (Message_TraceID m)),
            (''tenantId'', enc_uuid G (Message_TenantID m)),
            (''createdAt'', cr)] @
           ex @ pr)"
    using j tk cr ex pr by (simp add: Message_json_def)
  have "int64 (Message_ContentSize m)" using ok by (simp add: message_ok_def)
  then show ?thesis
    unfolding j
    by (auto simp: Message_of_json_def dec_struct_def dec_members_append field_def Message_find zero_Message_def
        dec_enc_slice norm_message_def meta task created expires processed intro!: Message.equality)
qed

section \<open>Texts\<close>

lemma value_ok_env [simp]: "value_ok n (enc_uuid G u)" "enc_time G t = Some j \<Longrightarrow> value_ok n j"
  by (auto simp: enc_uuid_def text_utf8 enc_time_def time_utf8)

lemma value_ok_uuids [simp]: "value_ok (Suc n) (enc_slice (enc_uuid G) us)"
  by (rule value_ok_slice) simp

lemma members_ok_time: "enc_time_opt G k p = Some ps \<Longrightarrow> utf8_ok k \<Longrightarrow> members_ok n ps"
  by (auto simp: enc_time_opt_def split: option.splits)

lemma hints_value: "hints_ok G h \<Longrightarrow> value_ok (Suc (Suc n)) (RoutingHints_json h)"
  by (simp add: RoutingHints_json_def value_ok_obj hints_ok_def value_ok_strings float_ok_def)

lemma metadata_value:
  assumes "metadata_ok G m"
  shows "value_ok 9002 (MessageMetadata_json G m)"
proof -
  have tags: "value_ok 9001 (JObj (map (\<lambda>(k, v). (k, JStr v)) (Meta_Tags m)))"
    using members_ok_map [of "Meta_Tags m" 9000 JStr] assms value_ok_obj [of 9000]
    by (fastforce simp: metadata_ok_def list_all_iff)
  have custom: "value_ok 9001 (JObj (Meta_Custom m))"
    using assms value_ok_obj [of 9000]
    by (simp add: metadata_ok_def list_all_iff custom_ok_def members_ok_def case_prod_unfold)
  have hints: "case Meta_RoutingHints m of None \<Rightarrow> True | Some h \<Rightarrow> value_ok 9001 (RoutingHints_json h)"
    using assms hints_value [of _ 8999] by (simp add: metadata_ok_def split: option.splits)
  show ?thesis
    using assms tags custom hints value_ok_obj [of 9001]
    by (simp add: MessageMetadata_json_def metadata_ok_def split: option.splits)
qed

lemma task_value:
  "task_ok G t \<Longrightarrow> TaskContext_json G t = Some j \<Longrightarrow> value_ok (Suc (Suc n)) j"
  by (auto simp: TaskContext_json_def value_ok_obj RetryPolicy_json_def task_ok_def policy_ok_def float_ok_def
      members_ok_time split: option.splits)

lemma message_value:
  assumes "message_ok G m" "Message_json G m = Some j"
  shows "value_ok 9003 j"
  using assms metadata_value [of "Message_Metadata m"] value_ok_obj [of 9002] task_value [of _ _ 9000]
    value_ok_uuids [of 9001]
  by (auto simp: Message_json_def message_ok_def enc_ptr_opt_def members_ok_time split: option.splits)

text \<open>What the message service queues is what the engine's worker reads.\<close>

lemma message_roundtrip:
  assumes "message_ok G m" "Marshal_Message G m = Inr s"
  shows "Unmarshal_Message G s = Inr (norm_message m)"
proof -
  obtain j where j: "Message_json G m = Some j" "s = json_text j"
    using assms(2) by (auto simp: Marshal_Message_def split: option.splits)
  have "value_ok 10000 j" using message_value [OF assms(1) j(1)] by (rule value_ok_mono) simp
  then show ?thesis
    using message_json_roundtrip [OF assms(1) j(1)] j(2) by (simp add: Unmarshal_Message_def value_ok_parse)
qed

text \<open>A dead letter payload keeps the message.\<close>

lemma envelope_roundtrip:
  assumes "message_ok G m" "utf8_ok reason" "Marshal_Envelope G m reason t \<noteq> []"
  shows "Unmarshal_Envelope G (Marshal_Envelope G m reason t) = Inr (Some (norm_message m))"
proof -
  obtain jm jt where jm: "Message_json G m = Some jm" and jt: "enc_time G t = Some jt"
    using assms(3) by (auto simp: Marshal_Envelope_def split: option.splits)
  let ?j = "JObj [(''message'', jm), (''reason'', JStr reason), (''time'', jt)]"
  have v: "value_ok 9004 ?j"
    using value_ok_obj [of 9003 "[(''message'', jm), (''reason'', JStr reason), (''time'', jt)]"]
      message_value [OF assms(1) jm] assms(2) jt by simp
  have "value_ok 10000 ?j" by (rule value_ok_mono [OF v]) simp
  then have p: "json_parse (json_text ?j) = Some ?j" by (rule value_ok_parse)
  have "jm \<noteq> JNull" using jm by (auto simp: Message_json_def split: option.splits)
  then have "dec_struct [(''message'', dec_ptr (Message_of_json G) zero_Message)] ?j None = Some (Some (norm_message m))"
    using message_json_roundtrip [OF assms(1) jm]
    by (simp add: dec_struct_def key_matches_def key_fold_def byte_def chr_def)
  with p jm jt show ?thesis by (simp add: Unmarshal_Envelope_def Marshal_Envelope_def)
qed

text \<open>The recipient column.\<close>

lemma unmarshal_recipients: "Unmarshal_Recipients G (Marshal_Recipients G rs) cur = Some rs"
proof -
  have "value_ok 10000 (enc_slice (enc_uuid G) rs)" using value_ok_uuids [of 9999] by simp
  then show ?thesis by (simp add: Marshal_Recipients_def Unmarshal_Recipients_def value_ok_parse dec_enc_slice)
qed

lemma marshal_recipients_ne [simp]: "Marshal_Recipients G rs \<noteq> []"
  by (cases rs) (simp_all add: Marshal_Recipients_def enc_slice_def)

lemma recipients_roundtrip:
  "ScanRecipients G (fst (SetRecipients G m)) =
     ((fst (SetRecipients G m))\<lparr>Message_RecipientIDs := (if elems (Message_RecipientIDs m) = [] then Some []
        else Message_RecipientIDs m)\<rparr>, Inr ())"
proof (cases "elems (Message_RecipientIDs m) = []")
  case True
  have "json_parse ''[]'' = Some (JArr [])" by code_simp
  with True show ?thesis
    by (simp add: SetRecipients_def ScanRecipients_def Unmarshal_Recipients_def dec_slice_def)
next
  case False
  then show ?thesis by (simp add: SetRecipients_def ScanRecipients_def unmarshal_recipients)
qed

text \<open>Subscriptions, kept in Redis as text.\<close>

lemma filter_roundtrip:
  "filter_ok f \<Longrightarrow> SubscriptionFilter_of_json G (SubscriptionFilter_json G f) zero_SubscriptionFilter = Some (norm_filter f)"
  by (cases f)
    (auto simp: SubscriptionFilter_of_json_def SubscriptionFilter_json_def dec_struct_def dec_members_append dec_members_omit
      SubscriptionFilter_find zero_SubscriptionFilter_def dec_enc_slice dec_string_map norm_filter_def norm_slice_def pick_def
      filter_ok_def)

lemma subscription_json_roundtrip:
  "subscription_ok x \<Longrightarrow> Subscription_of_json G (Subscription_json G x) zero_Subscription =
     Some (x\<lparr>Sub_Filter := norm_filter (Sub_Filter x)\<rparr>)"
  by (cases x)
    (simp add: Subscription_of_json_def Subscription_json_def dec_struct_def field_def Subscription_find
      zero_Subscription_def filter_roundtrip subscription_ok_def)

lemma filter_value:
  assumes "filter_ok f"
  shows "value_ok (Suc (Suc (Suc n))) (SubscriptionFilter_json G f)"
proof -
  have "value_ok (Suc (Suc n)) (JObj (map (\<lambda>(k, v). (k, JStr v)) (Filter_Tags f)))"
    unfolding value_ok_obj using assms by (intro members_ok_map) (auto simp: filter_ok_def list_all_iff)
  then show ?thesis
    using assms by (simp add: SubscriptionFilter_json_def filter_ok_def value_ok_obj value_ok_strings)
qed

lemma subscription_roundtrip:
  assumes "subscription_ok x"
  shows "Unmarshal_Subscription G (Marshal_Subscription G x) = Inr (x\<lparr>Sub_Filter := norm_filter (Sub_Filter x)\<rparr>)"
proof -
  have "value_ok (Suc (Suc (Suc (Suc 0)))) (Subscription_json G x)"
    using assms filter_value [of "Sub_Filter x"] by (simp add: Subscription_json_def subscription_ok_def value_ok_obj)
  then have "value_ok 10000 (Subscription_json G x)" by (rule value_ok_mono) simp
  then show ?thesis
    by (simp add: Unmarshal_Subscription_def Marshal_Subscription_def value_ok_parse subscription_json_roundtrip [OF assms])
qed

end

end
