(* ===== verification/Go_Time.thy ===== *)
theory Go_Time
  imports Model_Roundtrip
begin

text \<open>
  RFC 3339 with nanoseconds as \<open>Time.MarshalJSON\<close> writes it and \<open>Time.UnmarshalJSON\<close> reads it,
  for the zone UTC and the years 1 to 9999: the reference for the time functions of an
  environment. Days are counted from January 1 of year 1 in the Gregorian calendar.
\<close>

section \<open>The calendar\<close>

definition leap :: "nat \<Rightarrow> bool" where
  "leap y \<longleftrightarrow> y mod 4 = 0 \<and> (y mod 100 \<noteq> 0 \<or> y mod 400 = 0)"

definition year_days :: "nat \<Rightarrow> nat" where
  "year_days y = (if leap y then 366 else 365)"

definition month_days :: "nat \<Rightarrow> nat list" where
  "month_days y = [31, if leap y then 29 else 28, 31, 30, 31, 30, 31, 31, 30, 31, 30, 31]"

function year_of :: "nat \<Rightarrow> nat \<Rightarrow> nat \<times> nat" where
  "year_of y n = (if n < year_days y then (y, n) else year_of (Suc y) (n - year_days y))"
  by pat_completeness auto
termination
  by (relation "measure snd") (auto simp: year_days_def)

declare year_of.simps [simp del]

fun month_of :: "nat \<Rightarrow> nat list \<Rightarrow> nat \<Rightarrow> nat \<times> nat" where
  "month_of m [] d = (m, d)"
| "month_of m (l # ls) d = (if d < l then (m, d) else month_of (Suc m) ls (d - l))"

definition days_before :: "nat \<Rightarrow> nat" where
  "days_before y = sum_list (map year_days [1..<y])"

lemma year_of_days:
  "year_of y n = (y', d) \<Longrightarrow> 1 \<le> y \<Longrightarrow> days_before y' + d = days_before y + n \<and> d < year_days y' \<and> y \<le> y'"
proof (induction y n rule: year_of.induct)
  case (1 y n)
  then show ?case
    by (cases "n < year_days y") (auto simp: year_of.simps [of y n] days_before_def)
qed

lemma month_of_days:
  "d < sum_list ls \<Longrightarrow> month_of m ls d = (m', d') \<Longrightarrow>
     m \<le> m' \<and> m' < m + length ls \<and> d' < ls ! (m' - m) \<and> sum_list (take (m' - m) ls) + d' = d"
proof (induction ls arbitrary: m d)
  case (Cons l ls)
  show ?case
  proof (cases "d < l")
    case False
    with Cons.prems Cons.IH [of "d - l" "Suc m"] have
      IH: "Suc m \<le> m'" "m' < Suc m + length ls" "d' < ls ! (m' - Suc m)" "sum_list (take (m' - Suc m) ls) + d' = d - l"
      by auto
    then obtain k where k: "m' - m = Suc k" "m' - Suc m = k" by (cases "m' - m") auto
    with IH False show ?thesis by simp
  qed (use Cons.prems in auto)
qed simp

lemma sum_month_days: "sum_list (month_days y) = year_days y"
  by (simp add: month_days_def year_days_def)

lemma length_month_days: "length (month_days y) = 12"
  by (simp add: month_days_def)

section \<open>Digits\<close>

fun pad :: "nat \<Rightarrow> nat \<Rightarrow> string" where
  "pad 0 n = []"
| "pad (Suc k) n = pad k (n div 10) @ [digit_char (n mod 10)]"

lemma pad_facts [simp]: "length (pad k n) = k" "list_all is_digit (pad k n)"
  by (induction k n rule: pad.induct) simp_all

lemma digits_val_pad: "n < 10 ^ k \<Longrightarrow> digits_val (pad k n) = n"
proof (induction k n rule: pad.induct)
  case (2 k n)
  then have "n div 10 < 10 ^ k" by (simp add: less_mult_imp_div_less mult.commute)
  with 2 show ?case by simp
qed (simp add: digits_val_def)

definition eat :: "nat \<Rightarrow> string \<Rightarrow> (nat \<times> string) option" where
  "eat k s = (if k \<le> length s \<and> list_all is_digit (take k s) then Some (digits_val (take k s), drop k s) else None)"

definition lit :: "char \<Rightarrow> string \<Rightarrow> string option" where
  "lit c s = (case s of [] \<Rightarrow> None | d # r \<Rightarrow> if d = c then Some r else None)"

lemma eat_pad [simp]: "n < 10 ^ k \<Longrightarrow> eat k (pad k n @ s) = Some (n, s)"
  by (simp add: eat_def digits_val_pad)

lemma lit_Cons [simp]: "lit c (c # s) = Some s"
  by (simp add: lit_def)

section \<open>Text and parser\<close>

definition frac_text :: "nat \<Rightarrow> string" where
  "frac_text ns = (if ns = 0 then [] else CHR ''.'' # rev (dropWhile (\<lambda>c. c = CHR ''0'') (rev (pad 9 ns))))"

definition frac_parse :: "string \<Rightarrow> (nat \<times> string) option" where
  "frac_parse s =
     (if s \<noteq> [] \<and> hd s = CHR ''.'' then
        (let ds = takeWhile is_digit (tl s)
         in if ds = [] then None else Some (digits_val (take 9 (ds @ replicate 9 (CHR ''0''))), dropWhile is_digit (tl s)))
      else Some (0, s))"

definition rfc3339_Text :: "time \<Rightarrow> string option" where
  "rfc3339_Text t =
     (if t < 0 then None
      else let secs = nat t div 1000000000; (y, yd) = year_of 1 (secs div 86400); (m, d) = month_of 1 (month_days y) yd;
               sod = secs mod 86400
           in if 9999 < y then None
              else Some (pad 4 y @ CHR ''-'' # pad 2 m @ CHR ''-'' # pad 2 (Suc d) @ CHR ''T'' # pad 2 (sod div 3600) @
                         CHR '':'' # pad 2 (sod div 60 mod 60) @ CHR '':'' # pad 2 (sod mod 60) @
                         frac_text (nat t mod 1000000000) @ ''Z''))"

definition rfc3339_Parse :: "string \<Rightarrow> time option" where
  "rfc3339_Parse s = do {
     (y, s) \<leftarrow> eat 4 s; s \<leftarrow> lit (CHR ''-'') s;
     (m, s) \<leftarrow> eat 2 s; s \<leftarrow> lit (CHR ''-'') s;
     (d, s) \<leftarrow> eat 2 s; s \<leftarrow> lit (CHR ''T'') s;
     (h, s) \<leftarrow> eat 2 s; s \<leftarrow> lit (CHR '':'') s;
     (mi, s) \<leftarrow> eat 2 s; s \<leftarrow> lit (CHR '':'') s;
     (se, s) \<leftarrow> eat 2 s;
     (ns, s) \<leftarrow> frac_parse s;
     if s = ''Z'' \<and> 1 \<le> y \<and> 1 \<le> m \<and> m \<le> 12 \<and> 1 \<le> d \<and> d \<le> month_days y ! (m - 1) \<and> h < 24 \<and> mi < 60 \<and> se < 60
     then Some (int ((((days_before y + sum_list (take (m - 1) (month_days y)) + (d - 1)) * 24 + h) * 60 + mi) * 60 + se)
                * 1000000000 + int ns)
     else None
   }"

lemma strip_zeros: "\<exists>k. pad 9 n = rev (dropWhile (\<lambda>c. c = CHR ''0'') (rev (pad 9 n))) @ replicate k (CHR ''0'')"
proof -
  let ?p = "\<lambda>c. c = CHR ''0''"
  have "takeWhile ?p xs = replicate (length (takeWhile ?p xs)) (CHR ''0'')" for xs
    by (rule replicate_eqI) (auto dest: set_takeWhileD)
  then obtain k where k: "takeWhile ?p (rev (pad 9 n)) = replicate k (CHR ''0'')" by blast
  have "rev (pad 9 n) = takeWhile ?p (rev (pad 9 n)) @ dropWhile ?p (rev (pad 9 n))" by simp
  then have "pad 9 n = rev (dropWhile ?p (rev (pad 9 n))) @ replicate k (CHR ''0'')"
    unfolding k by (metis rev_append rev_replicate rev_rev_ident)
  then show ?thesis by blast
qed

lemma frac_roundtrip: "n < 1000000000 \<Longrightarrow> frac_parse (frac_text n @ ''Z'') = Some (n, ''Z'')"
proof (cases "n = 0")
  case False
  assume n: "n < 1000000000"
  define ds where "ds = rev (dropWhile (\<lambda>c. c = CHR ''0'') (rev (pad 9 n)))"
  obtain k where k: "pad 9 n = ds @ replicate k (CHR ''0'')" using strip_zeros ds_def by blast
  have z: "digits_val (replicate k (CHR ''0'')) = 0" for k
    by (induction k) (simp_all add: digits_val_def digit_val_def byte_def)
  have ne: "ds \<noteq> []"
    using k z [of k] digits_val_pad [of n 9] n False by auto
  have dig: "list_all is_digit ds" using pad_facts(2) [of 9 n] unfolding k by simp
  have len: "length ds + k = 9" using arg_cong [OF k, of length] by simp
  then have "take 9 (ds @ replicate 9 (CHR ''0'')) = ds @ replicate k (CHR ''0'')"
    by (auto simp: take_replicate min_def)
  then have "digits_val (take 9 (ds @ replicate 9 (CHR ''0''))) = n"
    using k digits_val_pad [of n 9] n by simp
  moreover have "\<not> is_digit (CHR ''Z'')" by (simp add: is_digit_def byte_def)
  then have "takeWhile is_digit (ds @ ''Z'') = ds" "dropWhile is_digit (ds @ ''Z'') = ''Z''"
    using dig by (simp_all add: takeWhile_append dropWhile_append list_all_iff)
  ultimately show ?thesis
    using ne False by (simp add: frac_parse_def frac_text_def Let_def flip: ds_def)
qed (simp add: frac_parse_def frac_text_def)

lemma rfc3339_roundtrip: "rfc3339_Text t = Some s \<Longrightarrow> rfc3339_Parse s = Some t"
proof -
  assume s: "rfc3339_Text t = Some s"
  define secs where "secs = nat t div 1000000000"
  define ns where "ns = nat t mod 1000000000"
  define sod where "sod = secs mod 86400"
  obtain y yd where y: "year_of 1 (secs div 86400) = (y, yd)" by fastforce
  obtain m d where m: "month_of 1 (month_days y) yd = (m, d)" by fastforce
  have t: "0 \<le> t" "y \<le> 9999" and s: "s = pad 4 y @ CHR ''-'' # pad 2 m @ CHR ''-'' # pad 2 (Suc d) @ CHR ''T'' #
      pad 2 (sod div 3600) @ CHR '':'' # pad 2 (sod div 60 mod 60) @ CHR '':'' # pad 2 (sod mod 60) @ frac_text ns @ ''Z''"
    using s y m by (auto simp: rfc3339_Text_def secs_def ns_def sod_def Let_def not_less split: if_splits)
  have yd: "days_before y + yd = secs div 86400" "yd < year_days y" "1 \<le> y"
    using year_of_days [OF y] by (simp_all add: days_before_def)
  have md: "1 \<le> m" "m \<le> 12" "d < month_days y ! (m - 1)" "sum_list (take (m - 1) (month_days y)) + d = yd"
    using month_of_days [OF _ m] yd(2) by (auto simp: sum_month_days length_month_days)
  have "month_days y ! (m - 1) \<in> set (month_days y)" using md(1,2) length_month_days by (intro nth_mem) simp
  moreover have "\<forall>l \<in> set (month_days y). l \<le> 31" by (simp add: month_days_def)
  ultimately have d: "d < 31" using md(3) by (meson less_le_trans)
  have sod: "sod < 86400" "((sod div 3600 * 60 + sod div 60 mod 60) * 60 + sod mod 60) = sod"
  proof -
    show "sod < 86400" by (simp add: sod_def)
    show "((sod div 3600 * 60 + sod div 60 mod 60) * 60 + sod mod 60) = sod"
      using div_mult_mod_eq [of sod 60] div_mult_mod_eq [of "sod div 60" 60] by (simp add: div_mult2_eq [of sod 60 60, simplified])
  qed
  have ns: "ns < 1000000000" by (simp add: ns_def)
  have sum: "(((days_before y + sum_list (take (m - 1) (month_days y)) + d) * 24 + sod div 3600) * 60 + sod div 60 mod 60) * 60 +
      sod mod 60 = secs"
  proof -
    have "days_before y + sum_list (take (m - 1) (month_days y)) + d = secs div 86400" using yd(1) md(4) by simp
    moreover have "secs div 86400 * 86400 + sod = secs" unfolding sod_def by simp
    ultimately show ?thesis using sod(2) by (simp add: algebra_simps)
  qed
  have "secs * 1000000000 + ns = nat t" by (simp add: secs_def ns_def)
  then have "int (secs * 1000000000 + ns) = t" using t(1) by simp
  then have "int secs * 1000000000 + int ns = t" by simp
  then show ?thesis
    unfolding s rfc3339_Parse_def
    using t(2) md d sod(1) ns sum yd(3) frac_roundtrip [OF ns]
    by (simp add: less_mult_imp_div_less)
qed

lemma pad_ascii: "list_all is_ascii (pad k n)"
  using pad_facts(2) [of k n] by (auto simp: list_all_iff is_digit_def is_ascii_def)

lemma frac_ascii: "list_all is_ascii (frac_text n)"
  using pad_ascii [of 9 n] by (auto simp: frac_text_def list_all_iff is_ascii_def byte_def dest!: set_dropWhileD)

lemma rfc3339_ascii: "rfc3339_Text t = Some s \<Longrightarrow> list_all is_ascii s"
  using pad_ascii frac_ascii
  by (auto simp: rfc3339_Text_def Let_def list_all_iff is_ascii_def byte_def split: if_splits prod.splits)

section \<open>The reference environment\<close>

text \<open>
  UUID texts of RFC 4122, times of RFC 3339 in UTC, floats that are decimal lexemes already
  in shortest form (left as they are), and no case or space rules outside ASCII.
\<close>

definition reference_env :: go_env where
  "reference_env = \<lparr>U_ToLower = id, U_TrimSpace = id, uuid_String = rfc4122_String, uuid_Parse = rfc4122_Parse,
     time_Text = rfc3339_Text, time_Parse = rfc3339_Parse, float_Round = Some\<rparr>"

interpretation reference: codec reference_env
  by unfold_locales
    (auto simp: reference_env_def rfc4122.parse_text rfc4122.text_length rfc4122.text_chars rfc3339_roundtrip
      intro: utf8_ok_ascii rfc3339_ascii)

lemma reference_time: "time_Text reference_env = rfc3339_Text"
  by (simp add: reference_env_def)

text \<open>One evaluated time, for witnesses.\<close>

lemma pad_numeral: "pad (numeral k) n = pad (pred_numeral k) (n div 10) @ [digit_char (n mod 10)]"
  by (subst numeral_eq_Suc) (rule pad.simps(2))

lemma digit_chars: "digit_char 0 = CHR ''0''" "digit_char (Suc 0) = CHR ''1''" "digit_char 2 = CHR ''2''"
  by code_simp+

lemma year_of_small: "n < 365 \<Longrightarrow> year_of y n = (y, n)"
  by (simp add: year_of.simps year_days_def)

lemma rfc3339_two_seconds: "rfc3339_Text (2 * Second) = Some ''0001-01-01T00:00:02Z''"
  by (simp add: rfc3339_Text_def Second_def year_of_small month_days_def frac_text_def pad_numeral digit_chars)

end
