(* ===== verification/Runtime.thy ===== *)
theory Runtime
  imports Model_Json
begin

text \<open>
  What a running process calls outside the repository: the clock, the UUID source and the
  Prometheus registry (a runtime handle), PostgreSQL through sqlx and Redis through
  go-redis (server handles). Each handle is a record of effectful functions over an
  arbitrary world \<open>'w\<close>, and an argument of every definition that uses it. The section on
  metrics translates \<open>internal/observability/metrics.go\<close>.
\<close>

section \<open>Clock, UUIDs, metrics\<close>

record 'w runtime =
  time_Now :: "('w, time) io"
  uuid_New :: "('w, uuid) io"
  counter_Inc :: "string \<Rightarrow> string list \<Rightarrow> ('w, unit) io"
  histogram_Observe :: "string \<Rightarrow> string list \<Rightarrow> duration \<Rightarrow> ('w, unit) io"

text \<open>\<open>Time.Unix\<close>: whole seconds since 1970, rounding towards minus infinity.\<close>

definition unix_epoch :: time where
  "unix_epoch = 62135596800 * 1000000000"

definition time_Unix :: "time \<Rightarrow> int" where
  "time_Unix t = (t - unix_epoch) div Second"

definition time_Since :: "'w runtime \<Rightarrow> time \<Rightarrow> ('w, duration) io" where
  "time_Since R start = do { t \<leftarrow> time_Now R; ret (t - start) }"

definition uuid_NewString :: "go_env \<Rightarrow> 'w runtime \<Rightarrow> ('w, string) io" where
  "uuid_NewString G R = do { u \<leftarrow> uuid_New R; ret (uuid_String G u) }"

section \<open>Observability\<close>

text \<open>
  The vectors of the registry. \<open>WithLabelValues\<close> panics unless it gets a value for every label of
  its vector; theory Observability shows that it always does.
\<close>

datatype vec_kind = CounterVec | HistogramVec

record metric_vec =
  Vec_Kind :: vec_kind
  Vec_Name :: string
  Vec_Help :: string
  Vec_Labels :: "string list"

definition apiRequestsTotal :: metric_vec where
  "apiRequestsTotal = \<lparr>Vec_Kind = CounterVec, Vec_Name = ''agentmsg_api_requests_total'',
     Vec_Help = ''Total number of API requests processed.'', Vec_Labels = [''method'', ''route'', ''status'']\<rparr>"

definition apiRequestDuration :: metric_vec where
  "apiRequestDuration = \<lparr>Vec_Kind = HistogramVec, Vec_Name = ''agentmsg_api_request_duration_seconds'',
     Vec_Help = ''API request duration in seconds.'', Vec_Labels = [''method'', ''route'', ''status'']\<rparr>"

definition authFailuresTotal :: metric_vec where
  "authFailuresTotal = \<lparr>Vec_Kind = CounterVec, Vec_Name = ''agentmsg_auth_failures_total'',
     Vec_Help = ''Total number of authentication failures.'', Vec_Labels = [''reason'']\<rparr>"

definition rateLimitExceededTotal :: metric_vec where
  "rateLimitExceededTotal = \<lparr>Vec_Kind = CounterVec, Vec_Name = ''agentmsg_rate_limit_exceeded_total'',
     Vec_Help = ''Total number of rate limit rejections.'', Vec_Labels = [''route'']\<rparr>"

definition auditLogsTotal :: metric_vec where
  "auditLogsTotal = \<lparr>Vec_Kind = CounterVec, Vec_Name = ''agentmsg_audit_logs_total'',
     Vec_Help = ''Total number of persisted audit log entries.'', Vec_Labels = [''action'', ''status'']\<rparr>"

definition messageOperationsTotal :: metric_vec where
  "messageOperationsTotal = \<lparr>Vec_Kind = CounterVec, Vec_Name = ''agentmsg_message_operations_total'',
     Vec_Help = ''Total number of message operations by operation and outcome.'', Vec_Labels = [''operation'', ''outcome'']\<rparr>"

definition messageProcessingDuration :: metric_vec where
  "messageProcessingDuration = \<lparr>Vec_Kind = HistogramVec, Vec_Name = ''agentmsg_message_processing_duration_seconds'',
     Vec_Help = ''Duration of message processing operations in seconds.'', Vec_Labels = [''operation'', ''outcome'']\<rparr>"

lemmas vec_defs = apiRequestsTotal_def apiRequestDuration_def authFailuresTotal_def rateLimitExceededTotal_def
  auditLogsTotal_def messageOperationsTotal_def messageProcessingDuration_def

lemma vec_names [simp]:
  "Vec_Name apiRequestsTotal = ''agentmsg_api_requests_total''"
  "Vec_Name apiRequestDuration = ''agentmsg_api_request_duration_seconds''"
  "Vec_Name authFailuresTotal = ''agentmsg_auth_failures_total''"
  "Vec_Name rateLimitExceededTotal = ''agentmsg_rate_limit_exceeded_total''"
  "Vec_Name auditLogsTotal = ''agentmsg_audit_logs_total''"
  "Vec_Name messageOperationsTotal = ''agentmsg_message_operations_total''"
  "Vec_Name messageProcessingDuration = ''agentmsg_message_processing_duration_seconds''"
  by (simp_all add: vec_defs)

definition registered_vecs :: "metric_vec list" where
  "registered_vecs = [apiRequestsTotal, apiRequestDuration, authFailuresTotal, rateLimitExceededTotal, auditLogsTotal,
     messageOperationsTotal, messageProcessingDuration]"

text \<open>
  \<open>registerOnce.Do\<close>: the flag tells that the vectors were given to \<open>MustRegister\<close>, which is
  Prometheus', an argument here, and \<open>None\<close> where it panics. Each \<open>Record\<close> function below calls
  it first, when \<open>init\<close> has run it already.
\<close>

definition registerMetrics :: "(metric_vec list \<Rightarrow> 'r \<Rightarrow> 'r option) \<Rightarrow> bool \<times> 'r \<Rightarrow> (bool \<times> 'r) option" where
  "registerMetrics MustRegister s =
     (case s of (registerOnce, registry) \<Rightarrow>
        if registerOnce then Some s else map_option (Pair True) (MustRegister registered_vecs registry))"

lemma registerMetrics_once:
  "registerMetrics MustRegister (False, r) = Some s \<Longrightarrow> registerMetrics MustRegister s = Some s"
  by (auto simp: registerMetrics_def)

text \<open>A vector of this kind and name is registered with that many labels.\<close>

definition labels_fit :: "vec_kind \<Rightarrow> string \<Rightarrow> string list \<Rightarrow> bool" where
  "labels_fit k name values \<longleftrightarrow>
     (\<exists>v \<in> set registered_vecs. Vec_Kind v = k \<and> Vec_Name v = name \<and> length (Vec_Labels v) = length values)"

definition prometheusLabelStatus :: "int \<Rightarrow> string" where
  "prometheusLabelStatus statusCode =
     (if statusCode \<ge> 500 then ''5xx''
      else if statusCode \<ge> 400 then ''4xx''
      else if statusCode \<ge> 300 then ''3xx''
      else if statusCode \<ge> 200 then ''2xx''
      else ''1xx'')"

definition RecordAPIRequest :: "'w runtime \<Rightarrow> string \<Rightarrow> string \<Rightarrow> int \<Rightarrow> duration \<Rightarrow> ('w, unit) io" where
  "RecordAPIRequest R meth route statusCode d = do {
     let status = prometheusLabelStatus statusCode;
     counter_Inc R (Vec_Name apiRequestsTotal) [meth, route, status];
     histogram_Observe R (Vec_Name apiRequestDuration) [meth, route, status] d
   }"

definition RecordAuthFailure :: "'w runtime \<Rightarrow> string \<Rightarrow> ('w, unit) io" where
  "RecordAuthFailure R reason = counter_Inc R (Vec_Name authFailuresTotal) [reason]"

definition RecordRateLimitExceeded :: "'w runtime \<Rightarrow> string \<Rightarrow> ('w, unit) io" where
  "RecordRateLimitExceeded R route = counter_Inc R (Vec_Name rateLimitExceededTotal) [route]"

definition RecordAuditLog :: "'w runtime \<Rightarrow> string \<Rightarrow> int \<Rightarrow> ('w, unit) io" where
  "RecordAuditLog R action statusCode =
     counter_Inc R (Vec_Name auditLogsTotal) [action, prometheusLabelStatus statusCode]"

definition RecordMessageOperation :: "'w runtime \<Rightarrow> string \<Rightarrow> string \<Rightarrow> duration \<Rightarrow> ('w, unit) io" where
  "RecordMessageOperation R operation outcome d = do {
     counter_Inc R (Vec_Name messageOperationsTotal) [operation, outcome];
     histogram_Observe R (Vec_Name messageProcessingDuration) [operation, outcome] d
   }"

text \<open>\<open>RecordMessageOperation(op, outcome, time.Since(start))\<close>.\<close>

definition record_op :: "'w runtime \<Rightarrow> time \<Rightarrow> string \<Rightarrow> string \<Rightarrow> ('w, unit) io" where
  "record_op R start operation outcome = do {
     d \<leftarrow> time_Since R start;
     RecordMessageOperation R operation outcome d
   }"

section \<open>PostgreSQL\<close>

text \<open>
  One constructor for every statement of the sources, with the arguments of its placeholders
  in order. Theory Database gives the statements their meaning on tables.
\<close>

datatype sql_exec =
    Agents_Insert uuid uuid string string string string string string "Capability slice" "Endpoint slice" AgentStatus
  | Agents_Update uuid string string "Capability slice" "Endpoint slice" AgentStatus time
  | Agents_UpdateTenant uuid string string "Capability slice" "Endpoint slice" AgentStatus time uuid
  | Agents_Delete uuid
  | Agents_DeleteTenant uuid uuid
  | Agents_Status uuid AgentStatus
  | Agents_StatusTenant uuid AgentStatus uuid
  | Messages_Insert uuid uuid MessageType uuid string "char slice" int string MessageMetadata
      DeliveryGuarantee MessageStatus "TaskContext option" string uuid
  | Messages_Status uuid MessageStatus
  | Acks_Insert uuid uuid uuid AckStatus string string string time
  | Dlq_Insert uuid uuid string int int string DeadLetterStatus time "time option"
  | Dlq_Update uuid DeadLetterStatus int "time option"
  | Audit_Insert AuditLog

datatype agent_query =
    Agent_ById uuid
  | Agent_ByIdTenant uuid uuid
  | Agent_ByDID string
  | Agents_OfTenant uuid
  | Agents_OnlineOfTenant uuid
  | Agents_All
  | Agents_WithStatus AgentStatus

datatype message_query =
    Message_ById uuid
  | Message_ByIdTenant uuid uuid
  | Messages_OfConversation uuid int
  | Messages_OfTenantConversation uuid uuid int
  | Messages_OfTenant uuid int int

datatype exists_query = Tenant_WithId uuid | Agent_WithId uuid

text \<open>\<open>sql.Result\<close>: the count of affected rows, whose retrieval may itself fail.\<close>

type_synonym sql_Result = "int result"

record 'w sqlx =
  ExecContext :: "sql_exec \<Rightarrow> ('w, sql_Result result) io"
  GetAgent :: "agent_query \<Rightarrow> ('w, Agent result) io"
  SelectAgents :: "agent_query \<Rightarrow> ('w, Agent list result) io"
  GetMessage :: "message_query \<Rightarrow> ('w, Message result) io"
  SelectMessages :: "message_query \<Rightarrow> ('w, Message list result) io"
  GetAck :: "uuid \<Rightarrow> ('w, Acknowledgement result) io"
  SelectDeadLetters :: "int \<Rightarrow> ('w, DeadLetterEntry list result) io"
  GetExists :: "exists_query \<Rightarrow> ('w, bool result) io"
  PingDB :: "('w, unit result) io"

section \<open>Redis\<close>

text \<open>The commands of go-redis that the sources send. A hash reply is a Go map; its pairs
  are listed in the order in which the runtime happens to iterate over it.\<close>

record 'w goredis =
  cmd_Publish :: "string \<Rightarrow> string \<Rightarrow> ('w, unit result) io"
  cmd_LPush :: "string \<Rightarrow> string list \<Rightarrow> ('w, unit result) io"
  cmd_RPop :: "string \<Rightarrow> ('w, string result) io"
  cmd_Set :: "string \<Rightarrow> string \<Rightarrow> duration \<Rightarrow> ('w, unit result) io"
  cmd_Get :: "string \<Rightarrow> ('w, string result) io"
  cmd_Del :: "string list \<Rightarrow> ('w, unit result) io"
  cmd_HSet :: "string \<Rightarrow> string \<Rightarrow> string \<Rightarrow> ('w, unit result) io"
  cmd_HGetAll :: "string \<Rightarrow> ('w, (string \<times> string) list result) io"
  cmd_HDel :: "string \<Rightarrow> string \<Rightarrow> ('w, unit result) io"
  cmd_Expire :: "string \<Rightarrow> duration \<Rightarrow> ('w, unit result) io"
  cmd_Incr :: "string \<Rightarrow> ('w, int result) io"
  cmd_ZAdd :: "string \<Rightarrow> (int \<times> string) list \<Rightarrow> ('w, unit result) io"
  cmd_ZRange :: "string \<Rightarrow> int \<Rightarrow> int \<Rightarrow> ('w, string list result) io"
  cmd_Exists :: "string \<Rightarrow> ('w, int result) io"
  cmd_Ping :: "('w, unit result) io"

end
