(* ===== verification/Repository.thy ===== *)
theory Repository
  imports Runtime
begin

text \<open>
  The repositories of \<open>internal/repository\<close>: \<open>postgres.go\<close> and \<open>redis.go\<close>. A method sends one
  statement or command to its server handle and turns the reply into the Go results.
  \<open>NewPostgresDB\<close> and \<open>NewRedisClient\<close>, the only constructors, leave no inner handle nil,
  so a pointer to a repository or client is an optional handle and its methods take the
  handle itself.
\<close>

section \<open>postgres.go: helpers\<close>

text \<open>\<open>if err == sql.ErrNoRows { return nil, nil }\<close>.\<close>

definition no_rows_nil :: "'a result \<Rightarrow> 'a option result" where
  "no_rows_nil r = (case r of
     Inl e \<Rightarrow> (if e = ErrNoRows then Inr None else Inl e)
   | Inr x \<Rightarrow> Inr (Some x))"

definition scan_one :: "go_env \<Rightarrow> Message result \<Rightarrow> Message option result" where
  "scan_one G r = (case r of
     Inl e \<Rightarrow> (if e = ErrNoRows then Inr None else Inl e)
   | Inr m \<Rightarrow> (case ScanRecipients G m of (m', Inl e) \<Rightarrow> Inl e | (m', Inr _) \<Rightarrow> Inr (Some m')))"

fun scan_all :: "go_env \<Rightarrow> Message list \<Rightarrow> Message list result" where
  "scan_all G [] = Inr []"
| "scan_all G (m # ms) =
     (case ScanRecipients G m of
        (m', Inl e) \<Rightarrow> Inl e
      | (m', Inr _) \<Rightarrow> (case scan_all G ms of Inl e \<Rightarrow> Inl e | Inr ms' \<Rightarrow> Inr (m' # ms')))"

definition IsUniqueViolation :: "go_error \<Rightarrow> bool" where
  "IsUniqueViolation e = (case e of PqError code msg \<Rightarrow> code = ''23505'' | _ \<Rightarrow> False)"

definition rowsAffected :: "sql_Result \<Rightarrow> bool result" where
  "rowsAffected r = (case r of Inl e \<Rightarrow> Inl e | Inr n \<Rightarrow> Inr (n > 0))"

definition exec_only :: "'w sqlx \<Rightarrow> sql_exec \<Rightarrow> ('w, unit result) io" where
  "exec_only db q = try_io (ExecContext db q) (\<lambda>_. ret (Inr ()))"

definition exec_rows :: "'w sqlx \<Rightarrow> sql_exec \<Rightarrow> ('w, bool result) io" where
  "exec_rows db q = try_io (ExecContext db q) (\<lambda>res. ret (rowsAffected res))"

section \<open>postgres.go: PostgresDB\<close>

definition PostgresDB_GetMessageByID :: "go_env \<Rightarrow> 'w sqlx \<Rightarrow> uuid \<Rightarrow> ('w, Message option result) io" where
  "PostgresDB_GetMessageByID G db i = do { r \<leftarrow> GetMessage db (Message_ById i); ret (scan_one G r) }"

definition PostgresDB_CreateAcknowledgement :: "'w sqlx \<Rightarrow> Acknowledgement \<Rightarrow> ('w, unit result) io" where
  "PostgresDB_CreateAcknowledgement db ack =
     exec_only db (Acks_Insert (Ack_ID ack) (Ack_MessageID ack) (Ack_AgentID ack) (Ack_Status ack)
       (Ack_Details ack) (Ack_Nonce ack) (Ack_Signature ack) (Ack_CreatedAt ack))"

definition PostgresDB_GetAcknowledgement :: "'w sqlx \<Rightarrow> uuid \<Rightarrow> ('w, Acknowledgement option result) io" where
  "PostgresDB_GetAcknowledgement db messageID = do { r \<leftarrow> GetAck db messageID; ret (no_rows_nil r) }"

definition PostgresDB_UpdateMessageStatus :: "'w sqlx \<Rightarrow> uuid \<Rightarrow> MessageStatus \<Rightarrow> ('w, unit result) io" where
  "PostgresDB_UpdateMessageStatus db i status = exec_only db (Messages_Status i status)"

definition PostgresDB_CreateDeadLetterEntry :: "'w sqlx \<Rightarrow> DeadLetterEntry \<Rightarrow> ('w, unit result) io" where
  "PostgresDB_CreateDeadLetterEntry db entry =
     exec_only db (Dlq_Insert (DL_ID entry) (DL_MessageID entry) (DL_Reason entry) (DL_RetryCount entry)
       (DL_MaxRetries entry) (DL_Payload entry) (DL_Status entry) (DL_CreatedAt entry) (DL_ProcessedAt entry))"

definition PostgresDB_ListRetryableDeadLetterEntries :: "'w sqlx \<Rightarrow> int \<Rightarrow> ('w, DeadLetterEntry list result) io" where
  "PostgresDB_ListRetryableDeadLetterEntries db limit =
     (let limit = (if limit \<le> 0 then 100 else limit)
      in try_io (SelectDeadLetters db limit) (\<lambda>entries. ret (Inr entries)))"

definition PostgresDB_UpdateDeadLetterEntry ::
    "'w sqlx \<Rightarrow> uuid \<Rightarrow> DeadLetterStatus \<Rightarrow> int \<Rightarrow> time option \<Rightarrow> ('w, unit result) io" where
  "PostgresDB_UpdateDeadLetterEntry db i status retryCount processedAt =
     exec_only db (Dlq_Update i status retryCount processedAt)"

definition PostgresDB_CreateAuditLog :: "'w sqlx \<Rightarrow> AuditLog \<Rightarrow> ('w, unit result) io" where
  "PostgresDB_CreateAuditLog db entry = exec_only db (Audit_Insert entry)"

definition PostgresDB_Ping :: "'w sqlx option \<Rightarrow> ('w, unit result) io" where
  "PostgresDB_Ping p = (case p of None \<Rightarrow> ret (Inl ErrConnDone) | Some db \<Rightarrow> PingDB db)"

definition PostgresDB_TenantExists :: "'w sqlx option \<Rightarrow> uuid \<Rightarrow> ('w, bool result) io" where
  "PostgresDB_TenantExists p i = (case p of
     None \<Rightarrow> ret (Inl ErrConnDone)
   | Some db \<Rightarrow> try_io (GetExists db (Tenant_WithId i)) (\<lambda>exists. ret (Inr exists)))"

definition PostgresDB_AgentExists :: "'w sqlx option \<Rightarrow> uuid \<Rightarrow> ('w, bool result) io" where
  "PostgresDB_AgentExists p i = (case p of
     None \<Rightarrow> ret (Inl ErrConnDone)
   | Some db \<Rightarrow> try_io (GetExists db (Agent_WithId i)) (\<lambda>exists. ret (Inr exists)))"

section \<open>postgres.go: AgentRepository\<close>

definition AgentRepository_Create :: "'w sqlx \<Rightarrow> Agent \<Rightarrow> ('w, unit result) io" where
  "AgentRepository_Create db a =
     exec_only db (Agents_Insert (Agent_ID a) (Agent_TenantID a) (Agent_DID a) (Agent_PublicKey a)
       (Agent_Name a) (Agent_Version a) (Agent_Provider a) (Agent_Tier a)
       (Agent_Capabilities a) (Agent_Endpoints a) (Agent_Status a))"

definition AgentRepository_GetByID :: "'w sqlx \<Rightarrow> uuid \<Rightarrow> ('w, Agent option result) io" where
  "AgentRepository_GetByID db i = do { r \<leftarrow> GetAgent db (Agent_ById i); ret (no_rows_nil r) }"

definition AgentRepository_GetByIDForTenant :: "'w sqlx \<Rightarrow> uuid \<Rightarrow> uuid \<Rightarrow> ('w, Agent option result) io" where
  "AgentRepository_GetByIDForTenant db tenantID i =
     do { r \<leftarrow> GetAgent db (Agent_ByIdTenant i tenantID); ret (no_rows_nil r) }"

definition AgentRepository_GetByDID :: "'w sqlx \<Rightarrow> string \<Rightarrow> ('w, Agent option result) io" where
  "AgentRepository_GetByDID db did = do { r \<leftarrow> GetAgent db (Agent_ByDID did); ret (no_rows_nil r) }"

definition AgentRepository_Update :: "'w sqlx \<Rightarrow> Agent \<Rightarrow> ('w, unit result) io" where
  "AgentRepository_Update db a =
     exec_only db (Agents_Update (Agent_ID a) (Agent_Name a) (Agent_Version a)
       (Agent_Capabilities a) (Agent_Endpoints a) (Agent_Status a) (Agent_LastHeartbeat a))"

definition AgentRepository_UpdateForTenant :: "'w sqlx \<Rightarrow> uuid \<Rightarrow> Agent \<Rightarrow> ('w, bool result) io" where
  "AgentRepository_UpdateForTenant db tenantID a =
     exec_rows db (Agents_UpdateTenant (Agent_ID a) (Agent_Name a) (Agent_Version a)
       (Agent_Capabilities a) (Agent_Endpoints a) (Agent_Status a) (Agent_LastHeartbeat a) tenantID)"

definition AgentRepository_Delete :: "'w sqlx \<Rightarrow> uuid \<Rightarrow> ('w, unit result) io" where
  "AgentRepository_Delete db i = exec_only db (Agents_Delete i)"

definition AgentRepository_DeleteForTenant :: "'w sqlx \<Rightarrow> uuid \<Rightarrow> uuid \<Rightarrow> ('w, bool result) io" where
  "AgentRepository_DeleteForTenant db tenantID i = exec_rows db (Agents_DeleteTenant i tenantID)"

definition AgentRepository_ListByTenant :: "'w sqlx \<Rightarrow> uuid \<Rightarrow> ('w, Agent list result) io" where
  "AgentRepository_ListByTenant db tenantID =
     try_io (SelectAgents db (Agents_OfTenant tenantID)) (\<lambda>agents. ret (Inr agents))"

definition AgentRepository_UpdateStatus :: "'w sqlx \<Rightarrow> uuid \<Rightarrow> AgentStatus \<Rightarrow> ('w, unit result) io" where
  "AgentRepository_UpdateStatus db i status = exec_only db (Agents_Status i status)"

definition AgentRepository_UpdateStatusForTenant ::
    "'w sqlx \<Rightarrow> uuid \<Rightarrow> uuid \<Rightarrow> AgentStatus \<Rightarrow> ('w, bool result) io" where
  "AgentRepository_UpdateStatusForTenant db tenantID i status =
     exec_rows db (Agents_StatusTenant i status tenantID)"

definition AgentRepository_QueryByCapabilities ::
    "'w sqlx \<Rightarrow> uuid \<Rightarrow> string list \<Rightarrow> ('w, Agent list result) io" where
  "AgentRepository_QueryByCapabilities db tenantID capabilities =
     try_io (SelectAgents db (Agents_OnlineOfTenant tenantID)) (\<lambda>agents. ret (Inr agents))"

definition AgentRepository_ListAll :: "'w sqlx \<Rightarrow> ('w, Agent list result) io" where
  "AgentRepository_ListAll db = try_io (SelectAgents db Agents_All) (\<lambda>agents. ret (Inr agents))"

definition AgentRepository_GetByStatus :: "'w sqlx \<Rightarrow> AgentStatus \<Rightarrow> ('w, Agent list result) io" where
  "AgentRepository_GetByStatus db status =
     try_io (SelectAgents db (Agents_WithStatus status)) (\<lambda>agents. ret (Inr agents))"

section \<open>postgres.go: MessageRepository and AcknowledgementRepository\<close>

text \<open>\<open>Create\<close> fills \<open>RecipientStr\<close> of the caller's message where it is empty, so it also
  returns the message.\<close>

definition MessageRepository_Create ::
    "go_env \<Rightarrow> 'w sqlx \<Rightarrow> Message \<Rightarrow> ('w, Message \<times> unit result) io" where
  "MessageRepository_Create G db m0 =
     (case (if Message_RecipientStr m0 = [] then SetRecipients G m0 else (m0, Inr ())) of
        (m, Inl e) \<Rightarrow> ret (m, Inl e)
      | (m, Inr _) \<Rightarrow> do {
          r \<leftarrow> exec_only db (Messages_Insert (Message_ID m) (Message_ConversationID m) (Message_MessageType m)
                 (Message_SenderID m) (Message_RecipientStr m) (Message_Content m) (Message_ContentSize m)
                 (Message_ContentType m) (Message_Metadata m) (Message_DeliveryGuarantee m)
                 (Message_Status m) (Message_TaskContext m) (Message_TraceID m) (Message_TenantID m));
          ret (m, r)
        })"

definition MessageRepository_GetByID :: "go_env \<Rightarrow> 'w sqlx \<Rightarrow> uuid \<Rightarrow> ('w, Message option result) io" where
  "MessageRepository_GetByID G db i = do { r \<leftarrow> GetMessage db (Message_ById i); ret (scan_one G r) }"

definition MessageRepository_GetByIDForTenant ::
    "go_env \<Rightarrow> 'w sqlx \<Rightarrow> uuid \<Rightarrow> uuid \<Rightarrow> ('w, Message option result) io" where
  "MessageRepository_GetByIDForTenant G db tenantID i =
     do { r \<leftarrow> GetMessage db (Message_ByIdTenant i tenantID); ret (scan_one G r) }"

definition MessageRepository_UpdateStatus :: "'w sqlx \<Rightarrow> uuid \<Rightarrow> MessageStatus \<Rightarrow> ('w, unit result) io" where
  "MessageRepository_UpdateStatus db i status = exec_only db (Messages_Status i status)"

definition MessageRepository_ListByConversation ::
    "go_env \<Rightarrow> 'w sqlx \<Rightarrow> uuid \<Rightarrow> int \<Rightarrow> ('w, Message list result) io" where
  "MessageRepository_ListByConversation G db conversationID limit =
     try_io (SelectMessages db (Messages_OfConversation conversationID limit)) (\<lambda>ms. ret (scan_all G ms))"

definition MessageRepository_ListByConversationForTenant ::
    "go_env \<Rightarrow> 'w sqlx \<Rightarrow> uuid \<Rightarrow> uuid \<Rightarrow> int \<Rightarrow> ('w, Message list result) io" where
  "MessageRepository_ListByConversationForTenant G db tenantID conversationID limit =
     try_io (SelectMessages db (Messages_OfTenantConversation tenantID conversationID limit)) (\<lambda>ms. ret (scan_all G ms))"

definition MessageRepository_ListByTenant ::
    "go_env \<Rightarrow> 'w sqlx \<Rightarrow> uuid \<Rightarrow> int \<Rightarrow> int \<Rightarrow> ('w, Message list result) io" where
  "MessageRepository_ListByTenant G db tenantID limit offset =
     try_io (SelectMessages db (Messages_OfTenant tenantID limit offset)) (\<lambda>ms. ret (scan_all G ms))"

definition AcknowledgementRepository_Create :: "'w sqlx \<Rightarrow> Acknowledgement \<Rightarrow> ('w, unit result) io" where
  "AcknowledgementRepository_Create db ack =
     exec_only db (Acks_Insert (Ack_ID ack) (Ack_MessageID ack) (Ack_AgentID ack) (Ack_Status ack)
       (Ack_Details ack) (Ack_Nonce ack) (Ack_Signature ack) (Ack_CreatedAt ack))"

definition AcknowledgementRepository_GetByMessageID ::
    "'w sqlx \<Rightarrow> uuid \<Rightarrow> ('w, Acknowledgement option result) io" where
  "AcknowledgementRepository_GetByMessageID db messageID =
     do { r \<leftarrow> GetAck db messageID; ret (no_rows_nil r) }"

section \<open>redis.go\<close>

definition RedisClient_Ping :: "'w goredis option \<Rightarrow> ('w, unit result) io" where
  "RedisClient_Ping p = (case p of None \<Rightarrow> ret (Inl ErrRedisClosed) | Some r \<Rightarrow> cmd_Ping r)"

definition RedisClient_Publish :: "'w goredis \<Rightarrow> string \<Rightarrow> string \<Rightarrow> ('w, unit result) io" where
  "RedisClient_Publish r channel message = cmd_Publish r channel message"

definition RedisClient_LPush :: "'w goredis \<Rightarrow> string \<Rightarrow> string list \<Rightarrow> ('w, unit result) io" where
  "RedisClient_LPush r key values = cmd_LPush r key values"

definition RedisClient_RPop :: "'w goredis \<Rightarrow> string \<Rightarrow> ('w, string result) io" where
  "RedisClient_RPop r key = cmd_RPop r key"

definition RedisClient_Set :: "'w goredis \<Rightarrow> string \<Rightarrow> string \<Rightarrow> ('w, unit result) io" where
  "RedisClient_Set r key value = cmd_Set r key value 0"

definition RedisClient_Get :: "'w goredis \<Rightarrow> string \<Rightarrow> ('w, string result) io" where
  "RedisClient_Get r key = cmd_Get r key"

definition RedisClient_Del :: "'w goredis \<Rightarrow> string list \<Rightarrow> ('w, unit result) io" where
  "RedisClient_Del r keys = cmd_Del r keys"

definition RedisClient_Expire :: "'w goredis \<Rightarrow> string \<Rightarrow> int \<Rightarrow> ('w, unit result) io" where
  "RedisClient_Expire r key seconds = cmd_Expire r key (wrap64 (seconds * Second))"

definition RedisClient_Incr :: "'w goredis \<Rightarrow> string \<Rightarrow> ('w, int result) io" where
  "RedisClient_Incr r key = cmd_Incr r key"

definition RedisClient_ZAdd :: "'w goredis \<Rightarrow> string \<Rightarrow> (int \<times> string) list \<Rightarrow> ('w, unit result) io" where
  "RedisClient_ZAdd r key members = cmd_ZAdd r key members"

definition RedisClient_ZRange :: "'w goredis \<Rightarrow> string \<Rightarrow> int \<Rightarrow> int \<Rightarrow> ('w, string list result) io" where
  "RedisClient_ZRange r key start stop = cmd_ZRange r key start stop"

definition RedisClient_Exists :: "'w goredis \<Rightarrow> string \<Rightarrow> ('w, bool \<times> go_error option) io" where
  "RedisClient_Exists r key = do {
     x \<leftarrow> cmd_Exists r key;
     ret (case x of Inl e \<Rightarrow> (False, Some e) | Inr n \<Rightarrow> (n > 0, None))
   }"

definition RedisClient_SetWithExpiry :: "'w goredis \<Rightarrow> string \<Rightarrow> string \<Rightarrow> int \<Rightarrow> ('w, unit result) io" where
  "RedisClient_SetWithExpiry r key value seconds = cmd_Set r key value (wrap64 (seconds * Second))"

definition subscriptions_key :: "go_env \<Rightarrow> uuid \<Rightarrow> string" where
  "subscriptions_key G agentID = ''subscriptions:'' @ uuid_String G agentID"

definition RedisClient_CreateSubscription :: "go_env \<Rightarrow> 'w goredis \<Rightarrow> Subscription \<Rightarrow> ('w, unit result) io" where
  "RedisClient_CreateSubscription G r sub =
     cmd_HSet r (subscriptions_key G (Sub_AgentID sub)) (uuid_String G (Sub_ID sub)) (Marshal_Subscription G sub)"

text \<open>A value that does not decode is skipped.\<close>

definition decode_subscriptions :: "go_env \<Rightarrow> (string \<times> string) list \<Rightarrow> Subscription list" where
  "decode_subscriptions G kvs =
     List.map_filter (\<lambda>(_, data). case Unmarshal_Subscription G data of Inl _ \<Rightarrow> None | Inr s \<Rightarrow> Some s) kvs"

definition RedisClient_ListSubscriptions :: "go_env \<Rightarrow> 'w goredis \<Rightarrow> uuid \<Rightarrow> ('w, Subscription list result) io" where
  "RedisClient_ListSubscriptions G r agentID =
     try_io (cmd_HGetAll r (subscriptions_key G agentID)) (\<lambda>kvs. ret (Inr (decode_subscriptions G kvs)))"

definition RedisClient_DeleteSubscription :: "go_env \<Rightarrow> 'w goredis \<Rightarrow> uuid \<Rightarrow> uuid \<Rightarrow> ('w, unit result) io" where
  "RedisClient_DeleteSubscription G r agentID subID =
     cmd_HDel r (subscriptions_key G agentID) (uuid_String G subID)"

end
