(* ===== verification/Database.thy ===== *)
theory Database
  imports Repository
begin

text \<open>
  What the SQL of \<open>postgres.go\<close> says about the tables of \<open>internal/repository/migrations\<close>:
  one function per kind of statement, from the tables to the reply and the new tables.
  WHERE and ORDER BY clauses, LIMIT, defaults, primary keys, unique and foreign keys are
  read off the sources; rows keep their order of insertion and ties of ORDER BY keep that
  order. Column widths are not modelled: a server may refuse any statement (theory World),
  which covers them.
\<close>

section \<open>Tables\<close>

record agent_row =
  Row_Agent :: Agent
  Row_LastHeartbeat :: "time option"
  Row_DeletedAt :: "time option"

record tables =
  T_tenants :: "uuid list"
  T_agents :: "agent_row list"
  T_messages :: "Message list"
  T_acks :: "Acknowledgement list"
  T_dlq :: "DeadLetterEntry list"
  T_audit :: "AuditLog list"

definition unique_violation :: go_error where
  "unique_violation = PqError ''23505'' ''duplicate key value violates unique constraint''"

definition foreign_key_violation :: go_error where
  "foreign_key_violation = PqError ''23503'' ''violates foreign key constraint''"

definition invalid_json :: go_error where
  "invalid_json = PqError ''22P02'' ''invalid input syntax for type json''"

definition agent_ids :: "tables \<Rightarrow> uuid set" where
  "agent_ids T = (\<lambda>r. Agent_ID (Row_Agent r)) ` set (T_agents T)"

definition message_ids :: "tables \<Rightarrow> uuid set" where
  "message_ids T = Message_ID ` set (T_messages T)"

section \<open>Statements that change rows\<close>

definition update_where :: "('r \<Rightarrow> bool) \<Rightarrow> ('r \<Rightarrow> 'r) \<Rightarrow> 'r list \<Rightarrow> 'r list" where
  "update_where p f rs = map (\<lambda>r. if p r then f r else r) rs"

definition affected :: "('r \<Rightarrow> bool) \<Rightarrow> 'r list \<Rightarrow> sql_Result result" where
  "affected p rs = Inr (Inr (int (length (filter p rs))))"

definition row_is :: "uuid \<Rightarrow> agent_row \<Rightarrow> bool" where
  "row_is i r \<longleftrightarrow> Agent_ID (Row_Agent r) = i"

definition row_live :: "agent_row \<Rightarrow> bool" where
  "row_live r \<longleftrightarrow> Row_DeletedAt r = None"

definition row_of_tenant :: "uuid \<Rightarrow> agent_row \<Rightarrow> bool" where
  "row_of_tenant t r \<longleftrightarrow> Agent_TenantID (Row_Agent r) = t"

definition on_agents :: "(agent_row \<Rightarrow> bool) \<Rightarrow> (agent_row \<Rightarrow> agent_row) \<Rightarrow> tables \<Rightarrow> sql_Result result \<times> tables" where
  "on_agents p f T = (affected p (T_agents T), T\<lparr>T_agents := update_where p f (T_agents T)\<rparr>)"

definition set_agent_columns ::
    "string \<Rightarrow> string \<Rightarrow> Capability slice \<Rightarrow> Endpoint slice \<Rightarrow> AgentStatus \<Rightarrow> time \<Rightarrow> agent_row \<Rightarrow> agent_row" where
  "set_agent_columns name version caps endpoints status heartbeat r =
     r\<lparr>Row_Agent := (Row_Agent r)\<lparr>Agent_Name := name, Agent_Version := version, Agent_Capabilities := caps,
        Agent_Endpoints := endpoints, Agent_Status := status\<rparr>, Row_LastHeartbeat := Some heartbeat\<rparr>"

definition set_agent_status :: "AgentStatus \<Rightarrow> time \<Rightarrow> agent_row \<Rightarrow> agent_row" where
  "set_agent_status status now r =
     r\<lparr>Row_Agent := (Row_Agent r)\<lparr>Agent_Status := status\<rparr>, Row_LastHeartbeat := Some now\<rparr>"

text \<open>\<open>processed_at = CASE WHEN $2 IN (...) THEN NOW() ELSE processed_at END\<close>.\<close>

definition set_message_status :: "MessageStatus \<Rightarrow> time \<Rightarrow> Message \<Rightarrow> Message" where
  "set_message_status status now m =
     m\<lparr>Message_Status := status,
       Message_ProcessedAt := (if status \<in> {''delivered'', ''processed'', ''failed'', ''dead_letter''}
                               then Some now else Message_ProcessedAt m)\<rparr>"

fun db_exec :: "time \<Rightarrow> sql_exec \<Rightarrow> tables \<Rightarrow> sql_Result result \<times> tables" where
  "db_exec now (Agents_Insert i tenant did key name version provider tier caps endpoints status) T =
     (if i \<in> agent_ids T \<or> (\<exists>r \<in> set (T_agents T). Agent_DID (Row_Agent r) = did) then (Inl unique_violation, T)
      else if tenant \<notin> set (T_tenants T) then (Inl foreign_key_violation, T)
      else (Inr (Inr 1), T\<lparr>T_agents := T_agents T @
        [\<lparr>Row_Agent = \<lparr>Agent_ID = i, Agent_TenantID = tenant, Agent_DID = did, Agent_PublicKey = key,
           Agent_Name = name, Agent_Version = version, Agent_Provider = provider, Agent_Tier = tier,
           Agent_Capabilities = caps, Agent_Endpoints = endpoints, Agent_TrustLevel = 1,
           Agent_VerifiedAt = None, Agent_Status = status, Agent_LastHeartbeat = 0,
           Agent_CreatedAt = now, Agent_UpdatedAt = now\<rparr>,
          Row_LastHeartbeat = None, Row_DeletedAt = None\<rparr>]\<rparr>))"
| "db_exec now (Agents_Update i name version caps endpoints status heartbeat) T =
     on_agents (row_is i) (set_agent_columns name version caps endpoints status heartbeat) T"
| "db_exec now (Agents_UpdateTenant i name version caps endpoints status heartbeat tenant) T =
     on_agents (\<lambda>r. row_is i r \<and> row_of_tenant tenant r \<and> row_live r)
       (set_agent_columns name version caps endpoints status heartbeat) T"
| "db_exec now (Agents_Delete i) T = on_agents (row_is i) (\<lambda>r. r\<lparr>Row_DeletedAt := Some now\<rparr>) T"
| "db_exec now (Agents_DeleteTenant i tenant) T =
     on_agents (\<lambda>r. row_is i r \<and> row_of_tenant tenant r \<and> row_live r) (\<lambda>r. r\<lparr>Row_DeletedAt := Some now\<rparr>) T"
| "db_exec now (Agents_Status i status) T = on_agents (row_is i) (set_agent_status status now) T"
| "db_exec now (Agents_StatusTenant i status tenant) T =
     on_agents (\<lambda>r. row_is i r \<and> row_of_tenant tenant r \<and> row_live r) (set_agent_status status now) T"
| "db_exec now (Messages_Insert i conversation type sender recipients content csize ctype metadata guarantee
       status task trace tenant) T =
     (if i \<in> message_ids T then (Inl unique_violation, T)
      else if sender \<notin> agent_ids T \<or> tenant \<notin> set (T_tenants T) then (Inl foreign_key_violation, T)
      else (Inr (Inr 1), T\<lparr>T_messages := T_messages T @
        [\<lparr>Message_ID = i, Message_ConversationID = conversation, Message_MessageType = type,
          Message_SenderID = sender, Message_RecipientIDs = None, Message_RecipientStr = recipients,
          Message_Content = content, Message_ContentSize = csize, Message_ContentType = ctype,
          Message_Metadata = metadata, Message_DeliveryGuarantee = guarantee, Message_Status = status,
          Message_TaskContext = task, Message_TraceID = trace, Message_TenantID = tenant,
          Message_CreatedAt = now, Message_ExpiresAt = None, Message_ProcessedAt = None\<rparr>]\<rparr>))"
| "db_exec now (Messages_Status i status) T =
     (affected (\<lambda>m. Message_ID m = i) (T_messages T),
      T\<lparr>T_messages := update_where (\<lambda>m. Message_ID m = i) (set_message_status status now) (T_messages T)\<rparr>)"
| "db_exec now (Acks_Insert i message agent status details nonce signature created) T =
     (if (\<exists>a \<in> set (T_acks T). Ack_ID a = i \<or> Ack_Nonce a = nonce) then (Inl unique_violation, T)
      else if message \<notin> message_ids T \<or> agent \<notin> agent_ids T then (Inl foreign_key_violation, T)
      else (Inr (Inr 1), T\<lparr>T_acks := T_acks T @
        [\<lparr>Ack_ID = i, Ack_MessageID = message, Ack_AgentID = agent, Ack_Status = status, Ack_Details = details,
          Ack_ProcessedAt = None, Ack_Nonce = nonce, Ack_Signature = signature, Ack_CreatedAt = created\<rparr>]\<rparr>))"
| "db_exec now (Dlq_Insert i message reason retries maxRetries payload status created processed) T =
     (if json_parse payload = None then (Inl invalid_json, T)
      else if (\<exists>e \<in> set (T_dlq T). DL_ID e = i) then (Inl unique_violation, T)
      else if message \<notin> message_ids T then (Inl foreign_key_violation, T)
      else (Inr (Inr 1), T\<lparr>T_dlq := T_dlq T @
        [\<lparr>DL_ID = i, DL_MessageID = message, DL_Reason = reason, DL_RetryCount = retries, DL_MaxRetries = maxRetries,
          DL_Payload = payload, DL_Status = status, DL_CreatedAt = created, DL_ProcessedAt = processed\<rparr>]\<rparr>))"
| "db_exec now (Dlq_Update i status retries processed) T =
     (affected (\<lambda>e. DL_ID e = i) (T_dlq T),
      T\<lparr>T_dlq := update_where (\<lambda>e. DL_ID e = i)
          (\<lambda>e. e\<lparr>DL_Status := status, DL_RetryCount := retries, DL_ProcessedAt := processed\<rparr>) (T_dlq T)\<rparr>)"
| "db_exec now (Audit_Insert a) T =
     (if (\<exists>b \<in> set (T_audit T). Audit_ID b = Audit_ID a) then (Inl unique_violation, T)
      else if (case Audit_TenantID a of None \<Rightarrow> False | Some t \<Rightarrow> t \<notin> set (T_tenants T)) \<or>
              (case Audit_AgentID a of None \<Rightarrow> False | Some g \<Rightarrow> g \<notin> agent_ids T)
      then (Inl foreign_key_violation, T)
      else (Inr (Inr 1), T\<lparr>T_audit := T_audit T @ [a]\<rparr>))"

section \<open>Queries\<close>

text \<open>The columns of \<open>agentSelectColumns\<close>, COALESCE included.\<close>

definition agent_of_row :: "agent_row \<Rightarrow> Agent" where
  "agent_of_row r = (Row_Agent r)\<lparr>
     Agent_Capabilities := Some (elems (Agent_Capabilities (Row_Agent r))),
     Agent_Endpoints := Some (elems (Agent_Endpoints (Row_Agent r))),
     Agent_LastHeartbeat := (case Row_LastHeartbeat r of None \<Rightarrow> 0 | Some t \<Rightarrow> t)\<rparr>"

fun agent_where :: "agent_query \<Rightarrow> agent_row \<Rightarrow> bool" where
  "agent_where (Agent_ById i) r = (row_is i r \<and> row_live r)"
| "agent_where (Agent_ByIdTenant i tenant) r = (row_is i r \<and> row_of_tenant tenant r \<and> row_live r)"
| "agent_where (Agent_ByDID did) r = (Agent_DID (Row_Agent r) = did \<and> row_live r)"
| "agent_where (Agents_OfTenant tenant) r = (row_of_tenant tenant r \<and> row_live r)"
| "agent_where (Agents_OnlineOfTenant tenant) r =
     (row_of_tenant tenant r \<and> row_live r \<and> Agent_Status (Row_Agent r) = ''online'')"
| "agent_where Agents_All r = row_live r"
| "agent_where (Agents_WithStatus status) r = (Agent_Status (Row_Agent r) = status \<and> row_live r)"

definition newest_first :: "('r \<Rightarrow> time) \<Rightarrow> 'r list \<Rightarrow> 'r list" where
  "newest_first t rs = sort_key (\<lambda>r. - t r) rs"

text \<open>\<open>LIMIT\<close> and \<open>OFFSET\<close> with a negative argument are errors of the server.\<close>

definition sql_limit :: "int \<Rightarrow> 'r list \<Rightarrow> 'r list result" where
  "sql_limit n rs = (if n < 0 then Inl (PqError ''2201W'' ''LIMIT must not be negative'') else Inr (take (nat n) rs))"

definition sql_offset :: "int \<Rightarrow> 'r list \<Rightarrow> 'r list result" where
  "sql_offset n rs = (if n < 0 then Inl (PqError ''2201X'' ''OFFSET must not be negative'') else Inr (drop (nat n) rs))"

definition agent_rows :: "agent_query \<Rightarrow> tables \<Rightarrow> Agent list" where
  "agent_rows q T = map agent_of_row (filter (agent_where q) (T_agents T))"

definition db_get_agent :: "agent_query \<Rightarrow> tables \<Rightarrow> Agent result" where
  "db_get_agent q T = (case agent_rows q T of [] \<Rightarrow> Inl ErrNoRows | a # _ \<Rightarrow> Inr a)"

definition agent_limit :: "agent_query \<Rightarrow> nat option" where
  "agent_limit q = (case q of Agents_OnlineOfTenant _ \<Rightarrow> Some 50 | Agents_All \<Rightarrow> Some 1000 | _ \<Rightarrow> None)"

definition db_select_agents :: "agent_query \<Rightarrow> tables \<Rightarrow> Agent list result" where
  "db_select_agents q T =
     Inr ((case agent_limit q of None \<Rightarrow> id | Some n \<Rightarrow> take n) (newest_first Agent_CreatedAt (agent_rows q T)))"

fun message_where :: "message_query \<Rightarrow> Message \<Rightarrow> bool" where
  "message_where (Message_ById i) m = (Message_ID m = i)"
| "message_where (Message_ByIdTenant i tenant) m = (Message_ID m = i \<and> Message_TenantID m = tenant)"
| "message_where (Messages_OfConversation c limit) m = (Message_ConversationID m = c)"
| "message_where (Messages_OfTenantConversation tenant c limit) m =
     (Message_TenantID m = tenant \<and> Message_ConversationID m = c)"
| "message_where (Messages_OfTenant tenant limit offset) m = (Message_TenantID m = tenant)"

definition message_rows :: "message_query \<Rightarrow> tables \<Rightarrow> Message list" where
  "message_rows q T = filter (message_where q) (T_messages T)"

definition db_get_message :: "message_query \<Rightarrow> tables \<Rightarrow> Message result" where
  "db_get_message q T = (case message_rows q T of [] \<Rightarrow> Inl ErrNoRows | m # _ \<Rightarrow> Inr m)"

definition db_select_messages :: "message_query \<Rightarrow> tables \<Rightarrow> Message list result" where
  "db_select_messages q T =
     (let rs = newest_first Message_CreatedAt (message_rows q T)
      in case q of
           Messages_OfConversation c limit \<Rightarrow> sql_limit limit rs
         | Messages_OfTenantConversation tenant c limit \<Rightarrow> sql_limit limit rs
         | Messages_OfTenant tenant limit offset \<Rightarrow>
             (case sql_offset offset rs of Inl e \<Rightarrow> Inl e | Inr rs' \<Rightarrow> sql_limit limit rs')
         | _ \<Rightarrow> Inr rs)"

definition db_get_ack :: "uuid \<Rightarrow> tables \<Rightarrow> Acknowledgement result" where
  "db_get_ack i T = (case filter (\<lambda>a. Ack_MessageID a = i) (T_acks T) of [] \<Rightarrow> Inl ErrNoRows | a # _ \<Rightarrow> Inr a)"

definition retryable :: "DeadLetterEntry \<Rightarrow> bool" where
  "retryable e \<longleftrightarrow> DL_Status e = ''pending'' \<and> DL_RetryCount e < DL_MaxRetries e"

definition db_select_dead_letters :: "int \<Rightarrow> tables \<Rightarrow> DeadLetterEntry list result" where
  "db_select_dead_letters limit T = sql_limit limit (sort_key DL_CreatedAt (filter retryable (T_dlq T)))"

fun db_get_exists :: "exists_query \<Rightarrow> tables \<Rightarrow> bool result" where
  "db_get_exists (Tenant_WithId i) T = Inr (i \<in> set (T_tenants T))"
| "db_get_exists (Agent_WithId i) T = Inr (\<exists>r \<in> set (T_agents T). row_is i r \<and> row_live r)"

section \<open>Integrity\<close>

text \<open>What the keys of the schema keep: primary keys and unique columns, references.\<close>

definition db_ok :: "tables \<Rightarrow> bool" where
  "db_ok T \<longleftrightarrow>
     distinct (map (\<lambda>r. Agent_ID (Row_Agent r)) (T_agents T)) \<and>
     distinct (map (\<lambda>r. Agent_DID (Row_Agent r)) (T_agents T)) \<and>
     distinct (map Message_ID (T_messages T)) \<and>
     distinct (map Ack_Nonce (T_acks T)) \<and>
     distinct (map DL_ID (T_dlq T)) \<and>
     (\<forall>r \<in> set (T_agents T). Agent_TenantID (Row_Agent r) \<in> set (T_tenants T)) \<and>
     (\<forall>m \<in> set (T_messages T). Message_SenderID m \<in> agent_ids T \<and> Message_TenantID m \<in> set (T_tenants T)) \<and>
     (\<forall>a \<in> set (T_acks T). Ack_MessageID a \<in> message_ids T \<and> Ack_AgentID a \<in> agent_ids T) \<and>
     (\<forall>e \<in> set (T_dlq T). DL_MessageID e \<in> message_ids T)"

lemma map_update_where: "(\<And>r. g (f r) = g r) \<Longrightarrow> map g (update_where p f rs) = map g rs"
  by (simp add: update_where_def)

lemma image_update_where: "(\<And>r. g (f r) = g r) \<Longrightarrow> g ` set (update_where p f rs) = g ` set rs"
  by (metis list.set_map map_update_where)

lemma ball_update_where: "(\<And>r. Q (f r) = Q r) \<Longrightarrow> (\<forall>r \<in> set (update_where p f rs). Q r) = (\<forall>r \<in> set rs. Q r)"
  by (induction rs) (simp_all add: update_where_def)

lemma agent_ids_on_agents:
  "(\<And>r. Agent_ID (Row_Agent (f r)) = Agent_ID (Row_Agent r)) \<Longrightarrow> agent_ids (snd (on_agents p f T)) = agent_ids T"
  by (simp add: agent_ids_def on_agents_def image_update_where [where g = "\<lambda>r. Agent_ID (Row_Agent r)"])

lemma row_updates [simp]:
  "Agent_ID (Row_Agent (set_agent_columns n v c e s h r)) = Agent_ID (Row_Agent r)"
  "Agent_DID (Row_Agent (set_agent_columns n v c e s h r)) = Agent_DID (Row_Agent r)"
  "Agent_TenantID (Row_Agent (set_agent_columns n v c e s h r)) = Agent_TenantID (Row_Agent r)"
  "Agent_ID (Row_Agent (set_agent_status s t r)) = Agent_ID (Row_Agent r)"
  "Agent_DID (Row_Agent (set_agent_status s t r)) = Agent_DID (Row_Agent r)"
  "Agent_TenantID (Row_Agent (set_agent_status s t r)) = Agent_TenantID (Row_Agent r)"
  "Message_ID (set_message_status st t m) = Message_ID m"
  "Message_SenderID (set_message_status st t m) = Message_SenderID m"
  "Message_TenantID (set_message_status st t m) = Message_TenantID m"
  "Message_RecipientStr (set_message_status st t m) = Message_RecipientStr m"
  by (simp_all add: set_agent_columns_def set_agent_status_def set_message_status_def)

lemma db_ok_on_agents:
  assumes "db_ok T"
    and f: "\<And>r. Agent_ID (Row_Agent (f r)) = Agent_ID (Row_Agent r)"
      "\<And>r. Agent_DID (Row_Agent (f r)) = Agent_DID (Row_Agent r)"
      "\<And>r. Agent_TenantID (Row_Agent (f r)) = Agent_TenantID (Row_Agent r)"
  shows "db_ok (snd (on_agents p f T))"
  using assms(1) agent_ids_on_agents [of f p T, OF f(1)]
  by (simp add: db_ok_def on_agents_def message_ids_def map_update_where [where g = "\<lambda>r. Agent_ID (Row_Agent r)", OF f(1)]
      map_update_where [where g = "\<lambda>r. Agent_DID (Row_Agent r)", OF f(2)] f(3)
      ball_update_where [where Q = "\<lambda>r. Agent_TenantID (Row_Agent r) \<in> A" for A])

lemma db_ok_exec_agents:
  "db_ok T \<Longrightarrow> db_ok (snd (db_exec now (Agents_Insert i t d k n v p ti c e s) T))"
  by (auto simp: db_ok_def agent_ids_def message_ids_def)

lemma db_ok_exec_messages:
  "db_ok T \<Longrightarrow> db_ok (snd (db_exec now (Messages_Insert i c ty se r co si ct me gu st ta tr te) T))"
  "db_ok T \<Longrightarrow> db_ok (snd (db_exec now (Messages_Status i st) T))"
  by (auto simp: db_ok_def agent_ids_def message_ids_def map_update_where [where g = Message_ID]
      image_update_where [where g = Message_ID] ball_update_where)

lemma db_ok_exec_acks: "db_ok T \<Longrightarrow> db_ok (snd (db_exec now (Acks_Insert i m a s d n g c) T))"
  by (auto simp: db_ok_def agent_ids_def message_ids_def)

lemma db_ok_exec_dlq:
  "db_ok T \<Longrightarrow> db_ok (snd (db_exec now (Dlq_Insert i m r n x p s c q) T))"
  "db_ok T \<Longrightarrow> db_ok (snd (db_exec now (Dlq_Update i s n q) T))"
  by (auto simp: db_ok_def agent_ids_def message_ids_def map_update_where [where g = DL_ID]
      ball_update_where [where Q = "\<lambda>e. DL_MessageID e \<in> A" for A])

lemma db_ok_exec: "db_ok T \<Longrightarrow> db_ok (snd (db_exec now q T))"
proof (cases q)
  case (Audit_Insert a)
  moreover assume "db_ok T"
  ultimately show ?thesis by (simp add: db_ok_def agent_ids_def message_ids_def)
qed (use db_ok_exec_agents db_ok_exec_messages db_ok_exec_acks db_ok_exec_dlq in
      \<open>simp_all add: db_ok_on_agents del: db_exec.simps(1,8-12)\<close>)

text \<open>Only a soft delete hides an agent, and no statement removes a row.\<close>

lemma agent_ids_exec: "agent_ids T \<subseteq> agent_ids (snd (db_exec now q T))"
  by (cases q) (auto simp: agent_ids_def on_agents_def image_update_where [where g = "\<lambda>r. Agent_ID (Row_Agent r)"])

lemma message_ids_exec: "message_ids T \<subseteq> message_ids (snd (db_exec now q T))"
  by (cases q) (auto simp: message_ids_def on_agents_def image_update_where [where g = Message_ID])

declare db_exec.simps [simp del]

end
