(* ===== verification/Redis_Store.thy ===== *)
theory Redis_Store
  imports Repository
begin

text \<open>
  A keyspace with the commands of \<open>redis.go\<close> as the code relies on them: strings with expiry,
  counters, lists (the head of a list is its left end), hashes, sorted sets. A command on a
  value of another type is an error, and a key past its deadline is absent.
\<close>

section \<open>Keys and values\<close>

datatype redis_value =
    RString string
  | RList "string list"
  | RHash "(string \<times> string) list"
  | RZset "(int \<times> string) list"

type_synonym store = "string \<Rightarrow> (redis_value \<times> time option) option"

definition wrong_type :: go_error where
  "wrong_type = OtherError ''WRONGTYPE Operation against a key holding the wrong kind of value''"

definition not_an_integer :: go_error where
  "not_an_integer = OtherError ''ERR value is not an integer or out of range''"

definition lookup :: "time \<Rightarrow> store \<Rightarrow> string \<Rightarrow> redis_value option" where
  "lookup now s k = (case s k of
     None \<Rightarrow> None
   | Some (v, None) \<Rightarrow> Some v
   | Some (v, Some d) \<Rightarrow> (if now < d then Some v else None))"

definition deadline :: "time \<Rightarrow> store \<Rightarrow> string \<Rightarrow> time option" where
  "deadline now s k = (case s k of Some (v, Some d) \<Rightarrow> (if now < d then Some d else None) | _ \<Rightarrow> None)"

text \<open>A key expires and is created again without a deadline.\<close>

definition put_value :: "time \<Rightarrow> string \<Rightarrow> redis_value \<Rightarrow> store \<Rightarrow> store" where
  "put_value now k v s = s(k := Some (v, deadline now s k))"

section \<open>Commands\<close>

definition rd_list :: "time \<Rightarrow> store \<Rightarrow> string \<Rightarrow> string list result" where
  "rd_list now s k = (case lookup now s k of
     None \<Rightarrow> Inr [] | Some (RList xs) \<Rightarrow> Inr xs | Some _ \<Rightarrow> Inl wrong_type)"

definition st_LPush :: "time \<Rightarrow> string \<Rightarrow> string list \<Rightarrow> store \<Rightarrow> unit result \<times> store" where
  "st_LPush now k vs s = (case rd_list now s k of
     Inl e \<Rightarrow> (Inl e, s)
   | Inr xs \<Rightarrow> (Inr (), put_value now k (RList (rev vs @ xs)) s))"

definition st_RPop :: "time \<Rightarrow> string \<Rightarrow> store \<Rightarrow> string result \<times> store" where
  "st_RPop now k s = (case rd_list now s k of
     Inl e \<Rightarrow> (Inl e, s)
   | Inr xs \<Rightarrow>
       (if xs = [] then (Inl ErrRedisNil, s)
        else (Inr (last xs), if butlast xs = [] then s(k := None) else put_value now k (RList (butlast xs)) s)))"

text \<open>go-redis sends a deadline only for a positive expiration.\<close>

definition st_Set :: "time \<Rightarrow> string \<Rightarrow> string \<Rightarrow> duration \<Rightarrow> store \<Rightarrow> unit result \<times> store" where
  "st_Set now k v d s = (Inr (), s(k := Some (RString v, if d > 0 then Some (now + d) else None)))"

definition st_Get :: "time \<Rightarrow> string \<Rightarrow> store \<Rightarrow> string result \<times> store" where
  "st_Get now k s = (case lookup now s k of
     None \<Rightarrow> (Inl ErrRedisNil, s) | Some (RString v) \<Rightarrow> (Inr v, s) | Some _ \<Rightarrow> (Inl wrong_type, s))"

definition st_Del :: "time \<Rightarrow> string list \<Rightarrow> store \<Rightarrow> unit result \<times> store" where
  "st_Del now ks s = (Inr (), \<lambda>k. if k \<in> set ks then None else s k)"

definition rd_hash :: "time \<Rightarrow> store \<Rightarrow> string \<Rightarrow> (string \<times> string) list result" where
  "rd_hash now s k = (case lookup now s k of
     None \<Rightarrow> Inr [] | Some (RHash h) \<Rightarrow> Inr h | Some _ \<Rightarrow> Inl wrong_type)"

fun hash_put :: "string \<Rightarrow> string \<Rightarrow> (string \<times> string) list \<Rightarrow> (string \<times> string) list" where
  "hash_put f v [] = [(f, v)]"
| "hash_put f v ((g, w) # h) = (if g = f then (f, v) # h else (g, w) # hash_put f v h)"

definition st_HSet :: "time \<Rightarrow> string \<Rightarrow> string \<Rightarrow> string \<Rightarrow> store \<Rightarrow> unit result \<times> store" where
  "st_HSet now k f v s = (case rd_hash now s k of
     Inl e \<Rightarrow> (Inl e, s) | Inr h \<Rightarrow> (Inr (), put_value now k (RHash (hash_put f v h)) s))"

definition st_HGetAll :: "time \<Rightarrow> string \<Rightarrow> store \<Rightarrow> (string \<times> string) list result \<times> store" where
  "st_HGetAll now k s = (rd_hash now s k, s)"

definition st_HDel :: "time \<Rightarrow> string \<Rightarrow> string \<Rightarrow> store \<Rightarrow> unit result \<times> store" where
  "st_HDel now k f s = (case rd_hash now s k of
     Inl e \<Rightarrow> (Inl e, s)
   | Inr h \<Rightarrow> (let h' = filter (\<lambda>p. fst p \<noteq> f) h
               in (Inr (), if h' = [] then s(k := None) else put_value now k (RHash h') s)))"

definition st_Expire :: "time \<Rightarrow> string \<Rightarrow> duration \<Rightarrow> store \<Rightarrow> unit result \<times> store" where
  "st_Expire now k d s = (case lookup now s k of
     None \<Rightarrow> (Inr (), s)
   | Some v \<Rightarrow> (Inr (), if d \<le> 0 then s(k := None) else s(k := Some (v, Some (now + d)))))"

definition st_Incr :: "time \<Rightarrow> string \<Rightarrow> store \<Rightarrow> int result \<times> store" where
  "st_Incr now k s = (case lookup now s k of
     None \<Rightarrow> (Inr 1, put_value now k (RString (strconv_Itoa 1)) s)
   | Some (RString v) \<Rightarrow>
       (case strconv_Atoi v of
          None \<Rightarrow> (Inl not_an_integer, s)
        | Some n \<Rightarrow> (if n + 1 < 2 ^ 63 then (Inr (n + 1), put_value now k (RString (strconv_Itoa (n + 1))) s)
                    else (Inl not_an_integer, s)))
   | Some _ \<Rightarrow> (Inl wrong_type, s))"

definition rd_zset :: "time \<Rightarrow> store \<Rightarrow> string \<Rightarrow> (int \<times> string) list result" where
  "rd_zset now s k = (case lookup now s k of
     None \<Rightarrow> Inr [] | Some (RZset z) \<Rightarrow> Inr z | Some _ \<Rightarrow> Inl wrong_type)"

fun zset_insert :: "int \<times> string \<Rightarrow> (int \<times> string) list \<Rightarrow> (int \<times> string) list" where
  "zset_insert x [] = [x]"
| "zset_insert (a, m) ((b, n) # z) =
     (if a < b \<or> a = b \<and> str_less m n then (a, m) # (b, n) # z else (b, n) # zset_insert (a, m) z)"

definition zset_put :: "(int \<times> string) list \<Rightarrow> int \<times> string \<Rightarrow> (int \<times> string) list" where
  "zset_put z x = zset_insert x (filter (\<lambda>y. snd y \<noteq> snd x) z)"

definition st_ZAdd :: "time \<Rightarrow> string \<Rightarrow> (int \<times> string) list \<Rightarrow> store \<Rightarrow> unit result \<times> store" where
  "st_ZAdd now k xs s = (case rd_zset now s k of
     Inl e \<Rightarrow> (Inl e, s) | Inr z \<Rightarrow> (Inr (), put_value now k (RZset (foldl zset_put z xs)) s))"

text \<open>Ranks from \<open>start\<close> to \<open>stop\<close>, both included; a negative rank counts from the end.\<close>

definition st_ZRange :: "time \<Rightarrow> string \<Rightarrow> int \<Rightarrow> int \<Rightarrow> store \<Rightarrow> string list result \<times> store" where
  "st_ZRange now k start stop s = (case rd_zset now s k of
     Inl e \<Rightarrow> (Inl e, s)
   | Inr z \<Rightarrow>
       (let n = int (length z);
            a = max 0 (if start < 0 then n + start else start);
            b = (if stop < 0 then n + stop else stop)
        in (Inr (map snd (take (nat (b + 1 - a)) (drop (nat a) z))), s)))"

definition st_Exists :: "time \<Rightarrow> string \<Rightarrow> store \<Rightarrow> int result \<times> store" where
  "st_Exists now k s = (Inr (if lookup now s k = None then 0 else 1), s)"

section \<open>Lookup after a command\<close>

lemma lookup_upd:
  "lookup now (s(k := v)) k' = (if k' = k then (case v of None \<Rightarrow> None | Some (x, None) \<Rightarrow> Some x
     | Some (x, Some d) \<Rightarrow> if now < d then Some x else None) else lookup now s k')"
  by (simp add: lookup_def split: option.split)

lemma lookup_put [simp]: "lookup now (put_value now k v s) k' = (if k' = k then Some v else lookup now s k')"
  by (auto simp: put_value_def lookup_upd deadline_def split: option.split prod.split)

lemma rd_list_put [simp]: "rd_list now (put_value now k v s) k' =
    (if k' = k then (case v of RList xs \<Rightarrow> Inr xs | _ \<Rightarrow> Inl wrong_type) else rd_list now s k')"
  by (simp add: rd_list_def split: redis_value.split)

lemma rd_list_del [simp]: "rd_list now (s(k := None)) k' = (if k' = k then Inr [] else rd_list now s k')"
  by (simp add: rd_list_def lookup_upd)

lemma hash_put_get: "map_of (hash_put f v h) = (map_of h)(f \<mapsto> v)"
  by (induction f v h rule: hash_put.induct) auto

lemma hash_put_keys: "fst ` set (hash_put f v h) = insert f (fst ` set h)"
  by (induction f v h rule: hash_put.induct) auto

lemma hash_put_distinct: "distinct (map fst h) \<Longrightarrow> distinct (map fst (hash_put f v h))"
proof (induction f v h rule: hash_put.induct)
  case (2 f v g w h)
  then show ?case using hash_put_keys [of f v h] by auto
qed simp

lemma hash_put_set: "distinct (map fst h) \<Longrightarrow> set (hash_put f v h) = insert (f, v) {p \<in> set h. fst p \<noteq> f}"
  by (induction f v h rule: hash_put.induct) (auto simp: image_iff)

lemma hash_put_others: "filter (\<lambda>p. fst p \<noteq> f) (hash_put f v h) = filter (\<lambda>p. fst p \<noteq> f) h"
  by (induction f v h rule: hash_put.induct) auto

end
