(* ===== verification/World.thy ===== *)
theory World
  imports Database Redis_Store Uuid_Text
begin

text \<open>
  A system around the process: a PostgreSQL server with the tables of theory Database, a
  Redis server with the keyspace of theory Redis_Store, a clock, a source of UUIDs and a
  metrics registry, and a schedule of faults that may strike any call. Its handles
  \<open>sys_rt\<close>, \<open>sys_db\<close> and \<open>sys_redis\<close> are the instances on which the interfaces of the later
  theories are interpreted and on which properties of several servers are stated.
\<close>

section \<open>The state of the world\<close>

text \<open>
  A call to a server works, is refused (no effect, an error), or loses its reply (the
  effect, and an error). The n-th reading of the clock gives \<open>W_clock n\<close>; servers see the
  time of the next reading. No law is assumed of the clock unless a property states one.
\<close>

datatype failure = Sql_Failure string string | Net_Failure string

definition failure_error :: "failure \<Rightarrow> go_error" where
  "failure_error f = (case f of Sql_Failure code msg \<Rightarrow> PqError code msg | Net_Failure msg \<Rightarrow> OtherError msg)"

lemma failure_error_neq [simp]: "failure_error f \<noteq> ErrNoRows" "failure_error f \<noteq> ErrRedisNil"
  by (simp_all add: failure_error_def split: failure.split)

datatype fault = Works | Refused failure | Reply_Lost failure

datatype metric = Counted string "string list" | Observed string "string list" duration

record world =
  W_clock :: "nat \<Rightarrow> time"
  W_reads :: nat
  W_uuids :: "nat \<Rightarrow> uuid"
  W_drawn :: nat
  W_faults :: "nat \<Rightarrow> fault"
  W_calls :: nat
  W_db :: tables
  W_redis :: store
  W_published :: "(string \<times> string) list"
  W_metrics :: "metric list"

definition w_now :: "world \<Rightarrow> time" where
  "w_now w = W_clock w (W_reads w)"

section \<open>Handles\<close>

definition sys_rt :: "world runtime" where
  "sys_rt = \<lparr>
     time_Now = State (\<lambda>w. (w_now w, w\<lparr>W_reads := W_reads w + 1\<rparr>)),
     uuid_New = State (\<lambda>w. (W_uuids w (W_drawn w), w\<lparr>W_drawn := W_drawn w + 1\<rparr>)),
     counter_Inc = (\<lambda>name labels. State (\<lambda>w. ((), w\<lparr>W_metrics := W_metrics w @ [Counted name labels]\<rparr>))),
     histogram_Observe = (\<lambda>name labels d.
       State (\<lambda>w. ((), w\<lparr>W_metrics := W_metrics w @ [Observed name labels d]\<rparr>)))\<rparr>"

definition w_call :: "(world \<Rightarrow> 'a result \<times> world) \<Rightarrow> (world, 'a result) io" where
  "w_call f = State (\<lambda>w.
     let w' = w\<lparr>W_calls := W_calls w + 1\<rparr>
     in case W_faults w (W_calls w) of
          Works \<Rightarrow> f w'
        | Refused e \<Rightarrow> (Inl (failure_error e), w')
        | Reply_Lost e \<Rightarrow> (Inl (failure_error e), snd (f w')))"

definition on_db :: "(time \<Rightarrow> tables \<Rightarrow> 'a result \<times> tables) \<Rightarrow> (world, 'a result) io" where
  "on_db f = w_call (\<lambda>w. case f (w_now w) (W_db w) of (r, T) \<Rightarrow> (r, w\<lparr>W_db := T\<rparr>))"

definition on_redis :: "(time \<Rightarrow> store \<Rightarrow> 'a result \<times> store) \<Rightarrow> (world, 'a result) io" where
  "on_redis f = w_call (\<lambda>w. case f (w_now w) (W_redis w) of (r, s) \<Rightarrow> (r, w\<lparr>W_redis := s\<rparr>))"

definition sys_db :: "world sqlx" where
  "sys_db = \<lparr>
     ExecContext = (\<lambda>q. on_db (\<lambda>now. db_exec now q)),
     GetAgent = (\<lambda>q. on_db (\<lambda>now T. (db_get_agent q T, T))),
     SelectAgents = (\<lambda>q. on_db (\<lambda>now T. (db_select_agents q T, T))),
     GetMessage = (\<lambda>q. on_db (\<lambda>now T. (db_get_message q T, T))),
     SelectMessages = (\<lambda>q. on_db (\<lambda>now T. (db_select_messages q T, T))),
     GetAck = (\<lambda>i. on_db (\<lambda>now T. (db_get_ack i T, T))),
     SelectDeadLetters = (\<lambda>n. on_db (\<lambda>now T. (db_select_dead_letters n T, T))),
     GetExists = (\<lambda>q. on_db (\<lambda>now T. (db_get_exists q T, T))),
     PingDB = on_db (\<lambda>now T. (Inr (), T))\<rparr>"

definition sys_redis :: "world goredis" where
  "sys_redis = \<lparr>
     cmd_Publish = (\<lambda>c m. w_call (\<lambda>w. (Inr (), w\<lparr>W_published := W_published w @ [(c, m)]\<rparr>))),
     cmd_LPush = (\<lambda>k vs. on_redis (\<lambda>now. st_LPush now k vs)),
     cmd_RPop = (\<lambda>k. on_redis (\<lambda>now. st_RPop now k)),
     cmd_Set = (\<lambda>k v d. on_redis (\<lambda>now. st_Set now k v d)),
     cmd_Get = (\<lambda>k. on_redis (\<lambda>now. st_Get now k)),
     cmd_Del = (\<lambda>ks. on_redis (\<lambda>now. st_Del now ks)),
     cmd_HSet = (\<lambda>k f v. on_redis (\<lambda>now. st_HSet now k f v)),
     cmd_HGetAll = (\<lambda>k. on_redis (\<lambda>now. st_HGetAll now k)),
     cmd_HDel = (\<lambda>k f. on_redis (\<lambda>now. st_HDel now k f)),
     cmd_Expire = (\<lambda>k d. on_redis (\<lambda>now. st_Expire now k d)),
     cmd_Incr = (\<lambda>k. on_redis (\<lambda>now. st_Incr now k)),
     cmd_ZAdd = (\<lambda>k xs. on_redis (\<lambda>now. st_ZAdd now k xs)),
     cmd_ZRange = (\<lambda>k a b. on_redis (\<lambda>now. st_ZRange now k a b)),
     cmd_Exists = (\<lambda>k. on_redis (\<lambda>now. st_Exists now k)),
     cmd_Ping = w_call (\<lambda>w. (Inr (), w))\<rparr>"

section \<open>Evaluation\<close>

lemma run_w_call: "run_state (w_call f) w =
    (let w' = w\<lparr>W_calls := W_calls w + 1\<rparr>
     in case W_faults w (W_calls w) of
          Works \<Rightarrow> f w' | Refused e \<Rightarrow> (Inl (failure_error e), w')
        | Reply_Lost e \<Rightarrow> (Inl (failure_error e), snd (f w')))"
  by (simp add: w_call_def)

lemma w_now_simps [simp]:
  "w_now (w\<lparr>W_calls := n\<rparr>) = w_now w" "w_now (w\<lparr>W_db := T\<rparr>) = w_now w"
  "w_now (w\<lparr>W_redis := s\<rparr>) = w_now w" "w_now (w\<lparr>W_published := p\<rparr>) = w_now w"
  "w_now (w\<lparr>W_metrics := m\<rparr>) = w_now w" "w_now (w\<lparr>W_drawn := d\<rparr>) = w_now w"
  by (simp_all add: w_now_def)

text \<open>The reply to a call, and whether the server executed it.\<close>

definition sys_reply :: "world \<Rightarrow> 'a result \<Rightarrow> 'a result" where
  "sys_reply w r = (case W_faults w (W_calls w) of
     Works \<Rightarrow> r | Refused e \<Rightarrow> Inl (failure_error e) | Reply_Lost e \<Rightarrow> Inl (failure_error e))"

definition sys_done :: "world \<Rightarrow> bool" where
  "sys_done w = (case W_faults w (W_calls w) of Works \<Rightarrow> True | Refused e \<Rightarrow> False | Reply_Lost e \<Rightarrow> True)"

abbreviation called :: "world \<Rightarrow> world" where
  "called w \<equiv> w\<lparr>W_calls := W_calls w + 1\<rparr>"

lemma run_on_db: "run_state (on_db f) w =
    (sys_reply w (fst (f (w_now w) (W_db w))),
     (called w)\<lparr>W_db := (if sys_done w then snd (f (w_now w) (W_db w)) else W_db w)\<rparr>)"
  by (simp add: on_db_def run_w_call sys_reply_def sys_done_def Let_def split: fault.split prod.split)

lemma run_on_redis: "run_state (on_redis f) w =
    (sys_reply w (fst (f (w_now w) (W_redis w))),
     (called w)\<lparr>W_redis := (if sys_done w then snd (f (w_now w) (W_redis w)) else W_redis w)\<rparr>)"
  by (simp add: on_redis_def run_w_call sys_reply_def sys_done_def Let_def split: fault.split prod.split)

lemma run_sys_exec: "run_state (ExecContext sys_db q) w =
    (sys_reply w (fst (db_exec (w_now w) q (W_db w))),
     (called w)\<lparr>W_db := (if sys_done w then snd (db_exec (w_now w) q (W_db w)) else W_db w)\<rparr>)"
  by (simp add: sys_db_def run_on_db)

lemma run_sys_queries:
  "run_state (GetAgent sys_db aq) w = (sys_reply w (db_get_agent aq (W_db w)), called w)"
  "run_state (SelectAgents sys_db aq) w = (sys_reply w (db_select_agents aq (W_db w)), called w)"
  "run_state (GetMessage sys_db mq) w = (sys_reply w (db_get_message mq (W_db w)), called w)"
  "run_state (SelectMessages sys_db mq) w = (sys_reply w (db_select_messages mq (W_db w)), called w)"
  "run_state (GetAck sys_db i) w = (sys_reply w (db_get_ack i (W_db w)), called w)"
  "run_state (SelectDeadLetters sys_db n) w = (sys_reply w (db_select_dead_letters n (W_db w)), called w)"
  "run_state (GetExists sys_db eq) w = (sys_reply w (db_get_exists eq (W_db w)), called w)"
  "run_state (PingDB sys_db) w = (sys_reply w (Inr ()), called w)"
  by (simp_all add: sys_db_def run_on_db)

lemma run_sys_redis:
  "run_state (cmd_LPush sys_redis k vs) w = (sys_reply w (fst (st_LPush (w_now w) k vs (W_redis w))),
     (called w)\<lparr>W_redis := (if sys_done w then snd (st_LPush (w_now w) k vs (W_redis w)) else W_redis w)\<rparr>)"
  "run_state (cmd_RPop sys_redis k) w = (sys_reply w (fst (st_RPop (w_now w) k (W_redis w))),
     (called w)\<lparr>W_redis := (if sys_done w then snd (st_RPop (w_now w) k (W_redis w)) else W_redis w)\<rparr>)"
  "run_state (cmd_Set sys_redis k v d) w = (sys_reply w (fst (st_Set (w_now w) k v d (W_redis w))),
     (called w)\<lparr>W_redis := (if sys_done w then snd (st_Set (w_now w) k v d (W_redis w)) else W_redis w)\<rparr>)"
  "run_state (cmd_Get sys_redis k) w = (sys_reply w (fst (st_Get (w_now w) k (W_redis w))), called w)"
  "run_state (cmd_Del sys_redis ks) w = (sys_reply w (fst (st_Del (w_now w) ks (W_redis w))),
     (called w)\<lparr>W_redis := (if sys_done w then snd (st_Del (w_now w) ks (W_redis w)) else W_redis w)\<rparr>)"
  "run_state (cmd_HSet sys_redis k f v) w = (sys_reply w (fst (st_HSet (w_now w) k f v (W_redis w))),
     (called w)\<lparr>W_redis := (if sys_done w then snd (st_HSet (w_now w) k f v (W_redis w)) else W_redis w)\<rparr>)"
  "run_state (cmd_HGetAll sys_redis k) w = (sys_reply w (fst (st_HGetAll (w_now w) k (W_redis w))), called w)"
  "run_state (cmd_HDel sys_redis k f) w = (sys_reply w (fst (st_HDel (w_now w) k f (W_redis w))),
     (called w)\<lparr>W_redis := (if sys_done w then snd (st_HDel (w_now w) k f (W_redis w)) else W_redis w)\<rparr>)"
  "run_state (cmd_Expire sys_redis k d) w = (sys_reply w (fst (st_Expire (w_now w) k d (W_redis w))),
     (called w)\<lparr>W_redis := (if sys_done w then snd (st_Expire (w_now w) k d (W_redis w)) else W_redis w)\<rparr>)"
  "run_state (cmd_Incr sys_redis k) w = (sys_reply w (fst (st_Incr (w_now w) k (W_redis w))),
     (called w)\<lparr>W_redis := (if sys_done w then snd (st_Incr (w_now w) k (W_redis w)) else W_redis w)\<rparr>)"
  "run_state (cmd_ZAdd sys_redis k xs) w = (sys_reply w (fst (st_ZAdd (w_now w) k xs (W_redis w))),
     (called w)\<lparr>W_redis := (if sys_done w then snd (st_ZAdd (w_now w) k xs (W_redis w)) else W_redis w)\<rparr>)"
  "run_state (cmd_Exists sys_redis k) w = (sys_reply w (fst (st_Exists (w_now w) k (W_redis w))), called w)"
  "run_state (cmd_Ping sys_redis) w = (sys_reply w (Inr ()), called w)"
  by (simp_all add: sys_redis_def run_on_redis st_Get_def st_HGetAll_def st_Exists_def run_w_call sys_reply_def Let_def
      split: option.split redis_value.split fault.split)

lemma run_sys_publish: "run_state (cmd_Publish sys_redis c m) w =
    (sys_reply w (Inr ()), (called w)\<lparr>W_published := (if sys_done w then W_published w @ [(c, m)] else W_published w)\<rparr>)"
  by (simp add: sys_redis_def run_w_call sys_reply_def sys_done_def Let_def split: fault.split)

lemma run_sys_rt:
  "run_state (time_Now sys_rt) w = (w_now w, w\<lparr>W_reads := W_reads w + 1\<rparr>)"
  "run_state (uuid_New sys_rt) w = (W_uuids w (W_drawn w), w\<lparr>W_drawn := W_drawn w + 1\<rparr>)"
  "run_state (counter_Inc sys_rt c ls) w = ((), w\<lparr>W_metrics := W_metrics w @ [Counted c ls]\<rparr>)"
  "run_state (histogram_Observe sys_rt c ls d) w = ((), w\<lparr>W_metrics := W_metrics w @ [Observed c ls d]\<rparr>)"
  by (simp_all add: sys_rt_def)

lemma sys_reply_Inr [simp]: "sys_reply w r = Inr x \<longleftrightarrow> W_faults w (W_calls w) = Works \<and> r = Inr x"
  by (simp add: sys_reply_def split: fault.split)

lemma sys_reply_works: "W_faults w (W_calls w) = Works \<Longrightarrow> sys_reply w r = r \<and> sys_done w"
  by (simp add: sys_reply_def sys_done_def)

lemma sys_reply_frame [simp]:
  "sys_reply (w\<lparr>W_db := T\<rparr>) r = sys_reply w r" "sys_reply (w\<lparr>W_redis := s\<rparr>) r = sys_reply w r"
  "sys_reply (w\<lparr>W_reads := n\<rparr>) r = sys_reply w r" "sys_reply (w\<lparr>W_drawn := n\<rparr>) r = sys_reply w r"
  "sys_reply (w\<lparr>W_metrics := m\<rparr>) r = sys_reply w r" "sys_reply (w\<lparr>W_published := p\<rparr>) r = sys_reply w r"
  "sys_done (w\<lparr>W_db := T\<rparr>) = sys_done w" "sys_done (w\<lparr>W_redis := s\<rparr>) = sys_done w"
  "sys_done (w\<lparr>W_reads := n\<rparr>) = sys_done w" "sys_done (w\<lparr>W_drawn := n\<rparr>) = sys_done w"
  "sys_done (w\<lparr>W_metrics := m\<rparr>) = sys_done w" "sys_done (w\<lparr>W_published := p\<rparr>) = sys_done w"
  by (simp_all add: sys_reply_def sys_done_def)

lemmas run_sys = run_sys_exec run_sys_queries run_sys_redis run_sys_publish run_sys_rt

lemmas sys_handles = sys_rt_def sys_db_def sys_redis_def
lemmas run_calls = run_w_call on_db_def on_redis_def Let_def

text \<open>An invariant of one server survives every call to the other one, and metrics.\<close>

definition db_inv :: "(tables \<Rightarrow> bool) \<Rightarrow> world \<Rightarrow> bool" where
  "db_inv P w = P (W_db w)"

lemma keeps_w_call:
  "(\<And>w. I w \<Longrightarrow> I (snd (f w))) \<Longrightarrow> (\<And>w n. I (w\<lparr>W_calls := n\<rparr>) = I w) \<Longrightarrow> keeps I (w_call f)"
  by (auto simp: keeps_def run_calls split: fault.split)

lemma keeps_on_db:
  assumes "\<And>now T. P T \<Longrightarrow> P (snd (f now T))"
  shows "keeps (db_inv P) (on_db f)"
  unfolding on_db_def by (rule keeps_w_call) (auto simp: db_inv_def split: prod.split, metis assms snd_conv)

lemma keeps_db_on_redis: "keeps (db_inv P) (on_redis f)"
  unfolding on_redis_def by (rule keeps_w_call) (auto simp: db_inv_def split: prod.split)

lemma keeps_db_rt [keeps_rules]:
  "keeps (db_inv P) (time_Now sys_rt)" "keeps (db_inv P) (uuid_New sys_rt)"
  "keeps (db_inv P) (counter_Inc sys_rt c l)" "keeps (db_inv P) (histogram_Observe sys_rt c l d)"
  by (simp_all add: keeps_def sys_rt_def db_inv_def)

lemma keeps_db_redis [keeps_rules]:
  "keeps (db_inv P) (cmd_Publish sys_redis c m)" "keeps (db_inv P) (cmd_LPush sys_redis k vs)"
  "keeps (db_inv P) (cmd_RPop sys_redis k)" "keeps (db_inv P) (cmd_Set sys_redis k v d)"
  "keeps (db_inv P) (cmd_Get sys_redis k)" "keeps (db_inv P) (cmd_Del sys_redis ks)"
  "keeps (db_inv P) (cmd_HSet sys_redis k f v)" "keeps (db_inv P) (cmd_HGetAll sys_redis k)"
  "keeps (db_inv P) (cmd_HDel sys_redis k f)" "keeps (db_inv P) (cmd_Expire sys_redis k d)"
  "keeps (db_inv P) (cmd_Incr sys_redis k)" "keeps (db_inv P) (cmd_ZAdd sys_redis k xs)"
  "keeps (db_inv P) (cmd_ZRange sys_redis k a b)" "keeps (db_inv P) (cmd_Exists sys_redis k)"
  "keeps (db_inv P) (cmd_Ping sys_redis)"
  by (simp_all add: sys_redis_def keeps_db_on_redis) (auto simp: db_inv_def intro!: keeps_w_call)

lemma keeps_db_queries [keeps_rules]:
  "keeps (db_inv P) (GetAgent sys_db q)" "keeps (db_inv P) (SelectAgents sys_db q)"
  "keeps (db_inv P) (GetMessage sys_db mq)" "keeps (db_inv P) (SelectMessages sys_db mq)"
  "keeps (db_inv P) (GetAck sys_db i)" "keeps (db_inv P) (SelectDeadLetters sys_db n)"
  "keeps (db_inv P) (GetExists sys_db eq)" "keeps (db_inv P) (PingDB sys_db)"
  by (simp_all add: sys_db_def keeps_on_db)

lemma keeps_db_exec: "(\<And>now T. P T \<Longrightarrow> P (snd (db_exec now q T))) \<Longrightarrow> keeps (db_inv P) (ExecContext sys_db q)"
  by (simp add: sys_db_def keeps_on_db)

lemma keeps_db_ok [keeps_rules]: "keeps (db_inv db_ok) (ExecContext sys_db q)"
  by (rule keeps_db_exec) (rule db_ok_exec)

section \<open>The pending queue\<close>

text \<open>
  A queue between producers and workers. Push and pop may fail, and a failed call may still
  have had its effect; \<open>contents\<close> lists the queue, oldest first.
\<close>

locale work_queue =
  fixes push :: "'v \<Rightarrow> ('w, unit result) io"
    and pop :: "('w, 'v result) io"
    and contents :: "'w \<Rightarrow> 'v list"
    and ready :: "'w \<Rightarrow> bool"
  assumes push_ok: "ready w \<Longrightarrow> run_state (push v) w = (Inr (), w') \<Longrightarrow> contents w' = contents w @ [v]"
    and push_err: "ready w \<Longrightarrow> run_state (push v) w = (Inl e, w') \<Longrightarrow> contents w' \<in> {contents w, contents w @ [v]}"
    and pop_ok: "ready w \<Longrightarrow> run_state pop w = (Inr v, w') \<Longrightarrow> contents w = v # contents w'"
    and pop_err: "ready w \<Longrightarrow> run_state pop w = (Inl e, w') \<Longrightarrow> contents w' \<in> {contents w, tl (contents w)}"
    and push_ready: "keeps ready (push v)"
    and pop_ready: "keeps ready pop"
begin

lemma push_contents: "ready w \<Longrightarrow> run_state (push v) w = (r, w') \<Longrightarrow> contents w' \<in> {contents w, contents w @ [v]}"
  using push_ok push_err by (cases r) auto

lemma pushes_ok:
  "ready w \<Longrightarrow> run_state (for_err push vs) w = (Inr (), w') \<Longrightarrow> contents w' = contents w @ vs \<and> ready w'"
proof (induction vs arbitrary: w)
  case (Cons v vs)
  then obtain w1 where w1: "run_state (push v) w = (Inr (), w1)" "run_state (for_err push vs) w1 = (Inr (), w')"
    by (auto split: prod.splits sum.splits)
  moreover have "ready w1" using keepsD [OF push_ready [of v] Cons.prems(1)] w1(1) by simp
  ultimately show ?case using Cons.IH [of w1] push_ok [OF Cons.prems(1) w1(1)] by simp
qed simp

text \<open>What is pushed comes out in the order of the pushes.\<close>

lemma pops_ok:
  "ready w \<Longrightarrow> contents w = vs \<Longrightarrow> run_state (map_io (\<lambda>_. pop) vs) w = (map Inr us, w') \<Longrightarrow> us = vs \<and> contents w' = []"
proof (induction vs arbitrary: us w)
  case (Cons v vs)
  then obtain u us' w1 where p: "run_state pop w = (Inr u, w1)" "us = u # us'"
      "run_state (map_io (\<lambda>_. pop) vs) w1 = (map Inr us', w')"
    by (auto split: prod.splits)
  moreover have "ready w1" using keepsD [OF pop_ready Cons.prems(1)] p(1) by simp
  ultimately show ?case using Cons.IH [of w1 us'] Cons.prems(2) pop_ok [OF Cons.prems(1) p(1)] by auto
qed simp

lemma fifo:
  assumes "ready w" "contents w = []" "run_state (for_err push vs) w = (Inr (), w1)"
    and "run_state (map_io (\<lambda>_. pop) vs) w1 = (map Inr us, w2)"
  shows "us = vs \<and> contents w2 = []"
  using pushes_ok [OF assms(1,3)] assms(2) by (intro pops_ok [OF _ _ assms(4)]) simp_all

text \<open>Nothing is lost or invented by a pop that reports its result.\<close>

lemma pop_conserves: "ready w \<Longrightarrow> run_state pop w = (Inr v, w') \<Longrightarrow> set (contents w) = insert v (set (contents w'))"
  by (simp add: pop_ok)

end

definition pending_key :: string where
  "pending_key = ''message:pending''"

definition list_contents :: "string \<Rightarrow> world \<Rightarrow> string list" where
  "list_contents k w = (case W_redis w k of Some (RList xs, _) \<Rightarrow> rev xs | _ \<Rightarrow> [])"

text \<open>No deadline is set on the key: nothing in the code expires a queue.\<close>

definition persistent :: "string \<Rightarrow> world \<Rightarrow> bool" where
  "persistent k w \<longleftrightarrow> (case W_redis w k of Some (v, Some d) \<Rightarrow> False | _ \<Rightarrow> True)"

abbreviation pending :: "world \<Rightarrow> string list" where
  "pending \<equiv> list_contents pending_key"

lemma persistent_lookup: "persistent k w \<Longrightarrow> lookup now (W_redis w) k = map_option fst (W_redis w k)"
  by (auto simp: persistent_def lookup_def split: option.splits)

lemma persistent_deadline: "persistent k w \<Longrightarrow> deadline now (W_redis w) k = None"
  by (auto simp: persistent_def deadline_def split: option.splits)

lemma rev_last: "xs \<noteq> [] \<Longrightarrow> rev xs = last xs # rev (butlast xs)"
  by (metis append_butlast_last_id rev_eq_Cons_iff rev_rev_ident)

lemma butlast_Nil: "butlast xs = [] \<Longrightarrow> xs = [] \<or> xs = [last xs]"
  by (metis append_Nil append_butlast_last_id)

lemma list_push:
  assumes "persistent k w"
  shows "run_state (RedisClient_LPush sys_redis k [v]) w = (r, w') \<Longrightarrow> r = Inr () \<Longrightarrow>
      list_contents k w' = list_contents k w @ [v]"
    and "run_state (RedisClient_LPush sys_redis k [v]) w = (r, w') \<Longrightarrow>
      list_contents k w' \<in> {list_contents k w, list_contents k w @ [v]}"
    and "persistent k (snd (run_state (RedisClient_LPush sys_redis k [v]) w))"
  using assms
  by (auto simp: RedisClient_LPush_def run_sys_redis st_LPush_def list_contents_def rd_list_def persistent_lookup
      put_value_def persistent_deadline persistent_def sys_reply_def sys_done_def
      split: fault.splits sum.splits prod.splits option.splits redis_value.splits)

lemma list_pop:
  assumes "persistent k w"
  shows "run_state (RedisClient_RPop sys_redis k) w = (r, w') \<Longrightarrow> r = Inr v \<Longrightarrow>
      list_contents k w = v # list_contents k w'"
    and "run_state (RedisClient_RPop sys_redis k) w = (r, w') \<Longrightarrow>
      list_contents k w' \<in> {list_contents k w, tl (list_contents k w)}"
    and "persistent k (snd (run_state (RedisClient_RPop sys_redis k) w))"
  using assms
  by (auto simp: RedisClient_RPop_def run_sys_redis st_RPop_def list_contents_def rd_list_def persistent_lookup
      put_value_def persistent_deadline persistent_def sys_reply_def sys_done_def rev_last
      split: fault.splits sum.splits prod.splits option.splits redis_value.splits if_splits dest: butlast_Nil)

interpretation pq: work_queue "\<lambda>v. RedisClient_LPush sys_redis pending_key [v]"
    "RedisClient_RPop sys_redis pending_key" pending "persistent pending_key"
proof (unfold_locales, goal_cases)
  case 1
  then show ?case by (rule list_push(1)) (rule refl)
next
  case 2
  then show ?case by (rule list_push(2))
next
  case 3
  then show ?case by (rule list_pop(1)) (rule refl)
next
  case 4
  then show ?case by (rule list_pop(2))
qed (rule keepsI, erule list_push(3) list_pop(3))+

section \<open>Metrics\<close>

text \<open>The world after \<open>record_op\<close>: only the clock's reading and the metrics differ.\<close>

definition metered :: "time \<Rightarrow> string \<Rightarrow> string \<Rightarrow> world \<Rightarrow> world" where
  "metered start operation outcome w = w\<lparr>W_reads := W_reads w + 1,
     W_metrics := W_metrics w @ [Counted ''agentmsg_message_operations_total'' [operation, outcome],
       Observed ''agentmsg_message_processing_duration_seconds'' [operation, outcome] (w_now w - start)]\<rparr>"

lemma run_record_op: "run_state (record_op sys_rt start operation outcome) w = ((), metered start operation outcome w)"
  by (simp add: record_op_def time_Since_def RecordMessageOperation_def run_sys_rt metered_def)

lemma metered_simps [simp]:
  "W_db (metered st op out w) = W_db w" "W_redis (metered st op out w) = W_redis w"
  "W_calls (metered st op out w) = W_calls w" "W_faults (metered st op out w) = W_faults w"
  "W_published (metered st op out w) = W_published w" "W_drawn (metered st op out w) = W_drawn w"
  "W_uuids (metered st op out w) = W_uuids w" "W_clock (metered st op out w) = W_clock w"
  by (simp_all add: metered_def)

lemma list_contents_metered [simp]: "list_contents k (metered st op out w) = list_contents k w"
  by (simp add: list_contents_def)

lemma exec_only_sys: "run_state (exec_only sys_db q) w =
    ((case sys_reply w (fst (db_exec (w_now w) q (W_db w))) of Inl e \<Rightarrow> Inl e | Inr _ \<Rightarrow> Inr ()),
     (called w)\<lparr>W_db := (if sys_done w then snd (db_exec (w_now w) q (W_db w)) else W_db w)\<rparr>)"
  by (cases "sys_reply w (fst (db_exec (w_now w) q (W_db w)))")
    (simp_all add: exec_only_def run_sys_exec del: sys_reply_Inr)

end
