(* ===== verification/Sample_World.thy ===== *)
theory Sample_World
  imports World Go_Time
begin

text \<open>
  A small concrete world for the witnesses: two tenants, three agents, one message that
  agent 11 sent to agent 12, empty Redis, a clock that ticks once a second, UUIDs counted
  from 1000, and servers that always answer.
\<close>

definition search_capability :: Capability where
  "search_capability = \<lparr>Capability_Type = ''search'', Capability_Description = ''web'', Capability_Examples = None,
     Capability_Parameters = None, Capability_Constraints = None, Capability_Quality = None\<rparr>"

definition sample_agent :: "uuid \<Rightarrow> uuid \<Rightarrow> string \<Rightarrow> AgentStatus \<Rightarrow> Agent" where
  "sample_agent i tenant did status = zero_Agent\<lparr>Agent_ID := i, Agent_TenantID := tenant, Agent_DID := did,
     Agent_PublicKey := ''key'', Agent_Capabilities := Some [search_capability], Agent_Status := status,
     Agent_CreatedAt := 5\<rparr>"

definition sample_row :: "Agent \<Rightarrow> agent_row" where
  "sample_row a = \<lparr>Row_Agent = a, Row_LastHeartbeat = None, Row_DeletedAt = None\<rparr>"

definition sample_message :: Message where
  "sample_message = zero_Message\<lparr>Message_ID := 31, Message_ConversationID := 32,
     Message_MessageType := MessageTypeGeneric, Message_SenderID := 11,
     Message_RecipientStr := Marshal_Recipients reference_env (Some [12]), Message_Content := Some ''hello'',
     Message_ContentSize := 5, Message_ContentType := ''text/plain'', Message_Status := MessageStatusSent,
     Message_DeliveryGuarantee := DeliveryAtLeastOnce, Message_TenantID := 1, Message_CreatedAt := 7\<rparr>"

definition sample_tables :: tables where
  "sample_tables = \<lparr>T_tenants = [1, 2],
     T_agents = [sample_row (sample_agent 11 1 ''did:a'' ''online''), sample_row (sample_agent 12 1 ''did:b'' ''busy''),
       sample_row (sample_agent 21 2 ''did:c'' ''online'')],
     T_messages = [sample_message], T_acks = [], T_dlq = [], T_audit = []\<rparr>"

definition sample_world :: world where
  "sample_world = \<lparr>W_clock = (\<lambda>n. (int n + 1) * Second), W_reads = 0, W_uuids = (\<lambda>n. of_nat (1000 + n)), W_drawn = 0,
     W_faults = (\<lambda>_. Works), W_calls = 0, W_db = sample_tables, W_redis = (\<lambda>_. None), W_published = [],
     W_metrics = []\<rparr>"

lemma sample_world_simps [simp]:
  "W_faults sample_world n = Works" "W_reads sample_world = 0" "W_calls sample_world = 0" "W_drawn sample_world = 0"
  "W_db sample_world = sample_tables" "W_redis sample_world = (\<lambda>_. None)" "W_published sample_world = []"
  "W_clock sample_world = (\<lambda>n. (int n + 1) * Second)" "W_uuids sample_world n = of_nat (1000 + n)"
  by (simp_all add: sample_world_def)

lemma sample_tables_ok: "db_ok sample_tables"
  by (simp add: db_ok_def sample_tables_def sample_row_def sample_agent_def sample_message_def agent_ids_def
      message_ids_def zero_Message_def)

text \<open>A message a client of tenant 1 may send.\<close>

definition sample_draft :: Message where
  "sample_draft = zero_Message\<lparr>Message_SenderID := 11, Message_TenantID := 1, Message_RecipientIDs := Some [12],
     Message_Content := Some ''hi''\<rparr>"

text \<open>An acknowledgement of the stored message by its recipient.\<close>

definition sample_ack :: Acknowledgement where
  "sample_ack = \<lparr>Ack_ID = uuid_Nil, Ack_MessageID = 31, Ack_AgentID = 12, Ack_Status = ''processed'', Ack_Details = [],
     Ack_ProcessedAt = None, Ack_Nonce = ''n1'', Ack_Signature = [], Ack_CreatedAt = 0\<rparr>"

lemma sample_message_scan:
  "ScanRecipients reference_env sample_message = (sample_message\<lparr>Message_RecipientIDs := Some [12]\<rparr>, Inr ())"
  by (simp add: ScanRecipients_def sample_message_def zero_Message_def reference.unmarshal_recipients)

end
