(* ===== verification/Agent_Service.thy ===== *)
theory Agent_Service
  imports Sample_World
begin

text \<open>
  The agent service: \<open>AgentService\<close> of \<open>internal/service/service.go\<close> and \<open>service_ext.go\<close>.
  The receiver and its two dependencies may be nil. Methods that write into the agent
  their caller passed return it with the result.
\<close>

section \<open>State and operations\<close>

record 'w AgentService =
  AS_repo :: "'w sqlx option"
  AS_redis :: "'w goredis option"

definition NewAgentService :: "'w sqlx option \<Rightarrow> 'w goredis option \<Rightarrow> 'w AgentService" where
  "NewAgentService repo redis = \<lparr>AS_repo = repo, AS_redis = redis\<rparr>"

text \<open>\<open>if s == nil || s.repo == nil { return ErrServiceUnavailable }\<close>, then the body.\<close>

definition AS_with_repo ::
    "'w AgentService option \<Rightarrow> ('w sqlx \<Rightarrow> ('w, 'a result) io) \<Rightarrow> ('w, 'a result) io" where
  "AS_with_repo s body = (case s of
     None \<Rightarrow> ret (Inl ErrServiceUnavailable)
   | Some svc \<Rightarrow> (case AS_repo svc of None \<Rightarrow> ret (Inl ErrServiceUnavailable) | Some repo \<Rightarrow> body repo))"

definition AgentService_Register ::
    "go_env \<Rightarrow> 'w runtime \<Rightarrow> 'w AgentService option \<Rightarrow> Agent option \<Rightarrow> ('w, Agent option \<times> unit result) io" where
  "AgentService_Register G R s agent =
     (case s of
        None \<Rightarrow> ret (agent, Inl ErrServiceUnavailable)
      | Some svc \<Rightarrow>
          (case (AS_repo svc, AS_redis svc) of
             (Some repo, Some redis) \<Rightarrow>
               (case agent of
                  None \<Rightarrow> ret (None, Inl ErrInvalidMessage)
                | Some a \<Rightarrow> do {
                    i \<leftarrow> uuid_New R;
                    t1 \<leftarrow> time_Now R;
                    t2 \<leftarrow> time_Now R;
                    let a = a\<lparr>Agent_ID := i, Agent_Status := AgentStatusOnline, Agent_CreatedAt := t1, Agent_UpdatedAt := t2\<rparr>;
                    r \<leftarrow> AgentRepository_Create repo a;
                    (case r of
                       Inl e \<Rightarrow> ret (Some a, Inl (if IsUniqueViolation e then ErrAgentAlreadyExists else e))
                     | Inr _ \<Rightarrow> do {
                         p \<leftarrow> RedisClient_Publish redis ''agents:created'' (uuid_String G i);
                         ret (Some a, p)
                       })
                  })
           | _ \<Rightarrow> ret (agent, Inl ErrServiceUnavailable)))"

text \<open>\<open>if agent == nil { return nil, ErrAgentNotFound }\<close>.\<close>

definition found_agent :: "Agent option \<Rightarrow> Agent result" where
  "found_agent a = (case a of None \<Rightarrow> Inl ErrAgentNotFound | Some x \<Rightarrow> Inr x)"

definition AgentService_GetByID :: "'w AgentService option \<Rightarrow> uuid \<Rightarrow> ('w, Agent result) io" where
  "AgentService_GetByID s i =
     AS_with_repo s (\<lambda>repo. try_io (AgentRepository_GetByID repo i) (\<lambda>a. ret (found_agent a)))"

definition AgentService_GetByIDForTenant :: "'w AgentService option \<Rightarrow> uuid \<Rightarrow> uuid \<Rightarrow> ('w, Agent result) io" where
  "AgentService_GetByIDForTenant s tenantID i =
     AS_with_repo s (\<lambda>repo. try_io (AgentRepository_GetByIDForTenant repo tenantID i) (\<lambda>a. ret (found_agent a)))"

text \<open>The same guards where the caller's agent is returned too, with \<open>UpdatedAt\<close> set.\<close>

definition AS_with_agent ::
    "'w runtime \<Rightarrow> 'w AgentService option \<Rightarrow> Agent option \<Rightarrow> ('w sqlx \<Rightarrow> Agent \<Rightarrow> ('w, unit result) io) \<Rightarrow>
     ('w, Agent option \<times> unit result) io" where
  "AS_with_agent R s agent body = (case s of
     None \<Rightarrow> ret (agent, Inl ErrServiceUnavailable)
   | Some svc \<Rightarrow> (case AS_repo svc of
       None \<Rightarrow> ret (agent, Inl ErrServiceUnavailable)
     | Some repo \<Rightarrow> (case agent of
         None \<Rightarrow> ret (None, Inl ErrInvalidMessage)
       | Some a \<Rightarrow> do {
           t \<leftarrow> time_Now R;
           let a = a\<lparr>Agent_UpdatedAt := t\<rparr>;
           r \<leftarrow> body repo a;
           ret (Some a, r)
         })))"

definition AgentService_Update ::
    "'w runtime \<Rightarrow> 'w AgentService option \<Rightarrow> Agent option \<Rightarrow> ('w, Agent option \<times> unit result) io" where
  "AgentService_Update R s agent = AS_with_agent R s agent (\<lambda>repo a. AgentRepository_Update repo a)"

text \<open>\<open>if !updated { return ErrAgentNotFound }\<close>.\<close>

definition found_row :: "bool \<Rightarrow> unit result" where
  "found_row b = (if b then Inr () else Inl ErrAgentNotFound)"

definition AgentService_UpdateForTenant ::
    "'w runtime \<Rightarrow> 'w AgentService option \<Rightarrow> uuid \<Rightarrow> Agent option \<Rightarrow> ('w, Agent option \<times> unit result) io" where
  "AgentService_UpdateForTenant R s tenantID agent = AS_with_agent R s agent (\<lambda>repo a.
     try_io (AgentRepository_UpdateForTenant repo tenantID a) (\<lambda>b. ret (found_row b)))"

definition AgentService_Delete :: "'w AgentService option \<Rightarrow> uuid \<Rightarrow> ('w, unit result) io" where
  "AgentService_Delete s i = AS_with_repo s (\<lambda>repo. AgentRepository_Delete repo i)"

definition AgentService_DeleteForTenant :: "'w AgentService option \<Rightarrow> uuid \<Rightarrow> uuid \<Rightarrow> ('w, unit result) io" where
  "AgentService_DeleteForTenant s tenantID i =
     AS_with_repo s (\<lambda>repo. try_io (AgentRepository_DeleteForTenant repo tenantID i) (\<lambda>b. ret (found_row b)))"

definition AgentService_ListByTenant :: "'w AgentService option \<Rightarrow> uuid \<Rightarrow> ('w, Agent list result) io" where
  "AgentService_ListByTenant s tenantID = AS_with_repo s (\<lambda>repo. AgentRepository_ListByTenant repo tenantID)"

definition AgentService_Heartbeat :: "'w AgentService option \<Rightarrow> uuid \<Rightarrow> ('w, unit result) io" where
  "AgentService_Heartbeat s i = AS_with_repo s (\<lambda>repo. AgentRepository_UpdateStatus repo i AgentStatusOnline)"

definition AgentService_HeartbeatForTenant :: "'w AgentService option \<Rightarrow> uuid \<Rightarrow> uuid \<Rightarrow> ('w, unit result) io" where
  "AgentService_HeartbeatForTenant s tenantID i =
     AS_with_repo s (\<lambda>repo. try_io (AgentRepository_UpdateStatusForTenant repo tenantID i AgentStatusOnline)
       (\<lambda>b. ret (found_row b)))"

definition AgentService_UpdateCapabilities ::
    "'w runtime \<Rightarrow> 'w AgentService option \<Rightarrow> uuid \<Rightarrow> Capability slice \<Rightarrow> ('w, unit result) io" where
  "AgentService_UpdateCapabilities R s i capabilities =
     try_io (AgentService_GetByID s i) (\<lambda>agent. do {
       (_, r) \<leftarrow> AgentService_Update R s (Some (agent\<lparr>Agent_Capabilities := capabilities\<rparr>));
       ret r
     })"

text \<open>
  The set \<open>required\<close> of lower-cased names, and the inner loop over an agent's capabilities,
  which breaks at the first match.
\<close>

definition required_set :: "'z unicode_tables_scheme \<Rightarrow> string list \<Rightarrow> string set" where
  "required_set U capabilities = set (map (strings_ToLower U) capabilities)"

fun capability_matched :: "'z unicode_tables_scheme \<Rightarrow> string set \<Rightarrow> Capability list \<Rightarrow> bool" where
  "capability_matched U required [] = False"
| "capability_matched U required (c # cs) =
     (if strings_ToLower U (Capability_Type c) \<in> required then True else capability_matched U required cs)"

fun filter_agents :: "'z unicode_tables_scheme \<Rightarrow> string set \<Rightarrow> Agent list \<Rightarrow> Agent list" where
  "filter_agents U required [] = []"
| "filter_agents U required (a # as) =
     (if capability_matched U required (elems (Agent_Capabilities a)) then a # filter_agents U required as
      else filter_agents U required as)"

definition AgentService_QueryByCapabilities ::
    "'z unicode_tables_scheme \<Rightarrow> 'w AgentService option \<Rightarrow> uuid \<Rightarrow> string list \<Rightarrow> ('w, Agent list result) io" where
  "AgentService_QueryByCapabilities U s tenantID capabilities =
     AS_with_repo s (\<lambda>repo. do {
       r \<leftarrow> AgentRepository_QueryByCapabilities repo tenantID capabilities;
       ret (case r of
              Inl e \<Rightarrow> Inl e
            | Inr agents \<Rightarrow>
                (if capabilities = [] then Inr agents
                 else Inr (filter_agents U (required_set U capabilities) agents)))
     })"

definition AgentService_ListAll :: "'w AgentService option \<Rightarrow> ('w, Agent list result) io" where
  "AgentService_ListAll s = AS_with_repo s AgentRepository_ListAll"

definition AgentService_GetByStatus :: "'w AgentService option \<Rightarrow> AgentStatus \<Rightarrow> ('w, Agent list result) io" where
  "AgentService_GetByStatus s status = AS_with_repo s (\<lambda>repo. AgentRepository_GetByStatus repo status)"

definition count_status :: "AgentStats \<Rightarrow> Agent \<Rightarrow> AgentStats" where
  "count_status stats a =
     (if Agent_Status a = AgentStatusOnline then stats\<lparr>Stats_Online := Stats_Online stats + 1\<rparr>
      else if Agent_Status a = AgentStatusAway then stats\<lparr>Stats_Away := Stats_Away stats + 1\<rparr>
      else if Agent_Status a = AgentStatusBusy then stats\<lparr>Stats_Busy := Stats_Busy stats + 1\<rparr>
      else if Agent_Status a = AgentStatusOffline then stats\<lparr>Stats_Offline := Stats_Offline stats + 1\<rparr>
      else stats)"

definition AgentService_GetStats :: "'w runtime \<Rightarrow> 'w AgentService option \<Rightarrow> uuid \<Rightarrow> ('w, AgentStats result) io" where
  "AgentService_GetStats R s tenantID =
     try_io (AgentService_ListByTenant s tenantID) (\<lambda>agents. do {
       t \<leftarrow> time_Now R;
       ret (Inr (foldl count_status
         \<lparr>Stats_Total = int (length agents), Stats_Online = 0, Stats_Away = 0, Stats_Busy = 0, Stats_Offline = 0,
          Stats_Timestamp = time_Unix t\<rparr> agents))
     })"

section \<open>Pure lemmas\<close>

lemma capability_matched_iff:
  "capability_matched U req cs \<longleftrightarrow> (\<exists>c \<in> set cs. strings_ToLower U (Capability_Type c) \<in> req)"
  by (induction cs) auto

lemma filter_agents_filter:
  "filter_agents U req as = filter (\<lambda>a. capability_matched U req (elems (Agent_Capabilities a))) as"
  by (induction as) auto

definition status_count :: "AgentStatus \<Rightarrow> Agent list \<Rightarrow> int" where
  "status_count st as = int (length (filter (\<lambda>a. Agent_Status a = st) as))"

lemma status_count_simps [simp]:
  "status_count st [] = 0"
  "status_count st (a # as) = (if Agent_Status a = st then 1 else 0) + status_count st as"
  by (simp_all add: status_count_def)

lemma count_statuses:
  "foldl count_status st as = st\<lparr>
     Stats_Online := Stats_Online st + status_count AgentStatusOnline as,
     Stats_Away := Stats_Away st + status_count AgentStatusAway as,
     Stats_Busy := Stats_Busy st + status_count AgentStatusBusy as,
     Stats_Offline := Stats_Offline st + status_count AgentStatusOffline as\<rparr>"
  by (induction as arbitrary: st) (auto simp: count_status_def agent_status_defs)

lemma status_count_sum:
  "status_count AgentStatusOnline as + status_count AgentStatusAway as + status_count AgentStatusBusy as +
     status_count AgentStatusOffline as \<le> int (length as)"
  by (induction as) (auto simp: agent_status_defs)

section \<open>The interface to the agent store\<close>

text \<open>
  What the service relies on: \<open>view w t i\<close> is the agent that tenant \<open>t\<close> sees under the id
  \<open>i\<close>. A write for one tenant changes nothing that another tenant sees, and an agent is
  gone after a delete that reports a row.
\<close>

locale agent_store =
  fixes db :: "'w sqlx"
    and view :: "'w \<Rightarrow> uuid \<Rightarrow> uuid \<Rightarrow> Agent option"
  assumes get_ok: "run_state (AgentRepository_GetByIDForTenant db t i) w = (Inr r, w') \<Longrightarrow> r = view w t i"
    and get_keeps: "view (snd (run_state (AgentRepository_GetByIDForTenant db t i) w)) = view w"
    and view_key: "view w t i = Some a \<Longrightarrow> Agent_ID a = i \<and> Agent_TenantID a = t"
    and update_other: "t' \<noteq> t \<Longrightarrow> view (snd (run_state (AgentRepository_UpdateForTenant db t a) w)) t' = view w t'"
    and status_other: "t' \<noteq> t \<Longrightarrow> view (snd (run_state (AgentRepository_UpdateStatusForTenant db t i st) w)) t' = view w t'"
    and delete_other: "t' \<noteq> t \<Longrightarrow> view (snd (run_state (AgentRepository_DeleteForTenant db t i) w)) t' = view w t'"
    and delete_ok: "run_state (AgentRepository_DeleteForTenant db t i) w = (Inr b, w') \<Longrightarrow>
      b = (view w t i \<noteq> None) \<and> view w' t i = None"
begin

abbreviation service :: "'w goredis option \<Rightarrow> 'w AgentService option" where
  "service redis \<equiv> Some (NewAgentService (Some db) redis)"

lemma service_repo [simp]: "AS_with_repo (service redis) body = body db"
  by (simp add: AS_with_repo_def NewAgentService_def)

lemma get_for_tenant:
  assumes "run_state (AgentService_GetByIDForTenant (service redis) t i) w = (r, w')"
  shows "(\<exists>e. r = Inl e) \<or> (\<exists>a. r = Inr a \<and> view w t i = Some a \<and> Agent_ID a = i \<and> Agent_TenantID a = t)"
    and "r = Inr a \<Longrightarrow> Agent_TenantID a = t \<and> Agent_ID a = i"
    and "view w' = view w"
proof -
  obtain q v where q: "run_state (AgentRepository_GetByIDForTenant db t i) w = (q, v)" by fastforce
  have v: "view v = view w" using get_keeps [of t i w] q by simp
  have r: "w' = v \<and> r = (case q of Inl e \<Rightarrow> Inl e | Inr x \<Rightarrow> found_agent x)"
    using assms q by (auto simp: AgentService_GetByIDForTenant_def split: sum.splits)
  have q_view: "q = Inr x \<Longrightarrow> x = view w t i" for x using q get_ok by blast
  show "(\<exists>e. r = Inl e) \<or> (\<exists>a. r = Inr a \<and> view w t i = Some a \<and> Agent_ID a = i \<and> Agent_TenantID a = t)"
    using r q_view view_key by (auto simp: found_agent_def split: sum.splits option.splits)
  then show "r = Inr a \<Longrightarrow> Agent_TenantID a = t \<and> Agent_ID a = i" by auto
  show "view w' = view w" using r v by simp
qed

text \<open>After a successful delete the tenant no longer sees the agent; a delete that finds no
  row reports that the agent does not exist.\<close>

lemma delete_for_tenant:
  assumes "run_state (AgentService_DeleteForTenant (service redis) t i) w = (r, w')"
  shows "r = Inr () \<Longrightarrow> view w t i \<noteq> None \<and> view w' t i = None"
    and "t' \<noteq> t \<Longrightarrow> view w' t' = view w t'"
proof -
  obtain q v where q: "run_state (AgentRepository_DeleteForTenant db t i) w = (q, v)" by fastforce
  have r: "w' = v \<and> r = (case q of Inl e \<Rightarrow> Inl e | Inr b \<Rightarrow> found_row b)"
    using assms q by (auto simp: AgentService_DeleteForTenant_def split: sum.splits)
  show "r = Inr () \<Longrightarrow> view w t i \<noteq> None \<and> view w' t i = None"
    using r q delete_ok [of t i w] by (auto simp: found_row_def split: sum.splits if_splits)
  show "t' \<noteq> t \<Longrightarrow> view w' t' = view w t'" using r q delete_other [of t' t i w] by simp
qed

lemma heartbeat_for_tenant:
  assumes "run_state (AgentService_HeartbeatForTenant (service redis) t i) w = (r, w')" "t' \<noteq> t"
  shows "view w' t' = view w t'"
proof -
  have "w' = snd (run_state (AgentRepository_UpdateStatusForTenant db t i AgentStatusOnline) w)"
    using assms(1) by (auto simp: AgentService_HeartbeatForTenant_def split: sum.splits prod.splits)
  then show ?thesis using status_other [OF assms(2)] by simp
qed

lemma deleted_then_get:
  assumes "run_state (AgentService_DeleteForTenant (service redis) t i) w = (Inr (), w1)"
    and "run_state (AgentService_GetByIDForTenant (service redis) t i) w1 = (r, w2)"
  shows "\<exists>e. r = Inl e"
  using get_for_tenant(1) [OF assms(2)] delete_for_tenant(1) [OF assms(1)] by auto

end

section \<open>The tables provide it\<close>

definition tenant_view :: "world \<Rightarrow> uuid \<Rightarrow> uuid \<Rightarrow> Agent option" where
  "tenant_view w t i = (case agent_rows (Agent_ByIdTenant i t) (W_db w) of [] \<Rightarrow> None | a # _ \<Rightarrow> Some a)"

lemma agent_of_row_key [simp]:
  "Agent_ID (agent_of_row r) = Agent_ID (Row_Agent r)"
  "Agent_TenantID (agent_of_row r) = Agent_TenantID (Row_Agent r)"
  by (simp_all add: agent_of_row_def)

lemma agent_rows_key: "a \<in> set (agent_rows (Agent_ByIdTenant i t) T) \<Longrightarrow> Agent_ID a = i \<and> Agent_TenantID a = t"
  by (auto simp: agent_rows_def row_is_def row_of_tenant_def)

lemma tenant_view_key: "tenant_view w t i = Some a \<Longrightarrow> Agent_ID a = i \<and> Agent_TenantID a = t"
  using agent_rows_key [of a i t "W_db w"] by (auto simp: tenant_view_def split: list.splits)

lemma filter_update_other:
  assumes "\<And>r. p r \<Longrightarrow> \<not> q r \<and> \<not> q (f r)"
  shows "filter q (update_where p f rs) = filter q rs"
  using assms by (induction rs) (auto simp: update_where_def)

lemma filter_update_none:
  assumes "\<And>r. q r \<Longrightarrow> p r" "\<And>r. p r \<Longrightarrow> \<not> q (f r)"
  shows "filter q (update_where p f rs) = []"
  using assms by (induction rs) (auto simp: update_where_def)

lemma tenant_view_update:
  assumes "t' \<noteq> t" "\<And>r. Agent_TenantID (Row_Agent (f r)) = Agent_TenantID (Row_Agent r)"
  shows "agent_rows (Agent_ByIdTenant i t') (snd (on_agents (\<lambda>r. row_is j r \<and> row_of_tenant t r \<and> row_live r) f T)) =
    agent_rows (Agent_ByIdTenant i t') T"
proof -
  have "filter (agent_where (Agent_ByIdTenant i t'))
        (update_where (\<lambda>r. row_is j r \<and> row_of_tenant t r \<and> row_live r) f (T_agents T)) =
      filter (agent_where (Agent_ByIdTenant i t')) (T_agents T)"
    by (rule filter_update_other) (use assms in \<open>auto simp: row_of_tenant_def\<close>)
  then show ?thesis by (simp add: agent_rows_def on_agents_def)
qed

lemma no_rows_nil_agent:
  "no_rows_nil (db_get_agent q T) = Inr (case agent_rows q T of [] \<Rightarrow> None | a # _ \<Rightarrow> Some a)"
  by (simp add: no_rows_nil_def db_get_agent_def split: list.split)

lemma exec_rows_sys: "run_state (exec_rows sys_db q) w =
    (let w' = w\<lparr>W_calls := W_calls w + 1\<rparr>; (r, T) = db_exec (w_now w) q (W_db w)
     in case W_faults w (W_calls w) of
          Works \<Rightarrow> ((case r of Inl e \<Rightarrow> Inl e | Inr n \<Rightarrow> rowsAffected n), w'\<lparr>W_db := T\<rparr>)
        | Refused e \<Rightarrow> (Inl (failure_error e), w')
        | Reply_Lost e \<Rightarrow> (Inl (failure_error e), w'\<lparr>W_db := T\<rparr>))"
  by (auto simp: exec_rows_def sys_db_def run_calls split: prod.split fault.split sum.split)

lemma sys_agents:
  "run_state (AgentRepository_GetByIDForTenant sys_db t i) w = (Inr r, w') \<Longrightarrow> r = tenant_view w t i"
  "W_db (snd (run_state (AgentRepository_GetByIDForTenant sys_db t i) w)) = W_db w"
  by (auto simp: AgentRepository_GetByIDForTenant_def sys_db_def run_calls tenant_view_def
      no_rows_nil_def db_get_agent_def split: fault.splits if_splits sum.splits list.splits)

text \<open>The tables after a statement: as before it, or as the statement leaves them.\<close>

lemma exec_rows_db:
  "W_db (snd (run_state (exec_rows sys_db q) w)) \<in> {W_db w, snd (db_exec (w_now w) q (W_db w))}"
  by (auto simp: exec_rows_sys Let_def split: prod.split fault.split)

lemmas agent_writes_db =
  exec_rows_db [of "Agents_UpdateTenant i n v c e s h t" for i n v c e s h t, unfolded db_exec.simps]
  exec_rows_db [of "Agents_StatusTenant i s t" for i s t, unfolded db_exec.simps]
  exec_rows_db [of "Agents_DeleteTenant i t" for i t, unfolded db_exec.simps]

lemma view_db: "W_db w' = W_db w \<Longrightarrow> tenant_view w' = tenant_view w"
  by (simp add: tenant_view_def fun_eq_iff)

lemma tenant_view_other:
  assumes "t' \<noteq> t" "\<And>r. Agent_TenantID (Row_Agent (f r)) = Agent_TenantID (Row_Agent r)"
    and "W_db w' \<in> {W_db w, snd (on_agents (\<lambda>r. row_is j r \<and> row_of_tenant t r \<and> row_live r) f (W_db w))}"
  shows "tenant_view w' t' = tenant_view w t'"
  using assms(3) tenant_view_update [OF assms(1,2)] by (auto simp: tenant_view_def fun_eq_iff)

lemma where_key: "(\<lambda>r. row_is i r \<and> row_of_tenant t r \<and> row_live r) = agent_where (Agent_ByIdTenant i t)"
  by (simp add: fun_eq_iff)

lemma delete_sys:
  assumes "run_state (AgentRepository_DeleteForTenant sys_db t i) w = (Inr b, w')"
  shows "b = (tenant_view w t i \<noteq> None) \<and> tenant_view w' t i = None"
proof -
  let ?p = "agent_where (Agent_ByIdTenant i t)"
  have T: "T_agents (W_db w') = update_where ?p (\<lambda>r. r\<lparr>Row_DeletedAt := Some (w_now w)\<rparr>) (T_agents (W_db w))"
    and b: "b = (filter ?p (T_agents (W_db w)) \<noteq> [])"
    using assms by (auto simp: AgentRepository_DeleteForTenant_def exec_rows_sys Let_def on_agents_def affected_def
        rowsAffected_def where_key db_exec.simps simp del: agent_where.simps split: fault.splits)
  have "filter ?p (T_agents (W_db w')) = []"
    unfolding T by (rule filter_update_none) (auto simp: row_live_def)
  with b show ?thesis
    by (auto simp: tenant_view_def agent_rows_def simp del: agent_where.simps split: list.split)
qed

interpretation agents: agent_store sys_db tenant_view
proof
  show "tenant_view (snd (run_state (AgentRepository_GetByIDForTenant sys_db t i) w)) = tenant_view w" for t i w
    by (rule view_db) (rule sys_agents(2))
  show "tenant_view (snd (run_state (AgentRepository_UpdateForTenant sys_db t a) w)) t' = tenant_view w t'"
    if "t' \<noteq> t" for t' t a w
    unfolding AgentRepository_UpdateForTenant_def by (rule tenant_view_other [OF that _ agent_writes_db(1)]) simp
  show "tenant_view (snd (run_state (AgentRepository_UpdateStatusForTenant sys_db t i st) w)) t' = tenant_view w t'"
    if "t' \<noteq> t" for t' t i st w
    unfolding AgentRepository_UpdateStatusForTenant_def by (rule tenant_view_other [OF that _ agent_writes_db(2)]) simp
  show "tenant_view (snd (run_state (AgentRepository_DeleteForTenant sys_db t i) w)) t' = tenant_view w t'"
    if "t' \<noteq> t" for t' t i w
    unfolding AgentRepository_DeleteForTenant_def by (rule tenant_view_other [OF that _ agent_writes_db(3)]) simp
qed (use sys_agents(1) tenant_view_key delete_sys in blast)+

section \<open>Properties\<close>

abbreviation sys_agents_svc :: "world AgentService option" where
  "sys_agents_svc \<equiv> Some (NewAgentService (Some sys_db) (Some sys_redis))"

definition agent_matches :: "'z unicode_tables_scheme \<Rightarrow> string list \<Rightarrow> Agent \<Rightarrow> bool" where
  "agent_matches U caps a \<longleftrightarrow> caps = [] \<or>
     (\<exists>k \<in> set (elems (Agent_Capabilities a)). \<exists>c \<in> set caps. strings_ToLower U (Capability_Type k) = strings_ToLower U c)"

lemma filter_agents_matches:
  "caps \<noteq> [] \<Longrightarrow> filter_agents U (required_set U caps) as = filter (agent_matches U caps) as"
  unfolding filter_agents_filter
  by (rule filter_cong [OF refl]) (simp add: capability_matched_iff required_set_def agent_matches_def image_iff)

lemma filter_matches_Nil [simp]: "filter (agent_matches U []) as = as"
  by (simp add: agent_matches_def)

text \<open>
  C25. Discovery is exact on what the query loads: when \<open>QueryByCapabilities\<close> answers, the
  agents are, newest first, those of the 50 newest live online agents of the tenant that
  offer one of the requested capabilities without regard to case (all of them for an empty
  request).
\<close>
theorem QueryByCapabilities_exact:
  assumes "run_state (AgentService_QueryByCapabilities U sys_agents_svc t caps) w = (Inr as, w')"
  shows "as = filter (agent_matches U caps)
      (take 50 (newest_first Agent_CreatedAt (agent_rows (Agents_OnlineOfTenant t) (W_db w)))) \<and>
    (\<forall>a \<in> set as. Agent_TenantID a = t \<and> Agent_Status a = AgentStatusOnline)"
proof -
  let ?rows = "agent_rows (Agents_OnlineOfTenant t) (W_db w)"
  have as: "as = filter (agent_matches U caps) (take 50 (newest_first Agent_CreatedAt ?rows))"
    using assms
    by (auto simp: AgentService_QueryByCapabilities_def AgentRepository_QueryByCapabilities_def AS_with_repo_def
        NewAgentService_def run_sys db_select_agents_def agent_limit_def filter_agents_matches
        split: sum.splits if_splits)
  moreover have "Agent_TenantID a = t \<and> Agent_Status a = AgentStatusOnline" if "a \<in> set as" for a
  proof -
    have "a \<in> set ?rows" using that unfolding as by (auto simp: newest_first_def dest: in_set_takeD)
    then show ?thesis by (auto simp: agent_rows_def agent_of_row_def row_of_tenant_def agent_status_defs)
  qed
  ultimately show ?thesis by simp
qed

lemma QueryByCapabilities_exact_witness:
  "\<exists>as. fst (run_state (AgentService_QueryByCapabilities reference_env sys_agents_svc 1 [''Search'']) sample_world) = Inr as \<and>
     as \<noteq> [] \<and> (\<forall>a \<in> set as. Agent_TenantID a = 1 \<and> Agent_Status a = AgentStatusOnline)"
proof -
  have r: "fst (run_state (AgentService_QueryByCapabilities reference_env sys_agents_svc 1 [''Search'']) sample_world) =
      Inr [agent_of_row (sample_row (sample_agent 11 1 ''did:a'' ''online''))]" by code_simp
  show ?thesis
    by (intro exI conjI, rule r, rule list.distinct(2), rule QueryByCapabilities_exact [OF run_fst [OF r], THEN conjunct2])
qed

text \<open>
  \<open>GetStats\<close> counts the tenant's live agents by status: each of the four counters is the
  number of agents with that status, and together they do not exceed the total.
\<close>
theorem GetStats_counts:
  assumes "run_state (AgentService_GetStats sys_rt sys_agents_svc t) w = (Inr st, w')"
  shows "let as = newest_first Agent_CreatedAt (agent_rows (Agents_OfTenant t) (W_db w)) in
    Stats_Total st = int (length as) \<and>
    Stats_Online st = status_count ''online'' as \<and> Stats_Away st = status_count ''away'' as \<and>
    Stats_Busy st = status_count ''busy'' as \<and> Stats_Offline st = status_count ''offline'' as \<and>
    Stats_Online st + Stats_Away st + Stats_Busy st + Stats_Offline st \<le> Stats_Total st"
  using assms status_count_sum [of "newest_first Agent_CreatedAt (agent_rows (Agents_OfTenant t) (W_db w))"]
  by (auto simp: AgentService_GetStats_def AgentService_ListByTenant_def AgentRepository_ListByTenant_def
      AS_with_repo_def NewAgentService_def run_sys db_select_agents_def agent_limit_def count_statuses
      agent_status_defs Let_def split: sum.splits)

lemma GetStats_counts_witness:
  "\<exists>st. fst (run_state (AgentService_GetStats sys_rt sys_agents_svc 1) sample_world) = Inr st \<and> Stats_Total st = 2 \<and>
     Stats_Online st + Stats_Away st + Stats_Busy st + Stats_Offline st \<le> Stats_Total st"
proof -
  have r: "fst (run_state (AgentService_GetStats sys_rt sys_agents_svc 1) sample_world) =
      Inr \<lparr>Stats_Total = 2, Stats_Online = 1, Stats_Away = 0, Stats_Busy = 1, Stats_Offline = 0,
        Stats_Timestamp = time_Unix Second\<rparr>"
    by code_simp
  from GetStats_counts [OF run_fst [OF r]] r show ?thesis by (auto simp: Let_def)
qed

text \<open>
  C19. Tenant isolation of writes: whatever one tenant updates, deletes or heartbeats, under
  any schedule of faults, no other tenant sees a change of any agent.
\<close>
theorem agent_writes_isolated:
  assumes "t' \<noteq> t"
  shows "tenant_view (snd (run_state (AgentService_UpdateForTenant sys_rt sys_agents_svc t a) w)) t' = tenant_view w t' \<and>
    tenant_view (snd (run_state (AgentService_DeleteForTenant sys_agents_svc t i) w)) t' = tenant_view w t' \<and>
    tenant_view (snd (run_state (AgentService_HeartbeatForTenant sys_agents_svc t i) w)) t' = tenant_view w t'"
proof (intro conjI)
  have now: "tenant_view (w\<lparr>W_reads := n\<rparr>) = tenant_view w" for n by (rule view_db) simp
  show "tenant_view (snd (run_state (AgentService_UpdateForTenant sys_rt sys_agents_svc t a) w)) t' = tenant_view w t'"
  proof (cases a)
    case (Some x)
    let ?v = "w\<lparr>W_reads := Suc (W_reads w)\<rparr>"
    obtain r v where v: "run_state (AgentRepository_UpdateForTenant sys_db t (x\<lparr>Agent_UpdatedAt := w_now w\<rparr>)) ?v = (r, v)"
      by fastforce
    have "tenant_view v t' = tenant_view w t'" using agents.update_other [OF assms, of "x\<lparr>Agent_UpdatedAt := w_now w\<rparr>" ?v] v now by simp
    then show ?thesis using Some v
      by (simp add: AgentService_UpdateForTenant_def AS_with_agent_def Let_def NewAgentService_def run_sys_rt
          split: prod.split sum.split)
  qed (simp add: AgentService_UpdateForTenant_def AS_with_agent_def NewAgentService_def)
qed (use agents.delete_for_tenant(2) agents.heartbeat_for_tenant assms in \<open>metis prod.collapse\<close>)+

lemma agent_writes_isolated_witness:
  "tenant_view (snd (run_state (AgentService_DeleteForTenant sys_agents_svc 2 11) sample_world)) 1 = tenant_view sample_world 1"
  using agent_writes_isolated [of 1 2 None sample_world 11] by simp

text \<open>
  C27. A deleted agent is gone for its tenant: after a delete that succeeded, a lookup by id
  fails, with \<open>ErrAgentNotFound\<close> when the database answers, and no listing of the tenant
  shows the id.
\<close>
theorem deleted_agent_invisible:
  assumes "run_state (AgentService_DeleteForTenant sys_agents_svc t i) w = (Inr (), w1)"
  shows "(case fst (run_state (AgentService_GetByIDForTenant sys_agents_svc t i) w1) of
      Inl e \<Rightarrow> W_faults w1 (W_calls w1) = Works \<longrightarrow> e = ErrAgentNotFound | Inr a \<Rightarrow> False) \<and>
    (case fst (run_state (AgentService_ListByTenant sys_agents_svc t) w1) of
      Inl e \<Rightarrow> True | Inr as \<Rightarrow> i \<notin> Agent_ID ` set as)"
proof
  have gone: "agent_rows (Agent_ByIdTenant i t) (W_db w1) = []"
    using agents.delete_for_tenant(1) [OF assms] by (simp add: tenant_view_def split: list.splits)
  then show "case fst (run_state (AgentService_GetByIDForTenant sys_agents_svc t i) w1) of
      Inl e \<Rightarrow> W_faults w1 (W_calls w1) = Works \<longrightarrow> e = ErrAgentNotFound | Inr a \<Rightarrow> False"
    by (auto simp: AgentService_GetByIDForTenant_def AgentRepository_GetByIDForTenant_def found_agent_def
        run_sys no_rows_nil_def db_get_agent_def sys_reply_def split: fault.split)
  have "i \<notin> Agent_ID ` set (agent_rows (Agents_OfTenant t) (W_db w1))"
    using gone by (auto simp: agent_rows_def filter_empty_conv row_is_def)
  then show "case fst (run_state (AgentService_ListByTenant sys_agents_svc t) w1) of
      Inl e \<Rightarrow> True | Inr as \<Rightarrow> i \<notin> Agent_ID ` set as"
    by (auto simp: AgentService_ListByTenant_def AgentRepository_ListByTenant_def run_sys
        db_select_agents_def agent_limit_def newest_first_def split: sum.split)
qed

lemma deleted_agent_invisible_witness:
  "let w1 = snd (run_state (AgentService_DeleteForTenant sys_agents_svc 1 11) sample_world)
   in case fst (run_state (AgentService_GetByIDForTenant sys_agents_svc 1 11) w1) of
      Inl e \<Rightarrow> W_faults w1 (W_calls w1) = Works \<longrightarrow> e = ErrAgentNotFound | Inr a \<Rightarrow> False"
proof -
  have r: "fst (run_state (AgentService_DeleteForTenant sys_agents_svc 1 11) sample_world) = Inr ()" by code_simp
  show ?thesis unfolding Let_def by (rule deleted_agent_invisible [OF run_fst [OF r], THEN conjunct1])
qed

end
