(* ===== verification/Message_Service.thy ===== *)
theory Message_Service
  imports Sample_World
begin

text \<open>
  The message service: \<open>MessageService\<close> of \<open>internal/service/service.go\<close> and
  \<open>service_ext.go\<close>. Spans and logs are left out, metrics are kept. Methods that fill in the
  message, acknowledgement or subscription of their caller return it with the result.
\<close>

section \<open>State and operations\<close>

record 'w MessageService =
  MS_repo :: "'w sqlx option"
  MS_ackRepo :: "'w sqlx option"
  MS_redis :: "'w goredis option"

definition NewMessageService :: "'w sqlx option \<Rightarrow> 'w sqlx option \<Rightarrow> 'w goredis option \<Rightarrow> 'w MessageService" where
  "NewMessageService repo ackRepo redis = \<lparr>MS_repo = repo, MS_ackRepo = ackRepo, MS_redis = redis\<rparr>"

text \<open>\<open>RecordMessageOperation(op, outcome, time.Since(start)); return r\<close>.\<close>

definition record_ret :: "'w runtime \<Rightarrow> time \<Rightarrow> string \<Rightarrow> string \<Rightarrow> 'a \<Rightarrow> ('w, 'a) io" where
  "record_ret R start operation outcome r = do { record_op R start operation outcome; ret r }"

definition uuid_or_new :: "'w runtime \<Rightarrow> uuid \<Rightarrow> ('w, uuid) io" where
  "uuid_or_new R u = (if u = uuid_Nil then uuid_New R else ret u)"

definition time_or_now :: "'w runtime \<Rightarrow> time \<Rightarrow> ('w, time) io" where
  "time_or_now R t = (if t = 0 then time_Now R else ret t)"

text \<open>The defaults \<open>Send\<close> fills in, from \<open>if msg.ID == uuid.Nil\<close> to \<open>msg.ContentSize\<close>.\<close>

definition send_defaults :: "'w runtime \<Rightarrow> Message \<Rightarrow> ('w, Message) io" where
  "send_defaults R m = do {
     i \<leftarrow> uuid_or_new R (Message_ID m);
     c \<leftarrow> uuid_or_new R (Message_ConversationID m);
     t \<leftarrow> time_or_now R (Message_CreatedAt m);
     ret (m\<lparr>Message_ID := i, Message_ConversationID := c, Message_CreatedAt := t,
            Message_Status := (if Message_Status m = [] then MessageStatusPending else Message_Status m),
            Message_DeliveryGuarantee := (if Message_DeliveryGuarantee m = [] then DeliveryAtLeastOnce
                                          else Message_DeliveryGuarantee m),
            Message_ContentType := (if Message_ContentType m = [] then ''application/json'' else Message_ContentType m),
            Message_ContentSize := int (length (elems (Message_Content m)))\<rparr>)
   }"

definition send_invalid :: "Message option \<Rightarrow> bool" where
  "send_invalid msg = (case msg of
     None \<Rightarrow> True
   | Some m \<Rightarrow> elems (Message_RecipientIDs m) = [] \<or> elems (Message_Content m) = [])"

definition MessageService_Send ::
    "go_env \<Rightarrow> 'w runtime \<Rightarrow> 'w MessageService option \<Rightarrow> Message option \<Rightarrow> ('w, Message option \<times> SendResult result) io" where
  "MessageService_Send G R s msg = do {
     start \<leftarrow> time_Now R;
     (case s of
        None \<Rightarrow> record_ret R start ''send'' ''service_unavailable'' (msg, Inl ErrServiceUnavailable)
      | Some svc \<Rightarrow>
     (case (MS_repo svc, MS_redis svc) of
        (Some repo, Some redis) \<Rightarrow>
          (if send_invalid msg then record_ret R start ''send'' ''invalid_message'' (msg, Inl ErrInvalidMessage)
           else do {
             m \<leftarrow> send_defaults R (the msg);
             (case SetRecipients G m of
                (m, Inl e) \<Rightarrow> record_ret R start ''send'' ''recipient_encode_error'' (Some m, Inl e)
              | (m, Inr _) \<Rightarrow> do {
                  (m, r) \<leftarrow> MessageRepository_Create G repo m;
                  (case r of
                     Inl e \<Rightarrow> record_ret R start ''send'' ''db_error'' (Some m, Inl e)
                   | Inr _ \<Rightarrow>
                       (case Marshal_Message G m of
                          Inl e \<Rightarrow> record_ret R start ''send'' ''marshal_error'' (Some m, Inl e)
                        | Inr payload \<Rightarrow> do {
                            p \<leftarrow> RedisClient_LPush redis ''message:pending'' [payload];
                            (case p of
                               Inl e \<Rightarrow> record_ret R start ''send'' ''queue_error'' (Some m, Inl e)
                             | Inr _ \<Rightarrow> record_ret R start ''send'' ''queued'' (Some m,
                                 Inr \<lparr>Send_MessageID = Message_ID m, Send_Status = MessageStatusPending,
                                      Send_DeliveredAt = None\<rparr>))
                          }))
                })
           })
      | _ \<Rightarrow> record_ret R start ''send'' ''service_unavailable'' (msg, Inl ErrServiceUnavailable)))
   }"

definition MS_with_repo ::
    "'w MessageService option \<Rightarrow> ('w sqlx \<Rightarrow> ('w, 'a result) io) \<Rightarrow> ('w, 'a result) io" where
  "MS_with_repo s body = (case s of
     None \<Rightarrow> ret (Inl ErrServiceUnavailable)
   | Some svc \<Rightarrow> (case MS_repo svc of None \<Rightarrow> ret (Inl ErrServiceUnavailable) | Some repo \<Rightarrow> body repo))"

definition MS_with_redis ::
    "'w MessageService option \<Rightarrow> ('w goredis \<Rightarrow> ('w, 'a result) io) \<Rightarrow> ('w, 'a result) io" where
  "MS_with_redis s body = (case s of
     None \<Rightarrow> ret (Inl ErrServiceUnavailable)
   | Some svc \<Rightarrow> (case MS_redis svc of None \<Rightarrow> ret (Inl ErrServiceUnavailable) | Some redis \<Rightarrow> body redis))"

definition MessageService_GetByID ::
    "go_env \<Rightarrow> 'w MessageService option \<Rightarrow> uuid \<Rightarrow> ('w, Message option result) io" where
  "MessageService_GetByID G s i = MS_with_repo s (\<lambda>repo. MessageRepository_GetByID G repo i)"

definition MessageService_GetByIDForTenant ::
    "go_env \<Rightarrow> 'w MessageService option \<Rightarrow> uuid \<Rightarrow> uuid \<Rightarrow> ('w, Message result) io" where
  "MessageService_GetByIDForTenant G s tenantID i =
     MS_with_repo s (\<lambda>repo. try_io (MessageRepository_GetByIDForTenant G repo tenantID i)
       (\<lambda>m. ret (case m of None \<Rightarrow> Inl ErrMessageNotFound | Some x \<Rightarrow> Inr x)))"

definition mapAckToMessageStatus :: "AckStatus \<Rightarrow> MessageStatus" where
  "mapAckToMessageStatus status =
     (if status = AckStatusReceived then MessageStatusDelivered
      else if status = AckStatusProcessed then MessageStatusProcessed
      else if status = AckStatusRejected \<or> status = AckStatusFailed then MessageStatusFailed
      else MessageStatusPending)"

fun recipient_loop :: "uuid list \<Rightarrow> uuid \<Rightarrow> bool" where
  "recipient_loop [] agentID = False"
| "recipient_loop (r # rs) agentID = (if r = agentID then True else recipient_loop rs agentID)"

definition messageHasRecipient :: "Message option \<Rightarrow> uuid \<Rightarrow> bool" where
  "messageHasRecipient msg agentID = (case msg of
     None \<Rightarrow> False | Some m \<Rightarrow> recipient_loop (elems (Message_RecipientIDs m)) agentID)"

definition ack_invalid :: "Acknowledgement \<Rightarrow> bool" where
  "ack_invalid ack \<longleftrightarrow> Ack_MessageID ack = uuid_Nil \<or> Ack_AgentID ack = uuid_Nil \<or> Ack_Status ack = []"

definition ack_defaults :: "go_env \<Rightarrow> 'w runtime \<Rightarrow> Acknowledgement \<Rightarrow> ('w, Acknowledgement) io" where
  "ack_defaults G R ack = do {
     i \<leftarrow> uuid_or_new R (Ack_ID ack);
     t \<leftarrow> time_or_now R (Ack_CreatedAt ack);
     n \<leftarrow> (if Ack_Nonce ack = [] then uuid_NewString G R else ret (Ack_Nonce ack));
     ret (ack\<lparr>Ack_ID := i, Ack_CreatedAt := t, Ack_Nonce := n\<rparr>)
   }"

text \<open>From the defaults to the end, the same text in both acknowledge methods.\<close>

definition ack_store ::
    "go_env \<Rightarrow> 'w runtime \<Rightarrow> time \<Rightarrow> 'w sqlx \<Rightarrow> 'w sqlx \<Rightarrow> Acknowledgement \<Rightarrow> ('w, Acknowledgement option \<times> unit result) io" where
  "ack_store G R start repo ackRepo ack0 = do {
     ack \<leftarrow> ack_defaults G R ack0;
     c \<leftarrow> AcknowledgementRepository_Create ackRepo ack;
     (case c of
        Inl e \<Rightarrow> record_ret R start ''ack'' ''persist_error'' (Some ack, Inl e)
      | Inr _ \<Rightarrow> do {
          u \<leftarrow> MessageRepository_UpdateStatus repo (Ack_MessageID ack) (mapAckToMessageStatus (Ack_Status ack));
          (case u of
             Inl e \<Rightarrow> record_ret R start ''ack'' ''status_update_error'' (Some ack, Inl e)
           | Inr _ \<Rightarrow> record_ret R start ''ack'' (Ack_Status ack) (Some ack, Inr ()))
        })
   }"

definition MessageService_Acknowledge ::
    "go_env \<Rightarrow> 'w runtime \<Rightarrow> 'w MessageService option \<Rightarrow> Acknowledgement option \<Rightarrow>
     ('w, Acknowledgement option \<times> unit result) io" where
  "MessageService_Acknowledge G R s ack = do {
     start \<leftarrow> time_Now R;
     (case s of
        None \<Rightarrow> record_ret R start ''ack'' ''service_unavailable'' (ack, Inl ErrServiceUnavailable)
      | Some svc \<Rightarrow>
     (case (MS_repo svc, MS_ackRepo svc) of
        (Some repo, Some ackRepo) \<Rightarrow>
          (case ack of
             None \<Rightarrow> record_ret R start ''ack'' ''invalid_message'' (ack, Inl ErrInvalidMessage)
           | Some a \<Rightarrow>
               (if ack_invalid a then record_ret R start ''ack'' ''invalid_message'' (ack, Inl ErrInvalidMessage)
                else do {
                  r \<leftarrow> MessageRepository_GetByID G repo (Ack_MessageID a);
                  (case r of
                     Inl e \<Rightarrow> record_ret R start ''ack'' ''lookup_error'' (ack, Inl e)
                   | Inr None \<Rightarrow> record_ret R start ''ack'' ''message_not_found'' (ack, Inl ErrInvalidMessage)
                   | Inr (Some m) \<Rightarrow> ack_store G R start repo ackRepo a)
                }))
      | _ \<Rightarrow> record_ret R start ''ack'' ''service_unavailable'' (ack, Inl ErrServiceUnavailable)))
   }"

definition MessageService_AcknowledgeForTenant ::
    "go_env \<Rightarrow> 'w runtime \<Rightarrow> 'w MessageService option \<Rightarrow> uuid \<Rightarrow> Acknowledgement option \<Rightarrow>
     ('w, Acknowledgement option \<times> unit result) io" where
  "MessageService_AcknowledgeForTenant G R s tenantID ack = do {
     start \<leftarrow> time_Now R;
     (case s of
        None \<Rightarrow> record_ret R start ''ack'' ''service_unavailable'' (ack, Inl ErrServiceUnavailable)
      | Some svc \<Rightarrow>
     (case (MS_repo svc, MS_ackRepo svc) of
        (Some repo, Some ackRepo) \<Rightarrow>
          (case ack of
             None \<Rightarrow> record_ret R start ''ack'' ''invalid_message'' (ack, Inl ErrInvalidMessage)
           | Some a \<Rightarrow>
               (if ack_invalid a then record_ret R start ''ack'' ''invalid_message'' (ack, Inl ErrInvalidMessage)
                else do {
                  r \<leftarrow> MessageRepository_GetByIDForTenant G repo tenantID (Ack_MessageID a);
                  (case r of
                     Inl e \<Rightarrow> record_ret R start ''ack'' ''lookup_error'' (ack, Inl e)
                   | Inr msg \<Rightarrow>
                       (if msg = None then
                          record_ret R start ''ack'' ''message_not_found'' (ack, Inl ErrMessageNotFound)
                        else if \<not> messageHasRecipient msg (Ack_AgentID a) then
                          record_ret R start ''ack'' ''unauthorized'' (ack, Inl ErrUnauthorized)
                        else ack_store G R start repo ackRepo a))
                }))
      | _ \<Rightarrow> record_ret R start ''ack'' ''service_unavailable'' (ack, Inl ErrServiceUnavailable)))
   }"

definition MessageService_ListByConversation ::
    "go_env \<Rightarrow> 'w MessageService option \<Rightarrow> uuid \<Rightarrow> int \<Rightarrow> ('w, Message list result) io" where
  "MessageService_ListByConversation G s conversationID limit =
     MS_with_repo s (\<lambda>repo. MessageRepository_ListByConversation G repo conversationID limit)"

definition MessageService_ListByConversationForTenant ::
    "go_env \<Rightarrow> 'w MessageService option \<Rightarrow> uuid \<Rightarrow> uuid \<Rightarrow> int \<Rightarrow> ('w, Message list result) io" where
  "MessageService_ListByConversationForTenant G s tenantID conversationID limit =
     MS_with_repo s (\<lambda>repo. MessageRepository_ListByConversationForTenant G repo tenantID conversationID limit)"

definition MessageService_ListByTenant ::
    "go_env \<Rightarrow> 'w MessageService option \<Rightarrow> uuid \<Rightarrow> int \<Rightarrow> int \<Rightarrow> ('w, Message list result) io" where
  "MessageService_ListByTenant G s tenantID limit offset =
     MS_with_repo s (\<lambda>repo.
       MessageRepository_ListByTenant G repo tenantID (if limit \<le> 0 then 100 else limit) offset)"

definition MessageService_CreateSubscription ::
    "go_env \<Rightarrow> 'w runtime \<Rightarrow> 'w MessageService option \<Rightarrow> Subscription option \<Rightarrow>
     ('w, Subscription option \<times> unit result) io" where
  "MessageService_CreateSubscription G R s sub =
     (case s of
        None \<Rightarrow> ret (sub, Inl ErrServiceUnavailable)
      | Some svc \<Rightarrow> (case MS_redis svc of
          None \<Rightarrow> ret (sub, Inl ErrServiceUnavailable)
        | Some redis \<Rightarrow> (case sub of
            None \<Rightarrow> ret (None, Inl ErrInvalidMessage)
          | Some x \<Rightarrow> do {
              t \<leftarrow> (if Sub_CreatedAt x = 0 then do { t \<leftarrow> time_Now R; ret (time_Unix t) } else ret (Sub_CreatedAt x));
              let x = x\<lparr>Sub_CreatedAt := t\<rparr>;
              r \<leftarrow> RedisClient_CreateSubscription G redis x;
              ret (Some x, r)
            })))"

definition MessageService_ListSubscriptions ::
    "go_env \<Rightarrow> 'w MessageService option \<Rightarrow> uuid \<Rightarrow> ('w, Subscription list result) io" where
  "MessageService_ListSubscriptions G s agentID =
     MS_with_redis s (\<lambda>redis. RedisClient_ListSubscriptions G redis agentID)"

definition MessageService_DeleteSubscription ::
    "go_env \<Rightarrow> 'w MessageService option \<Rightarrow> uuid \<Rightarrow> uuid \<Rightarrow> ('w, unit result) io" where
  "MessageService_DeleteSubscription G s agentID subID =
     MS_with_redis s (\<lambda>redis. RedisClient_DeleteSubscription G redis agentID subID)"

section \<open>What one run does to the servers\<close>

abbreviation sys_messages :: "world MessageService option" where
  "sys_messages \<equiv> Some (NewMessageService (Some sys_db) (Some sys_db) (Some sys_redis))"

lemma record_ret_run [simp]:
  "run_state (record_ret sys_rt start operation outcome r) w = (r, metered start operation outcome w)"
  by (simp add: record_ret_def run_record_op)

text \<open>Two worlds with the same servers: only clock readings, drawn UUIDs and metrics differ.\<close>

definition same_servers :: "world \<Rightarrow> world \<Rightarrow> bool" where
  "same_servers w w' \<longleftrightarrow> W_db w' = W_db w \<and> W_redis w' = W_redis w \<and> W_calls w' = W_calls w \<and>
     W_faults w' = W_faults w \<and> W_published w' = W_published w"

lemma same_servers_simps [simp]:
  "same_servers w w" "same_servers w (metered st op out w') = same_servers w w'"
  "same_servers w (w'\<lparr>W_reads := n\<rparr>) = same_servers w w'" "same_servers w (w'\<lparr>W_drawn := n\<rparr>) = same_servers w w'"
  "same_servers (w\<lparr>W_reads := n\<rparr>) w' = same_servers w w'"
  by (simp_all add: same_servers_def)

lemma same_servers_calls:
  "same_servers w w' \<Longrightarrow> sys_reply w' r = sys_reply w r \<and> sys_done w' = sys_done w"
  by (simp add: same_servers_def sys_reply_def sys_done_def)

lemma same_servers_trans: "same_servers u v \<Longrightarrow> same_servers v w \<Longrightarrow> same_servers u w"
  by (simp add: same_servers_def)

lemma run_or_new:
  "run_state (uuid_or_new sys_rt u) w = (i, w') \<Longrightarrow>
     same_servers w w' \<and> i = (if u = uuid_Nil then W_uuids w (W_drawn w) else u)"
  "run_state (time_or_now sys_rt t) w = (t', w') \<Longrightarrow> same_servers w w'"
  by (auto simp: uuid_or_new_def time_or_now_def run_sys_rt split: if_splits)

text \<open>What \<open>Send\<close> leaves alone when it fills in the defaults.\<close>

lemma send_defaults_form:
  "run_state (send_defaults sys_rt m) w = (m', w') \<Longrightarrow> \<exists>i c t. same_servers w w' \<and>
     i = (if Message_ID m = uuid_Nil then W_uuids w (W_drawn w) else Message_ID m) \<and>
     m' = m\<lparr>Message_ID := i, Message_ConversationID := c, Message_CreatedAt := t,
            Message_Status := (if Message_Status m = [] then MessageStatusPending else Message_Status m),
            Message_DeliveryGuarantee := (if Message_DeliveryGuarantee m = [] then DeliveryAtLeastOnce
                                          else Message_DeliveryGuarantee m),
            Message_ContentType := (if Message_ContentType m = [] then ''application/json'' else Message_ContentType m),
            Message_ContentSize := int (length (elems (Message_Content m)))\<rparr>"
proof -
  assume r: "run_state (send_defaults sys_rt m) w = (m', w')"
  obtain i w1 where i: "run_state (uuid_or_new sys_rt (Message_ID m)) w = (i, w1)" by fastforce
  obtain c w2 where c: "run_state (uuid_or_new sys_rt (Message_ConversationID m)) w1 = (c, w2)" by fastforce
  obtain t w3 where t: "run_state (time_or_now sys_rt (Message_CreatedAt m)) w2 = (t, w3)" by fastforce
  have "same_servers w w3"
    using run_or_new(1) [OF i] run_or_new(1) [OF c] run_or_new(2) [OF t] same_servers_trans by blast
  then show ?thesis
    using r i c t run_or_new(1) [OF i] by (intro exI [of _ i] exI [of _ c] exI [of _ t]) (simp add: send_defaults_def)
qed

lemma send_defaults_run:
  assumes "run_state (send_defaults sys_rt m) w = (m', w')"
  shows "same_servers w w'"
    and "Message_RecipientIDs m' = Message_RecipientIDs m" "Message_Content m' = Message_Content m"
      "Message_SenderID m' = Message_SenderID m" "Message_TenantID m' = Message_TenantID m"
      "Message_MessageType m' = Message_MessageType m" "Message_Metadata m' = Message_Metadata m"
      "Message_TaskContext m' = Message_TaskContext m" "Message_TraceID m' = Message_TraceID m"
      "Message_ContentSize m' = int (length (elems (Message_Content m)))"
      "Message_Status m' = (if Message_Status m = [] then MessageStatusPending else Message_Status m)"
    and "Message_ID m \<noteq> uuid_Nil \<Longrightarrow> Message_ID m' = Message_ID m"
    and "Message_ID m = uuid_Nil \<Longrightarrow> Message_ID m' = W_uuids w (W_drawn w)"
  using send_defaults_form [OF assms] by auto

lemma SetRecipients_ok: "snd (SetRecipients G m) = Inr ()"
  by (simp add: SetRecipients_def)

lemma SetRecipients_same:
  "fst (SetRecipients G m) = m\<lparr>Message_RecipientStr := Message_RecipientStr (fst (SetRecipients G m))\<rparr>"
  by (simp add: SetRecipients_def)

lemma SetRecipients_str: "Message_RecipientStr (fst (SetRecipients G m)) \<noteq> []"
proof (cases "Message_RecipientIDs m")
  case None
  then show ?thesis by (simp add: SetRecipients_def)
next
  case (Some us)
  then show ?thesis by (simp add: SetRecipients_def Marshal_Recipients_def enc_slice_def)
qed

definition insert_of :: "Message \<Rightarrow> sql_exec" where
  "insert_of m = Messages_Insert (Message_ID m) (Message_ConversationID m) (Message_MessageType m)
     (Message_SenderID m) (Message_RecipientStr m) (Message_Content m) (Message_ContentSize m)
     (Message_ContentType m) (Message_Metadata m) (Message_DeliveryGuarantee m)
     (Message_Status m) (Message_TaskContext m) (Message_TraceID m) (Message_TenantID m)"

lemma Create_run:
  "Message_RecipientStr m \<noteq> [] \<Longrightarrow> run_state (MessageRepository_Create G sys_db m) w =
     ((m, case sys_reply w (fst (db_exec (w_now w) (insert_of m) (W_db w))) of Inl e \<Rightarrow> Inl e | Inr _ \<Rightarrow> Inr ()),
      (called w)\<lparr>W_db := (if sys_done w then snd (db_exec (w_now w) (insert_of m) (W_db w)) else W_db w)\<rparr>)"
  by (simp add: MessageRepository_Create_def exec_only_sys insert_of_def)

text \<open>The message \<open>Send\<close> works on, and the world at that point.\<close>

definition filled :: "go_env \<Rightarrow> Message \<Rightarrow> world \<Rightarrow> Message" where
  "filled G m w = fst (SetRecipients G (fst (run_state (send_defaults sys_rt m) (w\<lparr>W_reads := W_reads w + 1\<rparr>))))"

definition at_insert :: "Message \<Rightarrow> world \<Rightarrow> world" where
  "at_insert m w = snd (run_state (send_defaults sys_rt m) (w\<lparr>W_reads := W_reads w + 1\<rparr>))"

lemma at_insert_same: "same_servers w (at_insert m w)"
  using send_defaults_run(1) [of m "w\<lparr>W_reads := W_reads w + 1\<rparr>"] unfolding at_insert_def
  by (metis prod.collapse same_servers_simps(5))

lemma filled_simps:
  "Message_RecipientIDs (filled G m w) = Message_RecipientIDs m" "Message_Content (filled G m w) = Message_Content m"
  "Message_SenderID (filled G m w) = Message_SenderID m" "Message_TenantID (filled G m w) = Message_TenantID m"
  "Message_ID m \<noteq> uuid_Nil \<Longrightarrow> Message_ID (filled G m w) = Message_ID m"
  "Message_ID m = uuid_Nil \<Longrightarrow> Message_ID (filled G m w) = W_uuids w (W_drawn w)"
proof -
  define u where "u = w\<lparr>W_reads := W_reads w + 1\<rparr>"
  define d where "d = fst (run_state (send_defaults sys_rt m) u)"
  obtain v where run: "run_state (send_defaults sys_rt m) u = (d, v)" by (metis d_def prod.collapse)
  have f: "filled G m w = d\<lparr>Message_RecipientStr := Message_RecipientStr (fst (SetRecipients G d))\<rparr>"
    unfolding filled_def u_def [symmetric] d_def [symmetric] by (rule SetRecipients_same)
  note r = send_defaults_run [OF run]
  show "Message_RecipientIDs (filled G m w) = Message_RecipientIDs m" "Message_Content (filled G m w) = Message_Content m"
    "Message_SenderID (filled G m w) = Message_SenderID m" "Message_TenantID (filled G m w) = Message_TenantID m"
    "Message_ID m \<noteq> uuid_Nil \<Longrightarrow> Message_ID (filled G m w) = Message_ID m"
    "Message_ID m = uuid_Nil \<Longrightarrow> Message_ID (filled G m w) = W_uuids w (W_drawn w)"
    using r by (simp_all add: f u_def)
qed

text \<open>The ways a valid \<open>Send\<close> can go: refused by the database, not encodable, or pushed.\<close>

lemma Send_outcomes:
  assumes valid: "\<not> send_invalid (Some m)"
    and run: "run_state (MessageService_Send G sys_rt sys_messages (Some m)) w = ((msg', r), w')"
  defines "f \<equiv> filled G m w" and "u \<equiv> at_insert m w"
  defines "D \<equiv> db_exec (w_now u) (insert_of f) (W_db w)"
  shows "msg' = Some f \<and> W_published w' = W_published w \<and> W_faults w' = W_faults w \<and>
    ((\<exists>e. sys_reply w (fst D) = Inl e \<and> r = Inl e \<and> W_redis w' = W_redis w \<and>
        W_db w' = (if sys_done w then snd D else W_db w)) \<or>
     (\<exists>x e. W_faults w (W_calls w) = Works \<and> fst D = Inr x \<and> W_db w' = snd D \<and> Marshal_Message G f = Inl e \<and>
        r = Inl e \<and> W_redis w' = W_redis w) \<or>
     (\<exists>x p q v v'. W_faults w (W_calls w) = Works \<and> fst D = Inr x \<and> W_db w' = snd D \<and> Marshal_Message G f = Inr p \<and>
        W_redis v = W_redis w \<and> W_calls v = W_calls w + 1 \<and> W_faults v = W_faults w \<and>
        run_state (RedisClient_LPush sys_redis pending_key [p]) v = (q, v') \<and> W_redis w' = W_redis v' \<and>
        r = (case q of Inl e \<Rightarrow> Inl e | Inr _ \<Rightarrow>
          Inr \<lparr>Send_MessageID = Message_ID f, Send_Status = MessageStatusPending, Send_DeliveredAt = None\<rparr>)))"
proof -
  obtain d where d: "run_state (send_defaults sys_rt m) (w\<lparr>W_reads := W_reads w + 1\<rparr>) = (d, u)"
    unfolding u_def at_insert_def by (metis prod.collapse)
  have f: "f = fst (SetRecipients G d)" unfolding f_def filled_def d by simp
  then have st: "SetRecipients G d = (f, Inr ())" using SetRecipients_ok [of G d] by (metis prod.collapse)
  have str: "Message_RecipientStr f \<noteq> []" using f SetRecipients_str by simp
  have same: "W_db u = W_db w" "W_redis u = W_redis w" "W_calls u = W_calls w" "W_faults u = W_faults w"
      "W_published u = W_published w" "sys_reply u = sys_reply w" "sys_done u = sys_done w"
    using at_insert_same [of w m] same_servers_calls [of w u] by (auto simp: u_def same_servers_def)
  define v where "v = (called u)\<lparr>W_db := snd D\<rparr>"
  show ?thesis
  proof (cases "sys_reply w (fst D)")
    case (Inl e)
    then show ?thesis
      using run valid
      by (auto simp: MessageService_Send_def NewMessageService_def run_sys_rt d [simplified] st Create_run [OF str] same
          D_def [symmetric] simp del: sys_reply_Inr)
  next
    case (Inr x)
    then have works: "W_faults w (W_calls w) = Works" "fst D = Inr x" by simp_all
    then have dn: "sys_done w" by (simp add: sys_done_def)
    show ?thesis
    proof (cases "Marshal_Message G f")
      case (Inl e)
      then show ?thesis
        using run valid works dn
        by (auto simp: MessageService_Send_def NewMessageService_def run_sys_rt d [simplified] st Create_run [OF str] same
            D_def [symmetric] sys_reply_works)
    next
      case (Inr p)
      obtain q v' where q: "run_state (RedisClient_LPush sys_redis pending_key [p]) v = (q, v')" by fastforce
      have pub: "W_published v' = W_published w" "W_db v' = snd D" "W_faults v' = W_faults w"
        using q same(4,5) by (auto simp: RedisClient_LPush_def run_sys_redis v_def)
      have "msg' = Some f \<and> W_published w' = W_published w \<and> W_faults w' = W_faults w \<and> W_db w' = snd D \<and> W_redis w' = W_redis v' \<and>
        r = (case q of Inl e \<Rightarrow> Inl e | Inr _ \<Rightarrow>
          Inr \<lparr>Send_MessageID = Message_ID f, Send_Status = MessageStatusPending, Send_DeliveredAt = None\<rparr>)"
        using run valid works dn Inr q pub
        by (auto simp: MessageService_Send_def NewMessageService_def run_sys_rt d [simplified] st Create_run [OF str] same
            D_def [symmetric] sys_reply_works v_def pending_key_def split: sum.splits)
      moreover have "W_redis v = W_redis w \<and> W_calls v = W_calls w + 1 \<and> W_faults v = W_faults w"
        using same by (simp add: v_def)
      ultimately show ?thesis using works Inr q by blast
    qed
  qed
qed

lemma insert_done:
  "fst (db_exec now (insert_of f) T) = Inr x \<Longrightarrow>
     snd (db_exec now (insert_of f) T) = T\<lparr>T_messages := T_messages T @
       [f\<lparr>Message_RecipientIDs := None, Message_CreatedAt := now, Message_ExpiresAt := None, Message_ProcessedAt := None\<rparr>]\<rparr>"
  by (auto simp: insert_of_def db_exec.simps split: if_splits intro!: Message.equality)

lemma persistent_cong: "W_redis v = W_redis w \<Longrightarrow> persistent k v = persistent k w \<and> list_contents k v = list_contents k w"
  by (simp add: persistent_def list_contents_def)

section \<open>Properties of Send\<close>

text \<open>
  A message without recipients or content (or none at all) is rejected before any
  server is called: the call counter, the tables, Redis and the published messages stay,
  and no UUID is drawn.
\<close>
theorem Send_rejects_invalid:
  assumes "send_invalid msg"
  shows "case run_state (MessageService_Send G sys_rt sys_messages msg) w of
    (res, w') \<Rightarrow> res = (msg, Inl ErrInvalidMessage) \<and> same_servers w w' \<and> W_drawn w' = W_drawn w"
  using assms by (simp add: MessageService_Send_def NewMessageService_def run_sys_rt)

lemma Send_rejects_invalid_witness:
  "fst (run_state (MessageService_Send reference_env sys_rt sys_messages
     (Some (zero_Message\<lparr>Message_RecipientIDs := Some [12]\<rparr>))) sample_world) =
   (Some (zero_Message\<lparr>Message_RecipientIDs := Some [12]\<rparr>), Inl ErrInvalidMessage)"
  using Send_rejects_invalid [of "Some (zero_Message\<lparr>Message_RecipientIDs := Some [12]\<rparr>)" sample_world reference_env]
  by (simp add: send_invalid_def zero_Message_def split: prod.splits)

text \<open>
  C11. Nothing is queued that is not stored. Under any schedule of faults, a valid \<open>Send\<close>
  leaves the pending queue as it was, or appends exactly the encoding of the message it
  also stored; it reports success only in the second case, with the message's id.
\<close>
theorem Send_queues_only_stored:
  assumes "\<not> send_invalid (Some m)" "persistent pending_key w"
    and "run_state (MessageService_Send G sys_rt sys_messages (Some m)) w = ((msg', r), w')"
  shows "(pending w' = pending w \<or>
      (\<exists>p. Marshal_Message G (filled G m w) = Inr p \<and> pending w' = pending w @ [p] \<and>
         (\<exists>row \<in> set (T_messages (W_db w')). Message_ID row = Message_ID (filled G m w) \<and>
            Message_RecipientStr row = Message_RecipientStr (filled G m w) \<and>
            Message_TenantID row = Message_TenantID m))) \<and>
    (\<forall>res. r = Inr res \<longrightarrow> Send_MessageID res = Message_ID (filled G m w) \<and> length (pending w') = length (pending w) + 1)"
proof -
  have no_push: ?thesis if "W_redis w' = W_redis w" "r = Inl e" for e
    using persistent_cong [OF that(1)] that(2) by simp
  show ?thesis
    using Send_outcomes [OF assms(1,3)]
  proof (elim conjE disjE exE)
    fix x p q v v'
    assume fd: "fst (db_exec (w_now (at_insert m w)) (insert_of (filled G m w)) (W_db w)) = Inr x"
      and db: "W_db w' = snd (db_exec (w_now (at_insert m w)) (insert_of (filled G m w)) (W_db w))"
      and p: "Marshal_Message G (filled G m w) = Inr p" and v: "W_redis v = W_redis w"
      and q: "run_state (RedisClient_LPush sys_redis pending_key [p]) v = (q, v')" and w': "W_redis w' = W_redis v'"
      and r: "r = (case q of Inl e \<Rightarrow> Inl e | Inr _ \<Rightarrow>
            Inr \<lparr>Send_MessageID = Message_ID (filled G m w), Send_Status = MessageStatusPending, Send_DeliveredAt = None\<rparr>)"
    have ready: "persistent pending_key v" and now: "pending v = pending w" "pending w' = pending v'"
      using persistent_cong [OF v] persistent_cong [OF w'] assms(2) by simp_all
    have row: "\<exists>row \<in> set (T_messages (W_db w')). Message_ID row = Message_ID (filled G m w) \<and>
        Message_RecipientStr row = Message_RecipientStr (filled G m w) \<and> Message_TenantID row = Message_TenantID m"
      using insert_done [OF fd] db by (simp add: filled_simps)
    show ?thesis
      using pq.push_contents [OF ready q] pq.push_ok [OF ready, of p v'] q row p r now by (auto split: sum.splits)
  qed (use no_push in blast)+
qed

lemma Send_queues_only_stored_witness:
  "let m = zero_Message\<lparr>Message_SenderID := 11, Message_TenantID := 1, Message_RecipientIDs := Some [12],
         Message_Content := Some ''hi''\<rparr>;
       run = run_state (MessageService_Send reference_env sys_rt sys_messages (Some m)) sample_world
   in pending (snd run) = [] \<or> (\<exists>p. Marshal_Message reference_env (filled reference_env m sample_world) = Inr p \<and>
        pending (snd run) = [p])"
proof -
  let ?m = "zero_Message\<lparr>Message_SenderID := 11, Message_TenantID := 1, Message_RecipientIDs := Some [12],
         Message_Content := Some ''hi''\<rparr>"
  have "\<not> send_invalid (Some ?m)" by (simp add: send_invalid_def)
  moreover have "persistent pending_key sample_world" "pending sample_world = []"
    by (simp_all add: persistent_def list_contents_def)
  moreover obtain msg' r w' where
    run: "run_state (MessageService_Send reference_env sys_rt sys_messages (Some ?m)) sample_world = ((msg', r), w')"
    by (metis prod.collapse)
  ultimately show ?thesis
    using Send_queues_only_stored [OF _ _ run] by (auto simp: Let_def)
qed

definition queue_open :: "world \<Rightarrow> bool" where
  "queue_open w \<longleftrightarrow> (case W_redis w pending_key of None \<Rightarrow> True | Some (RList xs, None) \<Rightarrow> True | _ \<Rightarrow> False)"

lemma queue_open_persistent: "queue_open w \<Longrightarrow> persistent pending_key w"
  by (simp add: queue_open_def persistent_def split: option.splits prod.splits redis_value.splits)

lemma push_works:
  assumes "queue_open w" "W_faults w (W_calls w) = Works"
  shows "fst (run_state (RedisClient_LPush sys_redis pending_key [p]) w) = Inr ()"
  using assms persistent_lookup [OF queue_open_persistent [OF assms(1)]]
  by (auto simp: queue_open_def RedisClient_LPush_def run_sys_redis st_LPush_def rd_list_def
      split: option.splits prod.splits redis_value.splits)

lemma push_open:
  assumes "queue_open w"
  shows "queue_open (snd (run_state (RedisClient_LPush sys_redis pending_key [p]) w))"
  using assms persistent_lookup [OF queue_open_persistent [OF assms]] persistent_deadline [OF queue_open_persistent [OF assms]]
  by (auto simp: queue_open_def RedisClient_LPush_def run_sys_redis st_LPush_def rd_list_def put_value_def
      split: option.splits prod.splits redis_value.splits)

text \<open>An accepted message: stored, and its encoding at the end of the queue.\<close>

lemma accepted_send:
  assumes "\<not> send_invalid (Some m)" "queue_open w"
    and "W_faults w (W_calls w) = Works" "W_faults w (W_calls w + 1) = Works"
    and "Message_SenderID m \<in> agent_ids (W_db w)" "Message_TenantID m \<in> set (T_tenants (W_db w))"
    and "Message_ID (filled G m w) \<notin> message_ids (W_db w)"
    and "Marshal_Message G (filled G m w) = Inr p"
    and run: "run_state (MessageService_Send G sys_rt sys_messages (Some m)) w = ((msg', r), w')"
  shows "r = Inr \<lparr>Send_MessageID = Message_ID (filled G m w), Send_Status = MessageStatusPending, Send_DeliveredAt = None\<rparr>"
    and "pending w' = pending w @ [p]" "queue_open w'" "W_faults w' = W_faults w" "W_published w' = W_published w"
    and "\<exists>now. W_db w' = (W_db w)\<lparr>T_messages := T_messages (W_db w) @ [(filled G m w)\<lparr>Message_RecipientIDs := None,
           Message_CreatedAt := now, Message_ExpiresAt := None, Message_ProcessedAt := None\<rparr>]\<rparr>"
proof -
  have ins: "fst (db_exec now (insert_of (filled G m w)) (W_db w)) = Inr (Inr 1)" for now
    using assms(5-7) by (simp add: insert_of_def db_exec.simps filled_simps)
  have "r = Inr \<lparr>Send_MessageID = Message_ID (filled G m w), Send_Status = MessageStatusPending, Send_DeliveredAt = None\<rparr> \<and>
      pending w' = pending w @ [p] \<and> queue_open w' \<and>
      W_db w' = snd (db_exec (w_now (at_insert m w)) (insert_of (filled G m w)) (W_db w))"
    using Send_outcomes [OF assms(1) run]
  proof (elim conjE disjE exE)
    fix x p' q v v'
    assume p': "Marshal_Message G (filled G m w) = Inr p'" and v: "W_redis v = W_redis w" "W_calls v = W_calls w + 1"
        "W_faults v = W_faults w" and q: "run_state (RedisClient_LPush sys_redis pending_key [p']) v = (q, v')"
      and w': "W_redis w' = W_redis v'" and r: "r = (case q of Inl e \<Rightarrow> Inl e | Inr _ \<Rightarrow>
          Inr \<lparr>Send_MessageID = Message_ID (filled G m w), Send_Status = MessageStatusPending, Send_DeliveredAt = None\<rparr>)"
      and db: "W_db w' = snd (db_exec (w_now (at_insert m w)) (insert_of (filled G m w)) (W_db w))"
    have op: "queue_open v" using assms(2) v(1) by (simp add: queue_open_def)
    moreover from this have "q = Inr ()" using push_works [of v p'] assms(4) v q by simp
    moreover have "pending v = pending w" "pending w' = pending v'"
      using persistent_cong [OF v(1)] persistent_cong [OF w'] by simp_all
    moreover have "queue_open w'" using push_open [OF op, of p'] q w' by (simp add: queue_open_def)
    ultimately show ?thesis
      using pq.push_ok [OF queue_open_persistent, of v p' v'] q r p' assms(8) db by simp
  qed (use assms(3,8) ins in \<open>simp_all add: sys_reply_works\<close>)
  then show "r = Inr \<lparr>Send_MessageID = Message_ID (filled G m w), Send_Status = MessageStatusPending, Send_DeliveredAt = None\<rparr>"
    and "pending w' = pending w @ [p]" "queue_open w'"
    and "\<exists>now. W_db w' = (W_db w)\<lparr>T_messages := T_messages (W_db w) @ [(filled G m w)\<lparr>Message_RecipientIDs := None,
           Message_CreatedAt := now, Message_ExpiresAt := None, Message_ProcessedAt := None\<rparr>]\<rparr>"
    using insert_done [OF ins] by auto
  show "W_faults w' = W_faults w" "W_published w' = W_published w"
    using Send_outcomes [OF assms(1) run] by simp_all
qed

text \<open>
  A valid message of a known sender and tenant with a fresh id is accepted when the
  servers answer: \<open>Send\<close> returns its id with status pending, the queue grows by its
  encoding, and what a worker decodes from that entry is the message itself (in the normal
  form of the encoding), recipients included.
\<close>
theorem Send_accepts:
  assumes "\<not> send_invalid (Some m)" "queue_open w"
    and "W_faults w (W_calls w) = Works" "W_faults w (W_calls w + 1) = Works"
    and "Message_SenderID m \<in> agent_ids (W_db w)" "Message_TenantID m \<in> set (T_tenants (W_db w))"
    and "Message_ID (filled G m w) \<notin> message_ids (W_db w)"
    and "codec G" "message_ok G (filled G m w)" "Marshal_Message G (filled G m w) = Inr p"
  shows "case run_state (MessageService_Send G sys_rt sys_messages (Some m)) w of ((msg', r), w') \<Rightarrow>
    r = Inr \<lparr>Send_MessageID = Message_ID (filled G m w), Send_Status = MessageStatusPending, Send_DeliveredAt = None\<rparr> \<and>
    pending w' = pending w @ [p] \<and> Unmarshal_Message G p = Inr (norm_message (filled G m w)) \<and>
    Message_RecipientIDs (norm_message (filled G m w)) = Message_RecipientIDs m"
proof -
  obtain msg' r w' where run: "run_state (MessageService_Send G sys_rt sys_messages (Some m)) w = ((msg', r), w')"
    by (metis prod.collapse)
  note sent = accepted_send [OF assms(1-7,10) run]
  have "Unmarshal_Message G p = Inr (norm_message (filled G m w))"
    by (rule codec.message_roundtrip [OF assms(8-10)])
  with sent(1,2) run show ?thesis by (simp add: norm_message_def filled_simps)
qed

lemma sample_draft_filled:
  "filled reference_env sample_draft sample_world = sample_draft\<lparr>Message_ID := 1000, Message_ConversationID := 1001,
     Message_CreatedAt := 2 * Second, Message_Status := ''pending'', Message_DeliveryGuarantee := ''at_least_once'',
     Message_ContentType := ''application/json'', Message_ContentSize := 2,
     Message_RecipientStr := Marshal_Recipients reference_env (Some [12])\<rparr>"
  by (simp add: filled_def sample_draft_def send_defaults_def uuid_or_new_def time_or_now_def run_sys_rt w_now_def
      zero_Message_def uuid_Nil_def SetRecipients_def MessageStatusPending_def DeliveryAtLeastOnce_def)

lemma Marshal_plain:
  assumes "Message_TaskContext m = None" "Message_ExpiresAt m = None" "Message_ProcessedAt m = None"
    and "time_Text G (Message_CreatedAt m) = Some s"
  shows "\<exists>p. Marshal_Message G m = Inr p"
  using assms by (simp add: Marshal_Message_def Message_json_def enc_ptr_opt_def enc_time_def enc_time_opt_def)

lemma sample_draft_encoded:
  obtains p where "Marshal_Message reference_env (filled reference_env sample_draft sample_world) = Inr p"
    and "message_ok reference_env (filled reference_env sample_draft sample_world)"
proof -
  let ?f = "filled reference_env sample_draft sample_world"
  have f: "Message_TaskContext ?f = None" "Message_ExpiresAt ?f = None" "Message_ProcessedAt ?f = None"
      "time_Text reference_env (Message_CreatedAt ?f) = Some ''0001-01-01T00:00:02Z''"
    unfolding sample_draft_filled by (simp_all add: sample_draft_def zero_Message_def reference_time rfc3339_two_seconds)
  obtain p where p: "Marshal_Message reference_env ?f = Inr p" using Marshal_plain [OF f] by blast
  moreover have "message_ok reference_env ?f"
    unfolding sample_draft_filled
    by (simp add: message_ok_def sample_draft_def zero_Message_def zero_MessageMetadata_def metadata_ok_def
        int64_def utf8_ok_ascii is_ascii_def byte_def)
  ultimately show ?thesis by (rule that)
qed

lemma sample_draft_facts:
  "\<not> send_invalid (Some sample_draft)" "11 \<in> agent_ids sample_tables" "1 \<in> set (T_tenants sample_tables)"
  "1000 \<notin> message_ids sample_tables" "Message_ID (filled reference_env sample_draft sample_world) = 1000"
  "Message_SenderID sample_draft = 11" "Message_TenantID sample_draft = 1" "Message_RecipientIDs sample_draft = Some [12]"
  "queue_open sample_world" "pending sample_world = []"
  by (simp add: send_invalid_def sample_draft_def,
      (simp add: agent_ids_def message_ids_def sample_tables_def sample_row_def sample_agent_def sample_message_def)+,
      simp add: sample_draft_filled, (simp add: sample_draft_def queue_open_def list_contents_def)+)

lemma Send_accepts_witness:
  "\<exists>p. case run_state (MessageService_Send reference_env sys_rt sys_messages (Some sample_draft)) sample_world of ((msg', r), w') \<Rightarrow>
    r = Inr \<lparr>Send_MessageID = 1000, Send_Status = ''pending'', Send_DeliveredAt = None\<rparr> \<and> pending w' = [p] \<and>
    (\<exists>m. Unmarshal_Message reference_env p = Inr m \<and> Message_RecipientIDs m = Some [12])"
proof -
  let ?f = "filled reference_env sample_draft sample_world"
  obtain p where p: "Marshal_Message reference_env ?f = Inr p" "message_ok reference_env ?f"
    by (rule sample_draft_encoded)
  have "case run_state (MessageService_Send reference_env sys_rt sys_messages (Some sample_draft)) sample_world of ((msg', r), w') \<Rightarrow>
      r = Inr \<lparr>Send_MessageID = Message_ID ?f, Send_Status = MessageStatusPending, Send_DeliveredAt = None\<rparr> \<and>
      pending w' = pending sample_world @ [p] \<and> Unmarshal_Message reference_env p = Inr (norm_message ?f) \<and>
      Message_RecipientIDs (norm_message ?f) = Message_RecipientIDs sample_draft"
    by (rule Send_accepts) (use p sample_draft_facts reference.codec_axioms in simp_all)
  then show ?thesis
    unfolding sample_draft_facts(5,8,10) MessageStatusPending_def by (auto intro!: exI [of _ p])
qed

end
