(* ===== verification/Message_Acks.thy ===== *)
theory Message_Acks
  imports Message_Service
begin

text \<open>
  Acknowledgements and reads of the message service: who may acknowledge,
  what an acknowledgement changes and in which order, and what a tenant may read.
\<close>

section \<open>Acknowledging\<close>

lemma recipient_loop_iff: "recipient_loop rs i \<longleftrightarrow> i \<in> set rs"
  by (induction rs) auto

definition ack_insert :: "Acknowledgement \<Rightarrow> sql_exec" where
  "ack_insert a = Acks_Insert (Ack_ID a) (Ack_MessageID a) (Ack_AgentID a) (Ack_Status a)
     (Ack_Details a) (Ack_Nonce a) (Ack_Signature a) (Ack_CreatedAt a)"

lemma ack_defaults_run:
  assumes "run_state (ack_defaults G sys_rt a) w = (a', w')"
  shows "same_servers w w' \<and> Ack_MessageID a' = Ack_MessageID a \<and> Ack_AgentID a' = Ack_AgentID a \<and>
    Ack_Status a' = Ack_Status a"
proof -
  obtain i w1 where i: "run_state (uuid_or_new sys_rt (Ack_ID a)) w = (i, w1)" by fastforce
  obtain t w2 where t: "run_state (time_or_now sys_rt (Ack_CreatedAt a)) w1 = (t, w2)" by fastforce
  have "same_servers w w2" using run_or_new(1) [OF i] run_or_new(2) [OF t] same_servers_trans by blast
  then show ?thesis
    using assms i t by (auto simp: ack_defaults_def uuid_NewString_def run_sys_rt split: if_splits)
qed

lemma status_exec: "fst (db_exec now (Messages_Status i st) T) = Inr (Inr (int (length (filter (\<lambda>m. Message_ID m = i) (T_messages T)))))"
  by (simp add: db_exec.simps affected_def)

lemma status_messages: "snd (db_exec now (Messages_Status i st) T) =
    T\<lparr>T_messages := update_where (\<lambda>m. Message_ID m = i) (set_message_status st now) (T_messages T)\<rparr>"
  by (simp add: db_exec.simps)

lemma ack_insert_messages: "T_messages (snd (db_exec now (ack_insert b) T)) = T_messages T"
  by (simp add: ack_insert_def db_exec.simps)

lemma ack_insert_acks:
  "fst (db_exec now (ack_insert b) T) = Inr x \<Longrightarrow> \<exists>y \<in> set (T_acks (snd (db_exec now (ack_insert b) T))).
     Ack_MessageID y = Ack_MessageID b \<and> Ack_AgentID y = Ack_AgentID b \<and> Ack_Status y = Ack_Status b"
  by (auto simp: ack_insert_def db_exec.simps split: if_splits)

text \<open>Storing an acknowledgement: the row first, and the status only after the row.\<close>

lemma ack_store_run:
  assumes "run_state (ack_store G sys_rt start sys_db sys_db a) w = ((a', r), w')"
  obtains b u where "a' = Some b" "Ack_MessageID b = Ack_MessageID a" "Ack_AgentID b = Ack_AgentID a"
      "Ack_Status b = Ack_Status a"
    and "(\<exists>e. r = Inl e \<and> W_db w' \<in> {W_db w, snd (db_exec (w_now u) (ack_insert b) (W_db w))}) \<or>
      (\<exists>x v. fst (db_exec (w_now u) (ack_insert b) (W_db w)) = Inr x \<and>
        (let T = snd (db_exec (w_now u) (ack_insert b) (W_db w));
             T' = snd (db_exec (w_now v) (Messages_Status (Ack_MessageID a) (mapAckToMessageStatus (Ack_Status a))) T)
         in W_db w' \<in> {T, T'} \<and> (r = Inr () \<longrightarrow> W_db w' = T')))"
proof -
  obtain b u where d: "run_state (ack_defaults G sys_rt a) w = (b, u)" by fastforce
  note b = ack_defaults_run [OF d]
  have u: "W_db u = W_db w" "sys_reply u = sys_reply w" "sys_done u = sys_done w" "W_calls u = W_calls w" "W_faults u = W_faults w"
    using b same_servers_calls [of w u] by (auto simp: same_servers_def)
  define D where "D = db_exec (w_now u) (ack_insert b) (W_db w)"
  have run: "(a', r) = (Some b, r) \<and> (case sys_reply w (fst D) of
      Inl e \<Rightarrow> r = Inl e \<and> W_db w' \<in> {W_db w, snd D}
    | Inr x \<Rightarrow> (let T' = snd (db_exec (w_now u) (Messages_Status (Ack_MessageID a) (mapAckToMessageStatus (Ack_Status a))) (snd D))
       in W_db w' \<in> {snd D, T'} \<and> (r = Inr () \<longrightarrow> W_db w' = T')))"
  proof (cases "sys_reply w (fst D)")
    case (Inl e)
    then show ?thesis
      using assms b by (auto simp: ack_store_def d AcknowledgementRepository_Create_def exec_only_sys ack_insert_def [symmetric]
          u D_def [symmetric] simp del: sys_reply_Inr)
  next
    case (Inr x)
    then have "sys_done w" by (simp add: sys_done_def)
    define T' where "T' = snd (db_exec (w_now u) (Messages_Status (Ack_MessageID a) (mapAckToMessageStatus (Ack_Status a))) (snd D))"
    define v where "v = u\<lparr>W_calls := Suc (W_calls w), W_db := snd D\<rparr>"
    have st: "run_state (MessageRepository_UpdateStatus sys_db (Ack_MessageID a) (mapAckToMessageStatus (Ack_Status a))) v =
        ((case W_faults v (W_calls v) of Works \<Rightarrow> Inr () | Refused e \<Rightarrow> Inl (failure_error e) | Reply_Lost e \<Rightarrow> Inl (failure_error e)),
         (called v)\<lparr>W_db := (if sys_done v then T' else snd D)\<rparr>)"
      by (simp add: MessageRepository_UpdateStatus_def exec_only_sys v_def T'_def status_exec sys_reply_def split: fault.split)
    have "(a', r) = (Some b, r) \<and> W_db w' \<in> {snd D, T'} \<and> (r = Inr () \<longrightarrow> W_db w' = T')"
      using assms b Inr \<open>sys_done w\<close> st
      by (auto simp: ack_store_def d AcknowledgementRepository_Create_def exec_only_sys
          ack_insert_def [symmetric] u D_def [symmetric] v_def [symmetric] sys_done_def split: fault.splits)
    then show ?thesis using Inr by (simp add: Let_def T'_def del: sys_reply_Inr)
  qed
  show thesis
  proof (rule that [of b u])
    show "(\<exists>e. r = Inl e \<and> W_db w' \<in> {W_db w, snd (db_exec (w_now u) (ack_insert b) (W_db w))}) \<or>
      (\<exists>x v. fst (db_exec (w_now u) (ack_insert b) (W_db w)) = Inr x \<and>
        (let T = snd (db_exec (w_now u) (ack_insert b) (W_db w));
             T' = snd (db_exec (w_now v) (Messages_Status (Ack_MessageID a) (mapAckToMessageStatus (Ack_Status a))) T)
         in W_db w' \<in> {T, T'} \<and> (r = Inr () \<longrightarrow> W_db w' = T')))"
      using run unfolding D_def [symmetric] by (auto simp: Let_def split: sum.splits)
  qed (use run b in auto)
qed

definition ack_authorised :: "go_env \<Rightarrow> tables \<Rightarrow> uuid \<Rightarrow> Acknowledgement \<Rightarrow> bool" where
  "ack_authorised G T t a \<longleftrightarrow> (\<exists>m \<in> set (message_rows (Message_ByIdTenant (Ack_MessageID a) t) T).
     Ack_AgentID a \<in> set (elems (Message_RecipientIDs (fst (ScanRecipients G m)))))"

lemma get_for_tenant_run:
  "run_state (MessageRepository_GetByIDForTenant G sys_db t i) w = (scan_one G (sys_reply w (db_get_message (Message_ByIdTenant i t) (W_db w))), called w)"
  by (simp add: MessageRepository_GetByIDForTenant_def run_sys)

lemma scan_one_found:
  assumes "scan_one G (sys_reply w (db_get_message q (W_db w))) = Inr (Some m')"
  shows "\<exists>m \<in> set (message_rows q (W_db w)). m' = fst (ScanRecipients G m)"
  using assms
  by (auto simp: scan_one_def db_get_message_def sys_reply_def split: sum.splits if_splits prod.splits fault.splits list.splits)

text \<open>Every run of \<open>AcknowledgeForTenant\<close>: either nothing is written, or the caller was
  authorised and the run is one of \<open>ack_store\<close>.\<close>

lemma ack_for_tenant_run:
  assumes "run_state (MessageService_AcknowledgeForTenant G sys_rt sys_messages t (Some a)) w = ((a', r), w')"
  shows "(\<exists>e. r = Inl e \<and> W_db w' = W_db w) \<or>
    (ack_authorised G (W_db w) t a \<and> (\<exists>start v. W_db v = W_db w \<and>
       run_state (ack_store G sys_rt start sys_db sys_db a) v = ((a', r), w')))"
proof (cases "ack_invalid a")
  case True
  then show ?thesis
    using assms by (auto simp: MessageService_AcknowledgeForTenant_def NewMessageService_def run_sys_rt)
next
  case False
  define u where "u = w\<lparr>W_reads := Suc (W_reads w)\<rparr>"
  define q where "q = scan_one G (sys_reply u (db_get_message (Message_ByIdTenant (Ack_MessageID a) t) (W_db u)))"
  have look: "run_state (MessageRepository_GetByIDForTenant G sys_db t (Ack_MessageID a)) u = (q, called u)"
    by (simp add: get_for_tenant_run q_def)
  show ?thesis
  proof (cases "\<exists>m'. q = Inr (Some m') \<and> recipient_loop (elems (Message_RecipientIDs m')) (Ack_AgentID a)")
    case True
    then obtain m' where m': "q = Inr (Some m')" "Ack_AgentID a \<in> set (elems (Message_RecipientIDs m'))"
      by (auto simp: recipient_loop_iff)
    obtain m where m: "m \<in> set (message_rows (Message_ByIdTenant (Ack_MessageID a) t) (W_db w))"
        "m' = fst (ScanRecipients G m)"
      using scan_one_found [of G u _ m'] m'(1) unfolding q_def by (auto simp: u_def)
    have auth: "ack_authorised G (W_db w) t a" using m m'(2) by (auto simp: ack_authorised_def)
    have "run_state (ack_store G sys_rt (w_now w) sys_db sys_db a) (called u) = ((a', r), w')"
      using assms False look m' by (simp add: MessageService_AcknowledgeForTenant_def NewMessageService_def run_sys_rt
          u_def [symmetric] messageHasRecipient_def recipient_loop_iff)
    then show ?thesis using auth by (intro disjI2 conjI exI [of _ "w_now w"] exI [of _ "called u"]) (simp_all add: u_def)
  next
    case no: False
    have "(\<exists>e. r = Inl e) \<and> W_db w' = W_db u"
      using assms False look no
      by (auto simp: MessageService_AcknowledgeForTenant_def NewMessageService_def run_sys_rt
          u_def [symmetric] messageHasRecipient_def split: sum.splits option.splits if_splits)
    then show ?thesis by (auto simp: u_def)
  qed
qed

lemma sample_ack_run:
  "snd (fst (run_state (MessageService_AcknowledgeForTenant reference_env sys_rt sys_messages 1 (Some sample_ack)) sample_world)) = Inr ()"
proof -
  have look: "run_state (MessageRepository_GetByIDForTenant reference_env sys_db 1 31) (sample_world\<lparr>W_reads := Suc 0\<rparr>) =
      (Inr (Some (sample_message\<lparr>Message_RecipientIDs := Some [12]\<rparr>)), sample_world\<lparr>W_reads := Suc 0, W_calls := Suc 0\<rparr>)"
    by (simp add: get_for_tenant_run sys_reply_def db_get_message_def message_rows_def sample_tables_def scan_one_def
        sample_message_scan) (simp add: sample_message_def zero_Message_def)
  have ids: "31 \<in> message_ids sample_tables" "12 \<in> agent_ids sample_tables" "T_acks sample_tables = []"
    by (simp_all add: message_ids_def agent_ids_def sample_tables_def sample_row_def sample_agent_def sample_message_def)
  show ?thesis
    by (simp add: MessageService_AcknowledgeForTenant_def NewMessageService_def run_sys_rt ack_invalid_def sample_ack_def
       uuid_Nil_def look messageHasRecipient_def ack_store_def ack_defaults_def uuid_or_new_def time_or_now_def
       AcknowledgementRepository_Create_def exec_only_sys db_exec.simps ids sys_reply_def sys_done_def
       MessageRepository_UpdateStatus_def affected_def)
qed
text \<open>
  C12. Only a recipient may acknowledge: under any schedule of faults, an acknowledgement in
  the name of a tenant changes the database or succeeds only when the message exists in
  that tenant and the acknowledging agent is among its decoded recipients.
\<close>
theorem AcknowledgeForTenant_authority:
  assumes "run_state (MessageService_AcknowledgeForTenant G sys_rt sys_messages t (Some a)) w = ((a', r), w')"
    and "W_db w' \<noteq> W_db w \<or> r = Inr ()"
  shows "ack_authorised G (W_db w) t a"
  using ack_for_tenant_run [OF assms(1)] assms(2) by auto

lemma AcknowledgeForTenant_authority_witness:
  "ack_authorised reference_env (W_db sample_world) 1 sample_ack"
proof -
  obtain a' w' where r: "run_state (MessageService_AcknowledgeForTenant reference_env sys_rt sys_messages 1 (Some sample_ack))
      sample_world = ((a', Inr ()), w')"
    using sample_ack_run by (metis prod.collapse)
  show ?thesis by (rule AcknowledgeForTenant_authority [OF r]) simp
qed

text \<open>
  C20. Record before status: however an acknowledgement ends, the status of a message changes
  only if the acknowledgement row is stored; on success the row is there and exactly the
  acknowledged message has the status its acknowledgement maps to.
\<close>
theorem AcknowledgeForTenant_effect:
  assumes "run_state (MessageService_AcknowledgeForTenant G sys_rt sys_messages t (Some a)) w = ((a', r), w')"
  shows "(T_messages (W_db w') \<noteq> T_messages (W_db w) \<or> r = Inr () \<longrightarrow>
      (\<exists>x \<in> set (T_acks (W_db w')). Ack_MessageID x = Ack_MessageID a \<and> Ack_AgentID x = Ack_AgentID a \<and>
         Ack_Status x = Ack_Status a)) \<and>
    (r = Inr () \<longrightarrow> (\<exists>now. T_messages (W_db w') = update_where (\<lambda>m. Message_ID m = Ack_MessageID a)
        (set_message_status (mapAckToMessageStatus (Ack_Status a)) now) (T_messages (W_db w))))"
  using ack_for_tenant_run [OF assms]
proof (elim disjE conjE exE)
  fix start v
  assume v: "W_db v = W_db w" and run: "run_state (ack_store G sys_rt start sys_db sys_db a) v = ((a', r), w')"
  from run show ?thesis
  proof (rule ack_store_run, elim disjE exE conjE)
    fix b u e
    assume "r = Inl e" "W_db w' \<in> {W_db v, snd (db_exec (w_now u) (ack_insert b) (W_db v))}"
    then show ?thesis by (auto simp: v ack_insert_messages)
  next
    fix b u x now
    let ?T = "snd (db_exec (w_now u) (ack_insert b) (W_db v))"
    assume b: "Ack_MessageID b = Ack_MessageID a" "Ack_AgentID b = Ack_AgentID a" "Ack_Status b = Ack_Status a"
      and ins: "fst (db_exec (w_now u) (ack_insert b) (W_db v)) = Inr x"
      and T: "let T = ?T; T' = snd (db_exec (w_now now) (Messages_Status (Ack_MessageID a) (mapAckToMessageStatus (Ack_Status a))) T)
        in W_db w' \<in> {T, T'} \<and> (r = Inr () \<longrightarrow> W_db w' = T')"
    have "T_acks (W_db w') = T_acks ?T" using T by (auto simp: Let_def status_messages)
    then have row: "\<exists>x \<in> set (T_acks (W_db w')). Ack_MessageID x = Ack_MessageID a \<and> Ack_AgentID x = Ack_AgentID a \<and>
         Ack_Status x = Ack_Status a"
      using ack_insert_acks [OF ins] b by simp
    show ?thesis using row T by (auto simp: Let_def status_messages ack_insert_messages v)
  qed
qed simp

lemma AcknowledgeForTenant_effect_witness:
  "\<exists>now. T_messages (W_db (snd (run_state (MessageService_AcknowledgeForTenant reference_env sys_rt sys_messages 1
      (Some sample_ack)) sample_world))) =
    update_where (\<lambda>m. Message_ID m = 31) (set_message_status ''processed'' now) [sample_message]"
proof -
  obtain a' w' where r: "run_state (MessageService_AcknowledgeForTenant reference_env sys_rt sys_messages 1 (Some sample_ack))
      sample_world = ((a', Inr ()), w')"
    using sample_ack_run by (metis prod.collapse)
  show ?thesis
    using AcknowledgeForTenant_effect [OF r] r
    by (simp add: sample_ack_def sample_tables_def mapAckToMessageStatus_def ack_status_defs message_status_defs)
qed

section \<open>Reading\<close>

lemma scan_all_frame:
  "scan_all G ms = Inr ms' \<Longrightarrow> map (\<lambda>m. (Message_ID m, Message_TenantID m, Message_ConversationID m, Message_CreatedAt m)) ms' =
     map (\<lambda>m. (Message_ID m, Message_TenantID m, Message_ConversationID m, Message_CreatedAt m)) ms"
  by (induction G ms arbitrary: ms' rule: scan_all.induct)
    (auto simp: ScanRecipients_def split: prod.splits sum.splits if_splits option.splits)

lemma newest_first_sorted: "sorted (map (\<lambda>r. - t r) (newest_first t rs))"
  by (simp add: newest_first_def)

lemma set_newest_first [simp]: "set (newest_first t rs) = set rs"
  by (simp add: newest_first_def)

lemma list_tenant_rows:
  assumes "run_state (MessageService_ListByTenant G sys_messages t limit offset) w = (Inr ms, w')"
  obtains rows where "scan_all G rows = Inr ms"
    and "rows = take (nat (if limit \<le> 0 then 100 else limit)) (drop (nat offset)
      (newest_first Message_CreatedAt (message_rows (Messages_OfTenant t (if limit \<le> 0 then 100 else limit) offset) (W_db w))))"
  using assms
  by (auto simp: MessageService_ListByTenant_def MS_with_repo_def NewMessageService_def MessageRepository_ListByTenant_def
      run_sys db_select_messages_def sql_limit_def sql_offset_def Let_def split: sum.splits if_splits)

text \<open>
  A tenant's message list shows only that tenant's messages, newest first and never more
  than the limit (100 when the caller gives none).
\<close>
theorem ListByTenant_isolated:
  assumes "run_state (MessageService_ListByTenant G sys_messages t limit offset) w = (Inr ms, w')"
  shows "(\<forall>m \<in> set ms. Message_TenantID m = t \<and> Message_ID m \<in> message_ids (W_db w)) \<and>
    int (length ms) \<le> (if limit \<le> 0 then 100 else limit) \<and>
    sorted (map (\<lambda>m. - Message_CreatedAt m) ms)"
proof -
  let ?l = "if limit \<le> 0 then 100 else limit"
  let ?all = "newest_first Message_CreatedAt (message_rows (Messages_OfTenant t ?l offset) (W_db w))"
  obtain rows where scan: "scan_all G rows = Inr ms" and rows: "rows = take (nat ?l) (drop (nat offset) ?all)"
    using list_tenant_rows [OF assms] by blast
  note frame = scan_all_frame [OF scan]
  have keys: "map Message_TenantID ms = map Message_TenantID rows" "map Message_ID ms = map Message_ID rows"
      "map Message_CreatedAt ms = map Message_CreatedAt rows"
    using arg_cong [OF frame, of "map (\<lambda>(i, t, c, d). t)"] arg_cong [OF frame, of "map (\<lambda>(i, t, c, d). i)"]
      arg_cong [OF frame, of "map (\<lambda>(i, t, c, d). d)"] by (simp_all add: comp_def)
  have sub: "set rows \<subseteq> set (message_rows (Messages_OfTenant t ?l offset) (W_db w))"
    unfolding rows by (auto dest!: in_set_takeD in_set_dropD)
  have "Message_TenantID m = t \<and> Message_ID m \<in> message_ids (W_db w)" if "m \<in> set ms" for m
  proof -
    have "Message_TenantID m \<in> Message_TenantID ` set rows" "Message_ID m \<in> Message_ID ` set rows"
      using that keys(1,2) by (metis image_eqI list.set_map)+
    then show ?thesis using sub by (auto simp: message_rows_def message_ids_def)
  qed
  moreover have len: "length ms = length rows" using keys(1) map_eq_imp_length_eq by blast
  have "length rows \<le> nat ?l" "0 \<le> ?l" by (simp_all add: rows)
  then have "int (length ms) \<le> ?l" by (simp only: len le_nat_iff)
  moreover have "sorted (map (\<lambda>m. - Message_CreatedAt m) rows)"
    unfolding rows by (metis drop_map newest_first_sorted sorted_wrt_drop sorted_wrt_take take_map)
  then have "sorted (map (\<lambda>m. - Message_CreatedAt m) ms)"
    using arg_cong [OF keys(3), of "map uminus"] by (simp add: comp_def)
  ultimately show ?thesis by simp
qed

lemma ListByTenant_isolated_witness:
  "\<exists>ms. fst (run_state (MessageService_ListByTenant reference_env sys_messages 1 0 0) sample_world) = Inr ms \<and> length ms = 1 \<and>
     (\<forall>m \<in> set ms. Message_TenantID m = 1)"
proof -
  have r: "fst (run_state (MessageService_ListByTenant reference_env sys_messages 1 0 0) sample_world) =
      Inr [sample_message\<lparr>Message_RecipientIDs := Some [12]\<rparr>]"
    by (simp add: MessageService_ListByTenant_def MS_with_repo_def NewMessageService_def MessageRepository_ListByTenant_def
        run_sys sys_reply_def db_select_messages_def sql_limit_def sql_offset_def message_rows_def sample_tables_def
        newest_first_def sample_message_scan) (simp add: sample_message_def zero_Message_def sample_message_scan [unfolded sample_message_def zero_Message_def])
  show ?thesis
    by (intro exI conjI, rule r, simp, rule ListByTenant_isolated [OF run_fst [OF r], THEN conjunct1, rule_format, THEN conjunct1, THEN ballI])
qed

end
