(* ===== verification/Subscriptions.thy ===== *)
theory Subscriptions
  imports Message_Acks
begin

text \<open>
  Subscriptions: a Redis hash for each agent, from subscription ids to their JSON text. The
  lemmas describe one command on such a hash; the property follows a subscription from its
  creation through listing and deletion.
\<close>


definition hash_fields :: "string \<Rightarrow> world \<Rightarrow> (string \<times> string) list" where
  "hash_fields k w = (case W_redis w k of Some (RHash h, None) \<Rightarrow> h | _ \<Rightarrow> [])"

lemma hset_run:
  assumes "persistent k w" "run_state (cmd_HSet sys_redis k f v) w = (Inr (), w')"
  shows "hash_fields k w' = hash_put f v (hash_fields k w) \<and> persistent k w' \<and> W_faults w' = W_faults w"
  using assms
  by (auto simp: run_sys_redis st_HSet_def rd_hash_def persistent_lookup put_value_def persistent_deadline hash_fields_def
      persistent_def sys_done_def split: option.splits redis_value.splits sum.splits if_splits)

lemma hgetall_run:
  assumes "persistent k w" "run_state (cmd_HGetAll sys_redis k) w = (Inr h, w')"
  shows "h = hash_fields k w \<and> W_redis w' = W_redis w"
  using assms
  by (auto simp: run_sys_redis st_HGetAll_def rd_hash_def persistent_lookup hash_fields_def persistent_def
      split: option.splits redis_value.splits)

lemma hdel_run:
  assumes "persistent k w" "run_state (cmd_HDel sys_redis k f) w = (Inr (), w')"
  shows "hash_fields k w' = filter (\<lambda>p. fst p \<noteq> f) (hash_fields k w) \<and> persistent k w'"
  using assms
  by (auto simp: run_sys_redis st_HDel_def rd_hash_def persistent_lookup put_value_def persistent_deadline hash_fields_def
      persistent_def sys_done_def Let_def split: option.splits redis_value.splits sum.splits if_splits)

lemma set_map_filter: "set (List.map_filter f xs) = {y. \<exists>x \<in> set xs. f x = Some y}"
  by (induction xs) (auto simp: List.map_filter_simps split: option.split)

lemma set_decode_subscriptions:
  "set (decode_subscriptions G kvs) = {s. \<exists>f d. (f, d) \<in> set kvs \<and> Unmarshal_Subscription G d = Inr s}"
  unfolding decode_subscriptions_def set_map_filter by (force split: sum.splits)

lemma create_subscription_run:
  assumes "run_state (MessageService_CreateSubscription G sys_rt sys_messages (Some x)) w = ((x', Inr ()), w')"
  obtains y v where "x' = Some y" "W_redis v = W_redis w" "W_faults v = W_faults w"
    and "y = x\<lparr>Sub_CreatedAt := Sub_CreatedAt y\<rparr>" "Sub_CreatedAt x \<noteq> 0 \<longrightarrow> y = x"
    and "run_state (cmd_HSet sys_redis (subscriptions_key G (Sub_AgentID x)) (uuid_String G (Sub_ID x)) (Marshal_Subscription G y)) v =
      (Inr (), w')"
  by (cases "Sub_CreatedAt x = 0";
      rule that [of "x\<lparr>Sub_CreatedAt := if Sub_CreatedAt x = 0 then time_Unix (w_now w) else Sub_CreatedAt x\<rparr>"
        "if Sub_CreatedAt x = 0 then w\<lparr>W_reads := Suc (W_reads w)\<rparr> else w"])
    (use assms in \<open>auto simp: MessageService_CreateSubscription_def NewMessageService_def run_sys_rt
        RedisClient_CreateSubscription_def Let_def split: prod.splits\<close>)

lemma list_subscriptions_run:
  assumes "run_state (MessageService_ListSubscriptions G sys_messages a) w = (Inr subs, w')"
  obtains h where "run_state (cmd_HGetAll sys_redis (subscriptions_key G a)) w = (Inr h, w')" "subs = decode_subscriptions G h"
  using assms
  by (auto simp: MessageService_ListSubscriptions_def MS_with_redis_def NewMessageService_def RedisClient_ListSubscriptions_def
      split: sum.splits prod.splits)

text \<open>
  C17. A created subscription is listed until it is deleted: the listing of its agent after
  the creation shows it (in the normal form of the encoding), and after a delete by id the
  listing is what the other entries of the agent decode to.
\<close>
theorem subscription_lifecycle:
  assumes "codec G" "persistent (subscriptions_key G (Sub_AgentID x)) w"
    and "run_state (MessageService_CreateSubscription G sys_rt sys_messages (Some x)) w = ((x', Inr ()), w1)"
    and "\<And>y. x' = Some y \<Longrightarrow> subscription_ok y"
    and "run_state (MessageService_ListSubscriptions G sys_messages (Sub_AgentID x)) w1 = (Inr subs, w2)"
    and "run_state (MessageService_DeleteSubscription G sys_messages (Sub_AgentID x) (Sub_ID x)) w2 = (Inr (), w3)"
    and "run_state (MessageService_ListSubscriptions G sys_messages (Sub_AgentID x)) w3 = (Inr subs', w4)"
  shows "(\<exists>y. x' = Some y \<and> y\<lparr>Sub_Filter := norm_filter (Sub_Filter y)\<rparr> \<in> set subs \<and> Sub_ID y = Sub_ID x) \<and>
    set subs' = {s. \<exists>f d. (f, d) \<in> set (hash_fields (subscriptions_key G (Sub_AgentID x)) w) \<and>
      f \<noteq> uuid_String G (Sub_ID x) \<and> Unmarshal_Subscription G d = Inr s}"
proof -
  let ?k = "subscriptions_key G (Sub_AgentID x)" and ?id = "uuid_String G (Sub_ID x)"
  obtain y v where y: "x' = Some y" "W_redis v = W_redis w" "y = x\<lparr>Sub_CreatedAt := Sub_CreatedAt y\<rparr>"
    and put: "run_state (cmd_HSet sys_redis ?k ?id (Marshal_Subscription G y)) v = (Inr (), w1)"
    using create_subscription_run [OF assms(3)] by blast
  have pv: "persistent ?k v" "hash_fields ?k v = hash_fields ?k w"
    using assms(2) y(2) by (simp_all add: persistent_def hash_fields_def)
  have h1: "hash_fields ?k w1 = hash_put ?id (Marshal_Subscription G y) (hash_fields ?k w)" "persistent ?k w1"
    using hset_run [OF pv(1) put] pv(2) by simp_all
  obtain h where h: "run_state (cmd_HGetAll sys_redis ?k) w1 = (Inr h, w2)" "subs = decode_subscriptions G h"
    using list_subscriptions_run [OF assms(5)] by blast
  note g = hgetall_run [OF h1(2) h(1)]
  have "(?id, Marshal_Subscription G y) \<in> set h"
    using g h1(1) hash_put_get [of ?id "Marshal_Subscription G y" "hash_fields ?k w"] by (auto intro: map_of_SomeD)
  then have "y\<lparr>Sub_Filter := norm_filter (Sub_Filter y)\<rparr> \<in> set subs"
    using codec.subscription_roundtrip [OF assms(1) assms(4) [OF y(1)]] h(2) by (auto simp: set_decode_subscriptions)
  moreover have "Sub_ID y = Sub_ID x" by (subst y(3)) simp
  moreover have p2: "persistent ?k w2" "hash_fields ?k w2 = hash_fields ?k w1"
    using h1(2) g by (simp_all add: persistent_def hash_fields_def)
  have "run_state (cmd_HDel sys_redis ?k ?id) w2 = (Inr (), w3)"
    using assms(6) by (simp add: MessageService_DeleteSubscription_def MS_with_redis_def NewMessageService_def
        RedisClient_DeleteSubscription_def)
  note d = hdel_run [OF p2(1) this]
  obtain h' where h': "run_state (cmd_HGetAll sys_redis ?k) w3 = (Inr h', w4)" "subs' = decode_subscriptions G h'"
    using list_subscriptions_run [OF assms(7)] by blast
  have "set h' = {p \<in> set (hash_fields ?k w). fst p \<noteq> ?id}"
    using hgetall_run [OF _ h'(1)] d p2(2) h1(1)
    by (auto simp: hash_put_others)
  ultimately show ?thesis using y(1) h'(2) by (fastforce simp: set_decode_subscriptions)
qed

definition sample_subscription :: Subscription where
  "sample_subscription = zero_Subscription\<lparr>Sub_ID := 41, Sub_AgentID := 11, Sub_TenantID := 1, Sub_CreatedAt := 9\<rparr>"

lemma sample_subscription_ok: "subscription_ok sample_subscription" "norm_filter (Sub_Filter sample_subscription) = Sub_Filter sample_subscription"
  by (simp_all add: subscription_ok_def sample_subscription_def zero_Subscription_def int64_def filter_ok_def zero_SubscriptionFilter_def
      norm_filter_def norm_slice_def)

lemma sample_subscription_simps [simp]:
  "Sub_CreatedAt sample_subscription = 9" "Sub_AgentID sample_subscription = 11" "Sub_ID sample_subscription = 41"
  "sample_subscription\<lparr>Sub_CreatedAt := 9\<rparr> = sample_subscription"
  by (simp_all add: sample_subscription_def zero_Subscription_def)

definition subscribed_world :: world where
  "subscribed_world = sample_world\<lparr>W_calls := 1, W_redis := [subscriptions_key reference_env 11 \<mapsto>
     (RHash [(uuid_String reference_env 41, Marshal_Subscription reference_env sample_subscription)], None)]\<rparr>"

lemma decode_nothing: "decode_subscriptions G [] = []"
  by (simp add: decode_subscriptions_def List.map_filter_def)

lemma sample_decode: "decode_subscriptions reference_env [(i, Marshal_Subscription reference_env sample_subscription)] = [sample_subscription]"
proof -
  have "sample_subscription\<lparr>Sub_Filter := Sub_Filter sample_subscription\<rparr> = sample_subscription" by simp
  with reference.subscription_roundtrip [OF sample_subscription_ok(1)]
  have "Unmarshal_Subscription reference_env (Marshal_Subscription reference_env sample_subscription) = Inr sample_subscription"
    by (simp only: sample_subscription_ok(2))
  then show ?thesis by (simp add: decode_subscriptions_def List.map_filter_def)
qed

lemma sample_subscription_runs:
  "run_state (MessageService_CreateSubscription reference_env sys_rt sys_messages (Some sample_subscription)) sample_world =
     ((Some sample_subscription, Inr ()), subscribed_world)"
  "run_state (MessageService_ListSubscriptions reference_env sys_messages 11) subscribed_world =
     (Inr [sample_subscription], subscribed_world\<lparr>W_calls := 2\<rparr>)"
  "run_state (MessageService_DeleteSubscription reference_env sys_messages 11 41) (subscribed_world\<lparr>W_calls := 2\<rparr>) =
     (Inr (), sample_world\<lparr>W_calls := 3, W_redis := Map.empty\<rparr>)"
  "run_state (MessageService_ListSubscriptions reference_env sys_messages 11) (sample_world\<lparr>W_calls := 3, W_redis := Map.empty\<rparr>) =
     (Inr [], sample_world\<lparr>W_calls := 4, W_redis := Map.empty\<rparr>)"
  by (simp_all add: MessageService_CreateSubscription_def MessageService_ListSubscriptions_def MessageService_DeleteSubscription_def
      MS_with_redis_def NewMessageService_def RedisClient_CreateSubscription_def RedisClient_ListSubscriptions_def
      RedisClient_DeleteSubscription_def run_sys sys_reply_def sys_done_def st_HSet_def st_HGetAll_def st_HDel_def rd_hash_def
      lookup_def put_value_def deadline_def subscribed_world_def sample_decode decode_nothing)

lemma subscription_lifecycle_witness:
  "\<exists>subs subs' w2 w4.
     run_state (MessageService_ListSubscriptions reference_env sys_messages 11) subscribed_world = (Inr subs, w2) \<and>
     sample_subscription \<in> set subs \<and>
     run_state (MessageService_ListSubscriptions reference_env sys_messages 11) (sample_world\<lparr>W_calls := 3, W_redis := Map.empty\<rparr>) =
       (Inr subs', w4) \<and> subs' = []"
proof -
  have "persistent (subscriptions_key reference_env (Sub_AgentID sample_subscription)) sample_world"
    by (simp add: persistent_def)
  note life = subscription_lifecycle [OF reference.codec_axioms this sample_subscription_runs(1)]
  have ok: "Some sample_subscription = Some y \<Longrightarrow> subscription_ok y" for y by (simp add: sample_subscription_ok(1))
  note life [OF ok, unfolded sample_subscription_simps(2,3), OF _ sample_subscription_runs(2-4)]
  then have "sample_subscription \<in> set [sample_subscription]" by simp
  with sample_subscription_runs(2,4) show ?thesis by blast
qed

end
