(* ===== verification/Auth_Service.thy ===== *)
theory Auth_Service
  imports Sample_World Go_Crypto
begin

text \<open>
  Session tokens: \<open>AuthService\<close> of \<open>internal/service/service.go\<close>, with the HMAC-SHA256 of
  theory Go_Crypto and the base64 of theory Go_Base64. The lemmas show that a token is read
  back as issued until it expires, and that whatever is accepted carries the signature of
  the secret over its first two parts.
\<close>

section \<open>State and operations\<close>

record AuthService =
  Auth_jwtSecret :: bytes

definition NewAuthService :: "string \<Rightarrow> AuthService" where
  "NewAuthService jwtSecret = \<lparr>Auth_jwtSecret = jwtSecret\<rparr>"

record jwtHeader =
  Header_Alg :: string
  Header_Typ :: string

record jwtClaims =
  Jwt_Sub :: string
  Jwt_AgentID :: string
  Jwt_TenantID :: string
  Jwt_IssuedAt :: int
  Jwt_ExpiresAt :: int

definition zero_jwtHeader :: jwtHeader where
  "zero_jwtHeader = \<lparr>Header_Alg = [], Header_Typ = []\<rparr>"

definition zero_jwtClaims :: jwtClaims where
  "zero_jwtClaims = \<lparr>Jwt_Sub = [], Jwt_AgentID = [], Jwt_TenantID = [], Jwt_IssuedAt = 0, Jwt_ExpiresAt = 0\<rparr>"

definition jwtHeader_fields :: "(string \<times> (json \<Rightarrow> jwtHeader \<Rightarrow> jwtHeader option)) list" where
  "jwtHeader_fields =
   [(''alg'', field Header_Alg Header_Alg_update dec_string), (''typ'', field Header_Typ Header_Typ_update dec_string)]"

definition jwtHeader_json :: "jwtHeader \<Rightarrow> json" where
  "jwtHeader_json h = JObj [(''alg'', JStr (Header_Alg h)), (''typ'', JStr (Header_Typ h))]"

definition jwtClaims_fields :: "(string \<times> (json \<Rightarrow> jwtClaims \<Rightarrow> jwtClaims option)) list" where
  "jwtClaims_fields =
   [(''sub'', field Jwt_Sub Jwt_Sub_update dec_string), (''agent_id'', field Jwt_AgentID Jwt_AgentID_update dec_string),
    (''tenant_id'', field Jwt_TenantID Jwt_TenantID_update dec_string),
    (''iat'', field Jwt_IssuedAt Jwt_IssuedAt_update dec_int), (''exp'', field Jwt_ExpiresAt Jwt_ExpiresAt_update dec_int)]"

definition jwtClaims_json :: "jwtClaims \<Rightarrow> json" where
  "jwtClaims_json c = JObj
    [(''sub'', JStr (Jwt_Sub c)), (''agent_id'', JStr (Jwt_AgentID c)), (''tenant_id'', JStr (Jwt_TenantID c)),
     (''iat'', enc_int (Jwt_IssuedAt c)), (''exp'', enc_int (Jwt_ExpiresAt c))]"

definition Unmarshal_struct :: "(string \<times> (json \<Rightarrow> 'r \<Rightarrow> 'r option)) list \<Rightarrow> 'r \<Rightarrow> bytes \<Rightarrow> 'r option" where
  "Unmarshal_struct fs zero bs = (case json_parse bs of None \<Rightarrow> None | Some j \<Rightarrow> dec_struct fs j zero)"

definition signJWT :: "AuthService \<Rightarrow> string \<Rightarrow> string" where
  "signJWT s signingInput = RawURLEncoding_EncodeToString (hmac_sha256 (Auth_jwtSecret s) signingInput)"

text \<open>The text of a token issued at \<open>now\<close> (seconds).\<close>

definition token_text :: "go_env \<Rightarrow> AuthService \<Rightarrow> uuid \<Rightarrow> uuid \<Rightarrow> int \<Rightarrow> string" where
  "token_text G s agentID tenantID now =
     (let headerBytes = json_text (jwtHeader_json \<lparr>Header_Alg = ''HS256'', Header_Typ = ''JWT''\<rparr>);
          claimsBytes = json_text (jwtClaims_json \<lparr>Jwt_Sub = uuid_String G agentID, Jwt_AgentID = uuid_String G agentID,
            Jwt_TenantID = uuid_String G tenantID, Jwt_IssuedAt = now,
            Jwt_ExpiresAt = wrap64 (now + whole_seconds (24 * Hour))\<rparr>);
          signingInput = RawURLEncoding_EncodeToString headerBytes @ ''.'' @ RawURLEncoding_EncodeToString claimsBytes
      in signingInput @ ''.'' @ signJWT s signingInput)"

definition AuthService_GenerateToken ::
    "go_env \<Rightarrow> 'w runtime \<Rightarrow> AuthService \<Rightarrow> uuid \<Rightarrow> uuid \<Rightarrow> ('w, string result) io" where
  "AuthService_GenerateToken G R s agentID tenantID =
     (if Auth_jwtSecret s = [] then ret (Inl ErrServiceUnavailable)
      else do {
        t \<leftarrow> time_Now R;
        ret (Inr (token_text G s agentID tenantID (time_Unix t)))
      })"

text \<open>Everything \<open>ValidateToken\<close> checks before it looks at the clock, in its order.\<close>

definition token_parts :: "AuthService \<Rightarrow> string \<Rightarrow> jwtClaims option" where
  "token_parts s token = (case strings_Split token (CHR ''.'') of
     [h, c, sig] \<Rightarrow>
       (case RawURLEncoding_DecodeString h of
          None \<Rightarrow> None
        | Some headerBytes \<Rightarrow>
       (case Unmarshal_struct jwtHeader_fields zero_jwtHeader headerBytes of
          None \<Rightarrow> None
        | Some header \<Rightarrow>
       if Header_Alg header \<noteq> ''HS256'' \<or> Header_Typ header \<noteq> ''JWT'' then None
       else (case RawURLEncoding_DecodeString c of
          None \<Rightarrow> None
        | Some claimsBytes \<Rightarrow>
       if sig \<noteq> signJWT s (h @ ''.'' @ c) then None
       else Unmarshal_struct jwtClaims_fields zero_jwtClaims claimsBytes)))
   | _ \<Rightarrow> None)"

definition AuthService_ValidateToken ::
    "go_env \<Rightarrow> 'w runtime \<Rightarrow> AuthService \<Rightarrow> string \<Rightarrow> ('w, TokenClaims result) io" where
  "AuthService_ValidateToken G R s token =
     (if Auth_jwtSecret s = [] then ret (Inl ErrServiceUnavailable)
      else (case token_parts s token of
        None \<Rightarrow> ret (Inl ErrInvalidToken)
      | Some claims \<Rightarrow>
     (case uuid_Parse G (Jwt_AgentID claims) of
        None \<Rightarrow> ret (Inl ErrInvalidToken)
      | Some agentID \<Rightarrow>
     (case uuid_Parse G (Jwt_TenantID claims) of
        None \<Rightarrow> ret (Inl ErrInvalidToken)
      | Some tenantID \<Rightarrow>
          (let accepted = Inr \<lparr>Claims_AgentID = agentID, Claims_TenantID = tenantID,
                 Claims_IssuedAt = Jwt_IssuedAt claims, Claims_ExpiresAt = Jwt_ExpiresAt claims\<rparr>
           in if Jwt_ExpiresAt claims = 0 then ret (Inl ErrInvalidToken)
              else do {
                t \<leftarrow> time_Now R;
                ret (if time_Unix t > Jwt_ExpiresAt claims then Inl ErrInvalidToken else accepted)
              })))))"

section \<open>A token is read back as issued\<close>

definition issued_claims :: "go_env \<Rightarrow> uuid \<Rightarrow> uuid \<Rightarrow> int \<Rightarrow> jwtClaims" where
  "issued_claims G a t now = \<lparr>Jwt_Sub = uuid_String G a, Jwt_AgentID = uuid_String G a, Jwt_TenantID = uuid_String G t,
     Jwt_IssuedAt = now, Jwt_ExpiresAt = wrap64 (now + 86400)\<rparr>"

lemma day_seconds: "whole_seconds (24 * Hour) = 86400"
  by (simp add: whole_seconds_def go_quot_pos duration_units)

lemma Unmarshal_struct_text: "value_ok 10000 j \<Longrightarrow> Unmarshal_struct fs z (json_text j) = dec_struct fs j z"
  by (simp add: Unmarshal_struct_def value_ok_parse)

lemma jwt_names_utf8 [simp]:
  "utf8_ok ''alg''" "utf8_ok ''typ''" "utf8_ok ''HS256''" "utf8_ok ''JWT''" "utf8_ok ''sub''" "utf8_ok ''agent_id''"
  "utf8_ok ''tenant_id''" "utf8_ok ''iat''" "utf8_ok ''exp''"
  by ((rule utf8_ok_ascii, simp add: is_ascii_def byte_def)+)

lemma header_roundtrip:
  "Unmarshal_struct jwtHeader_fields zero_jwtHeader (json_text (jwtHeader_json \<lparr>Header_Alg = ''HS256'', Header_Typ = ''JWT''\<rparr>)) =
     Some \<lparr>Header_Alg = ''HS256'', Header_Typ = ''JWT''\<rparr>"
proof -
  have "value_ok (Suc 0) (jwtHeader_json \<lparr>Header_Alg = ''HS256'', Header_Typ = ''JWT''\<rparr>)"
    by (simp add: jwtHeader_json_def value_ok_obj del: utf8_ok.simps)
  then have "value_ok 10000 (jwtHeader_json \<lparr>Header_Alg = ''HS256'', Header_Typ = ''JWT''\<rparr>)"
    by (rule value_ok_mono) simp
  then have "Unmarshal_struct jwtHeader_fields zero_jwtHeader (json_text (jwtHeader_json \<lparr>Header_Alg = ''HS256'', Header_Typ = ''JWT''\<rparr>)) =
      dec_struct jwtHeader_fields (jwtHeader_json \<lparr>Header_Alg = ''HS256'', Header_Typ = ''JWT''\<rparr>) zero_jwtHeader"
    by (rule Unmarshal_struct_text)
  also have "\<dots> = Some \<lparr>Header_Alg = ''HS256'', Header_Typ = ''JWT''\<rparr>"
    by (simp add: jwtHeader_json_def dec_struct_def jwtHeader_fields_def field_def zero_jwtHeader_def
        key_matches_def key_fold_def byte_def chr_def)
  finally show ?thesis .
qed

lemma claims_roundtrip:
  assumes "utf8_ok (Jwt_Sub c)" "utf8_ok (Jwt_AgentID c)" "utf8_ok (Jwt_TenantID c)"
    and "int64 (Jwt_IssuedAt c)" "int64 (Jwt_ExpiresAt c)"
  shows "Unmarshal_struct jwtClaims_fields zero_jwtClaims (json_text (jwtClaims_json c)) = Some c"
proof -
  have "value_ok (Suc 0) (jwtClaims_json c)"
    using assms by (simp add: jwtClaims_json_def value_ok_obj del: utf8_ok.simps)
  then have "value_ok 10000 (jwtClaims_json c)" by (rule value_ok_mono) simp
  then have "Unmarshal_struct jwtClaims_fields zero_jwtClaims (json_text (jwtClaims_json c)) =
      dec_struct jwtClaims_fields (jwtClaims_json c) zero_jwtClaims"
    by (rule Unmarshal_struct_text)
  also have "\<dots> = Some c" using assms
    by (simp add: jwtClaims_json_def dec_struct_def jwtClaims_fields_def field_def zero_jwtClaims_def
        key_matches_def key_fold_def byte_def chr_def)
  finally show ?thesis .
qed

lemma signature_no_dot: "CHR ''.'' \<notin> set (signJWT s x)"
  by (simp add: signJWT_def RawURLEncoding_no_dot)

lemma token_parts_issued:
  assumes "codec G" "int64 now"
  shows "token_parts s (token_text G s a t now) = Some (issued_claims G a t now)"
proof -
  let ?h = "RawURLEncoding_EncodeToString (json_text (jwtHeader_json \<lparr>Header_Alg = ''HS256'', Header_Typ = ''JWT''\<rparr>))"
  let ?c = "RawURLEncoding_EncodeToString (json_text (jwtClaims_json (issued_claims G a t now)))"
  have utf8: "utf8_ok (uuid_String G u)" for u
    by (rule uuid_text.text_utf8 [OF codec.axioms(1) [OF assms(1)]])
  have "Unmarshal_struct jwtClaims_fields zero_jwtClaims (json_text (jwtClaims_json (issued_claims G a t now))) =
      Some (issued_claims G a t now)"
    using assms(2) wrap64_range [of "now + 86400"]
    by (intro claims_roundtrip) (simp_all add: issued_claims_def utf8 int64_def)
  moreover have "strings_Split (token_text G s a t now) (CHR ''.'') = [?h, ?c, signJWT s (?h @ ''.'' @ ?c)]"
    by (simp add: token_text_def Let_def day_seconds issued_claims_def strings_Split_append strings_Split_free
        RawURLEncoding_no_dot signature_no_dot)
  ultimately show ?thesis by (simp add: token_parts_def header_roundtrip)
qed

text \<open>
  C18. A token works for its day: what \<open>GenerateToken\<close> issued is accepted by \<open>ValidateToken\<close>
  of the same service at any time at which it is not past its expiry, 86400 seconds after
  its issue, and gives back the agent and the tenant it was issued for; afterwards it is refused.
\<close>
theorem token_roundtrip:
  assumes "codec G" "0 \<le> time_Unix (w_now w)" "time_Unix (w_now w) < 2 ^ 62"
    and "run_state (AuthService_GenerateToken G sys_rt s a t) w = (Inr token, w1)"
  shows "fst (run_state (AuthService_ValidateToken G sys_rt s token) v) =
    (if time_Unix (w_now v) \<le> time_Unix (w_now w) + 86400
     then Inr \<lparr>Claims_AgentID = a, Claims_TenantID = t, Claims_IssuedAt = time_Unix (w_now w),
       Claims_ExpiresAt = time_Unix (w_now w) + 86400\<rparr>
     else Inl ErrInvalidToken)"
proof -
  let ?now = "time_Unix (w_now w)"
  have s: "Auth_jwtSecret s \<noteq> []" and token: "token = token_text G s a t ?now"
    using assms(4) by (simp_all add: AuthService_GenerateToken_def run_sys_rt split: if_splits)
  have "int64 ?now" and w: "wrap64 (?now + 86400) = ?now + 86400"
    using assms(2,3) by (simp_all add: int64_def wrap64_id)
  then have "token_parts s token = Some (issued_claims G a t ?now)"
    using token token_parts_issued [OF assms(1)] by simp
  moreover have "uuid_Parse G (uuid_String G u) = Some u" for u
    by (rule uuid_text.parse_text [OF codec.axioms(1) [OF assms(1)]])
  ultimately show ?thesis using s w assms(2)
    by (simp add: AuthService_ValidateToken_def issued_claims_def Let_def run_sys_rt)
qed

lemma token_roundtrip_witness:
  "\<exists>token. fst (run_state (AuthService_GenerateToken reference_env sys_rt (NewAuthService ''s3cret'') 11 1)
       (sample_world\<lparr>W_clock := \<lambda>_. unix_epoch\<rparr>)) = Inr token \<and>
     fst (run_state (AuthService_ValidateToken reference_env sys_rt (NewAuthService ''s3cret'') token)
       (sample_world\<lparr>W_clock := \<lambda>_. unix_epoch\<rparr>)) =
     Inr \<lparr>Claims_AgentID = 11, Claims_TenantID = 1, Claims_IssuedAt = 0, Claims_ExpiresAt = 86400\<rparr>"
proof -
  let ?w = "sample_world\<lparr>W_clock := \<lambda>_. unix_epoch\<rparr>" and ?s = "NewAuthService ''s3cret''"
  have now: "time_Unix (w_now ?w) = 0" by (simp add: w_now_def time_Unix_def)
  obtain token where g: "fst (run_state (AuthService_GenerateToken reference_env sys_rt ?s 11 1) ?w) = Inr token"
    by (simp add: AuthService_GenerateToken_def NewAuthService_def run_sys_rt)
  show ?thesis
    using token_roundtrip [OF reference.codec_axioms _ _ run_fst [OF g], where v = ?w] g now by simp
qed

section \<open>What is accepted is signed\<close>

lemma split_three: "strings_Split token c = [x, y, z] \<Longrightarrow> token = x @ [c] @ y @ [c] @ z"
  using strings_Join_Split [of token c] by simp

lemma token_parts_Some:
  assumes "token_parts s token = Some claims"
  shows "\<exists>h c. token = h @ ''.'' @ c @ ''.'' @ signJWT s (h @ ''.'' @ c) \<and>
    Option.bind (RawURLEncoding_DecodeString h) (Unmarshal_struct jwtHeader_fields zero_jwtHeader) =
      Some \<lparr>Header_Alg = ''HS256'', Header_Typ = ''JWT''\<rparr> \<and>
    Option.bind (RawURLEncoding_DecodeString c) (Unmarshal_struct jwtClaims_fields zero_jwtClaims) = Some claims"
proof -
  from assms obtain h c sig where p: "strings_Split token (CHR ''.'') = [h, c, sig]"
    by (auto simp: token_parts_def split: list.splits)
  with assms split_three [OF p] p show ?thesis
    by (intro exI [of _ h] exI [of _ c]) (auto simp: token_parts_def jwtHeader.equality split: option.splits if_splits intro!: jwtHeader.equality)
qed

text \<open>
  C9. Only signed, current tokens are accepted: a token that \<open>ValidateToken\<close> accepts ends in
  the HMAC of the service's secret over its first two parts, its header says HS256 (so no
  other algorithm is tolerated), the claims returned are those of its second part, and the
  clock read does not pass a non-zero expiry. A service without a secret accepts nothing.
\<close>
theorem ValidateToken_sound:
  assumes "run_state (AuthService_ValidateToken G sys_rt s token) w = (Inr claims, w')"
  shows "Auth_jwtSecret s \<noteq> [] \<and> Claims_ExpiresAt claims \<noteq> 0 \<and> time_Unix (w_now w) \<le> Claims_ExpiresAt claims \<and>
    (\<exists>h c j. token = h @ ''.'' @ c @ ''.'' @ signJWT s (h @ ''.'' @ c) \<and>
      Option.bind (RawURLEncoding_DecodeString h) (Unmarshal_struct jwtHeader_fields zero_jwtHeader) =
        Some \<lparr>Header_Alg = ''HS256'', Header_Typ = ''JWT''\<rparr> \<and>
      Option.bind (RawURLEncoding_DecodeString c) (Unmarshal_struct jwtClaims_fields zero_jwtClaims) = Some j \<and>
      uuid_Parse G (Jwt_AgentID j) = Some (Claims_AgentID claims) \<and>
      uuid_Parse G (Jwt_TenantID j) = Some (Claims_TenantID claims) \<and>
      Jwt_IssuedAt j = Claims_IssuedAt claims \<and> Jwt_ExpiresAt j = Claims_ExpiresAt claims)"
proof -
  from assms obtain j where j: "token_parts s token = Some j"
    by (auto simp: AuthService_ValidateToken_def split: if_splits option.splits)
  then have rest: "Auth_jwtSecret s \<noteq> []" "uuid_Parse G (Jwt_AgentID j) = Some (Claims_AgentID claims)"
      "uuid_Parse G (Jwt_TenantID j) = Some (Claims_TenantID claims)" "Jwt_IssuedAt j = Claims_IssuedAt claims"
      "Jwt_ExpiresAt j = Claims_ExpiresAt claims" "Claims_ExpiresAt claims \<noteq> 0" "time_Unix (w_now w) \<le> Claims_ExpiresAt claims"
    using assms by (auto simp: AuthService_ValidateToken_def Let_def run_sys_rt split: if_splits option.splits)
  with token_parts_Some [OF j] show ?thesis by blast
qed

lemma ValidateToken_sound_witness:
  "\<exists>claims. fst (run_state (AuthService_ValidateToken reference_env sys_rt (NewAuthService ''s3cret'')
       (token_text reference_env (NewAuthService ''s3cret'') 11 1 0)) (sample_world\<lparr>W_clock := \<lambda>_. unix_epoch\<rparr>)) = Inr claims \<and>
     0 \<le> Claims_ExpiresAt claims"
proof -
  let ?w = "sample_world\<lparr>W_clock := \<lambda>_. unix_epoch\<rparr>" and ?s = "NewAuthService ''s3cret''"
  have now: "time_Unix (w_now ?w) = 0" by (simp add: w_now_def time_Unix_def)
  have "token_parts ?s (token_text reference_env ?s 11 1 0) = Some (issued_claims reference_env 11 1 0)"
    by (rule token_parts_issued [OF reference.codec_axioms]) (simp add: int64_def)
  then have r: "fst (run_state (AuthService_ValidateToken reference_env sys_rt ?s (token_text reference_env ?s 11 1 0)) ?w) =
      Inr \<lparr>Claims_AgentID = 11, Claims_TenantID = 1, Claims_IssuedAt = 0, Claims_ExpiresAt = 86400\<rparr>"
    using now by (simp add: AuthService_ValidateToken_def NewAuthService_def issued_claims_def reference.parse_text Let_def
        run_sys_rt wrap64_id)
  show ?thesis
    using ValidateToken_sound [OF run_fst [OF r]] r now by auto
qed

end
