(* ===== verification/Engine.thy ===== *)
theory Engine
  imports Message_Service
begin

text \<open>
  The message engine: \<open>MessageEngine\<close>, \<open>MessageRouter\<close> and \<open>DeadLetterQueue\<close> of
  \<open>internal/engine/engine.go\<close>. Logs and spans are left out, metrics are kept. A loop that a
  goroutine runs takes the list of what its \<open>select\<close> sees: a tick (or the default branch),
  or the cancellation of its context; the list ends where the observation ends. Starting
  and stopping is in theory Engine_Lifecycle.
\<close>

section \<open>State\<close>

record EngineConfig =
  Engine_WorkerCount :: int
  Engine_BatchSize :: int
  Engine_FlushInterval :: duration
  Engine_MaxRetries :: int
  Engine_RetryBaseDelay :: duration

definition zero_EngineConfig :: EngineConfig where
  "zero_EngineConfig = \<lparr>Engine_WorkerCount = 0, Engine_BatchSize = 0, Engine_FlushInterval = 0,
     Engine_MaxRetries = 0, Engine_RetryBaseDelay = 0\<rparr>"

record Route =
  Route_RecipientID :: uuid
  Route_Channel :: string
  Route_Priority :: int

type_synonym RoutingStrategy = "Message \<Rightarrow> Route list result"

record MessageRouter =
  Router_strategies :: "(string \<times> RoutingStrategy) list"

definition NewMessageRouter :: MessageRouter where
  "NewMessageRouter = \<lparr>Router_strategies = []\<rparr>"

record 'w DeadLetterQueue =
  DLQ_redis :: "'w goredis option"
  DLQ_db :: "'w sqlx option"
  DLQ_maxRetries :: int

definition NewDeadLetterQueue :: "'w goredis option \<Rightarrow> 'w sqlx option \<Rightarrow> int \<Rightarrow> 'w DeadLetterQueue" where
  "NewDeadLetterQueue redis db maxRetries = \<lparr>DLQ_redis = redis, DLQ_db = db, DLQ_maxRetries = maxRetries\<rparr>"

record 'w MessageEngine =
  ME_config :: EngineConfig
  ME_db :: "'w sqlx option"
  ME_redis :: "'w goredis option"
  ME_router :: MessageRouter
  ME_dlq :: "'w DeadLetterQueue"

text \<open>The defaults of \<open>NewMessageEngine\<close>.\<close>

definition engine_defaults :: "EngineConfig option \<Rightarrow> EngineConfig" where
  "engine_defaults cfg =
     (let cfg = (case cfg of None \<Rightarrow> zero_EngineConfig | Some c \<Rightarrow> c);
          cfg = (if Engine_WorkerCount cfg \<le> 0 then cfg\<lparr>Engine_WorkerCount := 1\<rparr> else cfg)
      in if Engine_FlushInterval cfg \<le> 0 then cfg\<lparr>Engine_FlushInterval := 100 * Millisecond\<rparr> else cfg)"

definition NewMessageEngine ::
    "EngineConfig option \<Rightarrow> 'w sqlx option \<Rightarrow> 'w goredis option \<Rightarrow> 'w MessageEngine" where
  "NewMessageEngine cfg db redis =
     (let cfg = engine_defaults cfg
      in \<lparr>ME_config = cfg, ME_db = db, ME_redis = redis, ME_router = NewMessageRouter,
          ME_dlq = NewDeadLetterQueue redis db (Engine_MaxRetries cfg)\<rparr>)"

section \<open>The router\<close>

definition agent_channel :: "go_env \<Rightarrow> uuid \<Rightarrow> string" where
  "agent_channel G recipientID = ''agent:'' @ uuid_String G recipientID @ '':queue''"

definition MessageRouter_Route :: "go_env \<Rightarrow> MessageRouter \<Rightarrow> Message \<Rightarrow> Route list result" where
  "MessageRouter_Route G r msg =
     Inr (map (\<lambda>i. \<lparr>Route_RecipientID = i, Route_Channel = agent_channel G i, Route_Priority = 0\<rparr>)
       (elems (Message_RecipientIDs msg)))"

section \<open>Dead letters\<close>

definition DeadLetterQueue_Enqueue ::
    "go_env \<Rightarrow> 'w runtime \<Rightarrow> 'w DeadLetterQueue \<Rightarrow> Message \<Rightarrow> string \<Rightarrow> ('w, unit result) io" where
  "DeadLetterQueue_Enqueue G R q msg reason = do {
     start \<leftarrow> time_Now R;
     t \<leftarrow> time_Now R;
     let data = Marshal_Envelope G msg reason t;
     (case DLQ_db q of
        Some db \<Rightarrow> do {
          i \<leftarrow> uuid_New R;
          created \<leftarrow> time_Now R;
          let entry = \<lparr>DL_ID = i, DL_MessageID = Message_ID msg, DL_Reason = reason, DL_RetryCount = 0,
            DL_MaxRetries = DLQ_maxRetries q, DL_Payload = data, DL_Status = DeadLetterStatusPending,
            DL_CreatedAt = created, DL_ProcessedAt = None\<rparr>;
          r \<leftarrow> PostgresDB_CreateDeadLetterEntry db entry;
          (case r of
             Inl e \<Rightarrow> record_ret R start ''dlq_enqueue'' ''db_error'' (Inl e)
           | Inr _ \<Rightarrow> record_ret R start ''dlq_enqueue'' ''persisted'' (Inr ()))
        }
      | None \<Rightarrow>
          (case DLQ_redis q of
             None \<Rightarrow> record_ret R start ''dlq_enqueue'' ''service_unavailable'' (Inl ErrEngineDependenciesNotConfigured)
           | Some redis \<Rightarrow> do {
               now \<leftarrow> time_Now R;
               r \<leftarrow> RedisClient_ZAdd redis ''dlq:pending'' [(time_Unix now, data)];
               (case r of
                  Inl e \<Rightarrow> record_ret R start ''dlq_enqueue'' ''redis_error'' (Inl e)
                | Inr _ \<Rightarrow> record_ret R start ''dlq_enqueue'' ''queued'' (Inr ()))
             }))
   }"

definition no_recipients_error :: go_error where
  "no_recipients_error = OtherError ''message has no recipients''"

text \<open>\<open>publish_all\<close> is the loop over the recipients, in both \<open>publishMessage\<close> and \<open>routeMessage\<close>.\<close>

definition publish_all :: "go_env \<Rightarrow> 'w goredis \<Rightarrow> Message \<Rightarrow> uuid list \<Rightarrow> ('w, unit result) io" where
  "publish_all G redis msg recipients =
     for_err (\<lambda>i. RedisClient_Publish redis (agent_channel G i) (uuid_String G (Message_ID msg))) recipients"

definition DeadLetterQueue_publishMessage ::
    "go_env \<Rightarrow> 'w DeadLetterQueue \<Rightarrow> Message \<Rightarrow> ('w, unit result) io" where
  "DeadLetterQueue_publishMessage G q msg0 = (case DLQ_redis q of
     None \<Rightarrow> ret (Inl ErrEngineDependenciesNotConfigured)
   | Some redis \<Rightarrow>
       (case (if elems (Message_RecipientIDs msg0) = [] \<and> Message_RecipientStr msg0 \<noteq> []
              then ScanRecipients G msg0 else (msg0, Inr ())) of
          (msg, Inl e) \<Rightarrow> ret (Inl e)
        | (msg, Inr _) \<Rightarrow>
            (if elems (Message_RecipientIDs msg) = [] then ret (Inl no_recipients_error)
             else publish_all G redis msg (elems (Message_RecipientIDs msg)))))"

definition DeadLetterQueue_markEntry ::
    "'w runtime \<Rightarrow> 'w DeadLetterQueue \<Rightarrow> DeadLetterEntry \<Rightarrow> DeadLetterStatus \<Rightarrow> int \<Rightarrow> ('w, unit) io" where
  "DeadLetterQueue_markEntry R q entry status retryCount = (case DLQ_db q of
     None \<Rightarrow> ret ()
   | Some db \<Rightarrow> do {
       processedAt \<leftarrow> (if status = DeadLetterStatusProcessed \<or> status = DeadLetterStatusExhausted
                       then do { now \<leftarrow> time_Now R; ret (Some now) } else ret None);
       r \<leftarrow> PostgresDB_UpdateDeadLetterEntry db (DL_ID entry) status retryCount processedAt;
       ret ()
     })"

text \<open>\<open>_ = db.UpdateMessageStatus(...)\<close> where there is a database.\<close>

definition set_status_if :: "'w sqlx option \<Rightarrow> uuid \<Rightarrow> MessageStatus \<Rightarrow> ('w, unit) io" where
  "set_status_if p i status = (case p of
     None \<Rightarrow> ret () | Some db \<Rightarrow> do { r \<leftarrow> PostgresDB_UpdateMessageStatus db i status; ret () })"

definition DeadLetterQueue_retryEntry ::
    "go_env \<Rightarrow> 'w runtime \<Rightarrow> 'w DeadLetterQueue \<Rightarrow> DeadLetterEntry \<Rightarrow> ('w, unit) io" where
  "DeadLetterQueue_retryEntry G R q entry = (case Unmarshal_Envelope G (DL_Payload entry) of
     Inl e \<Rightarrow> DeadLetterQueue_markEntry R q entry DeadLetterStatusExhausted (DL_MaxRetries entry)
   | Inr None \<Rightarrow> DeadLetterQueue_markEntry R q entry DeadLetterStatusExhausted (DL_MaxRetries entry)
   | Inr (Some msg) \<Rightarrow> do {
       r \<leftarrow> DeadLetterQueue_publishMessage G q msg;
       (case r of
          Inl e \<Rightarrow>
            (let nextRetryCount = DL_RetryCount entry + 1
             in if nextRetryCount \<ge> DL_MaxRetries entry
                then do {
                  set_status_if (DLQ_db q) (Message_ID msg) MessageStatusFailed;
                  DeadLetterQueue_markEntry R q entry DeadLetterStatusExhausted nextRetryCount;
                  RecordMessageOperation R ''dlq_retry'' ''retry_failed'' 0
                }
                else do {
                  DeadLetterQueue_markEntry R q entry DeadLetterStatusPending nextRetryCount;
                  RecordMessageOperation R ''dlq_retry'' ''retry_failed'' 0
                })
        | Inr _ \<Rightarrow> do {
            set_status_if (DLQ_db q) (Message_ID msg) MessageStatusSent;
            DeadLetterQueue_markEntry R q entry DeadLetterStatusProcessed (DL_RetryCount entry + 1);
            RecordMessageOperation R ''dlq_retry'' ''retry_succeeded'' 0
          })
     })"

definition DeadLetterQueue_process :: "go_env \<Rightarrow> 'w runtime \<Rightarrow> 'w DeadLetterQueue \<Rightarrow> ('w, unit) io" where
  "DeadLetterQueue_process G R q = (case (DLQ_db q, DLQ_redis q) of
     (Some db, Some redis) \<Rightarrow> do {
       r \<leftarrow> PostgresDB_ListRetryableDeadLetterEntries db 100;
       (case r of Inl e \<Rightarrow> ret () | Inr entries \<Rightarrow> for_io (DeadLetterQueue_retryEntry G R q) entries)
     }
   | _ \<Rightarrow> ret ())"

datatype loop_event = Ticked | Cancelled

fun DeadLetterQueue_ProcessLoop ::
    "go_env \<Rightarrow> 'w runtime \<Rightarrow> 'w DeadLetterQueue \<Rightarrow> loop_event list \<Rightarrow> ('w, unit) io" where
  "DeadLetterQueue_ProcessLoop G R q [] = ret ()"
| "DeadLetterQueue_ProcessLoop G R q (Cancelled # es) = ret ()"
| "DeadLetterQueue_ProcessLoop G R q (Ticked # es) = do {
     DeadLetterQueue_process G R q;
     DeadLetterQueue_ProcessLoop G R q es
   }"

section \<open>The workers\<close>

definition no_routes_error :: go_error where
  "no_routes_error = OtherError ''no routes available for message''"

definition MessageEngine_routeMessage ::
    "go_env \<Rightarrow> 'w runtime \<Rightarrow> 'w MessageEngine \<Rightarrow> 'w goredis \<Rightarrow> Message \<Rightarrow> ('w, unit result) io" where
  "MessageEngine_routeMessage G R e redis msg = do {
     start \<leftarrow> time_Now R;
     (case MessageRouter_Route G (ME_router e) msg of
        Inl err \<Rightarrow> record_ret R start ''route'' ''routing_error'' (Inl err)
      | Inr routes \<Rightarrow>
          (if routes = [] then record_ret R start ''route'' ''no_routes'' (Inl no_routes_error)
           else do {
             p \<leftarrow> publish_all G redis msg (map Route_RecipientID routes);
             (case p of
                Inl publishErr \<Rightarrow> record_ret R start ''route'' ''publish_error'' (Inl publishErr)
              | Inr _ \<Rightarrow>
                  (case ME_db e of
                     None \<Rightarrow> record_ret R start ''route'' ''sent'' (Inr ())
                   | Some db \<Rightarrow> do {
                       r \<leftarrow> PostgresDB_UpdateMessageStatus db (Message_ID msg) MessageStatusSent;
                       (case r of
                          Inl err \<Rightarrow> record_ret R start ''route'' ''status_update_error'' (Inl err)
                        | Inr _ \<Rightarrow> record_ret R start ''route'' ''sent'' (Inr ()))
                     }))
           }))
   }"

text \<open>
  The default branch of the worker's \<open>select\<close>. \<open>sleep\<close> is \<open>time.Sleep\<close>; the engine starts
  only with a Redis client, so its handle is an argument.
\<close>

definition worker_idleDelay :: "EngineConfig \<Rightarrow> duration" where
  "worker_idleDelay cfg =
     (if Engine_FlushInterval cfg \<le> 0 then 100 * Millisecond else Engine_FlushInterval cfg)"

definition worker_iteration ::
    "go_env \<Rightarrow> 'w runtime \<Rightarrow> (duration \<Rightarrow> ('w, unit) io) \<Rightarrow> 'w MessageEngine \<Rightarrow> 'w goredis \<Rightarrow> ('w, unit) io" where
  "worker_iteration G R sleep e redis = do {
     p \<leftarrow> RedisClient_RPop redis ''message:pending'';
     (case p of
        Inl err \<Rightarrow> sleep (worker_idleDelay (ME_config e))
      | Inr msg \<Rightarrow>
          (case Unmarshal_Message G msg of
             Inl err \<Rightarrow> ret ()
           | Inr message \<Rightarrow> do {
               r \<leftarrow> MessageEngine_routeMessage G R e redis message;
               (case r of
                  Inr _ \<Rightarrow> ret ()
                | Inl err \<Rightarrow> do {
                    set_status_if (ME_db e) (Message_ID message) MessageStatusDeadLetter;
                    d \<leftarrow> DeadLetterQueue_Enqueue G R (ME_dlq e) message (err_Error err);
                    (case d of
                       Inr _ \<Rightarrow> ret ()
                     | Inl dlqErr \<Rightarrow> set_status_if (ME_db e) (Message_ID message) MessageStatusFailed)
                  })
             }))
   }"

fun MessageEngine_processWorker ::
    "go_env \<Rightarrow> 'w runtime \<Rightarrow> (duration \<Rightarrow> ('w, unit) io) \<Rightarrow> 'w MessageEngine \<Rightarrow> 'w goredis \<Rightarrow> loop_event list \<Rightarrow> ('w, unit) io" where
  "MessageEngine_processWorker G R sleep e redis [] = ret ()"
| "MessageEngine_processWorker G R sleep e redis (Cancelled # es) = ret ()"
| "MessageEngine_processWorker G R sleep e redis (Ticked # es) = do {
     worker_iteration G R sleep e redis;
     MessageEngine_processWorker G R sleep e redis es
   }"

section \<open>Sending\<close>

definition engine_send_defaults :: "'w runtime \<Rightarrow> Message \<Rightarrow> ('w, Message) io" where
  "engine_send_defaults R m = do {
     i \<leftarrow> uuid_or_new R (Message_ID m);
     t \<leftarrow> time_or_now R (Message_CreatedAt m);
     c \<leftarrow> uuid_or_new R (Message_ConversationID m);
     ret (m\<lparr>Message_ID := i, Message_CreatedAt := t, Message_ConversationID := c,
            Message_DeliveryGuarantee := (if Message_DeliveryGuarantee m = [] then DeliveryAtLeastOnce
                                          else Message_DeliveryGuarantee m),
            Message_ContentType := (if Message_ContentType m = [] then ''application/json'' else Message_ContentType m),
            Message_ContentSize := int (length (elems (Message_Content m)))\<rparr>)
   }"

text \<open>\<open>data, _ := json.Marshal(msg)\<close>: where the encoder fails, \<open>data\<close> is nil.\<close>

definition MessageEngine_SendMessage ::
    "go_env \<Rightarrow> 'w runtime \<Rightarrow> 'w MessageEngine \<Rightarrow> Message option \<Rightarrow> ('w, Message option \<times> SendResult result) io" where
  "MessageEngine_SendMessage G R e msg = (case ME_redis e of
     None \<Rightarrow> ret (msg, Inl ErrEngineDependenciesNotConfigured)
   | Some redis \<Rightarrow>
       (if send_invalid msg then ret (msg, Inl ErrInvalidEngineMessage)
        else do {
          m \<leftarrow> engine_send_defaults R (the msg);
          (case SetRecipients G m of
             (m, Inl err) \<Rightarrow> ret (Some m, Inl err)
           | (m, Inr _) \<Rightarrow> do {
               let data = (case Marshal_Message G m of Inl _ \<Rightarrow> [] | Inr d \<Rightarrow> d);
               r \<leftarrow> RedisClient_LPush redis ''message:pending'' [data];
               (case r of
                  Inl err \<Rightarrow> ret (Some m, Inl err)
                | Inr _ \<Rightarrow> ret (Some m, Inr \<lparr>Send_MessageID = Message_ID m, Send_Status = MessageStatusPending,
                    Send_DeliveredAt = None\<rparr>))
             })
        }))"

end
