(* ===== verification/Engine_Delivery.thy ===== *)
theory Engine_Delivery
  imports Engine
begin

text \<open>
  What a worker does with a popped message, under every schedule of faults: it is published
  to its recipients and marked sent, or it is put among the dead letters, or the failure to
  do so is counted. The lemmas describe the publishing loop, the routing and the enqueueing
  of a dead letter; the properties compose them with the queue and with \<open>Send\<close>.
\<close>

section \<open>Publishing\<close>

definition publications :: "go_env \<Rightarrow> Message \<Rightarrow> (string \<times> string) list" where
  "publications G m = map (\<lambda>i. (agent_channel G i, uuid_String G (Message_ID m))) (elems (Message_RecipientIDs m))"

abbreviation sys_engine :: "EngineConfig option \<Rightarrow> world MessageEngine" where
  "sys_engine cfg \<equiv> NewMessageEngine cfg (Some sys_db) (Some sys_redis)"

lemma publish_all_run:
  "run_state (publish_all G sys_redis m rs) w = (r, w') \<Longrightarrow>
   \<exists>n c. n \<le> length rs \<and> (r = Inr () \<longrightarrow> n = length rs) \<and> w' = w\<lparr>W_calls := c, W_published := W_published w @
     take n (map (\<lambda>i. (agent_channel G i, uuid_String G (Message_ID m))) rs)\<rparr>"
proof (induction rs arbitrary: w)
  case Nil
  then show ?case by (auto simp: publish_all_def intro!: exI [of _ 0] exI [of _ "W_calls w"])
next
  case (Cons i rs)
  let ?p = "(agent_channel G i, uuid_String G (Message_ID m))"
  define v where "v = (called w)\<lparr>W_published := (if sys_done w then W_published w @ [?p] else W_published w)\<rparr>"
  have step: "run_state (RedisClient_Publish sys_redis (agent_channel G i) (uuid_String G (Message_ID m))) w =
      (sys_reply w (Inr ()), v)"
    by (simp add: RedisClient_Publish_def run_sys_publish v_def)
  show ?case
  proof (cases "sys_reply w (Inr ())")
    case (Inl e)
    then have "r = Inl e" "w' = v" using Cons.prems step by (simp_all add: publish_all_def)
    then show ?thesis
      by (intro exI [of _ "if sys_done w then 1 else 0"] exI [of _ "W_calls w + 1"]) (simp add: v_def)
  next
    case (Inr x)
    then have "W_faults w (W_calls w) = Works" by simp
    then have v: "v = w\<lparr>W_calls := W_calls w + 1, W_published := W_published w @ [?p]\<rparr>" by (simp add: v_def sys_done_def)
    have "run_state (publish_all G sys_redis m rs) v = (r, w')"
      using Cons.prems step Inr by (simp add: publish_all_def)
    from Cons.IH [OF this] obtain n c where n: "n \<le> length rs" "r = Inr () \<longrightarrow> n = length rs"
      "w' = v\<lparr>W_calls := c, W_published := W_published v @ take n (map (\<lambda>i. (agent_channel G i, uuid_String G (Message_ID m))) rs)\<rparr>"
      by blast
    then show ?thesis by (intro exI [of _ "Suc n"] exI [of _ c]) (simp add: v)
  qed
qed

lemma publish_all_works:
  assumes "\<And>n. W_faults w n = Works"
  shows "fst (run_state (publish_all G sys_redis m rs) w) = Inr ()"
  using assms
proof (induction rs arbitrary: w)
  case (Cons i rs)
  then show ?case by (simp add: publish_all_def RedisClient_Publish_def run_sys_publish sys_reply_def)
qed (simp add: publish_all_def)

section \<open>Routing\<close>

definition mark_message :: "uuid \<Rightarrow> MessageStatus \<Rightarrow> time \<Rightarrow> tables \<Rightarrow> tables" where
  "mark_message i status now T = T\<lparr>T_messages := update_where (\<lambda>m. Message_ID m = i) (set_message_status status now) (T_messages T)\<rparr>"

lemma mark_message_simps [simp]:
  "T_dlq (mark_message i st now T) = T_dlq T" "T_acks (mark_message i st now T) = T_acks T"
  "T_agents (mark_message i st now T) = T_agents T" "T_tenants (mark_message i st now T) = T_tenants T"
  "T_messages (mark_message i st now T) =
     update_where (\<lambda>m. Message_ID m = i) (set_message_status st now) (T_messages T)"
  "message_ids (mark_message i st now T) = message_ids T"
  by (simp_all add: mark_message_def message_ids_def image_update_where [where g = Message_ID])

lemma exec_status: "db_exec now (Messages_Status i st) T = (affected (\<lambda>m. Message_ID m = i) (T_messages T), mark_message i st now T)"
  by (simp add: db_exec.simps mark_message_def)

lemma update_status_run:
  assumes "run_state (PostgresDB_UpdateMessageStatus sys_db i st) w = (r, w')"
  shows "(\<exists>T. w' = w\<lparr>W_calls := Suc (W_calls w), W_db := T\<rparr> \<and> (T = W_db w \<or> T = mark_message i st (w_now w) (W_db w)) \<and>
    (r = Inr () \<longrightarrow> T = mark_message i st (w_now w) (W_db w)))"
  using assms
  by (intro exI [of _ "W_db w'"], cases "sys_done w")
    (auto simp: PostgresDB_UpdateMessageStatus_def exec_only_sys exec_status sys_done_def split: sum.splits)

lemma update_status_works: "W_faults w (W_calls w) = Works \<Longrightarrow>
    fst (run_state (PostgresDB_UpdateMessageStatus sys_db i st) w) = Inr ()"
  by (simp add: PostgresDB_UpdateMessageStatus_def exec_only_sys exec_status affected_def sys_reply_def)

text \<open>The engine's outcome of a routing: its result, its world.\<close>

lemma routes_of: "MessageRouter_Route G rt m = Inr rs \<Longrightarrow> map Route_RecipientID rs = elems (Message_RecipientIDs m)"
  by (auto simp: MessageRouter_Route_def comp_def)

lemma route_run:
  assumes "run_state (MessageEngine_routeMessage G sys_rt (sys_engine cfg) sys_redis m) w = (r, w')"
  shows "W_redis w' = W_redis w \<and> W_faults w' = W_faults w \<and> W_drawn w' = W_drawn w \<and> W_uuids w' = W_uuids w \<and>
    (\<exists>ms. W_metrics w' = W_metrics w @ ms) \<and>
    (\<exists>n. W_published w' = W_published w @ take n (publications G m) \<and>
      (r = Inr () \<longrightarrow> publications G m \<noteq> [] \<and> take n (publications G m) = publications G m \<and>
         (\<exists>now. W_db w' = mark_message (Message_ID m) MessageStatusSent now (W_db w)))) \<and>
    (W_db w' = W_db w \<or> (\<exists>now. W_db w' = mark_message (Message_ID m) MessageStatusSent now (W_db w)))"
proof -
  let ?rs = "elems (Message_RecipientIDs m)"
  let ?w1 = "w\<lparr>W_reads := W_reads w + 1\<rparr>"
  obtain p v where pv: "run_state (publish_all G sys_redis m ?rs) ?w1 = (p, v)" by fastforce
  obtain q u where qu: "run_state (PostgresDB_UpdateMessageStatus sys_db (Message_ID m) MessageStatusSent) v = (q, u)"
    by fastforce
  obtain n c where v: "v = ?w1\<lparr>W_calls := c, W_published := W_published w @ take n (publications G m)\<rparr>"
    and n: "n \<le> length ?rs" "p = Inr () \<longrightarrow> n = length ?rs"
    using publish_all_run [OF pv] by (auto simp: publications_def)
  have all: "p = Inr () \<Longrightarrow> take n (publications G m) = publications G m"
    using n(2) by (simp add: publications_def)
  note u = update_status_run [OF qu]
  show ?thesis
  proof (cases "?rs = []")
    case True
    then show ?thesis using assms
      by (auto simp: MessageEngine_routeMessage_def MessageRouter_Route_def run_sys_rt record_ret_def run_record_op metered_def
          intro!: exI [of _ 0])
  next
    case False
    then have ne: "publications G m \<noteq> []" by (simp add: publications_def)
    show ?thesis
    proof (cases p)
      case (Inl e)
      then show ?thesis using assms False pv
        by (auto simp: MessageEngine_routeMessage_def MessageRouter_Route_def run_sys_rt record_ret_def run_record_op
            comp_def v metered_def)
    next
      case (Inr x)
      then have pub: "take n (publications G m) = publications G m" using all by simp
      from u obtain T where T: "u = v\<lparr>W_calls := Suc (W_calls v), W_db := T\<rparr>"
        "T = W_db w \<or> T = mark_message (Message_ID m) MessageStatusSent (w_now v) (W_db w)"
        "q = Inr () \<longrightarrow> T = mark_message (Message_ID m) MessageStatusSent (w_now v) (W_db w)"
        by (auto simp: v)
      have "r = q \<and> W_db w' = T \<and> W_redis w' = W_redis u \<and> W_faults w' = W_faults u \<and> W_drawn w' = W_drawn u \<and>
          W_uuids w' = W_uuids u \<and> W_published w' = W_published u \<and> (\<exists>ms. W_metrics w' = W_metrics u @ ms)"
        using assms False pv qu Inr
        by (auto simp: MessageEngine_routeMessage_def MessageRouter_Route_def NewMessageEngine_def Let_def run_sys_rt
            record_ret_def run_record_op comp_def T(1) metered_def split: sum.splits)
      then show ?thesis using T pub ne by (auto simp: v intro!: exI [of _ n])
    qed
  qed
qed

section \<open>Dead letters\<close>

text \<open>What a dead letter entry of a message looks like when it is created.\<close>

definition fresh_entry :: "go_env \<Rightarrow> Message \<Rightarrow> string \<Rightarrow> int \<Rightarrow> DeadLetterEntry \<Rightarrow> bool" where
  "fresh_entry G m reason maxRetries x \<longleftrightarrow> DL_MessageID x = Message_ID m \<and> DL_Reason x = reason \<and> DL_RetryCount x = 0 \<and>
     DL_MaxRetries x = maxRetries \<and> DL_Status x = DeadLetterStatusPending \<and>
     (\<exists>t. DL_Payload x = Marshal_Envelope G m reason t) \<and> json_parse (DL_Payload x) \<noteq> None"

definition enqueue_failure :: metric where
  "enqueue_failure = Counted ''agentmsg_message_operations_total'' [''dlq_enqueue'', ''db_error'']"

lemma dlq_insert_done:
  "fst (db_exec now (Dlq_Insert i msg reason n mx payload st c q) T) = Inr x \<Longrightarrow>
     snd (db_exec now (Dlq_Insert i msg reason n mx payload st c q) T) = T\<lparr>T_dlq := T_dlq T @
       [\<lparr>DL_ID = i, DL_MessageID = msg, DL_Reason = reason, DL_RetryCount = n, DL_MaxRetries = mx, DL_Payload = payload,
         DL_Status = st, DL_CreatedAt = c, DL_ProcessedAt = q\<rparr>]\<rparr> \<and> msg \<in> message_ids T \<and> json_parse payload \<noteq> None"
  "fst (db_exec now (Dlq_Insert i msg reason n mx payload st c q) T) = Inl e \<Longrightarrow>
     snd (db_exec now (Dlq_Insert i msg reason n mx payload st c q) T) = T"
  by (auto simp: db_exec.simps split: if_splits)

lemma enqueue_run:
  assumes "run_state (DeadLetterQueue_Enqueue G sys_rt (NewDeadLetterQueue redis (Some sys_db) mx) m reason) w = (r, w')"
  shows "W_redis w' = W_redis w \<and> W_published w' = W_published w \<and> W_faults w' = W_faults w \<and> (\<exists>ms. W_metrics w' = W_metrics w @ ms) \<and>
    (W_db w' = W_db w \<or> Message_ID m \<in> message_ids (W_db w) \<and>
      (\<exists>x. fresh_entry G m reason mx x \<and> W_db w' = (W_db w)\<lparr>T_dlq := T_dlq (W_db w) @ [x]\<rparr>)) \<and>
    (r = Inr () \<longrightarrow> (\<exists>x. fresh_entry G m reason mx x \<and> W_db w' = (W_db w)\<lparr>T_dlq := T_dlq (W_db w) @ [x]\<rparr>)) \<and>
    (\<forall>e. r = Inl e \<longrightarrow> enqueue_failure \<in> set (W_metrics w'))"
proof -
  let ?w2 = "w\<lparr>W_reads := Suc (Suc (W_reads w))\<rparr>"
  define x where "x = \<lparr>DL_ID = W_uuids w (W_drawn w), DL_MessageID = Message_ID m, DL_Reason = reason, DL_RetryCount = 0,
    DL_MaxRetries = mx, DL_Payload = Marshal_Envelope G m reason (W_clock w (Suc (W_reads w))),
    DL_Status = DeadLetterStatusPending, DL_CreatedAt = w_now ?w2, DL_ProcessedAt = None\<rparr>"
  define v where "v = w\<lparr>W_drawn := Suc (W_drawn w), W_reads := Suc (Suc (Suc (W_reads w)))\<rparr>"
  obtain q u where qu: "run_state (PostgresDB_CreateDeadLetterEntry sys_db x) v = (q, u)" by fastforce
  define D where "D = db_exec (w_now v) (Dlq_Insert (DL_ID x) (DL_MessageID x) (DL_Reason x) (DL_RetryCount x)
       (DL_MaxRetries x) (DL_Payload x) (DL_Status x) (DL_CreatedAt x) (DL_ProcessedAt x)) (W_db w)"
  have u: "u = (called v)\<lparr>W_db := (if sys_done v then snd D else W_db w)\<rparr>"
    "q = (case sys_reply v (fst D) of Inl e \<Rightarrow> Inl e | Inr _ \<Rightarrow> Inr ())"
    using qu by (auto simp: PostgresDB_CreateDeadLetterEntry_def exec_only_sys D_def v_def)
  have fresh: "json_parse (DL_Payload x) \<noteq> None \<Longrightarrow> fresh_entry G m reason mx x" by (auto simp: fresh_entry_def x_def)
  have same: "x = \<lparr>DL_ID = DL_ID x, DL_MessageID = DL_MessageID x, DL_Reason = DL_Reason x, DL_RetryCount = DL_RetryCount x,
    DL_MaxRetries = DL_MaxRetries x, DL_Payload = DL_Payload x, DL_Status = DL_Status x, DL_CreatedAt = DL_CreatedAt x,
    DL_ProcessedAt = DL_ProcessedAt x\<rparr>" by simp
  have D: "snd D = W_db w \<or> snd D = (W_db w)\<lparr>T_dlq := T_dlq (W_db w) @ [x]\<rparr> \<and> fresh_entry G m reason mx x \<and>
      Message_ID m \<in> message_ids (W_db w)"
    "fst D = Inr y \<Longrightarrow> snd D = (W_db w)\<lparr>T_dlq := T_dlq (W_db w) @ [x]\<rparr> \<and> fresh_entry G m reason mx x" for y
  proof -
    show *: "snd D = (W_db w)\<lparr>T_dlq := T_dlq (W_db w) @ [x]\<rparr> \<and> fresh_entry G m reason mx x" if "fst D = Inr y" for y
      using dlq_insert_done(1) [OF that [unfolded D_def]] fresh by (simp add: D_def x_def)
    show "snd D = W_db w \<or> snd D = (W_db w)\<lparr>T_dlq := T_dlq (W_db w) @ [x]\<rparr> \<and> fresh_entry G m reason mx x \<and>
      Message_ID m \<in> message_ids (W_db w)"
    proof (cases "fst D")
      case (Inl e)
      then show ?thesis using dlq_insert_done(2) [OF Inl [unfolded D_def]] by (simp add: D_def)
    next
      case (Inr y)
      then show ?thesis using * [OF Inr] dlq_insert_done(1) [OF Inr [unfolded D_def]] by (simp add: x_def)
    qed
  qed
  have main: "r = q \<and> W_db w' = W_db u \<and> W_redis w' = W_redis u \<and> W_published w' = W_published u \<and> W_faults w' = W_faults u \<and>
      (\<exists>ms. W_metrics w' = W_metrics w @ ms) \<and> (\<forall>e. r = Inl e \<longrightarrow> enqueue_failure \<in> set (W_metrics w'))"
    using assms qu
    by (auto simp: DeadLetterQueue_Enqueue_def NewDeadLetterQueue_def Let_def run_sys_rt record_ret_def run_record_op
        w_now_def x_def v_def u(1) metered_def enqueue_failure_def split: sum.splits)
  have "W_db u = W_db w \<or> W_db u = snd D" "q = Inr () \<Longrightarrow> \<exists>y. fst D = Inr y \<and> W_db u = snd D"
    using u by (auto simp: sys_done_def split: sum.splits)
  then show ?thesis using main D by (auto simp: u(1) v_def)
qed

lemma set_status_if_run:
  "run_state (set_status_if (Some sys_db) i st) w = ((), w') \<Longrightarrow>
     \<exists>T. w' = w\<lparr>W_calls := Suc (W_calls w), W_db := T\<rparr> \<and> (T = W_db w \<or> T = mark_message i st (w_now w) (W_db w))"
  using update_status_run [of i st w] by (fastforce simp: set_status_if_def split: prod.splits)

section \<open>One iteration of a worker\<close>

lemma pop_run:
  assumes "persistent pending_key w" "pending w = p # rest" "W_faults w (W_calls w) = Works"
  shows "\<exists>v. run_state (RedisClient_RPop sys_redis pending_key) w = (Inr p, v) \<and> pending v = rest \<and>
    v = w\<lparr>W_calls := Suc (W_calls w), W_redis := W_redis v\<rparr>"
proof -
  obtain r v where v: "run_state (RedisClient_RPop sys_redis pending_key) w = (r, v)" by fastforce
  obtain xs where xs: "W_redis w pending_key = Some (RList xs, None)" "xs \<noteq> []" "last xs = p"
    using assms(1,2) rev_last
    by (fastforce simp: list_contents_def persistent_def split: option.splits redis_value.splits prod.splits)
  then have "r = Inr p" and v': "v = w\<lparr>W_calls := Suc (W_calls w), W_redis := W_redis v\<rparr>"
    using v assms(3) persistent_lookup [OF assms(1)]
    by (auto simp: RedisClient_RPop_def run_sys_redis st_RPop_def rd_list_def sys_reply_def split: if_splits)
  with v pq.pop_ok [OF assms(1), of p v] assms(2) show ?thesis by simp
qed

text \<open>Every way an iteration on a popped message can end.\<close>

lemma iteration_run:
  assumes "persistent pending_key w" "pending w = p # rest" "W_faults w (W_calls w) = Works"
    and "Unmarshal_Message G p = Inr m"
    and run: "run_state (worker_iteration G sys_rt sleep (sys_engine cfg) sys_redis) w = ((), w')"
  shows "pending w' = rest \<and> W_redis w' pending_key = (if rest = [] then None else Some (RList (rev rest), None)) \<and>
    W_faults w' = W_faults w \<and>
    (\<exists>n. W_published w' = W_published w @ take n (publications G m)) \<and>
    (Message_ID m \<notin> message_ids (W_db w) \<longrightarrow> T_dlq (W_db w') = T_dlq (W_db w)) \<and>
    (W_published w' = W_published w @ publications G m \<and> publications G m \<noteq> [] \<and>
       (\<exists>now. W_db w' = mark_message (Message_ID m) MessageStatusSent now (W_db w)) \<or>
     (\<exists>reason x. fresh_entry G m reason (Engine_MaxRetries (engine_defaults cfg)) x \<and> x \<in> set (T_dlq (W_db w'))) \<or>
     enqueue_failure \<in> set (W_metrics w'))"
proof -
  obtain v where v: "run_state (RedisClient_RPop sys_redis pending_key) w = (Inr p, v)" "pending v = rest"
    "v = w\<lparr>W_calls := Suc (W_calls w), W_redis := W_redis v\<rparr>"
    using pop_run [OF assms(1-3)] by blast
  obtain r u where ru: "run_state (MessageEngine_routeMessage G sys_rt (sys_engine cfg) sys_redis m) v = (r, u)" by fastforce
  note route = route_run [OF ru]
  have vw: "W_db v = W_db w" "W_published v = W_published w" "W_faults v = W_faults w" by (subst v(3), simp)+
  have left: "W_redis v pending_key = (if rest = [] then None else Some (RList (rev rest), None))"
    using v(1,2) assms(1,2) persistent_deadline [OF assms(1)] persistent_lookup [OF assms(1)]
    by (auto simp: RedisClient_RPop_def run_sys_redis st_RPop_def rd_list_def list_contents_def persistent_def put_value_def
        sys_done_def split: option.splits redis_value.splits prod.splits if_splits dest: butlast_Nil)
  have frame: "pending x = rest \<and> W_redis x pending_key = (if rest = [] then None else Some (RList (rev rest), None))"
    if "W_redis x = W_redis v" for x
    using persistent_cong [OF that] v(2) left that by simp
  show ?thesis
  proof (cases r)
    case (Inr y)
    then have "w' = u" using run v(1) assms(4) ru by (simp add: worker_iteration_def pending_key_def)
    with route Inr vw frame [of u] show ?thesis by auto
  next
    case (Inl err)
    let ?mx = "Engine_MaxRetries (engine_defaults cfg)"
    obtain x where x: "run_state (set_status_if (Some sys_db) (Message_ID m) MessageStatusDeadLetter) u = ((), x)"
      by (metis old.unit.exhaust prod.collapse)
    obtain d y where d: "run_state (DeadLetterQueue_Enqueue G sys_rt (NewDeadLetterQueue (Some sys_redis) (Some sys_db) ?mx) m
        (err_Error err)) x = (d, y)" by fastforce
    obtain z where z: "run_state (set_status_if (Some sys_db) (Message_ID m) MessageStatusFailed) y = ((), z)"
      by (metis old.unit.exhaust prod.collapse)
    have w': "w' = (case d of Inr _ \<Rightarrow> y | Inl _ \<Rightarrow> z)"
      using run v(1) assms(4) ru Inl x d z
      by (simp add: worker_iteration_def pending_key_def NewMessageEngine_def Let_def split: sum.splits)
    note xx = set_status_if_run [OF x] and dd = enqueue_run [OF d] and zz = set_status_if_run [OF z]
    have ids: "message_ids (W_db x) = message_ids (W_db w)" "T_dlq (W_db x) = T_dlq (W_db w)" "W_redis x = W_redis v"
        "W_published x = W_published u" "W_faults x = W_faults w"
      using route xx vw by auto
    have zy: "W_redis z = W_redis y" "W_published z = W_published y" "W_metrics z = W_metrics y" "W_faults z = W_faults y"
        "T_dlq (W_db z) = T_dlq (W_db y)"
      using zz by auto
    have wy: "W_redis w' = W_redis y" "W_published w' = W_published y" "W_metrics w' = W_metrics y" "W_faults w' = W_faults y"
        "T_dlq (W_db w') = T_dlq (W_db y)"
      using w' zy by (auto split: sum.splits)
    have "pending w' = rest \<and> W_redis w' pending_key = (if rest = [] then None else Some (RList (rev rest), None))"
      by (rule frame) (simp add: wy dd ids)
    moreover have "\<exists>n. W_published w' = W_published w @ take n (publications G m)"
      using route wy dd ids vw by auto
    moreover have "Message_ID m \<notin> message_ids (W_db w) \<longrightarrow> T_dlq (W_db w') = T_dlq (W_db w)"
      using dd ids wy by auto
    moreover have "(\<exists>reason x. fresh_entry G m reason ?mx x \<and> x \<in> set (T_dlq (W_db w'))) \<or> enqueue_failure \<in> set (W_metrics w')"
    proof (cases d)
      case (Inr _)
      then obtain xa where xa: "fresh_entry G m (err_Error err) ?mx xa" "W_db y = (W_db x)\<lparr>T_dlq := T_dlq (W_db x) @ [xa]\<rparr>"
        using dd by auto
      have "xa \<in> set (T_dlq (W_db w'))" using wy(5) xa(2) by simp
      with xa(1) show ?thesis by blast
    next
      case (Inl e)
      then show ?thesis using dd wy(3) by simp
    qed
    ultimately show ?thesis using wy dd ids by auto
  qed
qed

text \<open>Where every call works, routing succeeds.\<close>

lemma route_works:
  assumes "\<And>n. W_faults w n = Works" "publications G m \<noteq> []"
  shows "fst (run_state (MessageEngine_routeMessage G sys_rt (sys_engine cfg) sys_redis m) w) = Inr ()"
proof -
  let ?w1 = "w\<lparr>W_reads := W_reads w + 1\<rparr>" and ?rs = "elems (Message_RecipientIDs m)"
  obtain p v where pv: "run_state (publish_all G sys_redis m ?rs) ?w1 = (p, v)" by fastforce
  have p: "p = Inr ()" using publish_all_works [of ?w1 G m ?rs] assms(1) pv by simp
  have "W_faults v = W_faults w" using publish_all_run [OF pv] by auto
  then have u: "fst (run_state (PostgresDB_UpdateMessageStatus sys_db (Message_ID m) MessageStatusSent) v) = Inr ()"
    by (intro update_status_works) (simp add: assms(1))
  have "?rs \<noteq> []" using assms(2) by (simp add: publications_def)
  then show ?thesis using pv p u
    by (auto simp: MessageEngine_routeMessage_def MessageRouter_Route_def NewMessageEngine_def Let_def run_sys_rt
        record_ret_def run_record_op comp_def split: prod.splits sum.splits)
qed

lemma iteration_delivers:
  assumes "persistent pending_key w" "pending w = p # rest" "\<And>n. W_faults w n = Works"
    and "Unmarshal_Message G p = Inr m" "publications G m \<noteq> []"
    and run: "run_state (worker_iteration G sys_rt sleep (sys_engine cfg) sys_redis) w = ((), w')"
  shows "pending w' = rest \<and> W_published w' = W_published w @ publications G m \<and>
    (\<exists>now. W_db w' = mark_message (Message_ID m) MessageStatusSent now (W_db w))"
proof -
  obtain v where v: "run_state (RedisClient_RPop sys_redis pending_key) w = (Inr p, v)" "pending v = rest"
    "v = w\<lparr>W_calls := Suc (W_calls w), W_redis := W_redis v\<rparr>"
    using pop_run [OF assms(1-3)] by blast
  have vw: "W_db v = W_db w" "W_published v = W_published w" "W_faults v = W_faults w" by (subst v(3), simp)+
  obtain r u where ru: "run_state (MessageEngine_routeMessage G sys_rt (sys_engine cfg) sys_redis m) v = (r, u)" by fastforce
  have "r = Inr ()" using route_works [of v G m cfg] ru assms(3,5) vw by simp
  moreover from this have "w' = u" using run v(1) assms(4) ru by (simp add: worker_iteration_def pending_key_def)
  ultimately show ?thesis using route_run [OF ru] vw v(2) persistent_cong [of u v] by auto
qed

section \<open>Properties\<close>

text \<open>The draft of the sample world, waiting in the queue of a world that does not store it.\<close>

definition queued_world :: "string \<Rightarrow> world" where
  "queued_world p = sample_world\<lparr>W_redis := [pending_key \<mapsto> (RList [p], None)]\<rparr>"

lemma queued_world_facts:
  "persistent pending_key (queued_world p)" "pending (queued_world p) = [p]" "W_faults (queued_world p) n = Works"
  "W_db (queued_world p) = sample_tables" "W_published (queued_world p) = []"
  by (simp_all add: queued_world_def persistent_def list_contents_def)

lemma draft_decoded:
  obtains p m where "Unmarshal_Message reference_env p = Inr m" "Message_ID m = 1000" "Message_RecipientIDs m = Some [12]"
proof -
  let ?f = "filled reference_env sample_draft sample_world"
  obtain p where p: "Marshal_Message reference_env ?f = Inr p" "message_ok reference_env ?f" by (rule sample_draft_encoded)
  have "Message_ID (norm_message ?f) = 1000" "Message_RecipientIDs (norm_message ?f) = Some [12]"
    by (simp_all add: norm_message_def sample_draft_facts filled_simps(1))
  with reference.message_roundtrip [OF p(2,1)] show ?thesis by (rule that)
qed

abbreviation no_sleep :: "duration \<Rightarrow> (world, unit) io" where
  "no_sleep d \<equiv> ret ()"





text \<open>
  C1. End to end: a valid message of a known sender and tenant, sent while the queue is
  empty and every server answers, is published by the next worker iteration to the channel
  of each recipient, in order and with its id, and its row says sent; the queue is empty again.
\<close>
theorem sent_message_delivered:
  assumes "\<not> send_invalid (Some m)" "queue_open w" "pending w = []" "\<And>n. W_faults w n = Works"
    and "Message_SenderID m \<in> agent_ids (W_db w)" "Message_TenantID m \<in> set (T_tenants (W_db w))"
    and "Message_ID (filled G m w) \<notin> message_ids (W_db w)"
    and "codec G" "message_ok G (filled G m w)" "Marshal_Message G (filled G m w) = Inr p"
    and "run_state (MessageService_Send G sys_rt sys_messages (Some m)) w = ((msg', r), w1)"
    and "run_state (worker_iteration G sys_rt sleep (sys_engine cfg) sys_redis) w1 = ((), w2)"
  shows "W_published w2 = W_published w @
      map (\<lambda>i. (agent_channel G i, uuid_String G (Message_ID (filled G m w)))) (elems (Message_RecipientIDs m)) \<and>
    pending w2 = [] \<and>
    (\<exists>row \<in> set (T_messages (W_db w2)). Message_ID row = Message_ID (filled G m w) \<and> Message_Status row = MessageStatusSent)"
proof -
  note sent = accepted_send [OF assms(1,2,4,4,5,6,7,10,11)]
  have dec: "Unmarshal_Message G p = Inr (norm_message (filled G m w))"
    by (rule codec.message_roundtrip [OF assms(8-10)])
  have ids: "Message_ID (norm_message (filled G m w)) = Message_ID (filled G m w)"
    "Message_RecipientIDs (norm_message (filled G m w)) = Message_RecipientIDs m"
    by (simp_all add: norm_message_def filled_simps)
  have "elems (Message_RecipientIDs m) \<noteq> []" using assms(1) by (simp add: send_invalid_def)
  then have "publications G (norm_message (filled G m w)) \<noteq> []" by (simp add: publications_def ids)
  note d = iteration_delivers [OF queue_open_persistent [OF sent(3)] _ _ dec this assms(12), of "[]"]
  have d': "pending w2 = [] \<and> W_published w2 = W_published w1 @ publications G (norm_message (filled G m w)) \<and>
      (\<exists>now. W_db w2 = mark_message (Message_ID (filled G m w)) MessageStatusSent now (W_db w1))"
    using d sent(2,4) assms(3,4) ids by simp
  obtain now where db: "W_db w1 = (W_db w)\<lparr>T_messages := T_messages (W_db w) @ [(filled G m w)\<lparr>Message_RecipientIDs := None,
       Message_CreatedAt := now, Message_ExpiresAt := None, Message_ProcessedAt := None\<rparr>]\<rparr>"
    using sent(6) by blast
  from d' obtain now' where "W_db w2 = mark_message (Message_ID (filled G m w)) MessageStatusSent now' (W_db w1)" by blast
  then have "\<exists>row \<in> set (T_messages (W_db w2)). Message_ID row = Message_ID (filled G m w) \<and> Message_Status row = MessageStatusSent"
    by (simp add: db update_where_def set_message_status_def)
  with d' sent(5) show ?thesis by (simp add: publications_def ids)
qed

lemma sent_message_delivered_witness:
  "\<exists>w2. pending w2 = [] \<and> W_published w2 = [(agent_channel reference_env 12, uuid_String reference_env 1000)] \<and>
    w2 = snd (run_state (worker_iteration reference_env sys_rt no_sleep (sys_engine None) sys_redis)
      (snd (run_state (MessageService_Send reference_env sys_rt sys_messages (Some sample_draft)) sample_world)))"
proof -
  let ?f = "filled reference_env sample_draft sample_world"
  obtain p where p: "Marshal_Message reference_env ?f = Inr p" "message_ok reference_env ?f" by (rule sample_draft_encoded)
  obtain msg' r w1 where s: "run_state (MessageService_Send reference_env sys_rt sys_messages (Some sample_draft)) sample_world =
      ((msg', r), w1)" by (metis prod.collapse)
  obtain w2 where it: "run_state (worker_iteration reference_env sys_rt no_sleep (sys_engine None) sys_redis) w1 = ((), w2)"
    by (metis old.unit.exhaust prod.collapse)
  have "W_published w2 = W_published sample_world @
      map (\<lambda>i. (agent_channel reference_env i, uuid_String reference_env (Message_ID ?f))) (elems (Message_RecipientIDs sample_draft)) \<and>
    pending w2 = [] \<and> (\<exists>row \<in> set (T_messages (W_db w2)). Message_ID row = Message_ID ?f \<and> Message_Status row = MessageStatusSent)"
    by (rule sent_message_delivered [OF _ _ _ _ _ _ _ reference.codec_axioms p(2,1) s it])
      (use sample_draft_facts in simp_all)
  with s it show ?thesis by (intro exI [of _ w2]) (simp add: sample_draft_facts)
qed

end
