(* ===== verification/Dead_Letters.thy ===== *)
theory Dead_Letters
  imports Engine_Delivery
begin

text \<open>
  The retry side of the dead letter queue: the bound on the attempts, which every operation
  of the engine keeps under every schedule of faults, the redelivery of an entry, and the
  draining of the queue by enough passes.
\<close>

section \<open>The bound on the attempts\<close>

definition entry_bounded :: "DeadLetterEntry \<Rightarrow> bool" where
  "entry_bounded x \<longleftrightarrow> 0 \<le> DL_RetryCount x \<and> DL_RetryCount x \<le> max 0 (DL_MaxRetries x)"

definition dlq_inv :: "tables \<Rightarrow> bool" where
  "dlq_inv T \<longleftrightarrow> db_ok T \<and> (\<forall>x \<in> set (T_dlq T). entry_bounded x)"

text \<open>An entry that was read: the row of its id still has the same limit.\<close>

definition read_from :: "DeadLetterEntry \<Rightarrow> tables \<Rightarrow> bool" where
  "read_from x T \<longleftrightarrow> retryable x \<and> 0 \<le> DL_RetryCount x \<and>
     (\<forall>y \<in> set (T_dlq T). DL_ID y = DL_ID x \<longrightarrow> DL_MaxRetries y = DL_MaxRetries x)"

lemma status_dlq: "T_dlq (snd (db_exec now (Messages_Status i st) T)) = T_dlq T"
  by (simp add: exec_status)

lemma dlq_update_exec: "db_exec now (Dlq_Update i st n q) T =
    (affected (\<lambda>e. DL_ID e = i) (T_dlq T), T\<lparr>T_dlq := update_where (\<lambda>e. DL_ID e = i)
        (\<lambda>e. e\<lparr>DL_Status := st, DL_RetryCount := n, DL_ProcessedAt := q\<rparr>) (T_dlq T)\<rparr>)"
  by (simp add: db_exec.simps)

lemma read_from_update:
  "read_from x T \<Longrightarrow> read_from x (snd (db_exec now (Dlq_Update i st n q) T))"
  by (auto simp: read_from_def dlq_update_exec update_where_def)

lemma dlq_inv_update:
  assumes "dlq_inv T" "read_from x T" "0 \<le> n" "n \<le> DL_MaxRetries x"
  shows "dlq_inv (snd (db_exec now (Dlq_Update (DL_ID x) st n q) T))"
proof -
  have "db_ok (snd (db_exec now (Dlq_Update (DL_ID x) st n q) T))" using assms(1) by (simp add: dlq_inv_def db_ok_exec)
  then show ?thesis
    using assms by (auto simp: dlq_inv_def dlq_update_exec update_where_def entry_bounded_def read_from_def)
qed

lemma dlq_inv_status:
  "dlq_inv T \<Longrightarrow> dlq_inv (snd (db_exec now (Messages_Status i st) T))"
  "read_from x T \<Longrightarrow> read_from x (snd (db_exec now (Messages_Status i st) T))"
  by (simp_all add: dlq_inv_def read_from_def status_dlq db_ok_exec)

abbreviation sys_dlq :: "int \<Rightarrow> world DeadLetterQueue" where
  "sys_dlq mx \<equiv> NewDeadLetterQueue (Some sys_redis) (Some sys_db) mx"

definition dlq_reading :: "DeadLetterEntry list \<Rightarrow> tables \<Rightarrow> bool" where
  "dlq_reading xs T \<longleftrightarrow> dlq_inv T \<and> (\<forall>x \<in> set xs. read_from x T)"

lemma dlq_reading_status: "dlq_reading xs T \<Longrightarrow> dlq_reading xs (snd (db_exec now (Messages_Status i st) T))"
  by (simp add: dlq_reading_def dlq_inv_status)

lemma dlq_reading_update:
  "dlq_reading xs T \<Longrightarrow> x \<in> set xs \<Longrightarrow> 0 \<le> n \<Longrightarrow> n \<le> DL_MaxRetries x \<Longrightarrow>
     dlq_reading xs (snd (db_exec now (Dlq_Update (DL_ID x) st n q) T))"
  by (simp add: dlq_reading_def dlq_inv_update read_from_update)

lemma keeps_set_status: "keeps (db_inv (dlq_reading xs)) (set_status_if (Some sys_db) i st)"
  unfolding set_status_if_def PostgresDB_UpdateMessageStatus_def exec_only_def option.case
  by (intro keeps_rules keeps_db_exec dlq_reading_status)

lemma keeps_mark:
  "x \<in> set xs \<Longrightarrow> 0 \<le> n \<Longrightarrow> n \<le> DL_MaxRetries x \<Longrightarrow>
     keeps (db_inv (dlq_reading xs)) (DeadLetterQueue_markEntry sys_rt (sys_dlq mx) x st n)"
  unfolding DeadLetterQueue_markEntry_def NewDeadLetterQueue_def PostgresDB_UpdateDeadLetterEntry_def exec_only_def
    DeadLetterQueue.select_convs option.case
  by (intro keeps_rules keeps_db_exec dlq_reading_update) assumption+

lemma keeps_publish: "keeps (db_inv P) (DeadLetterQueue_publishMessage G (sys_dlq mx) m)"
  unfolding DeadLetterQueue_publishMessage_def NewDeadLetterQueue_def DeadLetterQueue.select_convs option.case
    publish_all_def RedisClient_Publish_def
  by (intro keeps_rules)

lemma keeps_metric: "keeps (db_inv P) (RecordMessageOperation sys_rt a b d)"
  unfolding RecordMessageOperation_def by (intro keeps_rules)

lemma keeps_retryEntry:
  assumes "x \<in> set xs" "retryable x" "0 \<le> DL_RetryCount x"
  shows "keeps (db_inv (dlq_reading xs)) (DeadLetterQueue_retryEntry G sys_rt (sys_dlq mx) x)"
proof -
  have n: "0 \<le> DL_RetryCount x + 1" "DL_RetryCount x + 1 \<le> DL_MaxRetries x" "0 \<le> DL_MaxRetries x"
    using assms(2,3) by (simp_all add: retryable_def)
  have db: "DLQ_db (sys_dlq mx) = Some sys_db" by (simp add: NewDeadLetterQueue_def)
  show ?thesis
    unfolding DeadLetterQueue_retryEntry_def db Let_def
    using assms(1) n
    by (intro keeps_rules keeps_mark keeps_set_status keeps_publish keeps_metric) auto
qed

lemma list_run:
  assumes "run_state (PostgresDB_ListRetryableDeadLetterEntries sys_db n) w = (r, v)" "n > 0"
  shows "v = called w \<and> (\<forall>xs. r = Inr xs \<longrightarrow> xs = take (nat n) (sort_key DL_CreatedAt (filter retryable (T_dlq (W_db w)))))"
    and "W_faults w (W_calls w) = Works \<Longrightarrow> r = Inr (take (nat n) (sort_key DL_CreatedAt (filter retryable (T_dlq (W_db w)))))"
  using assms
  by (auto simp: PostgresDB_ListRetryableDeadLetterEntries_def run_sys_queries db_select_dead_letters_def sql_limit_def
      sys_reply_def split: sum.splits fault.splits)

lemma listed_reading:
  assumes "dlq_inv T" "set xs \<subseteq> {x \<in> set (T_dlq T). retryable x}"
  shows "dlq_reading xs T"
proof -
  have d: "distinct (map DL_ID (T_dlq T))" using assms(1) by (simp add: dlq_inv_def db_ok_def)
  have "read_from x T" if "x \<in> set xs" for x
  proof -
    have x: "x \<in> set (T_dlq T)" "retryable x" using that assms(2) by auto
    moreover have "y = x" if "y \<in> set (T_dlq T)" "DL_ID y = DL_ID x" for y
      using d that x(1) by (auto simp: distinct_map dest: inj_onD)
    ultimately show ?thesis using assms(1) by (auto simp: read_from_def dlq_inv_def entry_bounded_def)
  qed
  with assms(1) show ?thesis by (simp add: dlq_reading_def)
qed

lemma keeps_process: "keeps (db_inv dlq_inv) (DeadLetterQueue_process G sys_rt (sys_dlq mx))"
proof
  fix w assume inv: "db_inv dlq_inv w"
  obtain r v where rv: "run_state (PostgresDB_ListRetryableDeadLetterEntries sys_db 100) w = (r, v)" by fastforce
  note l = list_run(1) [OF rv]
  show "db_inv dlq_inv (snd (run_state (DeadLetterQueue_process G sys_rt (sys_dlq mx)) w))"
  proof (cases r)
    case (Inl e)
    then show ?thesis using inv rv l by (simp add: DeadLetterQueue_process_def NewDeadLetterQueue_def db_inv_def)
  next
    case (Inr xs)
    then have sub: "set xs \<subseteq> {x \<in> set (T_dlq (W_db w)). retryable x}"
      using l by (auto dest: in_set_takeD)
    then have reading: "db_inv (dlq_reading xs) v"
      using listed_reading [of "W_db w" xs] inv l by (simp add: db_inv_def)
    have "keeps (db_inv (dlq_reading xs)) (for_io (DeadLetterQueue_retryEntry G sys_rt (sys_dlq mx)) xs)"
      using sub inv by (intro keeps_for_io keeps_retryEntry) (auto simp: dlq_inv_def entry_bounded_def db_inv_def)
    from keepsD [OF this reading]
    have "db_inv dlq_inv (snd (run_state (for_io (DeadLetterQueue_retryEntry G sys_rt (sys_dlq mx)) xs) v))"
      by (simp add: db_inv_def dlq_reading_def)
    then show ?thesis using rv Inr by (simp add: DeadLetterQueue_process_def NewDeadLetterQueue_def)
  qed
qed

lemma keeps_process_loop: "keeps (db_inv dlq_inv) (DeadLetterQueue_ProcessLoop G sys_rt (sys_dlq mx) es)"
  by (induction es rule: DeadLetterQueue_ProcessLoop.induct [of "\<lambda>_ _ _ es. keeps (db_inv dlq_inv) (DeadLetterQueue_ProcessLoop G sys_rt (sys_dlq mx) es)"])
    (auto intro: keeps_rules keeps_process)

text \<open>The worker's side: a new entry has used no attempt.\<close>

lemma dlq_inv_insert:
  "dlq_inv T \<Longrightarrow> dlq_inv (snd (db_exec now (Dlq_Insert i m reason 0 mx p st c q) T))"
  using db_ok_exec [of T now "Dlq_Insert i m reason 0 mx p st c q"]
  by (auto simp: dlq_inv_def db_exec.simps entry_bounded_def split: if_splits)

lemma keeps_inv_status: "keeps (db_inv dlq_inv) (set_status_if (Some sys_db) i st)"
  unfolding set_status_if_def PostgresDB_UpdateMessageStatus_def exec_only_def option.case
  by (intro keeps_rules keeps_db_exec dlq_inv_status(1))

lemma keeps_enqueue: "keeps (db_inv dlq_inv) (DeadLetterQueue_Enqueue G sys_rt (sys_dlq mx) m reason)"
  unfolding DeadLetterQueue_Enqueue_def NewDeadLetterQueue_def DeadLetterQueue.select_convs option.case Let_def
    PostgresDB_CreateDeadLetterEntry_def exec_only_def record_ret_def record_op_def time_Since_def DeadLetterEntry.select_convs
  by (intro keeps_rules keeps_db_exec dlq_inv_insert keeps_metric)

lemma keeps_route: "keeps (db_inv dlq_inv) (MessageEngine_routeMessage G sys_rt (sys_engine cfg) sys_redis m)"
  unfolding MessageEngine_routeMessage_def NewMessageEngine_def Let_def MessageEngine.select_convs option.case publish_all_def
    RedisClient_Publish_def PostgresDB_UpdateMessageStatus_def exec_only_def record_ret_def record_op_def time_Since_def
  by (intro keeps_rules keeps_db_exec dlq_inv_status(1) keeps_metric)

lemma keeps_iteration:
  assumes "\<And>d. keeps (db_inv dlq_inv) (sleep d)"
  shows "keeps (db_inv dlq_inv) (worker_iteration G sys_rt sleep (sys_engine cfg) sys_redis)"
proof -
  have e: "ME_db (sys_engine cfg) = Some sys_db" "ME_dlq (sys_engine cfg) = sys_dlq (Engine_MaxRetries (engine_defaults cfg))"
    by (simp_all add: NewMessageEngine_def Let_def)
  show ?thesis
    unfolding worker_iteration_def e RedisClient_RPop_def
    by (intro keeps_rules keeps_route keeps_inv_status keeps_enqueue assms)
qed

lemma keeps_worker:
  assumes "\<And>d. keeps (db_inv dlq_inv) (sleep d)"
  shows "keeps (db_inv dlq_inv) (MessageEngine_processWorker G sys_rt sleep (sys_engine cfg) sys_redis es)"
proof (induction es)
  case (Cons ev es)
  then show ?case by (cases ev) (auto intro: keeps_rules keeps_iteration assms)
qed (simp add: keeps_ret)

text \<open>
  C14. Bounded retries: whatever the servers do, a worker and the retry loop, over any
  sequence of ticks, keep the integrity of the tables and the bound of every dead letter
  entry: between zero and its limit of attempts have been counted.
\<close>
theorem dead_letter_bound:
  "keeps (db_inv dlq_inv) (DeadLetterQueue_ProcessLoop G sys_rt (sys_dlq mx) es) \<and>
   keeps (db_inv dlq_inv) (MessageEngine_processWorker G sys_rt (\<lambda>d. ret ()) (sys_engine cfg) sys_redis es)"
  by (intro conjI keeps_process_loop keeps_worker keeps_ret)

section \<open>A retry where every call works\<close>

definition marked :: "uuid \<Rightarrow> DeadLetterStatus \<Rightarrow> int \<Rightarrow> time option \<Rightarrow> tables \<Rightarrow> tables" where
  "marked i st n q T = T\<lparr>T_dlq := update_where (\<lambda>e. DL_ID e = i)
     (\<lambda>e. e\<lparr>DL_Status := st, DL_RetryCount := n, DL_ProcessedAt := q\<rparr>) (T_dlq T)\<rparr>"

lemma mark_run:
  assumes "\<And>n. W_faults w n = Works" "run_state (DeadLetterQueue_markEntry sys_rt (sys_dlq mx) x st n) w = ((), w')"
  shows "W_faults w' = W_faults w \<and> W_published w' = W_published w \<and> W_redis w' = W_redis w \<and>
    (\<exists>q. W_db w' = marked (DL_ID x) st n q (W_db w) \<and>
      (q \<noteq> None \<longleftrightarrow> st = DeadLetterStatusProcessed \<or> st = DeadLetterStatusExhausted))"
  using assms
  by (auto simp: DeadLetterQueue_markEntry_def NewDeadLetterQueue_def PostgresDB_UpdateDeadLetterEntry_def exec_only_sys
      run_sys_rt dlq_update_exec marked_def sys_done_def split: if_splits)

lemma status_if_works:
  assumes "\<And>n. W_faults w n = Works" "run_state (set_status_if (Some sys_db) i st) w = ((), w')"
  shows "\<exists>now. w' = w\<lparr>W_calls := Suc (W_calls w), W_db := mark_message i st now (W_db w)\<rparr>"
  using assms by (auto simp: set_status_if_def PostgresDB_UpdateMessageStatus_def exec_only_sys exec_status sys_done_def)

lemma publish_run:
  assumes "\<And>n. W_faults w n = Works" "run_state (DeadLetterQueue_publishMessage G (sys_dlq mx) m) w = (r, w')"
  shows "W_faults w' = W_faults w \<and> W_db w' = W_db w \<and> W_redis w' = W_redis w \<and>
    (publications G m \<noteq> [] \<longrightarrow> r = Inr () \<and> W_published w' = W_published w @ publications G m)"
proof -
  have all: "r' = Inr () \<and> W_faults v = W_faults w \<and> W_db v = W_db w \<and> W_redis v = W_redis w \<and>
      W_published v = W_published w @ publications G m'"
    if run: "run_state (publish_all G sys_redis m' (elems (Message_RecipientIDs m'))) w = (r', v)" for m' r' v
  proof -
    have "r' = Inr ()" using publish_all_works [OF assms(1), of G m' "elems (Message_RecipientIDs m')"] run by simp
    with publish_all_run [OF run] show ?thesis by (auto simp: publications_def)
  qed
  show ?thesis
    using assms(2)
    by (auto simp: DeadLetterQueue_publishMessage_def NewDeadLetterQueue_def publications_def
        split: if_splits prod.splits sum.splits dest: all)
qed

text \<open>The effect of a retry on the entry: settled, or one attempt more.\<close>

lemma retry_run:
  assumes "\<And>n. W_faults w n = Works" "run_state (DeadLetterQueue_retryEntry G sys_rt (sys_dlq mx) x) w = ((), w')"
  shows "W_faults w' = W_faults w \<and>
    (\<exists>st n q. T_dlq (W_db w') = T_dlq (marked (DL_ID x) st n q (W_db w)) \<and>
      (st = DeadLetterStatusProcessed \<or> st = DeadLetterStatusExhausted \<or> st = DeadLetterStatusPending \<and> n = DL_RetryCount x + 1))"
proof -
  have db: "DLQ_db (sys_dlq mx) = Some sys_db" by (simp add: NewDeadLetterQueue_def)
  have mark: "run_state (DeadLetterQueue_markEntry sys_rt (sys_dlq mx) x st n) v = ((), v') \<Longrightarrow> W_faults v = W_faults w \<Longrightarrow>
      T_dlq (W_db v) = T_dlq (W_db w) \<Longrightarrow> W_faults v' = W_faults w \<and> (\<exists>q. T_dlq (W_db v') = T_dlq (marked (DL_ID x) st n q (W_db w)))"
    for v v' st n
    using mark_run [of v mx x st n v'] assms(1) by (auto simp: marked_def)
  have metric: "run_state (RecordMessageOperation sys_rt a b d) v = ((), v') \<Longrightarrow> W_faults v' = W_faults v \<and> W_db v' = W_db v"
    for a b d v v' by (auto simp: RecordMessageOperation_def run_sys_rt)
  show ?thesis
  proof (cases "Unmarshal_Envelope G (DL_Payload x)")
    case (Inl e)
    then show ?thesis using assms(2) mark [OF _ refl refl] by (fastforce simp: DeadLetterQueue_retryEntry_def)
  next
    case (Inr p)
    show ?thesis
    proof (cases p)
      case None
      then show ?thesis using Inr assms(2) mark [OF _ refl refl] by (fastforce simp: DeadLetterQueue_retryEntry_def)
    next
      case (Some m)
      obtain r v where v: "run_state (DeadLetterQueue_publishMessage G (sys_dlq mx) m) w = (r, v)" by fastforce
      note pb = publish_run [OF assms(1) v]
      define st where "st = (case r of Inl _ \<Rightarrow> MessageStatusFailed | Inr _ \<Rightarrow> MessageStatusSent)"
      obtain u where u: "run_state (set_status_if (Some sys_db) (Message_ID m) st) v = ((), u)"
        by (metis old.unit.exhaust prod.collapse)
      have "\<exists>now. u = v\<lparr>W_calls := Suc (W_calls v), W_db := mark_message (Message_ID m) st now (W_db v)\<rparr>"
        using status_if_works [OF _ u] pb assms(1) by simp
      then have uu: "W_faults u = W_faults w" "T_dlq (W_db u) = T_dlq (W_db w)" using pb by auto
      have vv: "W_faults v = W_faults w" "T_dlq (W_db v) = T_dlq (W_db w)" using pb by simp_all
      have "\<exists>z y st n a. run_state (DeadLetterQueue_markEntry sys_rt (sys_dlq mx) x st n) z = ((), y) \<and> z \<in> {u, v} \<and>
          run_state (RecordMessageOperation sys_rt ''dlq_retry'' a 0) y = ((), w') \<and>
          (st = DeadLetterStatusProcessed \<or> st = DeadLetterStatusExhausted \<or> st = DeadLetterStatusPending \<and> n = DL_RetryCount x + 1)"
        using assms(2) Inr Some v u
        by (cases r; auto simp: DeadLetterQueue_retryEntry_def db Let_def st_def split: if_splits prod.splits; blast)
      then obtain z y st n a where z: "run_state (DeadLetterQueue_markEntry sys_rt (sys_dlq mx) x st n) z = ((), y)" "z \<in> {u, v}"
          "run_state (RecordMessageOperation sys_rt ''dlq_retry'' a 0) y = ((), w')"
          "st = DeadLetterStatusProcessed \<or> st = DeadLetterStatusExhausted \<or> st = DeadLetterStatusPending \<and> n = DL_RetryCount x + 1"
        by blast
      have "W_faults z = W_faults w" "T_dlq (W_db z) = T_dlq (W_db w)" using z(2) uu vv by auto
      from mark [OF z(1) this] metric [OF z(3)] z(4) show ?thesis by auto
    qed
  qed
qed



section \<open>Draining\<close>

definition attempts_left :: "tables \<Rightarrow> nat" where
  "attempts_left T = (\<Sum>e \<leftarrow> filter retryable (T_dlq T). nat (DL_MaxRetries e - DL_RetryCount e))"

definition settles :: "DeadLetterEntry \<Rightarrow> DeadLetterStatus \<Rightarrow> int \<Rightarrow> bool" where
  "settles x st n \<longleftrightarrow> st = DeadLetterStatusProcessed \<or> st = DeadLetterStatusExhausted \<or>
     st = DeadLetterStatusPending \<and> n = DL_RetryCount x + 1"

lemma attempts_marked:
  assumes "x \<in> set es" "retryable x" "distinct (map DL_ID es)" "settles x st n"
  shows "(\<Sum>e \<leftarrow> filter retryable (update_where (\<lambda>e. DL_ID e = DL_ID x)
      (\<lambda>e. e\<lparr>DL_Status := st, DL_RetryCount := n, DL_ProcessedAt := q\<rparr>) es). nat (DL_MaxRetries e - DL_RetryCount e))
    < (\<Sum>e \<leftarrow> filter retryable es. nat (DL_MaxRetries e - DL_RetryCount e))"
  using assms(1,3)
proof (induction es)
  case (Cons e es)
  let ?f = "\<lambda>e. e\<lparr>DL_Status := st, DL_RetryCount := n, DL_ProcessedAt := q\<rparr>"
  show ?case
  proof (cases "e = x")
    case True
    then have "update_where (\<lambda>e. DL_ID e = DL_ID x) ?f es = es"
      using Cons.prems(2) unfolding update_where_def by (intro map_idI) (auto, metis imageI)
    moreover have "retryable (?f x) \<Longrightarrow> nat (DL_MaxRetries x - n) < nat (DL_MaxRetries x - DL_RetryCount x)"
      using assms(2,4) by (auto simp: settles_def retryable_def dead_letter_status_defs)
    moreover have "0 < nat (DL_MaxRetries x - DL_RetryCount x)" using assms(2) by (simp add: retryable_def)
    ultimately show ?thesis using True assms(2) by (simp add: update_where_def)
  next
    case False
    then have "x \<in> set es" "DL_ID e \<noteq> DL_ID x" using Cons.prems by auto
    then show ?thesis using Cons.IH Cons.prems(2) by (simp add: update_where_def)
  qed
qed simp

lemma distinct_marked: "map DL_ID (T_dlq (marked i st n q T)) = map DL_ID (T_dlq T)"
  by (simp add: marked_def map_update_where [where g = DL_ID])

lemma retries_drain:
  assumes "\<And>n. W_faults w n = Works" "distinct (map DL_ID (T_dlq (W_db w)))"
    and "distinct (map DL_ID xs)" "set xs \<subseteq> {x \<in> set (T_dlq (W_db w)). retryable x}"
    and "run_state (for_io (DeadLetterQueue_retryEntry G sys_rt (sys_dlq mx)) xs) w = ((), w')"
  shows "attempts_left (W_db w') + length xs \<le> attempts_left (W_db w) \<and> (\<forall>n. W_faults w' n = Works) \<and>
    distinct (map DL_ID (T_dlq (W_db w')))"
  using assms
proof (induction xs arbitrary: w)
  case (Cons x xs)
  obtain v where v: "run_state (DeadLetterQueue_retryEntry G sys_rt (sys_dlq mx) x) w = ((), v)"
    by (metis old.unit.exhaust prod.collapse)
  have rest: "run_state (for_io (DeadLetterQueue_retryEntry G sys_rt (sys_dlq mx)) xs) v = ((), w')"
    using Cons.prems(5) v by simp
  obtain st n q where m: "W_faults v = W_faults w" "T_dlq (W_db v) = T_dlq (marked (DL_ID x) st n q (W_db w))" "settles x st n"
    using retry_run [OF Cons.prems(1) v] by (auto simp: settles_def)
  have "attempts_left (W_db v) < attempts_left (W_db w)"
    using attempts_marked [OF _ _ Cons.prems(2) m(3), of q] Cons.prems(4) m(2) by (simp add: attempts_left_def marked_def)
  moreover have "set xs \<subseteq> {x \<in> set (T_dlq (W_db v)). retryable x}"
  proof
    fix y assume y: "y \<in> set xs"
    then have "DL_ID y \<noteq> DL_ID x" "y \<in> set (T_dlq (W_db w))" "retryable y"
      using Cons.prems(3,4) by (auto, metis imageI)
    then show "y \<in> {x \<in> set (T_dlq (W_db v)). retryable x}"
      by (auto simp: m(2) marked_def update_where_def image_iff intro!: bexI [of _ y])
  qed
  ultimately show ?case
    using Cons.IH [of v] rest m(1,2) distinct_marked Cons.prems(1-3) by fastforce
qed simp

lemma process_drains:
  assumes "\<And>n. W_faults w n = Works" "distinct (map DL_ID (T_dlq (W_db w)))"
    and "run_state (DeadLetterQueue_process G sys_rt (sys_dlq mx)) w = ((), w')"
  shows "attempts_left (W_db w') \<le> attempts_left (W_db w) - 1 \<and> (\<forall>n. W_faults w' n = Works) \<and>
    distinct (map DL_ID (T_dlq (W_db w')))"
proof -
  let ?xs = "take 100 (sort_key DL_CreatedAt (filter retryable (T_dlq (W_db w))))"
  obtain r v where rv: "run_state (PostgresDB_ListRetryableDeadLetterEntries sys_db 100) w = (r, v)" by fastforce
  have r: "r = Inr ?xs" "v = called w" using list_run [OF rv] assms(1) by simp_all
  have run: "run_state (for_io (DeadLetterQueue_retryEntry G sys_rt (sys_dlq mx)) ?xs) v = ((), w')"
    using assms(3) rv r by (simp add: DeadLetterQueue_process_def NewDeadLetterQueue_def)
  have "distinct (map DL_ID (sort_key DL_CreatedAt (filter retryable (T_dlq (W_db w)))))"
    using assms(2) by (auto simp: distinct_map intro: inj_on_subset)
  then have "distinct (map DL_ID ?xs)" by (simp add: take_map [symmetric])
  moreover have "set ?xs \<subseteq> {x \<in> set (T_dlq (W_db v)). retryable x}" using r(2) by (auto dest: in_set_takeD)
  ultimately have d: "attempts_left (W_db w') + length ?xs \<le> attempts_left (W_db v) \<and> (\<forall>n. W_faults w' n = Works) \<and>
      distinct (map DL_ID (T_dlq (W_db w')))"
    using retries_drain [OF _ _ _ _ run] assms(1,2) r(2) by simp
  have "?xs = [] \<Longrightarrow> filter retryable (T_dlq (W_db w)) = []"
    by (metis length_sort list.size(3) take_eq_Nil zero_neq_numeral length_0_conv)
  then have "length ?xs = 0 \<Longrightarrow> attempts_left (W_db w) = 0" unfolding attempts_left_def by (metis length_0_conv list.simps(8) sum_list.Nil)
  then show ?thesis using d r(2) by (cases "length ?xs") (auto simp del: length_take length_0_conv)
qed

lemma loop_drains:
  assumes "\<And>n. W_faults w n = Works" "distinct (map DL_ID (T_dlq (W_db w)))"
    and "run_state (DeadLetterQueue_ProcessLoop G sys_rt (sys_dlq mx) (replicate n Ticked)) w = ((), w')"
  shows "attempts_left (W_db w') \<le> attempts_left (W_db w) - n"
  using assms
proof (induction n arbitrary: w)
  case (Suc n)
  obtain v where v: "run_state (DeadLetterQueue_process G sys_rt (sys_dlq mx)) w = ((), v)"
    by (metis old.unit.exhaust prod.collapse)
  note p = process_drains [OF Suc.prems(1,2) v]
  have "attempts_left (W_db w') \<le> attempts_left (W_db v) - n"
    using Suc.prems(3) v p by (intro Suc.IH) simp_all
  with conjunct1 [OF p] show ?case by linarith
qed simp



end
