(* ===== verification/Http.thy ===== *)
theory Http
  imports Repository
begin

text \<open>
  The part of a gin context the handlers use, and \<open>internal/api/responses.go\<close>. A request is
  fixed; the context adds the keys set along the chain, the status, headers and body of the
  response, and whether the chain was aborted. A body is the Go value handed to \<open>c.JSON\<close>.
  Route matching, header and query parsing are gin's: the matched template, the parameters,
  the header lookup and the bound query are fields of the request.
\<close>

section \<open>Requests, responses, contexts\<close>

record ListMessagesRequest =
  List_ConversationID :: string
  List_Limit :: int
  List_Offset :: int

record gin_request =
  Req_Method :: string
  Req_URLPath :: string
  Req_FullPath :: string
  Req_GetHeader :: "string \<Rightarrow> string"
  Req_Param :: "string \<Rightarrow> string"
  Req_BindQuery :: "ListMessagesRequest result"
  Req_Body :: bytes
  Req_ClientIP :: string
  Req_UserAgent :: string

record apiError =
  Api_Code :: string
  Api_Message :: string

record apiErrorEnvelope =
  Env_Error :: apiError
  Env_RequestID :: string
  Env_TraceID :: string

text \<open>The values of a \<open>gin.H\<close> map.\<close>

datatype gin_value =
    H_Str string
  | H_Int int
  | H_Map "(string \<times> gin_value) list"
  | H_Agents "Agent list"
  | H_Messages "Message list"
  | H_Results "SendResult list"
  | H_Subscriptions "Subscription list"

datatype gin_body =
    No_Body
  | Body_Error apiErrorEnvelope
  | Body_Map "(string \<times> gin_value) list"
  | Body_Agent Agent
  | Body_Agents "Agent list"
  | Body_Message Message
  | Body_SendResult SendResult
  | Body_Subscription Subscription
  | Body_Text string

record gin_ctx =
  Gin_Request :: gin_request
  Gin_Keys :: "string \<Rightarrow> string"
  Gin_Status :: int
  Gin_Headers :: "(string \<times> string) list"
  Gin_Body :: gin_body
  Gin_Aborted :: bool

type_synonym 'w HandlerFunc = "gin_ctx \<Rightarrow> ('w, gin_ctx) io"

text \<open>\<open>c.GetString\<close> gives the empty string for a key that is not set.\<close>

definition gin_new :: "gin_request \<Rightarrow> gin_ctx" where
  "gin_new r = \<lparr>Gin_Request = r, Gin_Keys = (\<lambda>_. []), Gin_Status = 200, Gin_Headers = [], Gin_Body = No_Body,
     Gin_Aborted = False\<rparr>"

definition gin_Set :: "string \<Rightarrow> string \<Rightarrow> gin_ctx \<Rightarrow> gin_ctx" where
  "gin_Set k v c = c\<lparr>Gin_Keys := (Gin_Keys c)(k := v)\<rparr>"

definition gin_Header :: "string \<Rightarrow> string \<Rightarrow> gin_ctx \<Rightarrow> gin_ctx" where
  "gin_Header k v c = c\<lparr>Gin_Headers := Gin_Headers c @ [(k, v)]\<rparr>"

definition gin_JSON :: "int \<Rightarrow> gin_body \<Rightarrow> gin_ctx \<Rightarrow> gin_ctx" where
  "gin_JSON status b c = c\<lparr>Gin_Status := status, Gin_Body := b\<rparr>"

definition gin_Abort :: "gin_ctx \<Rightarrow> gin_ctx" where
  "gin_Abort c = c\<lparr>Gin_Aborted := True\<rparr>"

section \<open>responses.go\<close>

definition respondError :: "int \<Rightarrow> string \<Rightarrow> string \<Rightarrow> gin_ctx \<Rightarrow> gin_ctx" where
  "respondError status code message c = gin_JSON status
     (Body_Error \<lparr>Env_Error = \<lparr>Api_Code = code, Api_Message = message\<rparr>,
        Env_RequestID = Gin_Keys c ''request_id'', Env_TraceID = Gin_Keys c ''trace_id''\<rparr>) c"

definition respondServiceError :: "go_error \<Rightarrow> string \<Rightarrow> gin_ctx \<Rightarrow> gin_ctx" where
  "respondServiceError e notFoundCode c =
     (if e = ErrAgentNotFound \<or> e = ErrMessageNotFound then respondError 404 notFoundCode (err_Error e) c
      else if e = ErrAgentAlreadyExists then respondError 409 ''agent_conflict'' (err_Error e) c
      else if e = ErrInvalidMessage \<or> e = ErrInvalidToken then respondError 400 ''invalid_request'' (err_Error e) c
      else if e = ErrUnauthorized then respondError 403 ''forbidden'' (err_Error e) c
      else if e = ErrServiceUnavailable then respondError 503 ''service_unavailable'' (err_Error e) c
      else respondError 500 ''internal_error'' ''internal server error'' c)"

text \<open>
  The helpers that return \<open>(value, ok)\<close>: on the left the context with the error response
  written, where the caller returns, on the right the value.
\<close>

definition parseUUIDParam :: "go_env \<Rightarrow> gin_ctx \<Rightarrow> string \<Rightarrow> gin_ctx + uuid" where
  "parseUUIDParam G c paramName = (case uuid_Parse G (Req_Param (Gin_Request c) paramName) of
     None \<Rightarrow> Inl (respondError 400 ''invalid_uuid'' (''invalid '' @ paramName) c)
   | Some u \<Rightarrow> Inr u)"

definition parseUUIDValue :: "go_env \<Rightarrow> gin_ctx \<Rightarrow> string \<Rightarrow> string \<Rightarrow> gin_ctx + uuid" where
  "parseUUIDValue G c v fld = (case uuid_Parse G v of
     None \<Rightarrow> Inl (respondError 400 ''invalid_uuid'' (''invalid '' @ fld) c)
   | Some u \<Rightarrow> Inr u)"

definition contextUUID :: "go_env \<Rightarrow> gin_ctx \<Rightarrow> string \<Rightarrow> gin_ctx + uuid" where
  "contextUUID G c key =
     (let v = Gin_Keys c key
      in if v = [] then Inl (respondError 401 ''missing_identity'' (''missing '' @ key) c)
         else parseUUIDValue G c v key)"

text \<open>\<open>if !ok { return }\<close>.\<close>

definition or_return :: "gin_ctx + 'a \<Rightarrow> ('a \<Rightarrow> ('w, gin_ctx) io) \<Rightarrow> ('w, gin_ctx) io" where
  "or_return r f = (case r of Inl c \<Rightarrow> ret c | Inr x \<Rightarrow> f x)"

lemma or_return_simps [simp]: "or_return (Inl c) f = ret c" "or_return (Inr x) f = f x"
  by (simp_all add: or_return_def)

lemma respond_simps [simp]:
  "Gin_Status (respondError s k m c) = s" "Gin_Aborted (respondError s k m c) = Gin_Aborted c"
  "Gin_Keys (respondError s k m c) = Gin_Keys c" "Gin_Request (respondError s k m c) = Gin_Request c"
  "Gin_Headers (respondError s k m c) = Gin_Headers c"
  by (simp_all add: respondError_def gin_JSON_def)

lemma respond_body: "Gin_Body (respondError s k m c) =
    Body_Error \<lparr>Env_Error = \<lparr>Api_Code = k, Api_Message = m\<rparr>,
      Env_RequestID = Gin_Keys c ''request_id'', Env_TraceID = Gin_Keys c ''trace_id''\<rparr>"
  by (simp add: respondError_def gin_JSON_def)

text \<open>A service error never turns into a success, and its body is the error envelope.\<close>

lemma respondServiceError_status:
  "Gin_Status (respondServiceError e nf c) \<in> {400, 403, 404, 409, 500, 503} \<and>
   (\<exists>k m. Gin_Body (respondServiceError e nf c) = Body_Error \<lparr>Env_Error = \<lparr>Api_Code = k, Api_Message = m\<rparr>,
      Env_RequestID = Gin_Keys c ''request_id'', Env_TraceID = Gin_Keys c ''trace_id''\<rparr>)"
  by (simp add: respondServiceError_def respond_body)

end
