(* ===== verification/Middleware.thy ===== *)
theory Middleware
  imports Auth_Service Http
begin

text \<open>
  The request middleware of \<open>internal/middleware/middleware.go\<close>. A middleware takes the rest
  of the chain, \<open>c.Next()\<close>, as an argument; what it does after \<open>Next\<close> is the code after the
  call. Spans and structured logs are left out, metrics are kept.
\<close>

section \<open>State and operations\<close>

record 'w Middleware =
  MW_redis :: "'w goredis option"
  MW_db :: "'w sqlx option"
  MW_auth :: "AuthService option"
  MW_rateLimitRequests :: int
  MW_rateLimitWindow :: duration

definition NewMiddleware ::
    "'w goredis option \<Rightarrow> 'w sqlx option \<Rightarrow> AuthService option \<Rightarrow> int \<Rightarrow> duration \<Rightarrow> 'w Middleware" where
  "NewMiddleware redis db auth requests window =
     \<lparr>MW_redis = redis, MW_db = db, MW_auth = auth,
      MW_rateLimitRequests = (if requests \<le> 0 then 600 else requests),
      MW_rateLimitWindow = (if window \<le> 0 then Minute else window)\<rparr>"

text \<open>The trace id of the span the OpenTelemetry tracer starts is an argument.\<close>

definition Middleware_Tracing ::
    "go_env \<Rightarrow> 'w runtime \<Rightarrow> (gin_request \<Rightarrow> string) \<Rightarrow> 'w HandlerFunc \<Rightarrow> 'w HandlerFunc" where
  "Middleware_Tracing G R spanTraceID Next c = do {
     requestID \<leftarrow> (let h = Req_GetHeader (Gin_Request c) ''X-Request-ID''
                  in if h = [] then uuid_NewString G R else ret h);
     let traceID = (let h = Req_GetHeader (Gin_Request c) ''X-Trace-ID'' in if h = [] then requestID else h);
     let c = gin_Set ''request_id'' requestID c;
     let c = gin_Set ''trace_id'' traceID c;
     let c = gin_Set ''otel_trace_id'' (spanTraceID (Gin_Request c)) c;
     let c = gin_Header ''X-Request-ID'' requestID c;
     let c = gin_Header ''X-Trace-ID'' traceID c;
     Next c
   }"

definition respondAuthError :: "int \<Rightarrow> string \<Rightarrow> string \<Rightarrow> gin_ctx \<Rightarrow> gin_ctx" where
  "respondAuthError status code message c = gin_JSON status
     (Body_Map [(''error'', H_Map [(''code'', H_Str code), (''message'', H_Str message)]),
        (''requestId'', H_Str (Gin_Keys c ''request_id'')), (''traceId'', H_Str (Gin_Keys c ''trace_id''))]) c"

text \<open>\<open>RecordAuthFailure(reason)\<close>, the response, \<open>c.Abort()\<close> and \<open>return\<close>.\<close>

definition refuse :: "'w runtime \<Rightarrow> string \<Rightarrow> int \<Rightarrow> string \<Rightarrow> string \<Rightarrow> 'w HandlerFunc" where
  "refuse R reason status code message c = do {
     RecordAuthFailure R reason;
     ret (gin_Abort (respondAuthError status code message c))
   }"

definition isBootstrapAgentRegistration :: "gin_ctx \<Rightarrow> bool" where
  "isBootstrapAgentRegistration c \<longleftrightarrow>
     Req_Method (Gin_Request c) = ''POST'' \<and> Req_URLPath (Gin_Request c) = ''/api/v1/agents''"

definition set_identity :: "go_env \<Rightarrow> TokenClaims \<Rightarrow> gin_ctx \<Rightarrow> gin_ctx" where
  "set_identity G claims c =
     gin_Set ''tenant_id'' (uuid_String G (Claims_TenantID claims))
       (gin_Set ''agent_id'' (uuid_String G (Claims_AgentID claims)) c)"

definition Middleware_Authenticate ::
    "go_env \<Rightarrow> 'w runtime \<Rightarrow> 'w Middleware \<Rightarrow> 'w HandlerFunc \<Rightarrow> 'w HandlerFunc" where
  "Middleware_Authenticate G R m Next c =
     (let authHeader = Req_GetHeader (Gin_Request c) ''Authorization'';
          token = strings_TrimPrefix authHeader ''Bearer ''
      in if authHeader = [] then
           refuse R ''missing_header'' 401 ''missing_authorization'' ''missing authorization header'' c
         else if token = authHeader then
           refuse R ''invalid_format'' 401 ''invalid_authorization_format'' ''invalid authorization format'' c
         else (case MW_auth m of
           None \<Rightarrow> refuse R ''service_unavailable'' 401 ''authentication_unavailable'' ''authentication service unavailable'' c
         | Some auth \<Rightarrow> do {
             v \<leftarrow> AuthService_ValidateToken G R auth token;
             (case v of
                Inl e \<Rightarrow> refuse R ''invalid_token'' 401 ''invalid_token'' ''invalid token'' c
              | Inr claims \<Rightarrow>
                  (case MW_db m of
                     None \<Rightarrow> Next (set_identity G claims c)
                   | Some db \<Rightarrow> do {
                       t \<leftarrow> PostgresDB_TenantExists (Some db) (Claims_TenantID claims);
                       (case t of
                          Inl e \<Rightarrow> refuse R ''tenant_lookup_failed'' 503 ''tenant_lookup_unavailable'' ''tenant lookup unavailable'' c
                        | Inr tenantExists \<Rightarrow>
                            (if \<not> tenantExists then refuse R ''unknown_tenant'' 401 ''unknown_tenant'' ''unknown tenant'' c
                             else if isBootstrapAgentRegistration c then Next (set_identity G claims c)
                             else do {
                               a \<leftarrow> PostgresDB_AgentExists (Some db) (Claims_AgentID claims);
                               (case a of
                                  Inl e \<Rightarrow> refuse R ''agent_lookup_failed'' 503 ''agent_lookup_unavailable''
                                    ''agent lookup unavailable'' c
                                | Inr agentExists \<Rightarrow>
                                    (if \<not> agentExists then refuse R ''unknown_agent'' 401 ''unknown_agent'' ''unknown agent'' c
                                     else Next (set_identity G claims c)))
                             }))
                     }))
           }))"

section \<open>Rate limiting\<close>

definition rate_window :: "'w Middleware \<Rightarrow> int" where
  "rate_window m = (let s = whole_seconds (MW_rateLimitWindow m) in if s \<le> 0 then 60 else s)"

definition rate_key :: "string \<Rightarrow> string \<Rightarrow> string \<Rightarrow> int \<Rightarrow> string" where
  "rate_key tenantID agentID path windowSlot =
     strings_Join [''ratelimit'', tenantID, agentID, path, strconv_Itoa windowSlot] '':''"

text \<open>\<open>INCR\<close>, and \<open>EXPIRE\<close> with its error dropped when the key is new.\<close>

definition rate_count :: "'w goredis \<Rightarrow> string \<Rightarrow> int \<Rightarrow> ('w, int result) io" where
  "rate_count redis key windowSeconds = do {
     r \<leftarrow> RedisClient_Incr redis key;
     (if r = Inr 1 then do { e \<leftarrow> RedisClient_Expire redis key windowSeconds; ret r } else ret r)
   }"

definition Middleware_RateLimit ::
    "'w runtime \<Rightarrow> 'w Middleware \<Rightarrow> 'w HandlerFunc \<Rightarrow> 'w HandlerFunc" where
  "Middleware_RateLimit R m Next c = (case MW_redis m of
     None \<Rightarrow> Next c
   | Some redis \<Rightarrow>
       (let agentID = Gin_Keys c ''agent_id''; tenantID = Gin_Keys c ''tenant_id''
        in if agentID = [] \<or> tenantID = [] then Next c
           else do {
             let windowSeconds = rate_window m;
             now \<leftarrow> time_Now R;
             let windowSlot = go_quot (time_Unix now) windowSeconds;
             r \<leftarrow> rate_count redis (rate_key tenantID agentID (Req_FullPath (Gin_Request c)) windowSlot) windowSeconds;
             (case r of
                Inl e \<Rightarrow> Next c
              | Inr count \<Rightarrow>
                  (let remaining = MW_rateLimitRequests m - count;
                       remaining = (if remaining < 0 then 0 else remaining);
                       c = gin_Header ''X-RateLimit-Limit'' (strconv_Itoa (MW_rateLimitRequests m)) c;
                       c = gin_Header ''X-RateLimit-Remaining'' (strconv_Itoa remaining) c
                   in if count > MW_rateLimitRequests m then do {
                        RecordRateLimitExceeded R (Req_FullPath (Gin_Request c));
                        let c = gin_Header ''Retry-After'' (strconv_Itoa windowSeconds) c;
                        ret (gin_Abort (gin_JSON 429
                          (Body_Map [(''error'', H_Str ''rate limit exceeded''), (''retry_after'', H_Int windowSeconds)]) c))
                      }
                      else Next c))
           }))"

section \<open>Request metrics\<close>

definition request_path :: "gin_ctx \<Rightarrow> string" where
  "request_path c = (let path = Req_FullPath (Gin_Request c) in if path = [] then Req_URLPath (Gin_Request c) else path)"

text \<open>\<open>time.Since(start)\<close> is read twice, for the log line and for the metric.\<close>

definition Middleware_Logging :: "'w runtime \<Rightarrow> 'w HandlerFunc \<Rightarrow> 'w HandlerFunc" where
  "Middleware_Logging R Next c0 = do {
     start \<leftarrow> time_Now R;
     c \<leftarrow> Next c0;
     latency \<leftarrow> time_Since R start;
     d \<leftarrow> time_Since R start;
     RecordAPIRequest R (Req_Method (Gin_Request c)) (request_path c) (Gin_Status c) d;
     ret c
   }"

section \<open>Audit\<close>

definition isAuditMethod :: "string \<Rightarrow> bool" where
  "isAuditMethod meth \<longleftrightarrow> meth = ''POST'' \<or> meth = ''PUT'' \<or> meth = ''PATCH'' \<or> meth = ''DELETE''"

definition auditResourceType :: "string \<Rightarrow> string" where
  "auditResourceType path =
     (let parts = strings_Split (strings_Trim path (CHR ''/'')) (CHR ''/'')
      in if length parts \<ge> 3 then parts ! 2
         else if length parts > 0 then parts ! (length parts - 1)
         else ''unknown'')"

definition auditAction :: "string \<Rightarrow> string \<Rightarrow> string" where
  "auditAction meth path =
     (let resource = auditResourceType path
      in if meth = ''POST'' then
           (if strings_HasSuffix path ''/ack'' then resource @ ''.ack'' else resource @ ''.create'')
         else if meth = ''PUT'' \<or> meth = ''PATCH'' then resource @ ''.update''
         else if meth = ''DELETE'' then resource @ ''.delete''
         else resource @ ''.access'')"

type_synonym AuditMetadata = "(string \<times> json) list"

text \<open>The reference that may be stored, and the metadata with the claim that may not.\<close>

definition resolveAuditReference ::
    "go_env \<Rightarrow> gin_ctx \<Rightarrow> AuditMetadata \<Rightarrow> string \<Rightarrow> string \<Rightarrow> (uuid \<Rightarrow> ('w, bool result) io) \<Rightarrow>
     ('w, AuditMetadata \<times> uuid option) io" where
  "resolveAuditReference G c metadata contextKey metadataKey exists =
     (let raw = Gin_Keys c contextKey
      in if raw = [] then ret (metadata, None)
         else (case uuid_Parse G raw of
           None \<Rightarrow> ret (map_put metadataKey (JStr raw) metadata, None)
         | Some parsed \<Rightarrow> do {
             ok \<leftarrow> exists parsed;
             ret (case ok of
                Inl e \<Rightarrow> (map_put metadataKey (JStr (uuid_String G parsed)) metadata, None)
              | Inr b \<Rightarrow> (if \<not> b then (map_put metadataKey (JStr (uuid_String G parsed)) metadata, None)
                         else (metadata, Some parsed)))
           }))"

definition Middleware_resolveAuditTenantID ::
    "go_env \<Rightarrow> 'w sqlx \<Rightarrow> gin_ctx \<Rightarrow> AuditMetadata \<Rightarrow> ('w, AuditMetadata \<times> uuid option) io" where
  "Middleware_resolveAuditTenantID G db c metadata =
     resolveAuditReference G c metadata ''tenant_id'' ''claimedTenantID'' (PostgresDB_TenantExists (Some db))"

definition Middleware_resolveAuditAgentID ::
    "go_env \<Rightarrow> 'w sqlx \<Rightarrow> gin_ctx \<Rightarrow> AuditMetadata \<Rightarrow> ('w, AuditMetadata \<times> uuid option) io" where
  "Middleware_resolveAuditAgentID G db c metadata =
     resolveAuditReference G c metadata ''agent_id'' ''claimedAgentID'' (PostgresDB_AgentExists (Some db))"

definition Middleware_AuditLog ::
    "go_env \<Rightarrow> 'w runtime \<Rightarrow> 'w Middleware \<Rightarrow> 'w HandlerFunc \<Rightarrow> 'w HandlerFunc" where
  "Middleware_AuditLog G R m Next c0 = do {
     c \<leftarrow> Next c0;
     (case MW_db m of
        None \<Rightarrow> ret c
      | Some db \<Rightarrow>
          (if \<not> isAuditMethod (Req_Method (Gin_Request c)) then ret c
           else do {
             let path = request_path c;
             let metadata = [(''route'', JStr path), (''status'', enc_int (Gin_Status c))];
             (metadata, tenantID) \<leftarrow> Middleware_resolveAuditTenantID G db c metadata;
             (metadata, agentID) \<leftarrow> Middleware_resolveAuditAgentID G db c metadata;
             i \<leftarrow> uuid_New R;
             created \<leftarrow> time_Now R;
             let entry = \<lparr>Audit_ID = i, Audit_TenantID = tenantID, Audit_AgentID = agentID,
               Audit_RequestID = Gin_Keys c ''request_id'', Audit_TraceID = Gin_Keys c ''trace_id'',
               Audit_Action = auditAction (Req_Method (Gin_Request c)) path, Audit_ResourceType = auditResourceType path,
               Audit_ResourceID = Req_Param (Gin_Request c) ''id'', Audit_Method = Req_Method (Gin_Request c),
               Audit_Path = Req_URLPath (Gin_Request c), Audit_StatusCode = Gin_Status c,
               Audit_ClientIP = Req_ClientIP (Gin_Request c), Audit_UserAgent = Req_UserAgent (Gin_Request c),
               Audit_Metadata = metadata, Audit_CreatedAt = created\<rparr>;
             r \<leftarrow> PostgresDB_CreateAuditLog db entry;
             (case r of
                Inl e \<Rightarrow> do { RecordAuditLog R (Audit_Action entry) 500; ret c }
              | Inr _ \<Rightarrow> do { RecordAuditLog R (Audit_Action entry) (Audit_StatusCode entry); ret c })
           }))
   }"

definition parseOptionalUUID :: "go_env \<Rightarrow> string \<Rightarrow> uuid option" where
  "parseOptionalUUID G v = (if v = [] then None else uuid_Parse G v)"

end
