(* ===== verification/Access_Control.thy ===== *)
theory Access_Control
  imports Middleware
begin

text \<open>
  What the middleware guarantees to the handlers behind it: an identity only from a valid
  token of a known tenant and agent, a bound on the requests of an agent in a window, and
  an audit row for each request that changes state.
\<close>

section \<open>Authentication\<close>

lemma refuse_run:
  "run_state (refuse sys_rt reason st k msg c) w =
     (gin_Abort (respondAuthError st k msg c), w\<lparr>W_metrics := W_metrics w @ [Counted ''agentmsg_auth_failures_total'' [reason]]\<rparr>)"
  by (simp add: refuse_def RecordAuthFailure_def run_sys_rt)

definition refused :: "gin_ctx \<Rightarrow> gin_ctx \<Rightarrow> bool" where
  "refused c c' \<longleftrightarrow> Gin_Aborted c' \<and> Gin_Status c' \<in> {401, 503} \<and> Gin_Keys c' = Gin_Keys c"

lemma refused_refuse: "st \<in> {401, 503} \<Longrightarrow> refused c (gin_Abort (respondAuthError st k msg c))"
  by (auto simp: refused_def gin_Abort_def respondAuthError_def gin_JSON_def)

definition agent_live :: "uuid \<Rightarrow> tables \<Rightarrow> bool" where
  "agent_live i T \<longleftrightarrow> (\<exists>r \<in> set (T_agents T). row_is i r \<and> row_live r)"

lemma exists_run:
  "run_state (PostgresDB_TenantExists (Some sys_db) i) w =
     (sys_reply w (Inr (i \<in> set (T_tenants (W_db w)))), called w)"
  "run_state (PostgresDB_AgentExists (Some sys_db) i) w =
     (sys_reply w (Inr (agent_live i (W_db w))), called w)"
  by (simp_all add: PostgresDB_TenantExists_def PostgresDB_AgentExists_def run_sys_queries agent_live_def
      del: sys_reply_Inr split: sum.split)

lemma ValidateToken_world:
  "run_state (AuthService_ValidateToken G sys_rt s token) w = (r, v) \<Longrightarrow> \<exists>n. v = w\<lparr>W_reads := n\<rparr>"
  by (intro exI [of _ "W_reads v"]) (auto simp: AuthService_ValidateToken_def Let_def run_sys_rt split: if_splits option.splits)

text \<open>What a middleware with a database lets through.\<close>

definition identified :: "go_env \<Rightarrow> AuthService \<Rightarrow> gin_ctx \<Rightarrow> world \<Rightarrow> TokenClaims \<Rightarrow> bool" where
  "identified G auth c w claims \<longleftrightarrow>
     (\<exists>token v. Req_GetHeader (Gin_Request c) ''Authorization'' = ''Bearer '' @ token \<and>
        run_state (AuthService_ValidateToken G sys_rt auth token) w = (Inr claims, v)) \<and>
     Claims_TenantID claims \<in> set (T_tenants (W_db w)) \<and>
     (isBootstrapAgentRegistration c \<or> agent_live (Claims_AgentID claims) (W_db w))"

lemma trimmed: "strings_TrimPrefix s p \<noteq> s \<Longrightarrow> s = p @ strings_TrimPrefix s p"
  by (auto simp: strings_TrimPrefix_def strings_HasPrefix_def split: if_splits) (metis append_take_drop_id)

text \<open>A world in which only readings of the clock and calls have been made.\<close>

definition probed :: "world \<Rightarrow> world \<Rightarrow> bool" where
  "probed w v \<longleftrightarrow> (\<exists>n k. v = w\<lparr>W_reads := n, W_calls := k\<rparr>)"

lemma probed_called: "probed w v \<Longrightarrow> probed w (called v)"
  by (fastforce simp: probed_def)

lemma probed_reads: "probed w (w\<lparr>W_reads := n\<rparr>)"
  by (simp add: probed_def, rule exI [of _ n], rule exI [of _ "W_calls w"], simp)

lemma probed_refl: "probed w w"
  using probed_reads [of w "W_reads w"] by simp

lemma probed_db: "probed w v \<Longrightarrow> W_db v = W_db w \<and> W_redis v = W_redis w \<and> W_published v = W_published w \<and> W_faults v = W_faults w"
  by (auto simp: probed_def)

text \<open>The two ways through \<open>Authenticate\<close>.\<close>

definition let_through :: "go_env \<Rightarrow> AuthService option \<Rightarrow> world HandlerFunc \<Rightarrow> gin_ctx \<Rightarrow> world \<Rightarrow> gin_ctx \<times> world \<Rightarrow> bool" where
  "let_through G auth' Next c w out \<longleftrightarrow> (\<exists>auth claims v. auth' = Some auth \<and> identified G auth c w claims \<and> probed w v \<and>
     out = run_state (Next (set_identity G claims c)) v)"

definition turned_away :: "gin_ctx \<Rightarrow> world \<Rightarrow> gin_ctx \<times> world \<Rightarrow> bool" where
  "turned_away c w out \<longleftrightarrow> refused c (fst out) \<and> W_db (snd out) = W_db w \<and> W_redis (snd out) = W_redis w \<and>
     W_published (snd out) = W_published w"

lemma turned_awayI:
  "st \<in> {401, 503} \<Longrightarrow> probed w v \<Longrightarrow> turned_away c w (run_state (refuse sys_rt reason st k msg c) v)"
  by (simp add: turned_away_def refuse_run refused_refuse probed_db)

lemma agent_gate:
  fixes Next :: "world HandlerFunc"
  assumes v: "probed w v" and tenant: "Claims_TenantID claims \<in> set (T_tenants (W_db w))" and auth: "auth' = Some auth"
    and tok: "Req_GetHeader (Gin_Request c) ''Authorization'' = ''Bearer '' @ token"
      "run_state (AuthService_ValidateToken G sys_rt auth token) w = (Inr claims, u)"
  defines "gate \<equiv> (if isBootstrapAgentRegistration c then Next (set_identity G claims c)
      else do {
        a \<leftarrow> PostgresDB_AgentExists (Some sys_db) (Claims_AgentID claims);
        (case a of
           Inl e \<Rightarrow> refuse sys_rt ''agent_lookup_failed'' 503 ''agent_lookup_unavailable'' ''agent lookup unavailable'' c
         | Inr agentExists \<Rightarrow>
             (if \<not> agentExists then refuse sys_rt ''unknown_agent'' 401 ''unknown_agent'' ''unknown agent'' c
              else Next (set_identity G claims c)))
      })"
  shows "let_through G auth' Next c w (run_state gate v) \<or> turned_away c w (run_state gate v)"
proof (cases "isBootstrapAgentRegistration c")
  case True
  then show ?thesis using assms unfolding let_through_def identified_def by auto
next
  case False
  note db = probed_db [OF v] and v' = probed_called [OF v]
  show ?thesis
  proof (cases "sys_reply v (Inr (agent_live (Claims_AgentID claims) (W_db v)))")
    case (Inl e)
    then show ?thesis using False turned_awayI [OF _ v', of 503] by (simp add: gate_def exists_run)
  next
    case (Inr live)
    show ?thesis
    proof (cases live)
      case True
      then have "agent_live (Claims_AgentID claims) (W_db w)" using Inr db by simp
      then have "identified G auth c w claims" using tenant tok unfolding identified_def by blast
      moreover have "run_state gate v = run_state (Next (set_identity G claims c)) (called v)"
        using False Inr True by (simp add: gate_def exists_run del: sys_reply_Inr)
      ultimately show ?thesis using auth v' unfolding let_through_def by blast
    next
      case False
      then show ?thesis using \<open>\<not> isBootstrapAgentRegistration c\<close> Inr turned_awayI [OF _ v', of 401]
        by (simp add: gate_def exists_run del: sys_reply_Inr)
    qed
  qed
qed

lemma authenticate_run:
  fixes requests window
  defines "m auth redis \<equiv> NewMiddleware redis (Some sys_db) auth requests window"
  shows "let_through G auth' Next c w (run_state (Middleware_Authenticate G sys_rt (m auth' redis) Next c) w) \<or>
    turned_away c w (run_state (Middleware_Authenticate G sys_rt (m auth' redis) Next c) w)"
proof -
  let ?h = "Req_GetHeader (Gin_Request c) ''Authorization''"
  let ?t = "strings_TrimPrefix ?h ''Bearer ''"
  have mw: "MW_auth (m a redis) = a" "MW_db (m a redis) = Some sys_db" for a
    by (simp_all add: m_def NewMiddleware_def)
  consider "?h = []" | "?h \<noteq> []" "?t = ?h" | "?h \<noteq> []" "?t \<noteq> ?h" "auth' = None"
    | auth where "?h \<noteq> []" "?t \<noteq> ?h" "auth' = Some auth" by auto
  then show ?thesis
  proof cases
    case 1
    then show ?thesis using turned_awayI [OF _ probed_refl, of 401] by (simp add: Middleware_Authenticate_def Let_def)
  next
    case 2
    then show ?thesis using turned_awayI [OF _ probed_refl, of 401] by (simp add: Middleware_Authenticate_def Let_def)
  next
    case 3
    then show ?thesis using turned_awayI [OF _ probed_refl, of 401] by (simp add: Middleware_Authenticate_def mw Let_def)
  next
    case 4
    obtain r v where rv: "run_state (AuthService_ValidateToken G sys_rt auth ?t) w = (r, v)" by fastforce
    have v: "probed w v" using ValidateToken_world [OF rv] probed_reads by blast
    note db = probed_db [OF v] and v' = probed_called [OF v]
    show ?thesis
    proof (cases r)
      case (Inl e)
      then show ?thesis using 4 rv turned_awayI [OF _ v, of 401] by (simp add: Middleware_Authenticate_def mw Let_def)
    next
      case claims: (Inr claims)
      show ?thesis
      proof (cases "sys_reply v (Inr (Claims_TenantID claims \<in> set (T_tenants (W_db v))))")
        case (Inl e)
        then show ?thesis using 4 rv claims turned_awayI [OF _ v', of 503]
          by (simp add: Middleware_Authenticate_def mw Let_def exists_run)
      next
        case (Inr known)
        show ?thesis
        proof (cases known)
          case True
          then have "Claims_TenantID claims \<in> set (T_tenants (W_db w))" using Inr db by simp
          from agent_gate [OF v' this 4(3) trimmed [OF 4(2)] rv [unfolded claims], of Next] show ?thesis
            using 4 rv claims Inr True by (simp add: Middleware_Authenticate_def mw Let_def exists_run del: sys_reply_Inr)
        next
          case False
          then show ?thesis using 4 rv claims Inr turned_awayI [OF _ v', of 401]
            by (simp add: Middleware_Authenticate_def mw Let_def exists_run del: sys_reply_Inr)
        qed
      qed
    qed
  qed
qed

text \<open>
  C10. The gate: with a database, \<open>Authenticate\<close> either runs the rest of the chain with the
  identity of a token that \<open>ValidateToken\<close> accepts, whose tenant exists and whose agent is
  live (or the request registers an agent); or it answers 401 or 503, aborts, sets no
  identity and changes neither the tables nor Redis.
\<close>
theorem Authenticate_gate:
  "(\<exists>auth claims v. auth' = Some auth \<and> identified G auth c w claims \<and> probed w v \<and>
      run_state (Middleware_Authenticate G sys_rt (NewMiddleware redis (Some sys_db) auth' requests window) Next c) w =
        run_state (Next (set_identity G claims c)) v) \<or>
   (case run_state (Middleware_Authenticate G sys_rt (NewMiddleware redis (Some sys_db) auth' requests window) Next c) w of
      (c', w') \<Rightarrow> Gin_Aborted c' \<and> Gin_Status c' \<in> {401, 503} \<and> Gin_Keys c' = Gin_Keys c \<and>
        W_db w' = W_db w \<and> W_redis w' = W_redis w)"
  using authenticate_run [of G auth' Next c w redis requests window]
  unfolding let_through_def turned_away_def refused_def case_prod_beta by blast

section \<open>Rate limiting\<close>

fun numbered :: "int \<Rightarrow> 'c list \<Rightarrow> ('c \<times> int) list" where
  "numbered n [] = []"
| "numbered n (c # cs) = (c, n) # numbered (n + 1) cs"

text \<open>
  A counter of requests: while it is good, each hit returns one more than the last, up to a
  cap. Its client makes one decision for each request from the number it was given.
\<close>

locale hit_counter =
  fixes hit :: "('w, int result) io"
    and hits :: "'w \<Rightarrow> int"
    and good :: "'w \<Rightarrow> bool"
    and cap :: int
  assumes hit_next: "good w \<Longrightarrow> hits w + 1 < cap \<Longrightarrow>
      \<exists>w'. run_state hit w = (Inr (hits w + 1), w') \<and> hits w' = hits w + 1 \<and> good w'"
begin

lemma decisions:
  assumes "\<And>c w k w'. c \<in> set cs \<Longrightarrow> good w \<Longrightarrow> run_state hit w = (Inr k, w') \<Longrightarrow> good w' \<Longrightarrow>
      \<exists>v. run_state (f c) w = (d c k, v) \<and> good v \<and> hits v = hits w'"
    and "good w" "hits w + int (length cs) < cap"
  shows "fst (run_state (map_io f cs) w) = map (\<lambda>(c, k). d c k) (numbered (hits w + 1) cs)"
  using assms
proof (induction cs arbitrary: w)
  case (Cons c cs)
  obtain w' where w': "run_state hit w = (Inr (hits w + 1), w')" "hits w' = hits w + 1" "good w'"
    using hit_next [OF Cons.prems(2)] Cons.prems(3) by auto
  obtain v where v: "run_state (f c) w = (d c (hits w + 1), v)" "good v" "hits v = hits w + 1"
    using Cons.prems(1) [of c, OF _ Cons.prems(2) w'(1,3)] w'(2) by auto
  have "fst (run_state (map_io f cs) v) = map (\<lambda>(c, k). d c k) (numbered (hits v + 1) cs)"
    using Cons.prems(1,3) v(2,3) by (intro Cons.IH) auto
  then show ?case using v by (auto split: prod.splits)
qed simp

end

text \<open>One rate-limited request at the level of Redis: the clock, then the counter of its slot.\<close>

definition rate_hit :: "string \<Rightarrow> string \<Rightarrow> string \<Rightarrow> int \<Rightarrow> (world, int result) io" where
  "rate_hit tenantID agentID path W = do {
     now \<leftarrow> time_Now sys_rt;
     rate_count sys_redis (rate_key tenantID agentID path (go_quot (time_Unix now) W)) W
   }"

definition counted :: "string \<Rightarrow> world \<Rightarrow> int" where
  "counted k w = (case W_redis w k of Some (RString t, _) \<Rightarrow> (case strconv_Atoi t of Some n \<Rightarrow> n | None \<Rightarrow> 0) | _ \<Rightarrow> 0)"

text \<open>Every reading of the clock falls into slot \<open>s\<close>, every call works, and the key of the
  slot is unused or holds a count that outlives the slot.\<close>

definition slot_good :: "string \<Rightarrow> int \<Rightarrow> int \<Rightarrow> world \<Rightarrow> bool" where
  "slot_good k W s w \<longleftrightarrow> 0 < W \<and> W < 2 ^ 33 \<and> 0 \<le> s \<and> (\<forall>n. W_faults w n = Works) \<and>
     (\<forall>n. s * W \<le> time_Unix (W_clock w n) \<and> time_Unix (W_clock w n) < (s + 1) * W) \<and>
     (W_redis w k = None \<or>
      (\<exists>c d. W_redis w k = Some (RString (strconv_Itoa c), Some d) \<and> 0 < c \<and> c < 2 ^ 62 \<and>
         unix_epoch + (s + 1) * W * Second \<le> d))"

lemma slot_of:
  assumes "slot_good k W s w"
  shows "go_quot (time_Unix (W_clock w n)) W = s" "W_clock w n < unix_epoch + (s + 1) * W * Second"
    "unix_epoch + s * W * Second \<le> W_clock w n"
proof -
  have W: "0 < W" "0 \<le> s" and t: "s * W \<le> time_Unix (W_clock w n)" "time_Unix (W_clock w n) < (s + 1) * W"
    using assms by (auto simp: slot_good_def)
  have "(s * W + (time_Unix (W_clock w n) - s * W)) div W = s + (time_Unix (W_clock w n) - s * W) div W"
    using W by (intro div_mult_self3) simp
  also have "(time_Unix (W_clock w n) - s * W) div W = 0"
    using t by (intro div_pos_pos_trivial) (simp_all add: algebra_simps)
  finally have "time_Unix (W_clock w n) div W = s" by simp
  then show "go_quot (time_Unix (W_clock w n)) W = s"
    using W t by (simp add: go_quot_pos mult_nonneg_nonneg order_trans [OF _ t(1)])
  let ?q = "(W_clock w n - unix_epoch) div Second"
  have S: "(0::int) < Second" by (simp add: Second_def)
  have "W_clock w n - unix_epoch < (?q + 1) * Second" "?q * Second \<le> W_clock w n - unix_epoch"
    by (simp_all add: Second_def)
  moreover have "?q + 1 \<le> (s + 1) * W" "s * W \<le> ?q" using t by (simp_all add: time_Unix_def)
  ultimately show "W_clock w n < unix_epoch + (s + 1) * W * Second" "unix_epoch + s * W * Second \<le> W_clock w n"
    using mult_right_mono [of "?q + 1" "(s + 1) * W" Second] mult_right_mono [of "s * W" ?q Second] S by linarith+
qed

lemma rate_hit_next:
  assumes good: "slot_good (rate_key t a p s) W s w" and cap: "counted (rate_key t a p s) w + 1 < 2 ^ 62"
  shows "\<exists>w'. run_state (rate_hit t a p W) w = (Inr (counted (rate_key t a p s) w + 1), w') \<and>
    counted (rate_key t a p s) w' = counted (rate_key t a p s) w + 1 \<and> slot_good (rate_key t a p s) W s w' \<and>
    W_db w' = W_db w"
proof -
  let ?k = "rate_key t a p s"
  let ?w1 = "w\<lparr>W_reads := Suc (W_reads w)\<rparr>"
  let ?w2 = "w\<lparr>W_reads := Suc (W_reads w), W_calls := Suc (W_calls w)\<rparr>"
  let ?now = "W_clock w (Suc (W_reads w))"
  have W: "0 < W" "W < 2 ^ 33" and works: "\<And>n. W_faults w n = Works" using good by (auto simp: slot_good_def)
  have slot: "go_quot (time_Unix (W_clock w (W_reads w))) W = s" by (rule slot_of(1) [OF good])
  have now: "?now < unix_epoch + (s + 1) * W * Second" "unix_epoch + s * W * Second \<le> ?now"
    using slot_of(2,3) [OF good] by blast+
  have wr: "wrap64 (W * Second) = W * Second" using W by (intro wrap64_id) (simp_all add: Second_def)
  show ?thesis
  proof (cases "W_redis w ?k")
    case None
    let ?s1 = "(W_redis w)(?k := Some (RString (strconv_Itoa 1), None))"
    let ?s2 = "(W_redis w)(?k := Some (RString (strconv_Itoa 1), Some (?now + W * Second)))"
    have incr: "st_Incr ?now ?k (W_redis w) = (Inr 1, ?s1)"
      by (simp add: st_Incr_def lookup_def None put_value_def deadline_def)
    have expire: "st_Expire ?now ?k (W * Second) ?s1 = (Inr (), ?s2)"
      using W by (simp add: st_Expire_def lookup_def Second_def)
    have count: "counted ?k w = 0" by (simp add: counted_def None)
    have run: "run_state (rate_hit t a p W) w = (Inr 1, w\<lparr>W_reads := Suc (W_reads w), W_calls := Suc (Suc (W_calls w)), W_redis := ?s2\<rparr>)"
      by (simp add: rate_hit_def run_sys_rt slot rate_count_def RedisClient_Incr_def RedisClient_Expire_def run_sys_redis
          sys_reply_def sys_done_def works wr w_now_def incr expire)
    have "unix_epoch + (s + 1) * W * Second \<le> ?now + W * Second" using now(2) by (simp add: algebra_simps)
    then show ?thesis using run count good
      by (intro exI [of _ "w\<lparr>W_reads := Suc (W_reads w), W_calls := Suc (Suc (W_calls w)), W_redis := ?s2\<rparr>"])
        (auto simp: counted_def slot_good_def strconv_Atoi_Itoa)
  next
    case (Some x)
    then obtain c d where c: "W_redis w ?k = Some (RString (strconv_Itoa c), Some d)" "0 < c" "c < 2 ^ 62"
        "unix_epoch + (s + 1) * W * Second \<le> d"
      using good by (auto simp: slot_good_def)
    have at: "strconv_Atoi (strconv_Itoa c) = Some c" "strconv_Atoi (strconv_Itoa (c + 1)) = Some (c + 1)"
      using c(2,3) by (simp_all add: strconv_Atoi_Itoa)
    have live: "?now < d" using now(1) c(4) by simp
    let ?s1 = "(W_redis w)(?k := Some (RString (strconv_Itoa (c + 1)), Some d))"
    have incr: "st_Incr ?now ?k (W_redis w) = (Inr (c + 1), ?s1)"
      using c(3) live by (simp add: st_Incr_def lookup_def c(1) at put_value_def deadline_def)
    have count: "counted ?k w = c" by (simp add: counted_def c(1) at)
    have run: "run_state (rate_hit t a p W) w = (Inr (c + 1), w\<lparr>W_reads := Suc (W_reads w), W_calls := Suc (W_calls w), W_redis := ?s1\<rparr>)"
      using c(2)
      by (simp add: rate_hit_def run_sys_rt slot rate_count_def RedisClient_Incr_def run_sys_redis
          sys_reply_def sys_done_def works w_now_def incr)
    then show ?thesis using count good c cap at
      by (intro exI [of _ "w\<lparr>W_reads := Suc (W_reads w), W_calls := Suc (W_calls w), W_redis := ?s1\<rparr>"])
        (auto simp: counted_def slot_good_def)
  qed
qed

interpretation rate: hit_counter "rate_hit t a p W" "counted (rate_key t a p s)" "slot_good (rate_key t a p s) W s" "2 ^ 62"
  for t a p W s
  by unfold_locales (use rate_hit_next in blast)

text \<open>One request through \<open>RateLimit\<close>, and whether it was refused.\<close>

definition rate_limited :: "gin_ctx \<Rightarrow> bool" where
  "rate_limited c \<longleftrightarrow> Gin_Aborted c \<and> Gin_Status c = 429"

definition limit_request :: "world Middleware \<Rightarrow> gin_ctx \<Rightarrow> (world, bool) io" where
  "limit_request m c = do { c' \<leftarrow> Middleware_RateLimit sys_rt m ret c; ret (rate_limited c') }"

definition request_of :: "string \<Rightarrow> string \<Rightarrow> string \<Rightarrow> gin_ctx \<Rightarrow> bool" where
  "request_of t a p c \<longleftrightarrow> Gin_Keys c ''tenant_id'' = t \<and> Gin_Keys c ''agent_id'' = a \<and>
     Req_FullPath (Gin_Request c) = p \<and> \<not> Gin_Aborted c"

lemma slot_good_metrics [simp]:
  "slot_good k W s (w\<lparr>W_metrics := ms\<rparr>) = slot_good k W s w" "counted k (w\<lparr>W_metrics := ms\<rparr>) = counted k w"
  by (simp_all add: slot_good_def counted_def)

lemma limit_request_run:
  assumes "request_of t a p c" "t \<noteq> []" "a \<noteq> []" "MW_redis m = Some sys_redis" "rate_window m = W"
    and hit: "run_state (rate_hit t a p W) w = (Inr k, w')"
  shows "\<exists>ms. run_state (limit_request m c) w = (k > MW_rateLimitRequests m, w'\<lparr>W_metrics := ms\<rparr>)"
proof -
  let ?now = "w_now w" and ?w1 = "w\<lparr>W_reads := Suc (W_reads w)\<rparr>"
  have "run_state (rate_count sys_redis (rate_key t a p (go_quot (time_Unix ?now) W)) W) ?w1 = (Inr k, w')"
    using hit by (simp add: rate_hit_def run_sys_rt)
  then show ?thesis
    using assms(1-5)
    by (intro exI [of _ "if k > MW_rateLimitRequests m
          then W_metrics w' @ [Counted ''agentmsg_rate_limit_exceeded_total'' [p]] else W_metrics w'"])
      (auto simp: limit_request_def Middleware_RateLimit_def request_of_def run_sys_rt rate_limited_def
        RecordRateLimitExceeded_def gin_Header_def gin_Abort_def gin_JSON_def Let_def)
qed

lemma numbered_decide: "map (\<lambda>(c, k). L < k) (numbered n cs) =
    replicate (min (length cs) (nat (L + 1 - n))) False @ replicate (length cs - nat (L + 1 - n)) True"
proof (induction n cs rule: numbered.induct)
  case (2 n c cs)
  show ?case
  proof (cases "L < n")
    case False
    then have "nat (L + 1 - n) = Suc (nat (L + 1 - (n + 1)))" by simp
    then show ?thesis using 2 False by simp
  qed (use 2 in simp)
qed simp

text \<open>
  C13. The rate limit is exact: of the requests one agent of one tenant makes to one route
  within a window, while Redis answers, the first \<open>rateLimitRequests\<close> pass and every later
  one is refused with 429 and aborted.
\<close>
theorem RateLimit_exact:
  assumes "\<forall>c \<in> set cs. request_of t a p c" "t \<noteq> []" "a \<noteq> []" "MW_redis m = Some sys_redis"
    and "slot_good (rate_key t a p s) (rate_window m) s w" "W_redis w (rate_key t a p s) = None"
    and "int (length cs) < 2 ^ 62" "0 < MW_rateLimitRequests m"
  shows "fst (run_state (map_io (limit_request m) cs) w) =
    replicate (min (length cs) (nat (MW_rateLimitRequests m))) False @
    replicate (length cs - nat (MW_rateLimitRequests m)) True"
proof -
  let ?W = "rate_window m" and ?L = "MW_rateLimitRequests m"
  have zero: "counted (rate_key t a p s) w = 0" using assms(6) by (simp add: counted_def)
  have "\<exists>v. run_state (limit_request m c) u = (?L < k, v) \<and> slot_good (rate_key t a p s) ?W s v \<and>
      counted (rate_key t a p s) v = counted (rate_key t a p s) u'"
    if "c \<in> set cs" "run_state (rate_hit t a p ?W) u = (Inr k, u')" "slot_good (rate_key t a p s) ?W s u'" for c u k u'
    using limit_request_run [OF _ assms(2,3,4) refl that(2)] that(1,3) assms(1) by fastforce
  from rate.decisions [where t = t and a = a and p = p and W = ?W and s = s and cs = cs and f = "limit_request m"
      and d = "\<lambda>c k. ?L < k", OF this assms(5)] zero assms(7)
  show ?thesis by (simp add: numbered_decide)
qed

definition sample_request :: gin_request where
  "sample_request = \<lparr>Req_Method = ''POST'', Req_URLPath = ''/api/v1/messages'', Req_FullPath = ''/api/v1/messages'',
     Req_GetHeader = (\<lambda>_. []), Req_Param = (\<lambda>_. []), Req_BindQuery = Inl ErrInvalidMessage, Req_Body = [],
     Req_ClientIP = ''10.0.0.1'', Req_UserAgent = ''curl''\<rparr>"

definition sample_ctx :: gin_ctx where
  "sample_ctx = gin_Set ''tenant_id'' ''T'' (gin_Set ''agent_id'' ''A'' (gin_new sample_request))"

definition sample_limits :: "world Middleware" where
  "sample_limits = NewMiddleware (Some sys_redis) None None 2 0"

lemma RateLimit_exact_witness:
  "fst (run_state (map_io (limit_request sample_limits) [sample_ctx, sample_ctx, sample_ctx])
     (sample_world\<lparr>W_clock := \<lambda>_. unix_epoch\<rparr>)) = [False, False, True]"
proof -
  let ?w = "sample_world\<lparr>W_clock := \<lambda>_. unix_epoch\<rparr>"
  have m: "MW_redis sample_limits = Some sys_redis" "MW_rateLimitRequests sample_limits = 2" "rate_window sample_limits = 60"
    by (simp_all add: sample_limits_def NewMiddleware_def rate_window_def whole_seconds_def go_quot_pos duration_units)
  have "request_of ''T'' ''A'' ''/api/v1/messages'' sample_ctx"
    by (simp add: request_of_def sample_ctx_def gin_Set_def gin_new_def sample_request_def)
  moreover have "slot_good (rate_key ''T'' ''A'' ''/api/v1/messages'' 0) (rate_window sample_limits) 0 ?w"
    by (simp add: slot_good_def m time_Unix_def)
  ultimately have "fst (run_state (map_io (limit_request sample_limits) [sample_ctx, sample_ctx, sample_ctx]) ?w) =
      replicate (min (length [sample_ctx, sample_ctx, sample_ctx]) (nat (MW_rateLimitRequests sample_limits))) False @
      replicate (length [sample_ctx, sample_ctx, sample_ctx] - nat (MW_rateLimitRequests sample_limits)) True"
    by (intro RateLimit_exact) (simp_all add: m)
  then show ?thesis by (simp add: m eval_nat_numeral)
qed

section \<open>Audit\<close>

lemma resolve_run:
  assumes "\<And>u w. run_state (exists u) w = (sys_reply w (Inr (u \<in> S (W_db w))), called w)"
    and "run_state (resolveAuditReference G c md ck mk exists) w = ((md', r), w')"
  shows "probed w w' \<and> (\<forall>u. r = Some u \<longrightarrow> u \<in> S (W_db w))"
proof (cases "Gin_Keys c ck = [] \<or> uuid_Parse G (Gin_Keys c ck) = None")
  case True
  then show ?thesis using assms(2) by (auto simp: resolveAuditReference_def Let_def probed_refl split: if_splits)
next
  case False
  then obtain u where u: "Gin_Keys c ck \<noteq> []" "uuid_Parse G (Gin_Keys c ck) = Some u" by auto
  show ?thesis
  proof (cases "sys_reply w (Inr (u \<in> S (W_db w)))")
    case (Inl e)
    then show ?thesis using assms u by (auto simp: resolveAuditReference_def Let_def probed_called [OF probed_refl, simplified])
  next
    case (Inr b)
    then have works: "W_faults w (W_calls w) = Works" by simp
    show ?thesis using assms u works
      by (auto simp: resolveAuditReference_def Let_def sys_reply_works [OF works] probed_called [OF probed_refl, simplified] split: if_splits)
  qed
qed

lemma probed_trans: "probed u v \<Longrightarrow> probed v w \<Longrightarrow> probed u w"
  by (fastforce simp: probed_def)



end
