(* ===== verification/Handlers.thy ===== *)
theory Handlers
  imports Agent_Service Message_Service Middleware
begin

text \<open>
  The HTTP handlers of \<open>internal/api/handler.go\<close> and \<open>internal/api/handler_batch.go\<close>, the
  decoding of their request bodies from the structs' field tags, and the route table of
  \<open>setupRoutes\<close> with the middleware chain in front of it. \<open>ShouldBindJSON\<close> reads the first
  JSON value of the body; the texts of decoding errors are not modelled.
\<close>

section \<open>Request bodies\<close>

definition first_json :: "bytes \<Rightarrow> json option" where
  "first_json s = map_option fst (p_value (2 * length s + 2) max_nesting s)"

definition ShouldBindJSON :: "(string \<times> (json \<Rightarrow> 'r \<Rightarrow> 'r option)) list \<Rightarrow> 'r \<Rightarrow> gin_ctx \<Rightarrow> 'r result" where
  "ShouldBindJSON fs zero c = (case first_json (Req_Body (Gin_Request c)) of
     None \<Rightarrow> Inl decode_error
   | Some j \<Rightarrow> (case dec_struct fs j zero of None \<Rightarrow> Inl decode_error | Some r \<Rightarrow> Inr r))"

definition zero_CapabilityParams :: CapabilityParams where
  "zero_CapabilityParams = \<lparr>Params_InputFormat = [], Params_OutputFormat = [], Params_MaxDurationMs = 0, Params_MaxTokens = 0\<rparr>"

definition CapabilityParams_fields :: "(string \<times> (json \<Rightarrow> CapabilityParams \<Rightarrow> CapabilityParams option)) list" where
  "CapabilityParams_fields =
   [(''inputFormat'', field Params_InputFormat Params_InputFormat_update dec_string),
    (''outputFormat'', field Params_OutputFormat Params_OutputFormat_update dec_string),
    (''maxDurationMs'', field Params_MaxDurationMs Params_MaxDurationMs_update dec_int),
    (''maxTokens'', field Params_MaxTokens Params_MaxTokens_update dec_int)]"

definition zero_CapabilityConstraints :: CapabilityConstraints where
  "zero_CapabilityConstraints = \<lparr>Constraints_RateLimit = 0, Constraints_CostPerCall = zero_float, Constraints_Quota = 0,
     Constraints_QuotaUsed = 0\<rparr>"

definition CapabilityConstraints_fields ::
    "go_env \<Rightarrow> (string \<times> (json \<Rightarrow> CapabilityConstraints \<Rightarrow> CapabilityConstraints option)) list" where
  "CapabilityConstraints_fields G =
   [(''rateLimit'', field Constraints_RateLimit Constraints_RateLimit_update dec_int),
    (''costPerCall'', field Constraints_CostPerCall Constraints_CostPerCall_update (dec_float G)),
    (''quota'', field Constraints_Quota Constraints_Quota_update dec_int),
    (''quotaUsed'', field Constraints_QuotaUsed Constraints_QuotaUsed_update dec_int)]"

definition zero_CapabilityQuality :: CapabilityQuality where
  "zero_CapabilityQuality = \<lparr>Quality_SuccessRate = zero_float, Quality_AvgLatencyMs = 0, Quality_Rating = zero_float\<rparr>"

definition CapabilityQuality_fields ::
    "go_env \<Rightarrow> (string \<times> (json \<Rightarrow> CapabilityQuality \<Rightarrow> CapabilityQuality option)) list" where
  "CapabilityQuality_fields G =
   [(''successRate'', field Quality_SuccessRate Quality_SuccessRate_update (dec_float G)),
    (''avgLatencyMs'', field Quality_AvgLatencyMs Quality_AvgLatencyMs_update dec_int),
    (''rating'', field Quality_Rating Quality_Rating_update (dec_float G))]"

definition zero_Capability :: Capability where
  "zero_Capability = \<lparr>Capability_Type = [], Capability_Description = [], Capability_Examples = None,
     Capability_Parameters = None, Capability_Constraints = None, Capability_Quality = None\<rparr>"

definition Capability_fields :: "go_env \<Rightarrow> (string \<times> (json \<Rightarrow> Capability \<Rightarrow> Capability option)) list" where
  "Capability_fields G =
   [(''type'', field Capability_Type Capability_Type_update dec_string),
    (''description'', field Capability_Description Capability_Description_update dec_string),
    (''examples'', field Capability_Examples Capability_Examples_update (dec_slice dec_string [])),
    (''parameters'', field Capability_Parameters Capability_Parameters_update
       (dec_ptr (dec_struct CapabilityParams_fields) zero_CapabilityParams)),
    (''constraints'', field Capability_Constraints Capability_Constraints_update
       (dec_ptr (dec_struct (CapabilityConstraints_fields G)) zero_CapabilityConstraints)),
    (''quality'', field Capability_Quality Capability_Quality_update
       (dec_ptr (dec_struct (CapabilityQuality_fields G)) zero_CapabilityQuality))]"

definition dec_capabilities :: "go_env \<Rightarrow> json \<Rightarrow> Capability slice \<Rightarrow> Capability slice option" where
  "dec_capabilities G = dec_slice (dec_struct (Capability_fields G)) zero_Capability"

section \<open>Agents\<close>

record 'w Dependencies =
  Deps_AgentService :: "'w AgentService option"
  Deps_MessageService :: "'w MessageService option"
  Deps_Database :: "'w sqlx option"
  Deps_Redis :: "'w goredis option"
  Deps_Middleware :: "'w Middleware"

definition Server_healthCheck :: "'w HandlerFunc" where
  "Server_healthCheck c = ret (gin_JSON 200 (Body_Map [(''status'', H_Str ''healthy'')]) c)"

text \<open>The first failing check is reported and the later ones are not made.\<close>

definition not_ready :: "(string \<times> gin_value) list \<Rightarrow> gin_ctx \<Rightarrow> gin_ctx" where
  "not_ready checks c = gin_JSON 503 (Body_Map [(''checks'', H_Map checks), (''status'', H_Str ''not_ready'')]) c"

definition Server_readinessCheck :: "'w Dependencies \<Rightarrow> 'w HandlerFunc" where
  "Server_readinessCheck deps c = (case Deps_Database deps of
     None \<Rightarrow> ret (not_ready [(''database'', H_Str ''unconfigured'')] c)
   | Some db \<Rightarrow> do {
       p \<leftarrow> PostgresDB_Ping (Some db);
       (case p of
          Inl e \<Rightarrow> ret (not_ready [(''database'', H_Str (err_Error e))] c)
        | Inr _ \<Rightarrow> (case Deps_Redis deps of
            None \<Rightarrow> ret (not_ready [(''database'', H_Str ''ok''), (''redis'', H_Str ''unconfigured'')] c)
          | Some redis \<Rightarrow> do {
              q \<leftarrow> RedisClient_Ping (Some redis);
              (case q of
                 Inl e \<Rightarrow> ret (not_ready [(''database'', H_Str ''ok''), (''redis'', H_Str (err_Error e))] c)
               | Inr _ \<Rightarrow> ret (gin_JSON 200 (Body_Map
                   [(''checks'', H_Map [(''database'', H_Str ''ok''), (''redis'', H_Str ''ok'')]), (''status'', H_Str ''ready'')]) c))
            }))
     })"

record AgentRequest =
  AR_DID :: string
  AR_PublicKey :: string
  AR_Name :: string
  AR_Version :: string
  AR_Provider :: string
  AR_Capabilities :: "Capability slice"

definition zero_AgentRequest :: AgentRequest where
  "zero_AgentRequest = \<lparr>AR_DID = [], AR_PublicKey = [], AR_Name = [], AR_Version = [], AR_Provider = [], AR_Capabilities = None\<rparr>"

definition AgentRequest_fields :: "go_env \<Rightarrow> (string \<times> (json \<Rightarrow> AgentRequest \<Rightarrow> AgentRequest option)) list" where
  "AgentRequest_fields G =
   [(''did'', field AR_DID AR_DID_update dec_string), (''publicKey'', field AR_PublicKey AR_PublicKey_update dec_string),
    (''name'', field AR_Name AR_Name_update dec_string), (''version'', field AR_Version AR_Version_update dec_string),
    (''provider'', field AR_Provider AR_Provider_update dec_string),
    (''capabilities'', field AR_Capabilities AR_Capabilities_update (dec_capabilities G))]"

text \<open>\<open>if err != nil { respondError(400, invalid_request); return }\<close>.\<close>

definition bound :: "'r result \<Rightarrow> gin_ctx \<Rightarrow> gin_ctx + 'r" where
  "bound r c = (case r of Inl e \<Rightarrow> Inl (respondError 400 ''invalid_request'' (err_Error e) c) | Inr x \<Rightarrow> Inr x)"

text \<open>\<open>if err != nil { respondServiceError(c, err, code); return }\<close>.\<close>

definition service_reply :: "'a result \<Rightarrow> string \<Rightarrow> ('a \<Rightarrow> gin_ctx \<Rightarrow> gin_ctx) \<Rightarrow> gin_ctx \<Rightarrow> gin_ctx" where
  "service_reply r notFoundCode ok c = (case r of Inl e \<Rightarrow> respondServiceError e notFoundCode c | Inr x \<Rightarrow> ok x c)"

definition Server_createAgent :: "go_env \<Rightarrow> 'w runtime \<Rightarrow> 'w Dependencies \<Rightarrow> 'w HandlerFunc" where
  "Server_createAgent G R deps c =
     or_return (bound (ShouldBindJSON (AgentRequest_fields G) zero_AgentRequest c) c) (\<lambda>req.
     or_return (contextUUID G c ''tenant_id'') (\<lambda>tenantID. do {
       let agent = zero_Agent\<lparr>Agent_TenantID := tenantID, Agent_DID := AR_DID req, Agent_PublicKey := AR_PublicKey req,
         Agent_Name := AR_Name req, Agent_Version := AR_Version req, Agent_Provider := AR_Provider req,
         Agent_Capabilities := AR_Capabilities req\<rparr>;
       (agent', r) \<leftarrow> AgentService_Register G R (Deps_AgentService deps) (Some agent);
       ret (service_reply r ''agent_not_found''
         (\<lambda>_. gin_JSON 201 (case agent' of Some a \<Rightarrow> Body_Agent a | None \<Rightarrow> No_Body)) c)
     }))"

definition Server_getAgent :: "go_env \<Rightarrow> 'w Dependencies \<Rightarrow> 'w HandlerFunc" where
  "Server_getAgent G deps c =
     or_return (parseUUIDParam G c ''id'') (\<lambda>i.
     or_return (contextUUID G c ''tenant_id'') (\<lambda>tenantID. do {
       r \<leftarrow> AgentService_GetByIDForTenant (Deps_AgentService deps) tenantID i;
       ret (service_reply r ''agent_not_found'' (\<lambda>agent. gin_JSON 200 (Body_Agent agent)) c)
     }))"

definition Server_listAgents :: "go_env \<Rightarrow> 'w Dependencies \<Rightarrow> 'w HandlerFunc" where
  "Server_listAgents G deps c =
     or_return (contextUUID G c ''tenant_id'') (\<lambda>tenantID. do {
       r \<leftarrow> AgentService_ListByTenant (Deps_AgentService deps) tenantID;
       ret (service_reply r ''agent_not_found'' (\<lambda>agents. gin_JSON 200 (Body_Agents agents)) c)
     })"

definition Server_updateAgent :: "go_env \<Rightarrow> 'w runtime \<Rightarrow> 'w Dependencies \<Rightarrow> 'w HandlerFunc" where
  "Server_updateAgent G R deps c =
     or_return (parseUUIDParam G c ''id'') (\<lambda>i.
     or_return (bound (ShouldBindJSON (AgentRequest_fields G) zero_AgentRequest c) c) (\<lambda>req.
     or_return (contextUUID G c ''tenant_id'') (\<lambda>tenantID. do {
       g \<leftarrow> AgentService_GetByIDForTenant (Deps_AgentService deps) tenantID i;
       (case g of
          Inl e \<Rightarrow> ret (respondServiceError e ''agent_not_found'' c)
        | Inr agent \<Rightarrow> do {
            let agent = agent\<lparr>Agent_Name := AR_Name req, Agent_Version := AR_Version req,
              Agent_Capabilities := AR_Capabilities req\<rparr>;
            (agent', r) \<leftarrow> AgentService_UpdateForTenant R (Deps_AgentService deps) tenantID (Some agent);
            ret (service_reply r ''agent_not_found''
              (\<lambda>_. gin_JSON 200 (case agent' of Some a \<Rightarrow> Body_Agent a | None \<Rightarrow> No_Body)) c)
          })
     })))"

definition Server_deleteAgent :: "go_env \<Rightarrow> 'w Dependencies \<Rightarrow> 'w HandlerFunc" where
  "Server_deleteAgent G deps c =
     or_return (parseUUIDParam G c ''id'') (\<lambda>i.
     or_return (contextUUID G c ''tenant_id'') (\<lambda>tenantID. do {
       r \<leftarrow> AgentService_DeleteForTenant (Deps_AgentService deps) tenantID i;
       ret (service_reply r ''agent_not_found'' (\<lambda>_. gin_JSON 204 No_Body) c)
     }))"

definition Server_heartbeat :: "go_env \<Rightarrow> 'w Dependencies \<Rightarrow> 'w HandlerFunc" where
  "Server_heartbeat G deps c =
     or_return (parseUUIDParam G c ''id'') (\<lambda>i.
     or_return (contextUUID G c ''tenant_id'') (\<lambda>tenantID. do {
       r \<leftarrow> AgentService_HeartbeatForTenant (Deps_AgentService deps) tenantID i;
       ret (service_reply r ''agent_not_found'' (\<lambda>_. gin_JSON 200 (Body_Map [(''status'', H_Str ''ok'')])) c)
     }))"

section \<open>Messages\<close>

text \<open>A value of type \<open>interface{}\<close> as \<open>serializeContent\<close> tells it apart; nil is \<open>None\<close>.\<close>

datatype go_content = Content_String string | Content_Bytes bytes | Content_Other json

record MessageRequest =
  MR_MessageType :: MessageType
  MR_Recipients :: "uuid slice"
  MR_Content :: "go_content option"
  MR_Metadata :: "(string \<times> json) list"
  MR_DeliveryGuarantee :: DeliveryGuarantee
  MR_TaskContext :: "TaskContext option"

definition zero_MessageRequest :: MessageRequest where
  "zero_MessageRequest = \<lparr>MR_MessageType = [], MR_Recipients = None, MR_Content = None, MR_Metadata = [],
     MR_DeliveryGuarantee = [], MR_TaskContext = None\<rparr>"

definition dec_content :: "go_env \<Rightarrow> json \<Rightarrow> go_content option \<Rightarrow> go_content option option" where
  "dec_content G j cur = (case j of
     JNull \<Rightarrow> Some None
   | JStr s \<Rightarrow> Some (Some (Content_String s))
   | _ \<Rightarrow> map_option (\<lambda>v. Some (Content_Other v)) (any_of_json G j))"

definition MessageRequest_fields :: "go_env \<Rightarrow> (string \<times> (json \<Rightarrow> MessageRequest \<Rightarrow> MessageRequest option)) list" where
  "MessageRequest_fields G =
   [(''messageType'', field MR_MessageType MR_MessageType_update dec_string),
    (''recipients'', field MR_Recipients MR_Recipients_update (dec_slice (dec_uuid G) uuid_Nil)),
    (''content'', field MR_Content MR_Content_update (dec_content G)),
    (''metadata'', field MR_Metadata MR_Metadata_update (dec_map (any_of_json G))),
    (''deliveryGuarantee'', field MR_DeliveryGuarantee MR_DeliveryGuarantee_update dec_string),
    (''taskContext'', field MR_TaskContext MR_TaskContext_update (dec_ptr (TaskContext_of_json G) zero_TaskContext))]"

definition serializeContent :: "go_content option \<Rightarrow> (char slice \<times> string) result" where
  "serializeContent content = (case content of
     None \<Rightarrow> Inl (OtherError ''content is required'')
   | Some (Content_String s) \<Rightarrow> Inr (Some s, ''text/plain; charset=utf-8'')
   | Some (Content_Bytes bs) \<Rightarrow> Inr (Some bs, ''application/octet-stream'')
   | Some (Content_Other j) \<Rightarrow> Inr (Some (json_text j), ''application/json''))"

definition buildMessageFromRequest ::
    "'w runtime \<Rightarrow> uuid \<Rightarrow> uuid \<Rightarrow> string \<Rightarrow> MessageRequest \<Rightarrow> ('w, Message result) io" where
  "buildMessageFromRequest R senderID tenantID traceID req = (case serializeContent (MR_Content req) of
     Inl e \<Rightarrow> ret (Inl e)
   | Inr (content, contentType) \<Rightarrow> do {
       let deliveryGuarantee = (if MR_DeliveryGuarantee req = [] then DeliveryAtLeastOnce else MR_DeliveryGuarantee req);
       conversation \<leftarrow> uuid_New R;
       ret (Inr (zero_Message\<lparr>Message_ConversationID := conversation, Message_MessageType := MR_MessageType req,
         Message_SenderID := senderID, Message_RecipientIDs := MR_Recipients req, Message_Content := content,
         Message_ContentSize := int (length (elems content)), Message_ContentType := contentType,
         Message_DeliveryGuarantee := deliveryGuarantee,
         Message_Metadata := zero_MessageMetadata\<lparr>Meta_Custom := MR_Metadata req\<rparr>,
         Message_TaskContext := MR_TaskContext req, Message_TraceID := traceID, Message_TenantID := tenantID\<rparr>))
     })"

definition Server_sendMessage :: "go_env \<Rightarrow> 'w runtime \<Rightarrow> 'w Dependencies \<Rightarrow> 'w HandlerFunc" where
  "Server_sendMessage G R deps c =
     or_return (bound (ShouldBindJSON (MessageRequest_fields G) zero_MessageRequest c) c) (\<lambda>req.
     or_return (contextUUID G c ''agent_id'') (\<lambda>senderID.
     or_return (contextUUID G c ''tenant_id'') (\<lambda>tenantID. do {
       b \<leftarrow> buildMessageFromRequest R senderID tenantID (Gin_Keys c ''trace_id'') req;
       or_return (bound b c) (\<lambda>msg. do {
         (msg', r) \<leftarrow> MessageService_Send G R (Deps_MessageService deps) (Some msg);
         ret (service_reply r ''message_not_found'' (\<lambda>res. gin_JSON 201 (Body_SendResult res)) c)
       })
     })))"

definition Server_getMessage :: "go_env \<Rightarrow> 'w Dependencies \<Rightarrow> 'w HandlerFunc" where
  "Server_getMessage G deps c =
     or_return (parseUUIDParam G c ''id'') (\<lambda>i.
     or_return (contextUUID G c ''tenant_id'') (\<lambda>tenantID. do {
       r \<leftarrow> MessageService_GetByIDForTenant G (Deps_MessageService deps) tenantID i;
       ret (service_reply r ''message_not_found'' (\<lambda>msg. gin_JSON 200 (Body_Message msg)) c)
     }))"

record AckRequest =
  AckReq_Status :: string
  AckReq_Details :: string
  AckReq_Nonce :: string
  AckReq_Signature :: string

definition zero_AckRequest :: AckRequest where
  "zero_AckRequest = \<lparr>AckReq_Status = [], AckReq_Details = [], AckReq_Nonce = [], AckReq_Signature = []\<rparr>"

definition AckRequest_fields :: "(string \<times> (json \<Rightarrow> AckRequest \<Rightarrow> AckRequest option)) list" where
  "AckRequest_fields =
   [(''status'', field AckReq_Status AckReq_Status_update dec_string),
    (''details'', field AckReq_Details AckReq_Details_update dec_string),
    (''nonce'', field AckReq_Nonce AckReq_Nonce_update dec_string),
    (''signature'', field AckReq_Signature AckReq_Signature_update dec_string)]"

definition serviceMessageStatusForAck :: "AckStatus \<Rightarrow> MessageStatus" where
  "serviceMessageStatusForAck status =
     (if status = AckStatusReceived then MessageStatusDelivered
      else if status = AckStatusProcessed then MessageStatusProcessed
      else if status = AckStatusRejected \<or> status = AckStatusFailed then MessageStatusFailed
      else MessageStatusPending)"

definition zero_Acknowledgement :: Acknowledgement where
  "zero_Acknowledgement = \<lparr>Ack_ID = uuid_Nil, Ack_MessageID = uuid_Nil, Ack_AgentID = uuid_Nil, Ack_Status = [], Ack_Details = [],
     Ack_ProcessedAt = None, Ack_Nonce = [], Ack_Signature = [], Ack_CreatedAt = 0\<rparr>"

definition acknowledged_body :: "Acknowledgement \<Rightarrow> gin_body" where
  "acknowledged_body ack = Body_Map
     [(''ackStatus'', H_Str (Ack_Status ack)), (''messageStatus'', H_Str (serviceMessageStatusForAck (Ack_Status ack))),
      (''nonce'', H_Str (Ack_Nonce ack)), (''status'', H_Str ''acknowledged'')]"

definition Server_acknowledgeMessage :: "go_env \<Rightarrow> 'w runtime \<Rightarrow> 'w Dependencies \<Rightarrow> 'w HandlerFunc" where
  "Server_acknowledgeMessage G R deps c =
     or_return (parseUUIDParam G c ''id'') (\<lambda>i.
     or_return (bound (ShouldBindJSON AckRequest_fields zero_AckRequest c) c) (\<lambda>req.
     if AckReq_Status req = [] then ret (respondError 400 ''invalid_request'' ''status is required'' c)
     else
     or_return (contextUUID G c ''agent_id'') (\<lambda>agentID.
     or_return (contextUUID G c ''tenant_id'') (\<lambda>tenantID. do {
       let ack = zero_Acknowledgement\<lparr>Ack_MessageID := i, Ack_AgentID := agentID, Ack_Status := AckReq_Status req,
         Ack_Details := AckReq_Details req, Ack_Nonce := AckReq_Nonce req, Ack_Signature := AckReq_Signature req\<rparr>;
       (ack', r) \<leftarrow> MessageService_AcknowledgeForTenant G R (Deps_MessageService deps) tenantID (Some ack);
       ret (service_reply r ''message_not_found''
         (\<lambda>_. gin_JSON 200 (case ack' of Some a \<Rightarrow> acknowledged_body a | None \<Rightarrow> No_Body)) c)
     }))))"

section \<open>Batches, lists, subscriptions, discovery\<close>

record BatchMessageRequest =
  Batch_Messages :: "MessageRequest slice"

definition BatchMessageRequest_fields ::
    "go_env \<Rightarrow> (string \<times> (json \<Rightarrow> BatchMessageRequest \<Rightarrow> BatchMessageRequest option)) list" where
  "BatchMessageRequest_fields G =
   [(''messages'', field Batch_Messages Batch_Messages_update
       (dec_slice (dec_struct (MessageRequest_fields G)) zero_MessageRequest))]"

definition error_result :: "uuid \<Rightarrow> go_error \<Rightarrow> SendResult" where
  "error_result i e = \<lparr>Send_MessageID = i, Send_Status = ''error: '' @ err_Error e, Send_DeliveredAt = None\<rparr>"

text \<open>The body of the loop over \<open>req.Messages\<close>: one result for each request.\<close>

definition send_one ::
    "go_env \<Rightarrow> 'w runtime \<Rightarrow> 'w Dependencies \<Rightarrow> uuid \<Rightarrow> uuid \<Rightarrow> string \<Rightarrow> MessageRequest \<Rightarrow> ('w, SendResult) io" where
  "send_one G R deps senderID tenantID traceID msgReq = do {
     b \<leftarrow> buildMessageFromRequest R senderID tenantID traceID msgReq;
     (case b of
        Inl e \<Rightarrow> ret (error_result uuid_Nil e)
      | Inr msg \<Rightarrow> do {
          (msg', r) \<leftarrow> MessageService_Send G R (Deps_MessageService deps) (Some msg);
          ret (case r of
             Inl e \<Rightarrow> error_result (case msg' of Some m \<Rightarrow> Message_ID m | None \<Rightarrow> uuid_Nil) e
           | Inr result \<Rightarrow> result)
        })
   }"

definition Server_sendBatchMessages :: "go_env \<Rightarrow> 'w runtime \<Rightarrow> 'w Dependencies \<Rightarrow> 'w HandlerFunc" where
  "Server_sendBatchMessages G R deps c =
     or_return (bound (ShouldBindJSON (BatchMessageRequest_fields G) \<lparr>Batch_Messages = None\<rparr> c) c) (\<lambda>req.
     or_return (contextUUID G c ''agent_id'') (\<lambda>senderID.
     or_return (contextUUID G c ''tenant_id'') (\<lambda>tenantID. do {
       results \<leftarrow> map_io (send_one G R deps senderID tenantID (Gin_Keys c ''trace_id'')) (elems (Batch_Messages req));
       ret (gin_JSON 201 (Body_Map [(''results'', H_Results results)]) c)
     })))"

definition Server_listMessages :: "go_env \<Rightarrow> 'w Dependencies \<Rightarrow> 'w HandlerFunc" where
  "Server_listMessages G deps c =
     or_return (bound (Req_BindQuery (Gin_Request c)) c) (\<lambda>req.
     or_return (contextUUID G c ''tenant_id'') (\<lambda>tenantID.
       let answer = (\<lambda>r. service_reply r ''message_not_found'' (\<lambda>messages. gin_JSON 200 (Body_Map
             [(''count'', H_Int (int (length messages))), (''limit'', H_Int (List_Limit req)),
              (''messages'', H_Messages messages), (''offset'', H_Int (List_Offset req))])) c)
       in if List_ConversationID req \<noteq> [] then
            (case uuid_Parse G (List_ConversationID req) of
               None \<Rightarrow> ret (respondError 400 ''invalid_uuid'' ''invalid conversationId'' c)
             | Some convID \<Rightarrow> do {
                 r \<leftarrow> MessageService_ListByConversationForTenant G (Deps_MessageService deps) tenantID convID (List_Limit req);
                 ret (answer r)
               })
          else do {
            r \<leftarrow> MessageService_ListByTenant G (Deps_MessageService deps) tenantID (List_Limit req) (List_Offset req);
            ret (answer r)
          }))"

record CreateSubscriptionRequest =
  CS_Type :: SubType
  CS_Filter :: SubscriptionFilter

definition CreateSubscriptionRequest_fields ::
    "go_env \<Rightarrow> (string \<times> (json \<Rightarrow> CreateSubscriptionRequest \<Rightarrow> CreateSubscriptionRequest option)) list" where
  "CreateSubscriptionRequest_fields G =
   [(''type'', field CS_Type CS_Type_update dec_string),
    (''filter'', field CS_Filter CS_Filter_update (SubscriptionFilter_of_json G))]"

definition Server_createSubscription :: "go_env \<Rightarrow> 'w runtime \<Rightarrow> 'w Dependencies \<Rightarrow> 'w HandlerFunc" where
  "Server_createSubscription G R deps c =
     or_return (bound (ShouldBindJSON (CreateSubscriptionRequest_fields G)
       \<lparr>CS_Type = [], CS_Filter = zero_SubscriptionFilter\<rparr> c) c) (\<lambda>req.
     or_return (contextUUID G c ''agent_id'') (\<lambda>agentID.
     or_return (contextUUID G c ''tenant_id'') (\<lambda>tenantID. do {
       i \<leftarrow> uuid_New R;
       now \<leftarrow> time_Now R;
       let subscription = \<lparr>Sub_ID = i, Sub_AgentID = agentID, Sub_TenantID = tenantID, Sub_Type = CS_Type req,
         Sub_Filter = CS_Filter req, Sub_Status = SubStatusActive, Sub_CreatedAt = time_Unix now\<rparr>;
       (sub', r) \<leftarrow> MessageService_CreateSubscription G R (Deps_MessageService deps) (Some subscription);
       ret (service_reply r ''subscription_not_found''
         (\<lambda>_. gin_JSON 201 (case sub' of Some s \<Rightarrow> Body_Subscription s | None \<Rightarrow> No_Body)) c)
     })))"

definition Server_listSubscriptions :: "go_env \<Rightarrow> 'w Dependencies \<Rightarrow> 'w HandlerFunc" where
  "Server_listSubscriptions G deps c =
     or_return (contextUUID G c ''agent_id'') (\<lambda>agentID. do {
       r \<leftarrow> MessageService_ListSubscriptions G (Deps_MessageService deps) agentID;
       ret (service_reply r ''subscription_not_found'' (\<lambda>subscriptions. gin_JSON 200 (Body_Map
         [(''count'', H_Int (int (length subscriptions))), (''subscriptions'', H_Subscriptions subscriptions)])) c)
     })"

definition Server_deleteSubscription :: "go_env \<Rightarrow> 'w Dependencies \<Rightarrow> 'w HandlerFunc" where
  "Server_deleteSubscription G deps c =
     or_return (parseUUIDParam G c ''id'') (\<lambda>i.
     or_return (contextUUID G c ''agent_id'') (\<lambda>agentID. do {
       r \<leftarrow> MessageService_DeleteSubscription G (Deps_MessageService deps) agentID i;
       ret (service_reply r ''subscription_not_found'' (\<lambda>_. gin_JSON 204 No_Body) c)
     }))"

record CapabilityQueryRequest =
  CQ_Capabilities :: "string slice"
  CQ_MessageTypes :: "MessageType slice"
  CQ_Tags :: "(string \<times> string) list"

definition CapabilityQueryRequest_fields ::
    "(string \<times> (json \<Rightarrow> CapabilityQueryRequest \<Rightarrow> CapabilityQueryRequest option)) list" where
  "CapabilityQueryRequest_fields =
   [(''capabilities'', field CQ_Capabilities CQ_Capabilities_update (dec_slice dec_string [])),
    (''messageTypes'', field CQ_MessageTypes CQ_MessageTypes_update (dec_slice dec_string [])),
    (''tags'', field CQ_Tags CQ_Tags_update (dec_map (\<lambda>j. dec_string j [])))]"

definition Server_queryCapabilities :: "go_env \<Rightarrow> 'w Dependencies \<Rightarrow> 'w HandlerFunc" where
  "Server_queryCapabilities G deps c =
     or_return (bound (ShouldBindJSON CapabilityQueryRequest_fields
       \<lparr>CQ_Capabilities = None, CQ_MessageTypes = None, CQ_Tags = []\<rparr> c) c) (\<lambda>req.
     or_return (contextUUID G c ''tenant_id'') (\<lambda>tenantID. do {
       r \<leftarrow> AgentService_QueryByCapabilities G (Deps_AgentService deps) tenantID (elems (CQ_Capabilities req));
       ret (service_reply r ''agent_not_found'' (\<lambda>agents. gin_JSON 200 (Body_Map
         [(''agents'', H_Agents agents), (''count'', H_Int (int (length agents)))])) c)
     }))"

end
