(* ===== verification/Server.thy ===== *)
theory Server
  imports Handlers
begin

text \<open>
  The API server of \<open>internal/api/handler.go\<close>: the routes of \<open>setupRoutes\<close> and the chain of
  middleware that \<open>NewServer\<close> puts in front of them. Recovery from panics and the metrics
  endpoint are gin's and Prometheus' and are left out.
\<close>

section \<open>Routes\<close>

text \<open>The routes of the group \<open>/api/v1\<close>, by method and matched template.\<close>

definition v1_routes :: "go_env \<Rightarrow> 'w runtime \<Rightarrow> 'w Dependencies \<Rightarrow> ((string \<times> string) \<times> 'w HandlerFunc) list" where
  "v1_routes G R deps =
   [((''POST'', ''/api/v1/agents''), Server_createAgent G R deps),
    ((''GET'', ''/api/v1/agents''), Server_listAgents G deps),
    ((''GET'', ''/api/v1/agents/:id''), Server_getAgent G deps),
    ((''PUT'', ''/api/v1/agents/:id''), Server_updateAgent G R deps),
    ((''DELETE'', ''/api/v1/agents/:id''), Server_deleteAgent G deps),
    ((''POST'', ''/api/v1/agents/:id/heartbeat''), Server_heartbeat G deps),
    ((''POST'', ''/api/v1/messages''), Server_sendMessage G R deps),
    ((''POST'', ''/api/v1/messages/batch''), Server_sendBatchMessages G R deps),
    ((''GET'', ''/api/v1/messages''), Server_listMessages G deps),
    ((''GET'', ''/api/v1/messages/:id''), Server_getMessage G deps),
    ((''POST'', ''/api/v1/messages/:id/ack''), Server_acknowledgeMessage G R deps),
    ((''POST'', ''/api/v1/subscriptions''), Server_createSubscription G R deps),
    ((''GET'', ''/api/v1/subscriptions''), Server_listSubscriptions G deps),
    ((''DELETE'', ''/api/v1/subscriptions/:id''), Server_deleteSubscription G deps),
    ((''POST'', ''/api/v1/discovery/query''), Server_queryCapabilities G deps)]"

definition Server_openAPISpec :: "string \<Rightarrow> 'w HandlerFunc" where
  "Server_openAPISpec openAPISpec c = ret (gin_JSON 200 (Body_Text openAPISpec) c)"

definition public_routes :: "string \<Rightarrow> 'w Dependencies \<Rightarrow> ((string \<times> string) \<times> 'w HandlerFunc) list" where
  "public_routes openAPISpec deps =
   [((''GET'', ''/health''), Server_healthCheck), ((''GET'', ''/ready''), Server_readinessCheck deps),
    ((''GET'', ''/openapi.yaml''), Server_openAPISpec openAPISpec)]"

definition v1_chain :: "go_env \<Rightarrow> 'w runtime \<Rightarrow> 'w Dependencies \<Rightarrow> 'w HandlerFunc \<Rightarrow> 'w HandlerFunc" where
  "v1_chain G R deps h =
     (let m = Deps_Middleware deps
      in Middleware_Authenticate G R m (Middleware_RateLimit R m (Middleware_AuditLog G R m h)))"

text \<open>A request with no route gets gin's 404.\<close>

definition setupRoutes :: "go_env \<Rightarrow> 'w runtime \<Rightarrow> string \<Rightarrow> 'w Dependencies \<Rightarrow> 'w HandlerFunc" where
  "setupRoutes G R openAPISpec deps c =
     (let route = (Req_Method (Gin_Request c), Req_FullPath (Gin_Request c))
      in case map_of (public_routes openAPISpec deps) route of
           Some h \<Rightarrow> h c
         | None \<Rightarrow> (case map_of (v1_routes G R deps) route of
             Some h \<Rightarrow> v1_chain G R deps h c
           | None \<Rightarrow> ret (gin_JSON 404 (Body_Text ''404 page not found'') c)))"

definition NewServer ::
    "go_env \<Rightarrow> 'w runtime \<Rightarrow> (gin_request \<Rightarrow> string) \<Rightarrow> string \<Rightarrow> 'w Dependencies \<Rightarrow> gin_request \<Rightarrow> ('w, gin_ctx) io" where
  "NewServer G R spanTraceID openAPISpec deps r =
     Middleware_Tracing G R spanTraceID (Middleware_Logging R (setupRoutes G R openAPISpec deps)) (gin_new r)"

end
