(* ===== verification/Api_Isolation.thy ===== *)
theory Api_Isolation
  imports Server Access_Control Message_Acks
begin

text \<open>
  Tenant isolation of the whole API: a request is followed from the token in its header,
  through every middleware of \<open>NewServer\<close> and each of the fifteen handlers of \<open>/api/v1\<close>, to
  the body of its response. The layers between the token and the handler share one
  contract, the locale \<open>body_layer\<close>.
\<close>

section \<open>Whose data a body shows\<close>

fun value_tenants :: "gin_value \<Rightarrow> uuid set" where
  "value_tenants (H_Agents as) = Agent_TenantID ` set as"
| "value_tenants (H_Messages ms) = Message_TenantID ` set ms"
| "value_tenants (H_Map kvs) = (\<Union>kv \<in> set kvs. value_tenants (snd kv))"
| "value_tenants _ = {}"

fun body_tenants :: "gin_body \<Rightarrow> uuid set" where
  "body_tenants (Body_Agent a) = {Agent_TenantID a}"
| "body_tenants (Body_Agents as) = Agent_TenantID ` set as"
| "body_tenants (Body_Message m) = {Message_TenantID m}"
| "body_tenants (Body_Subscription s) = {Sub_TenantID s}"
| "body_tenants (Body_Map kvs) = (\<Union>kv \<in> set kvs. value_tenants (snd kv))"
| "body_tenants _ = {}"

text \<open>A handler that shows a context of tenant \<open>t\<close> nothing of another tenant.\<close>

abbreviation shows_only :: "uuid set \<Rightarrow> gin_ctx \<Rightarrow> bool" where
  "shows_only S c \<equiv> body_tenants (Gin_Body c) \<subseteq> S"

definition scoped :: "go_env \<Rightarrow> uuid \<Rightarrow> 'w HandlerFunc \<Rightarrow> bool" where
  "scoped G t f \<longleftrightarrow> (\<forall>c. Gin_Keys c ''tenant_id'' = uuid_String G t \<and> Gin_Body c = No_Body \<longrightarrow> yields (shows_only {t}) (f c))"

lemma JSON_body [simp]: "Gin_Body (gin_JSON s b c) = b"
  by (simp add: gin_JSON_def)

lemma respond_shows [simp]: "shows_only S (respondError s k m c)" "shows_only S (respondServiceError e k c)"
    "body_tenants (Gin_Body (respondError s k m c)) = {}" "body_tenants (Gin_Body (respondServiceError e k c)) = {}"
  by (simp_all add: respond_body respondServiceError_def)

lemma service_shows:
  "(\<And>x. r = Inr x \<Longrightarrow> shows_only S (ok x c)) \<Longrightarrow> shows_only S (service_reply r k ok c)"
  by (cases r) (simp_all add: service_reply_def)

lemma yields_service:
  "yields (\<lambda>r. \<forall>x. r = Inr x \<longrightarrow> Q x) m \<Longrightarrow> (\<And>x. Q x \<Longrightarrow> shows_only S (ok x c)) \<Longrightarrow>
    yields (shows_only S) (State_Monad.bind m (\<lambda>r. ret (service_reply r k ok c)))"
  by (erule yields_bind) (auto intro!: yields_rules service_shows)

text \<open>The early returns show nothing.\<close>

lemma yields_or_return:
  "(\<And>c'. r = Inl c' \<Longrightarrow> shows_only S c') \<Longrightarrow> (\<And>x. r = Inr x \<Longrightarrow> yields (shows_only S) (f x)) \<Longrightarrow>
    yields (shows_only S) (or_return r f)"
  by (cases r) (auto intro: yields_rules)

lemma bound_shows: "bound r c = Inl c' \<Longrightarrow> shows_only S c'"
  by (auto simp: bound_def split: sum.splits)

lemma uuid_shows:
  "contextUUID G c k = Inl c' \<Longrightarrow> shows_only S c'" "parseUUIDParam G c k = Inl c' \<Longrightarrow> shows_only S c'"
  by (auto simp: contextUUID_def parseUUIDValue_def parseUUIDParam_def Let_def split: if_splits option.splits)

lemma early_returns:
  "(\<And>x. r = Inr x \<Longrightarrow> yields (shows_only S) (f x)) \<Longrightarrow> yields (shows_only S) (or_return (bound r c) f)"
  "(\<And>u. contextUUID G c k = Inr u \<Longrightarrow> yields (shows_only S) (g u)) \<Longrightarrow> yields (shows_only S) (or_return (contextUUID G c k) g)"
  "(\<And>u. parseUUIDParam G c k = Inr u \<Longrightarrow> yields (shows_only S) (g u)) \<Longrightarrow> yields (shows_only S) (or_return (parseUUIDParam G c k) g)"
  by (rule yields_or_return, erule bound_shows, auto simp: bound_def split: sum.splits)
    (rule yields_or_return, erule uuid_shows, simp)+

lemma tenant_of_key:
  assumes "uuid_text (uuid_String G) (uuid_Parse G)" "Gin_Keys c ''tenant_id'' = uuid_String G t" "contextUUID G c ''tenant_id'' = Inr t'"
  shows "t' = t"
  using assms(2,3) uuid_text.parse_text [OF assms(1)] uuid_text.text_ne [OF assms(1)]
  by (simp add: contextUUID_def parseUUIDValue_def)

text \<open>A handler that reads its tenant from the context first, or after its other arguments.\<close>

lemma yields_tenant:
  assumes "uuid_text (uuid_String G) (uuid_Parse G)" "Gin_Keys c ''tenant_id'' = uuid_String G t" "yields (shows_only {t}) (f t)"
  shows "yields (shows_only {t}) (or_return (contextUUID G c ''tenant_id'') f)"
  by (rule early_returns(2)) (use tenant_of_key [OF assms(1,2)] assms(3) in auto)

section \<open>What the services give a tenant\<close>

lemma yields_agent: "yields (\<lambda>r. \<forall>a. r = Inr a \<longrightarrow> Agent_TenantID a = t) (AgentService_GetByIDForTenant sys_agents_svc t i)"
  by (rule yieldsI) (use agents.get_for_tenant(2) in fast)

lemma agents_of_tenant:
  "a \<in> set (agent_rows (Agents_OfTenant t) T) \<Longrightarrow> Agent_TenantID a = t"
  "a \<in> set (agent_rows (Agents_OnlineOfTenant t) T) \<Longrightarrow> Agent_TenantID a = t"
  by (auto simp: agent_rows_def row_of_tenant_def)

lemma yields_agents: "yields (\<lambda>r. \<forall>as. r = Inr as \<longrightarrow> Agent_TenantID ` set as \<subseteq> {t}) (AgentService_ListByTenant sys_agents_svc t)"
  by (rule yieldsI)
    (auto simp: AgentService_ListByTenant_def AgentRepository_ListByTenant_def AS_with_repo_def NewAgentService_def run_sys
      db_select_agents_def agent_limit_def newest_first_def split: sum.splits if_splits dest: agents_of_tenant)

lemma yields_query: "yields (\<lambda>r. \<forall>as. r = Inr as \<longrightarrow> Agent_TenantID ` set as \<subseteq> {t}) (AgentService_QueryByCapabilities U sys_agents_svc t caps)"
  by (rule yieldsI)
    (auto simp: AgentService_QueryByCapabilities_def AgentRepository_QueryByCapabilities_def AS_with_repo_def NewAgentService_def run_sys
      db_select_agents_def agent_limit_def newest_first_def filter_agents_matches split: sum.splits if_splits
      dest!: in_set_takeD agents_of_tenant(2))

lemma yields_register:
  "yields (\<lambda>(a', r). a' = None \<or> Agent_TenantID (the a') = Agent_TenantID a) (AgentService_Register G sys_rt sys_agents_svc (Some a))"
  by (rule yieldsI)
    (auto simp: AgentService_Register_def NewAgentService_def run_sys_rt Let_def split: sum.splits prod.splits)

lemma yields_update:
  "yields (\<lambda>(a', r). a' = None \<or> Agent_TenantID (the a') = Agent_TenantID a) (AgentService_UpdateForTenant sys_rt sys_agents_svc t (Some a))"
  by (rule yieldsI)
    (auto simp: AgentService_UpdateForTenant_def AS_with_agent_def NewAgentService_def run_sys_rt Let_def split: sum.splits prod.splits)

lemma scan_tenants: "scan_all G rows = Inr ms \<Longrightarrow> Message_TenantID ` set ms = Message_TenantID ` set rows"
  using arg_cong [OF scan_all_frame, of G rows ms "map (\<lambda>(i, t, c, d). t)"] by (simp add: comp_def) (metis list.set_map)

lemma yields_message: "yields (\<lambda>r. \<forall>m. r = Inr m \<longrightarrow> Message_TenantID m = t) (MessageService_GetByIDForTenant G sys_messages t i)"
proof (rule yieldsI, intro allI impI)
  fix w r w' m
  assume "run_state (MessageService_GetByIDForTenant G sys_messages t i) w = (r, w')" "r = Inr m"
  then have "scan_one G (sys_reply w (db_get_message (Message_ByIdTenant i t) (W_db w))) = Inr (Some m)"
    by (auto simp: MessageService_GetByIDForTenant_def MS_with_repo_def NewMessageService_def get_for_tenant_run
        simp del: sys_reply_Inr split: sum.splits option.splits)
  from scan_one_found [OF this] show "Message_TenantID m = t"
    by (auto simp: message_rows_def ScanRecipients_def split: if_splits sum.splits option.splits prod.splits)
qed

lemma yields_tenant_messages:
  "yields (\<lambda>r. \<forall>ms. r = Inr ms \<longrightarrow> Message_TenantID ` set ms \<subseteq> {t}) (MessageService_ListByTenant G sys_messages t limit offset)"
proof (rule yieldsI, intro allI impI)
  fix w r w' ms
  assume "run_state (MessageService_ListByTenant G sys_messages t limit offset) w = (r, w')" "r = Inr ms"
  then obtain rows where "scan_all G rows = Inr ms" "rows = take (nat (if limit \<le> 0 then 100 else limit)) (drop (nat offset)
      (newest_first Message_CreatedAt (message_rows (Messages_OfTenant t (if limit \<le> 0 then 100 else limit) offset) (W_db w))))"
    by (metis list_tenant_rows)
  then show "Message_TenantID ` set ms \<subseteq> {t}"
    by (auto simp: scan_tenants message_rows_def dest!: in_set_takeD in_set_dropD)
qed

lemma yields_conversation:
  "yields (\<lambda>r. \<forall>ms. r = Inr ms \<longrightarrow> Message_TenantID ` set ms \<subseteq> {t}) (MessageService_ListByConversationForTenant G sys_messages t v limit)"
  by (rule yieldsI)
    (auto simp: MessageService_ListByConversationForTenant_def MessageRepository_ListByConversationForTenant_def MS_with_repo_def
      NewMessageService_def run_sys db_select_messages_def sql_limit_def Let_def scan_tenants message_rows_def
      split: sum.splits if_splits dest!: in_set_takeD)

lemma yields_subscription:
  "yields (\<lambda>(x', r). x' = None \<or> Sub_TenantID (the x') = Sub_TenantID x) (MessageService_CreateSubscription G sys_rt sys_messages (Some x))"
  by (rule yieldsI)
    (auto simp: MessageService_CreateSubscription_def NewMessageService_def run_sys_rt Let_def split: sum.splits prod.splits if_splits)

section \<open>The handlers\<close>

definition sys_deps :: "world sqlx option \<Rightarrow> world goredis option \<Rightarrow> world Middleware \<Rightarrow> world Dependencies" where
  "sys_deps pg rd m = \<lparr>Deps_AgentService = sys_agents_svc, Deps_MessageService = sys_messages, Deps_Database = pg,
     Deps_Redis = rd, Deps_Middleware = m\<rparr>"

lemma sys_deps_simps [simp]:
  "Deps_AgentService (sys_deps pg rd m) = sys_agents_svc" "Deps_MessageService (sys_deps pg rd m) = sys_messages"
  "Deps_Middleware (sys_deps pg rd m) = m"
  by (simp_all add: sys_deps_def)

lemma scoped_agents:
  assumes "uuid_text (uuid_String G) (uuid_Parse G)"
  shows "scoped G t (Server_createAgent G sys_rt (sys_deps pg rd m))" "scoped G t (Server_getAgent G (sys_deps pg rd m))"
    "scoped G t (Server_listAgents G (sys_deps pg rd m))" "scoped G t (Server_updateAgent G sys_rt (sys_deps pg rd m))"
    "scoped G t (Server_deleteAgent G (sys_deps pg rd m))" "scoped G t (Server_heartbeat G (sys_deps pg rd m))"
    "scoped G t (Server_queryCapabilities G (sys_deps pg rd m))"
proof -
  note tenant = yields_tenant [OF assms]
  show "scoped G t (Server_createAgent G sys_rt (sys_deps pg rd m))"
    unfolding scoped_def Server_createAgent_def sys_deps_simps
    by (intro allI impI early_returns(1) tenant yields_Let yields_bind [OF yields_register] yields_prod)
      (auto intro!: yields_rules service_shows split: option.splits)
  show "scoped G t (Server_getAgent G (sys_deps pg rd m))"
    unfolding scoped_def Server_getAgent_def sys_deps_simps
    by (intro allI impI early_returns(3) tenant yields_service [OF yields_agent]) auto
  show "scoped G t (Server_listAgents G (sys_deps pg rd m))"
    unfolding scoped_def Server_listAgents_def sys_deps_simps
    by (intro allI impI tenant yields_service [OF yields_agents]) auto
  show "scoped G t (Server_updateAgent G sys_rt (sys_deps pg rd m))"
    unfolding scoped_def Server_updateAgent_def sys_deps_simps
    by (intro allI impI early_returns(1,3) tenant yields_bind [OF yields_agent] yields_sum yields_Let yields_bind [OF yields_update]
          yields_prod)
      (auto intro!: yields_rules service_shows split: option.splits)
  show "scoped G t (Server_deleteAgent G (sys_deps pg rd m))"
    unfolding scoped_def Server_deleteAgent_def sys_deps_simps
    by (intro allI impI early_returns(3) tenant yields_service [OF yields_mono [OF yields_True]]) auto
  show "scoped G t (Server_heartbeat G (sys_deps pg rd m))"
    unfolding scoped_def Server_heartbeat_def sys_deps_simps
    by (intro allI impI early_returns(3) tenant yields_service [OF yields_mono [OF yields_True]]) auto
  show "scoped G t (Server_queryCapabilities G (sys_deps pg rd m))"
    unfolding scoped_def Server_queryCapabilities_def sys_deps_simps
    by (intro allI impI early_returns(1) tenant yields_service [OF yields_query]) auto
qed

lemma scoped_messages:
  assumes "uuid_text (uuid_String G) (uuid_Parse G)"
  shows "scoped G t (Server_sendMessage G sys_rt (sys_deps pg rd m))" "scoped G t (Server_getMessage G (sys_deps pg rd m))"
    "scoped G t (Server_acknowledgeMessage G sys_rt (sys_deps pg rd m))" "scoped G t (Server_sendBatchMessages G sys_rt (sys_deps pg rd m))"
    "scoped G t (Server_listMessages G (sys_deps pg rd m))"
proof -
  note tenant = yields_tenant [OF assms]
  show "scoped G t (Server_sendMessage G sys_rt (sys_deps pg rd m))"
    unfolding scoped_def Server_sendMessage_def sys_deps_simps
    by (intro allI impI early_returns(1,2) tenant yields_then yields_prod yields_ret service_shows) auto
  show "scoped G t (Server_getMessage G (sys_deps pg rd m))"
    unfolding scoped_def Server_getMessage_def sys_deps_simps
    by (intro allI impI early_returns(3) tenant yields_service [OF yields_message]) auto
  show "scoped G t (Server_acknowledgeMessage G sys_rt (sys_deps pg rd m))"
    unfolding scoped_def Server_acknowledgeMessage_def sys_deps_simps
    by (intro allI impI early_returns tenant yields_if yields_Let yields_then yields_prod yields_ret service_shows)
      (auto simp: acknowledged_body_def split: option.splits)
  show "scoped G t (Server_sendBatchMessages G sys_rt (sys_deps pg rd m))"
    unfolding scoped_def Server_sendBatchMessages_def sys_deps_simps
    by (intro allI impI early_returns(1,2) tenant yields_then yields_ret) auto
  show "scoped G t (Server_listMessages G (sys_deps pg rd m))"
    unfolding scoped_def Server_listMessages_def sys_deps_simps
    by (intro allI impI early_returns(1) tenant yields_Let yields_if yields_option yields_ret
         ) (auto intro!: yields_service [OF yields_tenant_messages] yields_service [OF yields_conversation] simp: image_subset_iff)
qed

lemma scoped_subscriptions:
  assumes "uuid_text (uuid_String G) (uuid_Parse G)"
  shows "scoped G t (Server_createSubscription G sys_rt (sys_deps pg rd m))" "scoped G t (Server_listSubscriptions G (sys_deps pg rd m))"
    "scoped G t (Server_deleteSubscription G (sys_deps pg rd m))"
proof -
  note tenant = yields_tenant [OF assms]
  show "scoped G t (Server_createSubscription G sys_rt (sys_deps pg rd m))"
    unfolding scoped_def Server_createSubscription_def sys_deps_simps
    by (intro allI impI early_returns(1,2) tenant yields_Let yields_then yields_bind [OF yields_subscription] yields_prod)
      (auto intro!: yields_rules service_shows split: option.splits)
  show "scoped G t (Server_listSubscriptions G (sys_deps pg rd m))"
    unfolding scoped_def Server_listSubscriptions_def sys_deps_simps
    by (intro allI impI early_returns(2) tenant yields_service [OF yields_mono [OF yields_True]]) auto
  show "scoped G t (Server_deleteSubscription G (sys_deps pg rd m))"
    unfolding scoped_def Server_deleteSubscription_def sys_deps_simps
    by (intro allI impI early_returns(2,3) tenant yields_service [OF yields_mono [OF yields_True]]) auto
qed

section \<open>The layers\<close>

text \<open>
  What a layer of the chain promises: when it passes a request on, the context it passes has
  the same request and tenant and no body yet, and what it writes of its own shows nobody's
  data. A predicate on bodies that holds of all bodies without data thus passes through.
\<close>

definition bodily :: "(gin_body \<Rightarrow> bool) \<Rightarrow> bool" where
  "bodily P \<longleftrightarrow> (\<forall>b. body_tenants b = {} \<longrightarrow> P b)"

definition passes :: "gin_ctx \<Rightarrow> gin_ctx \<Rightarrow> bool" where
  "passes c c' \<longleftrightarrow> Gin_Request c' = Gin_Request c \<and> Gin_Keys c' ''tenant_id'' = Gin_Keys c ''tenant_id'' \<and> Gin_Body c' = No_Body"

locale body_layer =
  fixes layer :: "world HandlerFunc \<Rightarrow> world HandlerFunc"
  assumes through: "bodily P \<Longrightarrow> Gin_Body (c :: gin_ctx) = No_Body \<Longrightarrow> (\<And>c'. passes c c' \<Longrightarrow> yields (P \<circ> Gin_Body) (h c')) \<Longrightarrow>
    yields (P \<circ> Gin_Body) (layer h c)"
begin

lemma scoped_through:
  assumes "scoped G t h"
  shows "scoped G t (layer h)"
  unfolding scoped_def
proof (intro allI impI)
  fix c :: gin_ctx assume c: "Gin_Keys c ''tenant_id'' = uuid_String G t \<and> Gin_Body c = No_Body"
  have "yields ((\<lambda>b. body_tenants b \<subseteq> {t}) \<circ> Gin_Body) (layer h c)"
    by (rule through) (use assms c in \<open>auto simp: bodily_def scoped_def passes_def comp_def\<close>)
  then show "yields (shows_only {t}) (layer h c)" by (simp add: comp_def)
qed

end

text \<open>Layers compose.\<close>

lemma body_layer_comp:
  assumes "body_layer f" "body_layer g"
  shows "body_layer (\<lambda>h. f (g h))"
proof
  fix P c and h :: "world HandlerFunc"
  assume P: "bodily P" "Gin_Body c = No_Body" and h: "\<And>c'. passes c c' \<Longrightarrow> yields (P \<circ> Gin_Body) (h c')"
  show "yields (P \<circ> Gin_Body) (f (g h) c)"
  proof (rule body_layer.through [OF assms(1) P])
    fix c1 assume c1: "passes c c1"
    show "yields (P \<circ> Gin_Body) (g h c1)"
      by (rule body_layer.through [OF assms(2) P(1)]) (use c1 h in \<open>auto simp: passes_def\<close>)
  qed
qed

interpretation rate_layer: body_layer "Middleware_RateLimit R m"
proof
  fix P c and h :: "world HandlerFunc"
  assume P: "bodily P" "Gin_Body c = No_Body" and h: "\<And>c'. passes c c' \<Longrightarrow> yields (P \<circ> Gin_Body) (h c')"
  show "yields (P \<circ> Gin_Body) (Middleware_RateLimit R m h c)"
    unfolding Middleware_RateLimit_def Let_def
    by (intro yields_option yields_if yields_then yields_sum yields_ret h)
      (use P in \<open>auto simp: passes_def gin_Header_def gin_Abort_def gin_JSON_def bodily_def\<close>)
qed

interpretation audit_layer: body_layer "Middleware_AuditLog G R m"
proof
  fix P c and h :: "world HandlerFunc"
  assume P: "bodily P" "Gin_Body c = No_Body" and h: "\<And>c'. passes c c' \<Longrightarrow> yields (P \<circ> Gin_Body) (h c')"
  have "yields (P \<circ> Gin_Body) (h c)" by (rule h) (use P in \<open>simp add: passes_def\<close>)
  then show "yields (P \<circ> Gin_Body) (Middleware_AuditLog G R m h c)"
    unfolding Middleware_AuditLog_def Let_def
    by (rule yields_bind) (intro yields_option yields_if yields_then yields_prod yields_sum yields_ret, assumption+)
qed

interpretation logging_layer: body_layer "Middleware_Logging R"
proof
  fix P c and h :: "world HandlerFunc"
  assume P: "bodily P" "Gin_Body c = No_Body" and h: "\<And>c'. passes c c' \<Longrightarrow> yields (P \<circ> Gin_Body) (h c')"
  have p: "yields (P \<circ> Gin_Body) (h c)" by (rule h) (use P in \<open>simp add: passes_def\<close>)
  show "yields (P \<circ> Gin_Body) (Middleware_Logging R h c)"
    unfolding Middleware_Logging_def by (rule yields_then, rule yields_bind [OF p], intro yields_then yields_ret)
qed

interpretation tracing_layer: body_layer "Middleware_Tracing G R spanTraceID"
proof
  fix P c and h :: "world HandlerFunc"
  assume P: "bodily P" "Gin_Body c = No_Body" and h: "\<And>c'. passes c c' \<Longrightarrow> yields (P \<circ> Gin_Body) (h c')"
  show "yields (P \<circ> Gin_Body) (Middleware_Tracing G R spanTraceID h c)"
    unfolding Middleware_Tracing_def Let_def
    by (intro yields_then h) (use P in \<open>simp add: passes_def gin_Header_def gin_Set_def\<close>)
qed

section \<open>From the token to the body\<close>

text \<open>The tenant a request's signed bearer token names.\<close>

definition bearer_tenant :: "go_env \<Rightarrow> AuthService option \<Rightarrow> gin_request \<Rightarrow> uuid option" where
  "bearer_tenant G auth' r =
     (let authHeader = Req_GetHeader r ''Authorization''; token = strings_TrimPrefix authHeader ''Bearer ''
      in if token = authHeader then None
         else Option.bind auth' (\<lambda>auth. Option.bind (token_parts auth token) (\<lambda>j. uuid_Parse G (Jwt_TenantID j))))"

lemma yields_validate:
  "yields (\<lambda>v. \<forall>claims. v = Inr claims \<longrightarrow> (\<exists>j. token_parts s token = Some j \<and> uuid_Parse G (Jwt_TenantID j) = Some (Claims_TenantID claims)))
     (AuthService_ValidateToken G R s token)"
  unfolding AuthService_ValidateToken_def Let_def
  by (intro yields_if yields_option yields_then yields_ret) auto

lemma yields_refuse: "bodily P \<Longrightarrow> yields (P \<circ> Gin_Body) (refuse R reason st k msg c)"
  unfolding refuse_def
  by (intro yields_then yields_ret) (simp add: bodily_def gin_Abort_def respondAuthError_def gin_JSON_def)

lemma yields_authenticate:
  assumes P: "bodily P"
    and h: "\<And>claims :: TokenClaims. bearer_tenant G (MW_auth m) (Gin_Request c) = Some (Claims_TenantID claims) \<Longrightarrow>
      yields (P \<circ> Gin_Body) (h (set_identity G claims c))"
  shows "yields (P \<circ> Gin_Body) (Middleware_Authenticate G R m h c)"
  unfolding Middleware_Authenticate_def Let_def
  by (intro yields_if yields_option yields_refuse [OF P] yields_bind [OF yields_validate] yields_then yields_sum h)
    (auto simp: bearer_tenant_def)

lemma scoped_routes:
  assumes "uuid_text (uuid_String G) (uuid_Parse G)" "map_of (v1_routes G sys_rt (sys_deps pg rd m)) route = Some h"
  shows "scoped G t h"
proof -
  have "\<forall>h \<in> snd ` set (v1_routes G sys_rt (sys_deps pg rd m)). scoped G t h"
    unfolding v1_routes_def
    by (simp add: scoped_agents [OF assms(1)] scoped_messages [OF assms(1)] scoped_subscriptions [OF assms(1)])
  then show ?thesis using map_of_SomeD [OF assms(2)] by force
qed

text \<open>The public routes show no tenant's data.\<close>

lemma public_shows:
  assumes "bodily P" "map_of (public_routes spec deps) route = Some h"
  shows "yields (P \<circ> Gin_Body) (h c)"
proof -
  have "yields (P \<circ> Gin_Body) (Server_readinessCheck deps c)"
    unfolding Server_readinessCheck_def
    by (intro yields_option yields_then yields_sum yields_ret) (use assms(1) in \<open>auto simp: bodily_def not_ready_def\<close>)
  then show ?thesis using assms
    by (auto simp: public_routes_def Server_healthCheck_def Server_openAPISpec_def bodily_def split: if_splits
        intro!: yields_ret)
qed

lemma routes_show:
  assumes "uuid_text (uuid_String G) (uuid_Parse G)" "Gin_Body c = No_Body"
  shows "yields ((\<lambda>b. body_tenants b \<subseteq> set_option (bearer_tenant G (MW_auth m) (Gin_Request c))) \<circ> Gin_Body)
    (setupRoutes G sys_rt spec (sys_deps pg rd m) c)"
  (is "yields (?P \<circ> Gin_Body) _")
proof -
  have P: "bodily ?P" by (simp add: bodily_def)
  have chain: "yields (?P \<circ> Gin_Body) (v1_chain G sys_rt (sys_deps pg rd m) h c)"
    if h: "map_of (v1_routes G sys_rt (sys_deps pg rd m)) route = Some h" for h route
    unfolding v1_chain_def Let_def sys_deps_simps
  proof (rule yields_authenticate [OF P])
    fix claims :: TokenClaims
    assume t: "bearer_tenant G (MW_auth m) (Gin_Request c) = Some (Claims_TenantID claims)"
    have "scoped G (Claims_TenantID claims) (Middleware_RateLimit sys_rt m (Middleware_AuditLog G sys_rt m h))"
      by (intro rate_layer.scoped_through audit_layer.scoped_through scoped_routes [OF assms(1) h])
    then show "yields (?P \<circ> Gin_Body) (Middleware_RateLimit sys_rt m (Middleware_AuditLog G sys_rt m h) (set_identity G claims c))"
      using assms(2) t by (simp add: scoped_def set_identity_def gin_Set_def comp_def)
  qed
  show ?thesis
    unfolding setupRoutes_def Let_def
    by (intro yields_option yields_ret public_shows [OF P] chain) (auto simp: gin_JSON_def)
qed

text \<open>
  C2. Tenant isolation of the API: whatever a request asks for and whatever the servers do,
  the agents, messages and new subscription in the body of the response belong to the tenant
  that the request's signed bearer token names; without such a token the body shows none.
\<close>
theorem response_isolated:
  assumes "codec G"
    and "run_state (NewServer G sys_rt spanTraceID spec (sys_deps pg rd m) r) w = (c, w')"
  shows "body_tenants (Gin_Body c) \<subseteq> set_option (bearer_tenant G (MW_auth m) r)"
proof -
  let ?P = "\<lambda>b. body_tenants b \<subseteq> set_option (bearer_tenant G (MW_auth m) r)"
  have layer: "body_layer (\<lambda>h. Middleware_Tracing G sys_rt spanTraceID (Middleware_Logging sys_rt h))"
    by (rule body_layer_comp [OF tracing_layer.body_layer_axioms logging_layer.body_layer_axioms])
  have "yields (?P \<circ> Gin_Body) (NewServer G sys_rt spanTraceID spec (sys_deps pg rd m) r)"
    unfolding NewServer_def
  proof (rule body_layer.through [OF layer])
    fix c' assume "passes (gin_new r) c'"
    then show "yields (?P \<circ> Gin_Body) (setupRoutes G sys_rt spec (sys_deps pg rd m) c')"
      using routes_show [OF codec.axioms(1) [OF assms(1)], of c' m spec pg rd] by (simp add: passes_def gin_new_def)
  qed (simp_all add: bodily_def gin_new_def)
  from yieldsD [OF this assms(2)] show ?thesis by simp
qed

lemma response_isolated_witness:
  "let s = NewAuthService ''s3cret'';
       r = sample_request\<lparr>Req_Method := ''GET'', Req_URLPath := ''/api/v1/agents'', Req_FullPath := ''/api/v1/agents'',
         Req_GetHeader := (\<lambda>k. if k = ''Authorization'' then ''Bearer '' @ token_text reference_env s 11 1 0 else [])\<rparr>
   in body_tenants (Gin_Body (fst (run_state (NewServer reference_env sys_rt (\<lambda>_. []) []
        (sys_deps (Some sys_db) (Some sys_redis) (NewMiddleware None (Some sys_db) (Some s) 5 Minute)) r) sample_world))) \<subseteq> {1}"
proof -
  define s where "s = NewAuthService ''s3cret''"
  define r where "r = sample_request\<lparr>Req_Method := ''GET'', Req_URLPath := ''/api/v1/agents'', Req_FullPath := ''/api/v1/agents'',
         Req_GetHeader := (\<lambda>k. if k = ''Authorization'' then ''Bearer '' @ token_text reference_env s 11 1 0 else [])\<rparr>"
  define m where "m = NewMiddleware None (Some sys_db) (Some s) 5 Minute"
  have parts: "token_parts s (token_text reference_env s 11 1 0) = Some (issued_claims reference_env 11 1 0)"
    by (rule token_parts_issued [OF reference.codec_axioms]) (simp add: int64_def)
  have "bearer_tenant reference_env (MW_auth m) r = Some 1"
    using parts by (simp add: bearer_tenant_def r_def m_def NewMiddleware_def strings_TrimPrefix_def strings_HasPrefix_def
        issued_claims_def reference.parse_text)
  then show ?thesis
    using response_isolated [OF reference.codec_axioms run_fst [OF refl], of "\<lambda>_. []" "[]" "Some sys_db" "Some sys_redis" m r sample_world]
    unfolding Let_def s_def [symmetric] r_def [symmetric] m_def [symmetric] by simp
qed

end
