(* ===== verification/Sdk_Client.thy ===== *)
theory Sdk_Client
  imports Handlers
begin

text \<open>
  The Go client SDK: \<open>sdk/go/agentmsg\<close>, client.go, errors.go and models.go. A client is its
  configuration and a transport, \<open>http.Client.Do\<close> and the parser of URLs. The SDK declares
  the message, capability and subscription types again, with the fields and tags of
  \<open>internal/model\<close>; their records and JSON forms are shared with theories Model and
  Model_Json (the column text of the recipients is in no JSON form). A response body is
  what reading it to the end gives.
\<close>

section \<open>The SDK's types\<close>

type_synonym SDK_Message = Message
type_synonym SDK_Agent = Agent
type_synonym SDK_Subscription = Subscription

datatype sdk_error =
    SDK_ErrAgentNotFound
  | SDK_ErrMessageNotFound
  | SDK_ErrConnectionFailed
  | SDK_ErrTimeout
  | SDK_ErrInvalidConfig
  | SDK_Error go_error

definition sdk_try :: "('w, 'a result) io \<Rightarrow> ('a \<Rightarrow> ('w, sdk_error + 'b) io) \<Rightarrow> ('w, sdk_error + 'b) io" where
  "sdk_try m f = do { r \<leftarrow> m; (case r of Inl e \<Rightarrow> ret (Inl (SDK_Error e)) | Inr x \<Rightarrow> f x) }"

record http_request =
  HQ_Method :: string
  HQ_URL :: string
  HQ_Headers :: "(string \<times> string) list"
  HQ_Body :: bytes

record http_response =
  HR_StatusCode :: int
  HR_Body :: "bytes result"

text \<open>\<open>HT_Do\<close> is given the client's timeout; \<open>HT_ParseURL\<close> is what \<open>http.NewRequest\<close> makes of a URL.\<close>

record 'w http_transport =
  HT_ParseURL :: "string \<Rightarrow> unit result"
  HT_Do :: "duration \<Rightarrow> http_request \<Rightarrow> ('w, http_response result) io"

record 'w ClientConfig =
  CC_APIKey :: string
  CC_AgentID :: uuid
  CC_TenantID :: uuid
  CC_BaseURL :: string
  CC_WSURL :: string
  CC_Timeout :: duration
  CC_OnMessage :: "(SDK_Message \<Rightarrow> ('w, unit) io) option"
  CC_OnError :: "(go_error \<Rightarrow> ('w, unit) io) option"
  CC_OnConnect :: "('w, unit) io option"
  CC_OnDisconnect :: "('w, unit) io option"

record 'w Client =
  Client_config :: "'w ClientConfig"
  Client_httpTimeout :: duration

section \<open>JSON of the SDK's types\<close>

definition CapabilityParams_json :: "CapabilityParams \<Rightarrow> json" where
  "CapabilityParams_json p = JObj
    ([(''inputFormat'', JStr (Params_InputFormat p)), (''outputFormat'', JStr (Params_OutputFormat p))] @
     omit_if (Params_MaxDurationMs p = 0) ''maxDurationMs'' (enc_int (Params_MaxDurationMs p)) @
     omit_if (Params_MaxTokens p = 0) ''maxTokens'' (enc_int (Params_MaxTokens p)))"

definition CapabilityConstraints_json :: "CapabilityConstraints \<Rightarrow> json" where
  "CapabilityConstraints_json c = JObj
    (omit_if (Constraints_RateLimit c = 0) ''rateLimit'' (enc_int (Constraints_RateLimit c)) @
     omit_if (float_zero (Constraints_CostPerCall c)) ''costPerCall'' (JNum (Constraints_CostPerCall c)) @
     omit_if (Constraints_Quota c = 0) ''quota'' (enc_int (Constraints_Quota c)) @
     omit_if (Constraints_QuotaUsed c = 0) ''quotaUsed'' (enc_int (Constraints_QuotaUsed c)))"

definition CapabilityQuality_json :: "CapabilityQuality \<Rightarrow> json" where
  "CapabilityQuality_json q = JObj
    (omit_if (float_zero (Quality_SuccessRate q)) ''successRate'' (JNum (Quality_SuccessRate q)) @
     omit_if (Quality_AvgLatencyMs q = 0) ''avgLatencyMs'' (enc_int (Quality_AvgLatencyMs q)) @
     omit_if (float_zero (Quality_Rating q)) ''rating'' (JNum (Quality_Rating q)))"

definition Capability_json :: "Capability \<Rightarrow> json" where
  "Capability_json c = JObj
    ([(''type'', JStr (Capability_Type c)), (''description'', JStr (Capability_Description c))] @
     omit_if (elems (Capability_Examples c) = []) ''examples'' (enc_slice JStr (Capability_Examples c)) @
     omit_nil ''parameters'' CapabilityParams_json (Capability_Parameters c) @
     omit_nil ''constraints'' CapabilityConstraints_json (Capability_Constraints c) @
     omit_nil ''quality'' CapabilityQuality_json (Capability_Quality c))"

definition Endpoint_json :: "Endpoint \<Rightarrow> json" where
  "Endpoint_json e = JObj
    ([(''type'', JStr (Endpoint_Type e)), (''url'', JStr (Endpoint_URL e))] @
     omit_if (Endpoint_Weight e = 0) ''weight'' (enc_int (Endpoint_Weight e)) @
     [(''isPrimary'', JBool (Endpoint_IsPrimary e))])"

definition zero_Endpoint :: Endpoint where
  "zero_Endpoint = \<lparr>Endpoint_Type = [], Endpoint_URL = [], Endpoint_Weight = 0, Endpoint_IsPrimary = False\<rparr>"

definition Endpoint_fields :: "(string \<times> (json \<Rightarrow> Endpoint \<Rightarrow> Endpoint option)) list" where
  "Endpoint_fields =
   [(''type'', field Endpoint_Type Endpoint_Type_update dec_string), (''url'', field Endpoint_URL Endpoint_URL_update dec_string),
    (''weight'', field Endpoint_Weight Endpoint_Weight_update dec_int),
    (''isPrimary'', field Endpoint_IsPrimary Endpoint_IsPrimary_update dec_bool)]"

definition Agent_json :: "go_env \<Rightarrow> SDK_Agent \<Rightarrow> json option" where
  "Agent_json G a =
     (case (enc_time_opt G ''verifiedAt'' (Agent_VerifiedAt a), enc_time G (Agent_LastHeartbeat a), enc_time G (Agent_CreatedAt a),
            enc_time G (Agent_UpdatedAt a)) of
        (Some verified, Some heartbeat, Some created, Some updated) \<Rightarrow> Some (JObj
          ([(''id'', enc_uuid G (Agent_ID a)), (''tenantId'', enc_uuid G (Agent_TenantID a)), (''did'', JStr (Agent_DID a)),
            (''publicKey'', JStr (Agent_PublicKey a)), (''name'', JStr (Agent_Name a)), (''version'', JStr (Agent_Version a)),
            (''provider'', JStr (Agent_Provider a)), (''tier'', JStr (Agent_Tier a)),
            (''capabilities'', enc_slice Capability_json (Agent_Capabilities a)),
            (''endpoints'', enc_slice Endpoint_json (Agent_Endpoints a)), (''trustLevel'', enc_int (Agent_TrustLevel a))] @
           verified @
           [(''status'', JStr (Agent_Status a)), (''lastHeartbeat'', heartbeat), (''createdAt'', created), (''updatedAt'', updated)]))
      | _ \<Rightarrow> None)"

definition Agent_fields :: "go_env \<Rightarrow> (string \<times> (json \<Rightarrow> SDK_Agent \<Rightarrow> SDK_Agent option)) list" where
  "Agent_fields G =
   [(''id'', field Agent_ID Agent_ID_update (dec_uuid G)), (''tenantId'', field Agent_TenantID Agent_TenantID_update (dec_uuid G)),
    (''did'', field Agent_DID Agent_DID_update dec_string), (''publicKey'', field Agent_PublicKey Agent_PublicKey_update dec_string),
    (''name'', field Agent_Name Agent_Name_update dec_string), (''version'', field Agent_Version Agent_Version_update dec_string),
    (''provider'', field Agent_Provider Agent_Provider_update dec_string), (''tier'', field Agent_Tier Agent_Tier_update dec_string),
    (''capabilities'', field Agent_Capabilities Agent_Capabilities_update (dec_capabilities G)),
    (''endpoints'', field Agent_Endpoints Agent_Endpoints_update (dec_slice (dec_struct Endpoint_fields) zero_Endpoint)),
    (''trustLevel'', field Agent_TrustLevel Agent_TrustLevel_update dec_int),
    (''verifiedAt'', field Agent_VerifiedAt Agent_VerifiedAt_update (dec_ptr (dec_time G) 0)),
    (''status'', field Agent_Status Agent_Status_update dec_string),
    (''lastHeartbeat'', field Agent_LastHeartbeat Agent_LastHeartbeat_update (dec_time G)),
    (''createdAt'', field Agent_CreatedAt Agent_CreatedAt_update (dec_time G)),
    (''updatedAt'', field Agent_UpdatedAt Agent_UpdatedAt_update (dec_time G))]"

definition zero_SendResult :: SendResult where
  "zero_SendResult = \<lparr>Send_MessageID = uuid_Nil, Send_Status = [], Send_DeliveredAt = None\<rparr>"

definition SendResult_fields :: "go_env \<Rightarrow> (string \<times> (json \<Rightarrow> SendResult \<Rightarrow> SendResult option)) list" where
  "SendResult_fields G =
   [(''messageId'', field Send_MessageID Send_MessageID_update (dec_uuid G)),
    (''status'', field Send_Status Send_Status_update dec_string),
    (''deliveredAt'', field Send_DeliveredAt Send_DeliveredAt_update (dec_ptr dec_int 0))]"

text \<open>A slice of message pointers; it cannot be marshalled when one of the messages cannot.\<close>

definition messages_json :: "go_env \<Rightarrow> SDK_Message option slice \<Rightarrow> json option" where
  "messages_json G ms = (case ms of
     None \<Rightarrow> Some JNull
   | Some ps \<Rightarrow> map_option JArr (those (map (\<lambda>p. case p of None \<Rightarrow> Some JNull | Some m \<Rightarrow> Message_json G m) ps)))"

definition marshal :: "json option \<Rightarrow> bytes result" where
  "marshal j = (case j of None \<Rightarrow> Inl encode_error | Some v \<Rightarrow> Inr (json_text v))"

section \<open>Requests\<close>

text \<open>\<open>json.NewDecoder(resp.Body).Decode\<close>: the first value of the body.\<close>

definition decode_body :: "(json \<Rightarrow> 'a \<Rightarrow> 'a option) \<Rightarrow> 'a \<Rightarrow> http_response \<Rightarrow> sdk_error + 'a" where
  "decode_body d zero resp = (case HR_Body resp of
     Inl e \<Rightarrow> Inl (SDK_Error e)
   | Inr body \<Rightarrow> (case first_json body of
       None \<Rightarrow> Inl (SDK_Error decode_error)
     | Some j \<Rightarrow> (case d j zero of None \<Rightarrow> Inl (SDK_Error decode_error) | Some x \<Rightarrow> Inr x)))"

definition status_error :: "http_response \<Rightarrow> sdk_error" where
  "status_error resp = SDK_Error (OtherError (''request failed with status: '' @ strconv_Itoa (HR_StatusCode resp)))"

text \<open>The envelope's \<open>code\<close> and \<open>message\<close>.\<close>

definition envelope_fields :: "(string \<times> (json \<Rightarrow> string \<times> string \<Rightarrow> (string \<times> string) option)) list" where
  "envelope_fields =
   [(''error'', dec_struct
       [(''code'', field fst (\<lambda>f p. (f (fst p), snd p)) dec_string), (''message'', field snd (\<lambda>f p. (fst p, f (snd p))) dec_string)])]"

definition decodeAPIError :: "http_response \<Rightarrow> sdk_error" where
  "decodeAPIError resp = (case HR_Body resp of
     Inl e \<Rightarrow> status_error resp
   | Inr body \<Rightarrow> (case Unmarshal_struct envelope_fields ([], []) body of
       None \<Rightarrow> status_error resp
     | Some (code, message) \<Rightarrow>
         (if message = [] then status_error resp
          else if HR_StatusCode resp = 404 \<and> code = ''agent_not_found'' then SDK_ErrAgentNotFound
          else if HR_StatusCode resp = 404 \<and> code = ''message_not_found'' then SDK_ErrMessageNotFound
          else SDK_Error (OtherError (code @ '': '' @ message)))))"

text \<open>
  What every method does around its body: build the request, with a content type when there
  is a body, and the bearer token, and send it.
\<close>

definition api_call :: "'w http_transport \<Rightarrow> 'w Client \<Rightarrow> string \<Rightarrow> string \<Rightarrow> bytes option \<Rightarrow> ('w, http_response result) io" where
  "api_call T c method path body =
     (let url = CC_BaseURL (Client_config c) @ path
      in case HT_ParseURL T url of
           Inl e \<Rightarrow> ret (Inl e)
         | Inr _ \<Rightarrow> HT_Do T (Client_httpTimeout c)
             \<lparr>HQ_Method = method, HQ_URL = url,
              HQ_Headers = (case body of None \<Rightarrow> [] | Some _ \<Rightarrow> [(''Content-Type'', ''application/json'')]) @
                [(''Authorization'', ''Bearer '' @ CC_APIKey (Client_config c))],
              HQ_Body = (case body of None \<Rightarrow> [] | Some b \<Rightarrow> b)\<rparr>)"

section \<open>The client\<close>

text \<open>The defaults are set in the caller's configuration, which the client keeps.\<close>

definition NewClient :: "'w ClientConfig option \<Rightarrow> sdk_error + 'w Client" where
  "NewClient config0 = (case config0 of
     None \<Rightarrow> Inl SDK_ErrInvalidConfig
   | Some config \<Rightarrow>
       (let config = (if CC_BaseURL config = [] then config\<lparr>CC_BaseURL := ''https://api.agentmsg.cloud''\<rparr> else config);
            config = (if CC_Timeout config = 0 then config\<lparr>CC_Timeout := 30 * Second\<rparr> else config)
        in Inr \<lparr>Client_config = config, Client_httpTimeout = CC_Timeout config\<rparr>))"

definition Client_Connect :: "'w http_transport \<Rightarrow> 'w Client \<Rightarrow> ('w, sdk_error + unit) io" where
  "Client_Connect T c =
     (let url = CC_BaseURL (Client_config c) @ ''/health''
      in case HT_ParseURL T url of
           Inl e \<Rightarrow> ret (Inl (SDK_Error e))
         | Inr _ \<Rightarrow> do {
             r \<leftarrow> HT_Do T (Client_httpTimeout c) \<lparr>HQ_Method = ''GET'', HQ_URL = url, HQ_Headers = [], HQ_Body = []\<rparr>;
             (case r of
                Inl e \<Rightarrow> ret (Inl (SDK_Error (OtherError (''health check failed: '' @ err_Error e))))
              | Inr resp \<Rightarrow>
                  (if HR_StatusCode resp \<noteq> 200 then
                     ret (Inl (SDK_Error (OtherError (''health check failed with status: '' @ strconv_Itoa (HR_StatusCode resp)))))
                   else (case CC_OnConnect (Client_config c) of
                     None \<Rightarrow> ret (Inr ())
                   | Some f \<Rightarrow> do { f; ret (Inr ()) })))
           })"

definition Client_Disconnect :: "'w Client \<Rightarrow> ('w, sdk_error + unit) io" where
  "Client_Disconnect c = (case CC_OnDisconnect (Client_config c) of
     None \<Rightarrow> ret (Inr ()) | Some f \<Rightarrow> do { f; ret (Inr ()) })"

text \<open>The agent that the caller passed, after the call, and the error; an answer that cannot be
  decoded leaves it as it was.\<close>

definition Client_RegisterAgent :: "go_env \<Rightarrow> 'w http_transport \<Rightarrow> 'w Client \<Rightarrow> SDK_Agent \<Rightarrow> ('w, SDK_Agent \<times> (sdk_error + unit)) io" where
  "Client_RegisterAgent G T c agent = (case marshal (Agent_json G agent) of
     Inl e \<Rightarrow> ret (agent, Inl (SDK_Error e))
   | Inr body \<Rightarrow> do {
       r \<leftarrow> api_call T c ''POST'' ''/api/v1/agents'' (Some body);
       ret (case r of
          Inl e \<Rightarrow> (agent, Inl (SDK_Error e))
        | Inr resp \<Rightarrow>
            (if HR_StatusCode resp \<noteq> 201 then (agent, Inl (decodeAPIError resp))
             else (case decode_body (dec_struct (Agent_fields G)) agent resp of
                Inl e \<Rightarrow> (agent, Inl e)
              | Inr agent' \<Rightarrow> (agent', Inr ()))))
     })"

definition Client_UpdateAgentCapabilities ::
    "go_env \<Rightarrow> 'w http_transport \<Rightarrow> 'w Client \<Rightarrow> Capability slice \<Rightarrow> ('w, sdk_error + SDK_Agent) io" where
  "Client_UpdateAgentCapabilities G T c capabilities =
     sdk_try (api_call T c ''PUT'' (''/api/v1/agents/'' @ uuid_String G (CC_AgentID (Client_config c)))
       (Some (json_text (JObj [(''capabilities'', enc_slice Capability_json capabilities)])))) (\<lambda>resp.
     ret (if HR_StatusCode resp \<noteq> 200 then Inl (decodeAPIError resp)
          else decode_body (dec_struct (Agent_fields G)) zero_Agent resp))"

definition Client_GetAgent :: "go_env \<Rightarrow> 'w http_transport \<Rightarrow> 'w Client \<Rightarrow> uuid \<Rightarrow> ('w, sdk_error + SDK_Agent) io" where
  "Client_GetAgent G T c agentID =
     sdk_try (api_call T c ''GET'' (''/api/v1/agents/'' @ uuid_String G agentID) None) (\<lambda>resp.
     ret (if HR_StatusCode resp = 404 then Inl SDK_ErrAgentNotFound
          else if HR_StatusCode resp \<noteq> 200 then Inl (decodeAPIError resp)
          else decode_body (dec_struct (Agent_fields G)) zero_Agent resp))"

definition Client_ListAgents :: "go_env \<Rightarrow> 'w http_transport \<Rightarrow> 'w Client \<Rightarrow> ('w, sdk_error + SDK_Agent slice) io" where
  "Client_ListAgents G T c =
     sdk_try (api_call T c ''GET'' ''/api/v1/agents'' None) (\<lambda>resp.
     ret (if HR_StatusCode resp \<noteq> 200 then Inl (decodeAPIError resp)
          else decode_body (dec_slice (dec_struct (Agent_fields G)) zero_Agent) None resp))"

text \<open>The identity of the client goes into the caller's message.\<close>

definition identified_message :: "'w runtime \<Rightarrow> 'w Client \<Rightarrow> SDK_Message \<Rightarrow> ('w, SDK_Message) io" where
  "identified_message R c msg = do {
     let msg = msg\<lparr>Message_SenderID := CC_AgentID (Client_config c), Message_TenantID := CC_TenantID (Client_config c)\<rparr>;
     (if Message_ConversationID msg = uuid_Nil
      then do { i \<leftarrow> uuid_New R; ret (msg\<lparr>Message_ConversationID := i\<rparr>) }
      else ret msg)
   }"

definition Client_SendMessage ::
    "go_env \<Rightarrow> 'w runtime \<Rightarrow> 'w http_transport \<Rightarrow> 'w Client \<Rightarrow> SDK_Message option \<Rightarrow> ('w, sdk_error + SendResult) io" where
  "Client_SendMessage G R T c msg0 = (case msg0 of
     None \<Rightarrow> ret (Inl SDK_ErrInvalidConfig)
   | Some msg \<Rightarrow> do {
       msg \<leftarrow> identified_message R c msg;
       (case marshal (Message_json G msg) of
          Inl e \<Rightarrow> ret (Inl (SDK_Error e))
        | Inr body \<Rightarrow>
            sdk_try (api_call T c ''POST'' ''/api/v1/messages'' (Some body)) (\<lambda>resp.
            ret (if HR_StatusCode resp \<noteq> 201 then Inl (decodeAPIError resp)
                 else decode_body (dec_struct (SendResult_fields G)) zero_SendResult resp)))
     })"

definition Client_SendBatchMessages ::
    "go_env \<Rightarrow> 'w http_transport \<Rightarrow> 'w Client \<Rightarrow> SDK_Message option slice \<Rightarrow> ('w, sdk_error + SendResult slice) io" where
  "Client_SendBatchMessages G T c messages = (case marshal (map_option (\<lambda>j. JObj [(''messages'', j)]) (messages_json G messages)) of
     Inl e \<Rightarrow> ret (Inl (SDK_Error e))
   | Inr body \<Rightarrow>
       sdk_try (api_call T c ''POST'' ''/api/v1/messages/batch'' (Some body)) (\<lambda>resp.
       ret (if HR_StatusCode resp \<noteq> 201 then Inl (decodeAPIError resp)
            else decode_body (dec_struct [(''results'', dec_slice (dec_struct (SendResult_fields G)) zero_SendResult)]) None resp)))"

definition Client_GetMessage :: "go_env \<Rightarrow> 'w http_transport \<Rightarrow> 'w Client \<Rightarrow> uuid \<Rightarrow> ('w, sdk_error + SDK_Message) io" where
  "Client_GetMessage G T c messageID =
     sdk_try (api_call T c ''GET'' (''/api/v1/messages/'' @ uuid_String G messageID) None) (\<lambda>resp.
     ret (if HR_StatusCode resp = 404 then Inl SDK_ErrMessageNotFound
          else if HR_StatusCode resp \<noteq> 200 then Inl (decodeAPIError resp)
          else decode_body (Message_of_json G) zero_Message resp))"

definition Client_AcknowledgeMessage ::
    "go_env \<Rightarrow> 'w http_transport \<Rightarrow> 'w Client \<Rightarrow> uuid \<Rightarrow> AckStatus \<Rightarrow> ('w, sdk_error + unit) io" where
  "Client_AcknowledgeMessage G T c messageID status =
     sdk_try (api_call T c ''POST'' (''/api/v1/messages/'' @ uuid_String G messageID @ ''/ack'')
       (Some (json_text (JObj [(''status'', JStr status)])))) (\<lambda>resp.
     ret (if HR_StatusCode resp \<noteq> 200 then Inl (decodeAPIError resp) else Inr ()))"

definition Client_CreateSubscription ::
    "go_env \<Rightarrow> 'w http_transport \<Rightarrow> 'w Client \<Rightarrow> SDK_Subscription \<Rightarrow> ('w, sdk_error + unit) io" where
  "Client_CreateSubscription G T c sub =
     sdk_try (api_call T c ''POST'' ''/api/v1/subscriptions'' (Some (json_text (Subscription_json G sub)))) (\<lambda>resp.
     ret (if HR_StatusCode resp \<noteq> 201 then Inl (decodeAPIError resp) else Inr ()))"

definition Client_ListSubscriptions :: "go_env \<Rightarrow> 'w http_transport \<Rightarrow> 'w Client \<Rightarrow> ('w, sdk_error + SDK_Subscription slice) io" where
  "Client_ListSubscriptions G T c =
     sdk_try (api_call T c ''GET'' ''/api/v1/subscriptions'' None) (\<lambda>resp.
     ret (if HR_StatusCode resp \<noteq> 200 then Inl (decodeAPIError resp)
          else decode_body (dec_struct [(''subscriptions'', dec_slice (Subscription_of_json G) zero_Subscription)]) None resp))"

definition Client_DeleteSubscription :: "go_env \<Rightarrow> 'w http_transport \<Rightarrow> 'w Client \<Rightarrow> uuid \<Rightarrow> ('w, sdk_error + unit) io" where
  "Client_DeleteSubscription G T c subscriptionID =
     sdk_try (api_call T c ''DELETE'' (''/api/v1/subscriptions/'' @ uuid_String G subscriptionID) None) (\<lambda>resp.
     ret (if HR_StatusCode resp \<noteq> 204 then Inl (decodeAPIError resp) else Inr ()))"

definition Client_QueryCapabilities :: "go_env \<Rightarrow> 'w http_transport \<Rightarrow> 'w Client \<Rightarrow> string slice \<Rightarrow> ('w, sdk_error + SDK_Agent slice) io" where
  "Client_QueryCapabilities G T c capabilities =
     sdk_try (api_call T c ''POST'' ''/api/v1/discovery/query''
       (Some (json_text (JObj [(''capabilities'', enc_slice JStr capabilities)])))) (\<lambda>resp.
     ret (if HR_StatusCode resp \<noteq> 200 then Inl (decodeAPIError resp)
          else decode_body (dec_struct [(''agents'', dec_slice (dec_struct (Agent_fields G)) zero_Agent)]) None resp))"

definition Client_Heartbeat :: "go_env \<Rightarrow> 'w http_transport \<Rightarrow> 'w Client \<Rightarrow> ('w, sdk_error + unit) io" where
  "Client_Heartbeat G T c =
     sdk_try (api_call T c ''POST'' (''/api/v1/agents/'' @ uuid_String G (CC_AgentID (Client_config c)) @ ''/heartbeat'') None) (\<lambda>resp.
     ret (if HR_StatusCode resp \<noteq> 200 then Inl (decodeAPIError resp) else Inr ()))"

end
