(* ===== verification/Sdk_Json.thy ===== *)
theory Sdk_Json
  imports Sdk_Client Model_Roundtrip Go_Time
begin

text \<open>
  What the SDK writes is what the server's structs read: the texts of agents, capabilities
  and subscriptions, from the client's encoder through the JSON text to the decoder of the
  request, up to what the encoding leaves out (\<open>norm_capability\<close>).
\<close>

section \<open>The text of a body\<close>

lemma first_json_text: "value_ok 10000 j \<Longrightarrow> first_json (json_text j) = Some j"
  using parse_text(1) [of j max_nesting "[]" "2 * length (json_text j) + 2"]
  by (simp add: first_json_def value_ok_def max_nesting_def safe_rest_def)

lemma bind_text:
  assumes "value_ok 10000 j" "Req_Body (Gin_Request c) = json_text j"
  shows "ShouldBindJSON fs zero c = (case dec_struct fs j zero of None \<Rightarrow> Inl decode_error | Some r \<Rightarrow> Inr r)"
  using assms by (simp add: ShouldBindJSON_def first_json_text)

section \<open>Capabilities\<close>

lemma params_find:
  "find_field CapabilityParams_fields ''inputFormat'' = Some (field Params_InputFormat Params_InputFormat_update dec_string)"
  "find_field CapabilityParams_fields ''outputFormat'' = Some (field Params_OutputFormat Params_OutputFormat_update dec_string)"
  "find_field CapabilityParams_fields ''maxDurationMs'' = Some (field Params_MaxDurationMs Params_MaxDurationMs_update dec_int)"
  "find_field CapabilityParams_fields ''maxTokens'' = Some (field Params_MaxTokens Params_MaxTokens_update dec_int)"
  by (simp_all add: CapabilityParams_fields_def key_matches_def key_fold_def byte_def chr_def)

lemma constraints_find:
  "find_field (CapabilityConstraints_fields G) ''rateLimit'' = Some (field Constraints_RateLimit Constraints_RateLimit_update dec_int)"
  "find_field (CapabilityConstraints_fields G) ''costPerCall'' = Some (field Constraints_CostPerCall Constraints_CostPerCall_update (dec_float G))"
  "find_field (CapabilityConstraints_fields G) ''quota'' = Some (field Constraints_Quota Constraints_Quota_update dec_int)"
  "find_field (CapabilityConstraints_fields G) ''quotaUsed'' = Some (field Constraints_QuotaUsed Constraints_QuotaUsed_update dec_int)"
  by (simp_all add: CapabilityConstraints_fields_def key_matches_def key_fold_def byte_def chr_def)

lemma quality_find:
  "find_field (CapabilityQuality_fields G) ''successRate'' = Some (field Quality_SuccessRate Quality_SuccessRate_update (dec_float G))"
  "find_field (CapabilityQuality_fields G) ''avgLatencyMs'' = Some (field Quality_AvgLatencyMs Quality_AvgLatencyMs_update dec_int)"
  "find_field (CapabilityQuality_fields G) ''rating'' = Some (field Quality_Rating Quality_Rating_update (dec_float G))"
  by (simp_all add: CapabilityQuality_fields_def key_matches_def key_fold_def byte_def chr_def)

lemma capability_find:
  "find_field (Capability_fields G) ''type'' = Some (field Capability_Type Capability_Type_update dec_string)"
  "find_field (Capability_fields G) ''description'' = Some (field Capability_Description Capability_Description_update dec_string)"
  "find_field (Capability_fields G) ''examples'' = Some (field Capability_Examples Capability_Examples_update (dec_slice dec_string []))"
  "find_field (Capability_fields G) ''parameters'' = Some (field Capability_Parameters Capability_Parameters_update
     (dec_ptr (dec_struct CapabilityParams_fields) zero_CapabilityParams))"
  "find_field (Capability_fields G) ''constraints'' = Some (field Capability_Constraints Capability_Constraints_update
     (dec_ptr (dec_struct (CapabilityConstraints_fields G)) zero_CapabilityConstraints))"
  "find_field (Capability_fields G) ''quality'' = Some (field Capability_Quality Capability_Quality_update
     (dec_ptr (dec_struct (CapabilityQuality_fields G)) zero_CapabilityQuality))"
  by (simp_all add: Capability_fields_def key_matches_def key_fold_def byte_def chr_def)

text \<open>Values Go can hold, with texts in UTF-8, and what comes back of them.\<close>

definition params_ok :: "CapabilityParams \<Rightarrow> bool" where
  "params_ok p \<longleftrightarrow> utf8_ok (Params_InputFormat p) \<and> utf8_ok (Params_OutputFormat p) \<and> int64 (Params_MaxDurationMs p) \<and>
     int64 (Params_MaxTokens p)"

definition constraints_ok :: "go_env \<Rightarrow> CapabilityConstraints \<Rightarrow> bool" where
  "constraints_ok G c \<longleftrightarrow> int64 (Constraints_RateLimit c) \<and> float_ok G (Constraints_CostPerCall c) \<and> int64 (Constraints_Quota c) \<and>
     int64 (Constraints_QuotaUsed c)"

definition quality_ok :: "go_env \<Rightarrow> CapabilityQuality \<Rightarrow> bool" where
  "quality_ok G q \<longleftrightarrow> float_ok G (Quality_SuccessRate q) \<and> int64 (Quality_AvgLatencyMs q) \<and> float_ok G (Quality_Rating q)"

definition capability_ok :: "go_env \<Rightarrow> Capability \<Rightarrow> bool" where
  "capability_ok G c \<longleftrightarrow> utf8_ok (Capability_Type c) \<and> utf8_ok (Capability_Description c) \<and>
     list_all utf8_ok (elems (Capability_Examples c)) \<and> (case Capability_Parameters c of None \<Rightarrow> True | Some p \<Rightarrow> params_ok p) \<and>
     (case Capability_Constraints c of None \<Rightarrow> True | Some x \<Rightarrow> constraints_ok G x) \<and>
     (case Capability_Quality c of None \<Rightarrow> True | Some q \<Rightarrow> quality_ok G q)"

definition norm_capability :: "Capability \<Rightarrow> Capability" where
  "norm_capability c = c\<lparr>Capability_Examples := norm_slice (Capability_Examples c),
     Capability_Constraints := map_option (\<lambda>x. x\<lparr>Constraints_CostPerCall := norm_float (Constraints_CostPerCall x)\<rparr>) (Capability_Constraints c),
     Capability_Quality := map_option (\<lambda>q. q\<lparr>Quality_SuccessRate := norm_float (Quality_SuccessRate q),
       Quality_Rating := norm_float (Quality_Rating q)\<rparr>) (Capability_Quality c)\<rparr>"

lemma params_roundtrip:
  "params_ok p \<Longrightarrow> dec_struct CapabilityParams_fields (CapabilityParams_json p) zero_CapabilityParams = Some p"
  by (cases p)
    (auto simp: CapabilityParams_json_def dec_struct_def dec_members_append dec_members_omit params_find
      zero_CapabilityParams_def params_ok_def pick_def field_def)

lemma constraints_roundtrip:
  "constraints_ok G c \<Longrightarrow> dec_struct (CapabilityConstraints_fields G) (CapabilityConstraints_json c) zero_CapabilityConstraints =
    Some (c\<lparr>Constraints_CostPerCall := norm_float (Constraints_CostPerCall c)\<rparr>)"
  by (cases c)
    (auto simp: CapabilityConstraints_json_def dec_struct_def dec_members_append dec_members_omit constraints_find
      zero_CapabilityConstraints_def constraints_ok_def pick_def norm_float_def)

lemma quality_roundtrip:
  "quality_ok G q \<Longrightarrow> dec_struct (CapabilityQuality_fields G) (CapabilityQuality_json q) zero_CapabilityQuality =
    Some (q\<lparr>Quality_SuccessRate := norm_float (Quality_SuccessRate q), Quality_Rating := norm_float (Quality_Rating q)\<rparr>)"
  by (cases q)
    (auto simp: CapabilityQuality_json_def dec_struct_def dec_members_append dec_members_omit quality_find
      zero_CapabilityQuality_def quality_ok_def pick_def norm_float_def)

lemma capability_parts_not_null [simp]:
  "CapabilityParams_json p \<noteq> JNull" "CapabilityConstraints_json c \<noteq> JNull" "CapabilityQuality_json q \<noteq> JNull"
  by (simp_all add: CapabilityParams_json_def CapabilityConstraints_json_def CapabilityQuality_json_def)

lemma dec_struct_obj: "dec_struct fs (JObj kvs) z = dec_members fs kvs z"
  by (simp add: dec_struct_def)

lemma capability_roundtrip:
  assumes "capability_ok G c"
  shows "dec_struct (Capability_fields G) (Capability_json c) zero_Capability = Some (norm_capability c)"
  unfolding Capability_json_def dec_struct_obj using assms
  by (cases c; cases "Capability_Parameters c"; cases "Capability_Constraints c"; cases "Capability_Quality c")
    (auto simp: dec_members_append dec_members_omit dec_members_ptr capability_find
      zero_Capability_def capability_ok_def pick_def norm_capability_def norm_slice_def dec_enc_slice field_def
      params_roundtrip constraints_roundtrip quality_roundtrip)

lemma dec_norm_slice:
  assumes "\<And>x. x \<in> set (elems s) \<Longrightarrow> d (e x) z = Some (f x)"
  shows "dec_slice d z (enc_slice e s) y = Some (map_option (map f) s)"
proof -
  have "those (map (\<lambda>x. d (e x) z) xs) = Some (map f xs)" if "\<And>x. x \<in> set xs \<Longrightarrow> d (e x) z = Some (f x)" for xs
    using that by (induction xs) simp_all
  then show ?thesis using assms by (cases s) (simp_all add: dec_slice_def enc_slice_def comp_def)
qed

lemma capabilities_roundtrip:
  "list_all (capability_ok G) (elems cs) \<Longrightarrow>
    dec_capabilities G (enc_slice Capability_json cs) y = Some (map_option (map norm_capability) cs)"
  unfolding dec_capabilities_def by (rule dec_norm_slice) (simp add: capability_roundtrip list_all_iff)

lemma sdk_names_utf8:
  "list_all utf8_ok [''inputFormat'', ''outputFormat'', ''maxDurationMs'', ''maxTokens'', ''rateLimit'', ''costPerCall'', ''quota'',
    ''quotaUsed'', ''successRate'', ''avgLatencyMs'', ''rating'', ''type'', ''description'', ''examples'', ''parameters'', ''constraints'',
    ''quality'', ''url'', ''weight'', ''isPrimary'', ''id'', ''tenantId'', ''did'', ''publicKey'', ''name'', ''version'', ''provider'',
    ''tier'', ''capabilities'', ''endpoints'', ''trustLevel'', ''verifiedAt'', ''status'', ''lastHeartbeat'', ''createdAt'', ''updatedAt'']"
  unfolding list.pred_inject by (intro conjI utf8_ok_ascii TrueI) (simp_all add: is_ascii_def byte_def)

lemmas sdk_utf8 = sdk_names_utf8 [unfolded list.pred_inject]

lemma capability_value:
  assumes "capability_ok G c"
  shows "value_ok (Suc (Suc n)) (Capability_json c)"
proof -
  have "value_ok (Suc n) (CapabilityParams_json p)" if "params_ok p" for p
    using that by (simp add: CapabilityParams_json_def value_ok_obj params_ok_def sdk_utf8 del: utf8_ok.simps)
  moreover have "value_ok (Suc n) (CapabilityConstraints_json x)" if "constraints_ok G x" for x
    using that by (simp add: CapabilityConstraints_json_def value_ok_obj constraints_ok_def float_ok_def sdk_utf8 del: utf8_ok.simps)
  moreover have "value_ok (Suc n) (CapabilityQuality_json q)" if "quality_ok G q" for q
    using that by (simp add: CapabilityQuality_json_def value_ok_obj quality_ok_def float_ok_def sdk_utf8 del: utf8_ok.simps)
  ultimately show ?thesis
    using assms value_ok_strings [of "Capability_Examples c" n]
    by (simp add: Capability_json_def value_ok_obj capability_ok_def sdk_utf8 del: utf8_ok.simps split: option.splits)
qed

section \<open>Registration\<close>

definition sdk_agent_ok :: "go_env \<Rightarrow> SDK_Agent \<Rightarrow> bool" where
  "sdk_agent_ok G a \<longleftrightarrow> utf8_ok (Agent_DID a) \<and> utf8_ok (Agent_PublicKey a) \<and> utf8_ok (Agent_Name a) \<and> utf8_ok (Agent_Version a) \<and>
     utf8_ok (Agent_Provider a) \<and> utf8_ok (Agent_Tier a) \<and> utf8_ok (Agent_Status a) \<and>
     list_all (capability_ok G) (elems (Agent_Capabilities a)) \<and>
     list_all (\<lambda>e. utf8_ok (Endpoint_Type e) \<and> utf8_ok (Endpoint_URL e)) (elems (Agent_Endpoints a))"

lemma agent_request_find:
  "find_field (AgentRequest_fields G) ''did'' = Some (field AR_DID AR_DID_update dec_string)"
  "find_field (AgentRequest_fields G) ''publicKey'' = Some (field AR_PublicKey AR_PublicKey_update dec_string)"
  "find_field (AgentRequest_fields G) ''name'' = Some (field AR_Name AR_Name_update dec_string)"
  "find_field (AgentRequest_fields G) ''version'' = Some (field AR_Version AR_Version_update dec_string)"
  "find_field (AgentRequest_fields G) ''provider'' = Some (field AR_Provider AR_Provider_update dec_string)"
  "find_field (AgentRequest_fields G) ''capabilities'' = Some (field AR_Capabilities AR_Capabilities_update (dec_capabilities G))"
  "k \<in> {''id'', ''tenantId'', ''tier'', ''endpoints'', ''trustLevel'', ''verifiedAt'', ''status'', ''lastHeartbeat'', ''createdAt'',
      ''updatedAt''} \<Longrightarrow> find_field (AgentRequest_fields G) k = None"
  by (auto simp: AgentRequest_fields_def key_matches_def key_fold_def byte_def chr_def)

context codec
begin

lemma agent_value:
  assumes "sdk_agent_ok G a" "Agent_json G a = Some j"
  shows "value_ok 10000 j"
proof -
  have caps: "value_ok 9999 (enc_slice Capability_json (Agent_Capabilities a))"
    using value_ok_slice [of "Agent_Capabilities a" 9998 Capability_json] capability_value [of G _ 9996] assms(1)
    by (simp add: sdk_agent_ok_def list_all_iff)
  have "value_ok 9998 (Endpoint_json e)" if "e \<in> set (elems (Agent_Endpoints a))" for e
    using that assms(1) value_ok_obj [of 9997]
    by (simp add: Endpoint_json_def sdk_agent_ok_def list_all_iff sdk_utf8 del: utf8_ok.simps)
  then have ends: "value_ok 9999 (enc_slice Endpoint_json (Agent_Endpoints a))"
    using value_ok_slice [of "Agent_Endpoints a" 9998 Endpoint_json] by simp
  obtain ve he cr up where times: "enc_time_opt G ''verifiedAt'' (Agent_VerifiedAt a) = Some ve" "enc_time G (Agent_LastHeartbeat a) = Some he"
      "enc_time G (Agent_CreatedAt a) = Some cr" "enc_time G (Agent_UpdatedAt a) = Some up"
    using assms(2) by (fastforce simp: Agent_json_def split: option.splits)
  have ve: "members_ok 9999 ve" by (rule members_ok_time [OF times(1)]) (simp add: sdk_utf8 del: utf8_ok.simps)
  have rest: "value_ok 9999 he" "value_ok 9999 cr" "value_ok 9999 up" using times(2-4) value_ok_env(2) by blast+
  have a: "utf8_ok (Agent_DID a)" "utf8_ok (Agent_PublicKey a)" "utf8_ok (Agent_Name a)" "utf8_ok (Agent_Version a)"
      "utf8_ok (Agent_Provider a)" "utf8_ok (Agent_Tier a)" "utf8_ok (Agent_Status a)"
    using assms(1) by (simp_all add: sdk_agent_ok_def)
  have "value_ok (Suc 9999) j"
    using assms(2) unfolding Agent_json_def times option.case prod.case option.inject
    by (elim subst, unfold value_ok_obj members_ok_simps append_Cons append_Nil, intro conjI)
      (simp_all only: sdk_utf8 a caps ends ve rest value_ok_flat value_ok_env members_ok_simps)
  then show ?thesis by simp
qed

lemma agent_request_json:
  assumes "sdk_agent_ok G a" "Agent_json G a = Some j"
  shows "dec_struct (AgentRequest_fields G) j zero_AgentRequest = Some \<lparr>AR_DID = Agent_DID a, AR_PublicKey = Agent_PublicKey a,
    AR_Name = Agent_Name a, AR_Version = Agent_Version a, AR_Provider = Agent_Provider a,
    AR_Capabilities = map_option (map norm_capability) (Agent_Capabilities a)\<rparr>"
proof -
  obtain ps where ps: "enc_time_opt G ''verifiedAt'' (Agent_VerifiedAt a) = Some ps"
    using assms(2) by (auto simp: Agent_json_def split: option.splits)
  have skip: "dec_members (AgentRequest_fields G) ps r = Some r" for r
    using ps by (auto simp: enc_time_opt_def agent_request_find split: option.splits)
  show ?thesis
    using assms capabilities_roundtrip [of G "Agent_Capabilities a"]
    by (auto simp: Agent_json_def dec_struct_obj dec_members_append agent_request_find skip ps field_def zero_AgentRequest_def
        sdk_agent_ok_def split: option.splits)
qed

end

text \<open>
  C37. A registration arrives as it was meant: the body that the client writes for an agent is
  read by the server as a request with the agent's name, identifier, key, version, provider
  and capabilities, up to empty example lists and negative zeros.
\<close>
theorem sdk_registration_understood:
  assumes "codec G" "sdk_agent_ok G a" "marshal (Agent_json G a) = Inr body" "Req_Body (Gin_Request c) = body"
  shows "ShouldBindJSON (AgentRequest_fields G) zero_AgentRequest c = Inr \<lparr>AR_DID = Agent_DID a, AR_PublicKey = Agent_PublicKey a,
    AR_Name = Agent_Name a, AR_Version = Agent_Version a, AR_Provider = Agent_Provider a,
    AR_Capabilities = map_option (map norm_capability) (Agent_Capabilities a)\<rparr>"
proof -
  obtain j where j: "Agent_json G a = Some j" "body = json_text j" using assms(3) by (auto simp: marshal_def split: option.splits)
  show ?thesis
    using codec.agent_request_json [OF assms(1,2) j(1)] assms(4) j(2) by (simp add: bind_text [OF codec.agent_value [OF assms(1,2) j(1)]])
qed

definition sample_recv :: "http_request \<Rightarrow> gin_request" where
  "sample_recv q = \<lparr>Req_Method = HQ_Method q, Req_URLPath = strings_TrimPrefix (HQ_URL q) ''https://api.agentmsg.cloud'',
     Req_FullPath = strings_TrimPrefix (HQ_URL q) ''https://api.agentmsg.cloud'',
     Req_GetHeader = (\<lambda>k. case map_of (HQ_Headers q) k of None \<Rightarrow> [] | Some v \<Rightarrow> v), Req_Param = (\<lambda>_. []),
     Req_BindQuery = Inl decode_error, Req_Body = HQ_Body q, Req_ClientIP = [], Req_UserAgent = []\<rparr>"

definition sample_registration :: SDK_Agent where
  "sample_registration = zero_Agent\<lparr>Agent_DID := ''did:x'', Agent_Name := ''Ann'', Agent_LastHeartbeat := 2 * Second, Agent_CreatedAt := 2 * Second, Agent_UpdatedAt := 2 * Second,
     Agent_Capabilities := Some [zero_Capability\<lparr>Capability_Type := ''search'', Capability_Examples := Some []\<rparr>]\<rparr>"

lemma sdk_registration_understood_witness:
  "\<exists>body. marshal (Agent_json reference_env sample_registration) = Inr body \<and>
     ShouldBindJSON (AgentRequest_fields reference_env) zero_AgentRequest (gin_new (sample_recv \<lparr>HQ_Method = ''POST'', HQ_URL = [], HQ_Headers = [], HQ_Body = body\<rparr>)) =
     Inr (zero_AgentRequest\<lparr>AR_DID := ''did:x'', AR_Name := ''Ann'', AR_Capabilities := Some [zero_Capability\<lparr>Capability_Type := ''search''\<rparr>]\<rparr>)"
proof -
  obtain body where body: "marshal (Agent_json reference_env sample_registration) = Inr body"
    by (simp add: Agent_json_def marshal_def sample_registration_def zero_Agent_def enc_time_opt_def enc_time_def
        reference_time rfc3339_two_seconds)
  have ok: "sdk_agent_ok reference_env sample_registration"
    by (simp add: sdk_agent_ok_def sample_registration_def zero_Agent_def capability_ok_def zero_Capability_def utf8_ok_ascii is_ascii_def byte_def)
  show ?thesis
    using body sdk_registration_understood [OF reference.codec_axioms ok body]
    by (simp add: sample_recv_def gin_new_def sample_registration_def zero_Agent_def zero_AgentRequest_def norm_capability_def
        zero_Capability_def norm_slice_def)
qed

end
