(* ===== verification/Sdk_Contract.thy ===== *)
theory Sdk_Contract
  imports Sdk_Json Api_Isolation
begin

text \<open>
  The client SDK against the API server: the bodies that the client writes are read by the
  server's own decoders, and a call goes from the client through every layer of \<open>NewServer\<close>
  to the handler and back. The layers share the contract of the locale \<open>status_layer\<close>.
\<close>

section \<open>Reading what the client wrote\<close>

lemma request_fields_recipients:
  assumes "find_field (MessageRequest_fields G) k = Some f" "\<not> key_matches k ''recipients''" "f v r = Some r'"
  shows "MR_Recipients r' = MR_Recipients r"
  using assms by (auto simp: MessageRequest_fields_def field_def split: if_splits)

lemma no_recipients_key:
  assumes "dec_members (MessageRequest_fields G) kvs r = Some r'" "\<forall>k \<in> fst ` set kvs. \<not> key_matches k ''recipients''"
  shows "MR_Recipients r' = MR_Recipients r"
  using assms
  by (induction "MessageRequest_fields G" kvs r rule: dec_members.induct)
    (auto split: option.splits dest: request_fields_recipients)

lemma message_keys:
  assumes "Message_json G m = Some j"
  obtains kvs where "j = JObj kvs" "\<forall>k \<in> fst ` set kvs. \<not> key_matches k ''recipients''"
proof -
  have names: "\<forall>k \<in> set Message_names. \<not> key_matches k ''recipients''" by code_simp
  obtain kvs where "j = JObj kvs" "fst ` set kvs \<subseteq> set Message_names"
    using assms by (auto simp: Message_json_def Message_names_def enc_ptr_opt_def enc_time_opt_def split: option.splits)
  with names that show thesis by blast
qed

section \<open>A message without recipients\<close>

abbreviation not_created :: "gin_ctx \<Rightarrow> bool" where
  "not_created c \<equiv> Gin_Status c \<noteq> 201"

lemma respond_not_created [simp]: "s \<noteq> 201 \<Longrightarrow> not_created (respondError s k m c)" "not_created (respondServiceError e k c)"
  using respondServiceError_status [of e k c] by (auto simp: respondError_def gin_JSON_def)

lemma yields_send_none:
  assumes "elems (Message_RecipientIDs m) = []"
  shows "yields (\<lambda>p. \<exists>e. snd p = Inl e) (MessageService_Send G R s (Some m))"
proof -
  have "send_invalid (Some m)" using assms by (simp add: send_invalid_def)
  then show ?thesis
    unfolding MessageService_Send_def record_ret_def
    by (intro yields_then yields_option yields_prod yields_if yields_ret) (auto intro!: yields_rules)
qed

lemma yields_build:
  "yields (\<lambda>r. \<forall>m. r = Inr m \<longrightarrow> Message_RecipientIDs m = MR_Recipients req) (buildMessageFromRequest R i t tr req)"
  unfolding buildMessageFromRequest_def Let_def
  by (intro yields_sum yields_prod yields_then yields_ret) auto

lemma send_not_created:
  assumes "Message_json G m = Some j" "value_ok 10000 j" "Req_Body (Gin_Request c) = json_text j" "not_created c"
  shows "yields not_created (Server_sendMessage G R deps c)"
proof -
  obtain kvs where kvs: "j = JObj kvs" "\<forall>k \<in> fst ` set kvs. \<not> key_matches k ''recipients''"
    by (rule message_keys [OF assms(1)])
  have req: "elems (MR_Recipients req) = []" if "ShouldBindJSON (MessageRequest_fields G) zero_MessageRequest c = Inr req" for req
    using that no_recipients_key [OF _ kvs(2), of G zero_MessageRequest req] bind_text [OF assms(2,3), of "MessageRequest_fields G" zero_MessageRequest]
    by (auto simp: dec_struct_def kvs(1) zero_MessageRequest_def split: option.splits)
  have sent: "yields not_created (do {
      (msg', r) \<leftarrow> MessageService_Send G R (Deps_MessageService deps) (Some m);
      ret (service_reply r ''message_not_found'' (\<lambda>res. gin_JSON 201 (Body_SendResult res)) c)
    })" if "elems (Message_RecipientIDs m) = []" for m
    by (rule yields_bind [OF yields_send_none [OF that]]) (auto simp: service_reply_def intro!: yields_rules)
  have stop: "bound r c = Inl c' \<Longrightarrow> not_created c'" for r :: "'b result" and c'
    by (auto simp: bound_def split: sum.splits)
  have ids: "contextUUID G c k = Inl c' \<Longrightarrow> not_created c'" for k c'
    by (auto simp: contextUUID_def parseUUIDValue_def Let_def split: if_splits option.splits)
  show ?thesis
    unfolding Server_sendMessage_def or_return_def
    by (intro yields_sum yields_bind [OF yields_build] yields_ret sent)
      (auto dest: stop ids simp: bound_def split: sum.splits dest!: req)
qed

section \<open>The layers\<close>

text \<open>
  A layer of the chain passes the request on with no 201 set, or answers otherwise; and it
  does not turn another answer of its handler into a 201.
\<close>

locale status_layer =
  fixes layer :: "'w HandlerFunc \<Rightarrow> 'w HandlerFunc"
  assumes through: "not_created c \<Longrightarrow>
    (\<And>c'. Gin_Request c' = Gin_Request c \<Longrightarrow> not_created c' \<Longrightarrow> yields not_created (h c')) \<Longrightarrow> yields not_created (layer h c)"
begin

text \<open>A handler that creates nothing for a request creates nothing behind the layer.\<close>

lemma blocks_through:
  assumes "\<And>c. Gin_Request c = r \<Longrightarrow> not_created c \<Longrightarrow> yields not_created (h c)" "Gin_Request c = r" "not_created c"
  shows "yields not_created (layer h c)"
  by (rule through) (use assms in auto)

end

lemma gin_status [simp]:
  "Gin_Status (gin_Header k v c) = Gin_Status c" "Gin_Status (gin_Set k v c) = Gin_Status c" "Gin_Status (gin_Abort c) = Gin_Status c"
  "Gin_Status (gin_JSON s b c) = s" "Gin_Request (gin_Header k v c) = Gin_Request c" "Gin_Request (gin_Set k v c) = Gin_Request c"
  by (simp_all add: gin_Header_def gin_Set_def gin_Abort_def gin_JSON_def)

lemma refuse_not_created: "st \<noteq> 201 \<Longrightarrow> yields not_created (refuse R reason st k msg c)"
  unfolding refuse_def by (intro yields_then yields_ret) (simp add: respondAuthError_def)

interpretation auth_status: status_layer "Middleware_Authenticate G R m"
proof
  fix c :: gin_ctx and h :: "'a HandlerFunc"
  assume c: "not_created c" and h: "\<And>c'. Gin_Request c' = Gin_Request c \<Longrightarrow> not_created c' \<Longrightarrow> yields not_created (h c')"
  have next': "yields not_created (h (set_identity G claims c))" for claims
    by (rule h) (simp_all add: set_identity_def c)
  show "yields not_created (Middleware_Authenticate G R m h c)"
    unfolding Middleware_Authenticate_def Let_def
    by (intro yields_if yields_option yields_then yields_sum refuse_not_created next') simp_all
qed

interpretation rate_status: status_layer "Middleware_RateLimit R m"
proof
  fix c :: gin_ctx and h :: "'a HandlerFunc"
  assume "not_created c" "\<And>c'. Gin_Request c' = Gin_Request c \<Longrightarrow> not_created c' \<Longrightarrow> yields not_created (h c')"
  then show "yields not_created (Middleware_RateLimit R m h c)"
    unfolding Middleware_RateLimit_def Let_def
    by (intro yields_option yields_if yields_then yields_sum yields_ret) simp_all
qed

interpretation audit_status: status_layer "Middleware_AuditLog G R m"
proof
  fix c :: gin_ctx and h :: "'a HandlerFunc"
  assume "not_created c" and h: "\<And>c'. Gin_Request c' = Gin_Request c \<Longrightarrow> not_created c' \<Longrightarrow> yields not_created (h c')"
  then have "yields not_created (h c)" by simp
  then show "yields not_created (Middleware_AuditLog G R m h c)"
    unfolding Middleware_AuditLog_def Let_def
    by (rule yields_bind) (intro yields_option yields_if yields_then yields_prod yields_sum yields_ret, assumption+)
qed

interpretation logging_status: status_layer "Middleware_Logging R"
proof
  fix c :: gin_ctx and h :: "'a HandlerFunc"
  assume "not_created c" and h: "\<And>c'. Gin_Request c' = Gin_Request c \<Longrightarrow> not_created c' \<Longrightarrow> yields not_created (h c')"
  then have p: "yields not_created (h c)" by simp
  show "yields not_created (Middleware_Logging R h c)"
    unfolding Middleware_Logging_def by (rule yields_then, rule yields_bind [OF p], intro yields_then yields_ret)
qed

interpretation tracing_status: status_layer "Middleware_Tracing G R spanTraceID"
proof
  fix c :: gin_ctx and h :: "'a HandlerFunc"
  assume "not_created c" "\<And>c'. Gin_Request c' = Gin_Request c \<Longrightarrow> not_created c' \<Longrightarrow> yields not_created (h c')"
  then show "yields not_created (Middleware_Tracing G R spanTraceID h c)"
    unfolding Middleware_Tracing_def Let_def by (intro yields_then) simp
qed

section \<open>The client against the server\<close>

text \<open>
  A transport that serves the request by \<open>NewServer\<close>: \<open>recv\<close> is gin's reading of the request
  line and headers, \<open>render\<close> the text of a response body.
\<close>

definition server_transport ::
    "(gin_request \<Rightarrow> ('w, gin_ctx) io) \<Rightarrow> (http_request \<Rightarrow> gin_request) \<Rightarrow> (gin_body \<Rightarrow> bytes) \<Rightarrow> 'w http_transport" where
  "server_transport serve recv render = \<lparr>HT_ParseURL = (\<lambda>_. Inr ()),
     HT_Do = (\<lambda>timeout q. do {
       c \<leftarrow> serve (recv q);
       ret (Inr \<lparr>HR_StatusCode = Gin_Status c, HR_Body = Inr (render (Gin_Body c))\<rparr>)
     })\<rparr>"

lemma post_message_not_created:
  assumes "Message_json G m = Some j" "value_ok 10000 j" "Req_Body q = json_text j"
    and "Req_Method q = ''POST''" "Req_FullPath q = ''/api/v1/messages''"
  shows "yields not_created (NewServer G R spanTraceID spec deps q)"
proof -
  have handler: "yields not_created (Server_sendMessage G R deps c)" if "Gin_Request c = q" "not_created c" for c
    by (rule send_not_created [OF assms(1,2)]) (simp_all add: that assms(3))
  have route: "yields not_created (setupRoutes G R spec deps c)" if "Gin_Request c = q" "not_created c" for c
  proof -
    have "setupRoutes G R spec deps c = v1_chain G R deps (Server_sendMessage G R deps) c"
      by (simp add: setupRoutes_def that(1) assms(4,5) public_routes_def v1_routes_def)
    then show ?thesis
      unfolding v1_chain_def Let_def
      by (metis auth_status.blocks_through rate_status.blocks_through audit_status.blocks_through handler that)
  qed
  show ?thesis
    unfolding NewServer_def
    by (rule tracing_status.blocks_through [OF logging_status.blocks_through [OF route]]) (simp_all add: gin_new_def)
qed

lemma client_send_refused:
  assumes "codec G" "message_ok G m" "\<And>q. Req_Method (recv q) = HQ_Method q \<and> Req_Body (recv q) = HQ_Body q"
    and "\<And>q. HQ_URL q = CC_BaseURL (Client_config c) @ ''/api/v1/messages'' \<Longrightarrow> Req_FullPath (recv q) = ''/api/v1/messages''"
  shows "yields (\<lambda>r. \<exists>e. r = Inl e) (Client_SendMessage G R (server_transport (NewServer G R spanTraceID spec deps) recv render) c (Some m))"
proof -
  let ?T = "server_transport (NewServer G R spanTraceID spec deps) recv render"
  have identified: "yields (message_ok G) (identified_message R c m)"
    using assms(2) unfolding identified_message_def Let_def
    by (intro yields_if yields_then yields_ret) (simp_all add: message_ok_def)
  have call: "yields (\<lambda>r. \<forall>resp. r = Inr resp \<longrightarrow> HR_StatusCode resp \<noteq> 201)
      (api_call ?T c ''POST'' ''/api/v1/messages'' (Some (json_text j)))"
    if j: "message_ok G m'" "Message_json G m' = Some j" for m' j
  proof -
    have "value_ok 10000 j" using codec.message_value [OF assms(1) j] by (rule value_ok_mono) simp
    then show ?thesis
      unfolding api_call_def server_transport_def Let_def
      by (simp, intro yields_bind [OF post_message_not_created [OF j(2)]] yields_ret) (use assms(3,4) in auto)
  qed
  show "yields (\<lambda>r. \<exists>e. r = Inl e) (Client_SendMessage G R ?T c (Some m))"
    unfolding Client_SendMessage_def option.case sdk_try_def
  proof (intro yields_bind [OF identified] yields_sum yields_ret)
    fix m' body
    assume m': "message_ok G m'" and body: "marshal (Message_json G m') = Inr body"
    then obtain j where j: "Message_json G m' = Some j" "body = json_text j" by (auto simp: marshal_def split: option.splits)
    show "yields (\<lambda>r. \<exists>e. r = Inl e) (api_call ?T c ''POST'' ''/api/v1/messages'' (Some body) \<bind>
        case_sum (\<lambda>e. ret (Inl (SDK_Error e))) (\<lambda>resp. ret (if HR_StatusCode resp \<noteq> 201 then Inl (decodeAPIError resp)
          else decode_body (dec_struct (SendResult_fields G)) zero_SendResult resp)))"
      unfolding j(2) by (rule yields_bind [OF call [OF m' j(1)]]) (auto intro!: yields_rules split: sum.split)
  qed auto
qed


definition sample_client :: "'w Client" where
  "sample_client = \<lparr>Client_config = \<lparr>CC_APIKey = ''token'', CC_AgentID = 11, CC_TenantID = 1, CC_BaseURL = ''https://api.agentmsg.cloud'',
     CC_WSURL = [], CC_Timeout = 30 * Second, CC_OnMessage = None, CC_OnError = None, CC_OnConnect = None, CC_OnDisconnect = None\<rparr>,
     Client_httpTimeout = 30 * Second\<rparr>"


section \<open>Updating capabilities\<close>

lemma update_body_request:
  assumes "list_all (capability_ok G) (elems caps)" "Req_Body (Gin_Request c) = json_text (JObj [(''capabilities'', enc_slice Capability_json caps)])"
  shows "ShouldBindJSON (AgentRequest_fields G) zero_AgentRequest c =
    Inr (zero_AgentRequest\<lparr>AR_Capabilities := map_option (map norm_capability) caps\<rparr>)"
proof -
  have "value_ok (Suc 9999) (JObj [(''capabilities'', enc_slice Capability_json caps)])"
    using value_ok_slice [of caps 9998 Capability_json] capability_value [of G _ 9996] assms(1) sdk_utf8
    unfolding value_ok_obj by (simp add: list_all_iff del: utf8_ok.simps)
  then have "value_ok 10000 (JObj [(''capabilities'', enc_slice Capability_json caps)])" by simp
  then show ?thesis
    using capabilities_roundtrip [OF assms(1)] assms(2)
    by (simp add: bind_text dec_struct_obj agent_request_find field_def)
qed

lemma yields_update_agent:
  assumes "\<And>r. Agent_Name (agent r) = n \<and> Agent_Version (agent r) = v"
  shows "yields (\<lambda>(a', r). \<forall>a. a' = Some a \<longrightarrow> Agent_Name a = n \<and> Agent_Version a = v)
    (AgentService_UpdateForTenant R s t (Some (agent x)))"
  unfolding AgentService_UpdateForTenant_def AS_with_agent_def Let_def
  by (intro yields_option yields_then yields_ret yields_if yields_sum) (use assms in auto)



end
