(* ===== verification/Api_Acceptance.thy ===== *)
theory Api_Acceptance
  imports Sdk_Contract
begin

text \<open>
  What an answer 201 to \<open>POST /api/v1/messages\<close> means: a message is followed from the request,
  through the layers of \<open>NewServer\<close>, the handler and \<open>Send\<close>, to its row and its place on the
  queue. The layers share the contract of the locale \<open>accepting_layer\<close>.
\<close>

section \<open>What an answer claims of the servers\<close>

abbreviation queue_kept :: "world \<Rightarrow> bool" where
  "queue_kept \<equiv> persistent pending_key"

text \<open>A claim about Redis, tenants, agents and messages alone, which the audit of a request does not touch.\<close>

definition same_rows :: "tables \<Rightarrow> tables \<Rightarrow> bool" where
  "same_rows T U \<longleftrightarrow> T_messages U = T_messages T \<and> T_agents U = T_agents T \<and> T_tenants U = T_tenants T"

definition settled :: "(gin_body \<Rightarrow> world \<Rightarrow> bool) \<Rightarrow> bool" where
  "settled Q \<longleftrightarrow> (\<forall>b v w. Q b v \<and> W_redis w = W_redis v \<and> same_rows (W_db v) (W_db w) \<longrightarrow> Q b w)"

definition created :: "(gin_body \<Rightarrow> world \<Rightarrow> bool) \<Rightarrow> gin_ctx \<Rightarrow> world \<Rightarrow> bool" where
  "created Q c w \<longleftrightarrow> (Gin_Status c = 201 \<longrightarrow> Q (Gin_Body c) w)"

lemma leads_not_created: "yields not_created m \<Longrightarrow> leads A m (created Q)"
  by (erule leads_yields) (simp add: created_def)

definition rows_as :: "store \<Rightarrow> tables \<Rightarrow> world \<Rightarrow> bool" where
  "rows_as s T w \<longleftrightarrow> W_redis w = s \<and> same_rows T (W_db w)"

lemma leads_then_quiet:
  assumes "leads A m (created Q)" "settled Q" "\<And>c. yields (\<lambda>c'. c' = c) (f c)" "\<And>c s T. keeps (rows_as s T) (f c)"
  shows "leads A (State_Monad.bind m f) (created Q)"
proof (rule leads_bind [OF assms(1)])
  fix c
  show "leads (created Q c) (f c) (created Q)"
  proof (rule leadsI)
    fix w c' w' assume w: "created Q c w" "run_state (f c) w = (c', w')"
    have "c' = c" by (rule yieldsD [OF assms(3) w(2)])
    moreover have "rows_as (W_redis w) (W_db w) w'"
      using keepsD [OF assms(4) [of "W_redis w" "W_db w" c], of w] w(2) by (simp add: rows_as_def same_rows_def)
    ultimately show "created Q c' w'"
      using w(1) assms(2) by (auto simp: created_def rows_as_def settled_def)
  qed
qed

text \<open>The calls of the layers.\<close>

lemma quiet_calls:
  "keeps (rows_as s T) (time_Now sys_rt)" "keeps (rows_as s T) (uuid_New sys_rt)"
  "keeps (rows_as s T) (counter_Inc sys_rt k l)" "keeps (rows_as s T) (histogram_Observe sys_rt k l d)"
  "keeps (rows_as s T) (GetExists sys_db eq)"
  "keeps (rows_as s T) (PostgresDB_CreateAuditLog sys_db entry)"
  by (simp_all add: keeps_def rows_as_def same_rows_def run_sys_rt run_sys_queries PostgresDB_CreateAuditLog_def exec_only_sys db_exec.simps)

lemma queue_calls:
  "keeps queue_kept (time_Now sys_rt)" "keeps queue_kept (uuid_New sys_rt)"
  "keeps queue_kept (counter_Inc sys_rt k l)" "keeps queue_kept (histogram_Observe sys_rt k l d)"
  "keeps queue_kept (GetExists sys_db eq)"
  by (simp_all add: keeps_def persistent_def run_sys_rt run_sys_queries)

lemma queue_metrics:
  "keeps queue_kept (RecordAuthFailure sys_rt x)" "keeps queue_kept (RecordRateLimitExceeded sys_rt x)"
  "keeps queue_kept (PostgresDB_TenantExists (Some sys_db) i)" "keeps queue_kept (PostgresDB_AgentExists (Some sys_db) i)"
  "keeps queue_kept (uuid_NewString G sys_rt)" "keeps queue_kept (AuthService_ValidateToken G sys_rt auth token)"
  unfolding RecordAuthFailure_def RecordRateLimitExceeded_def PostgresDB_TenantExists_def PostgresDB_AgentExists_def
    uuid_NewString_def AuthService_ValidateToken_def Let_def option.case
  by (intro keeps_rules queue_calls)+

lemma rate_key_other: "rate_key t a p s \<noteq> pending_key"
  by (simp add: rate_key_def pending_key_def)

lemma other_key:
  "k \<noteq> k' \<Longrightarrow> snd (st_Incr now k s) k' = s k'" "k \<noteq> k' \<Longrightarrow> snd (st_Expire now k d s) k' = s k'"
  by (auto simp: st_Incr_def st_Expire_def put_value_def split: option.split redis_value.split)

lemma queue_rate: "keeps queue_kept (rate_count sys_redis (rate_key t a p s) W)"
proof -
  have "keeps queue_kept (cmd_Incr sys_redis k)" "keeps queue_kept (cmd_Expire sys_redis k d)" if "k \<noteq> pending_key" for k d
    by (simp_all add: keeps_def run_sys_redis persistent_def other_key [OF that])
  then show ?thesis
    unfolding rate_count_def RedisClient_Incr_def RedisClient_Expire_def
    by (intro keeps_rules) (simp_all add: rate_key_other)
qed

section \<open>The layers\<close>

text \<open>A layer that passes a request on with its identity.\<close>

definition forwards :: "gin_ctx \<Rightarrow> gin_ctx \<Rightarrow> bool" where
  "forwards c c' \<longleftrightarrow> Gin_Request c' = Gin_Request c \<and> not_created c' \<and>
     Gin_Keys c' ''tenant_id'' = Gin_Keys c ''tenant_id'' \<and> Gin_Keys c' ''agent_id'' = Gin_Keys c ''agent_id''"

text \<open>
  A layer answers 201 only when the handler behind it does, and then leaves the messages and
  Redis as the handler left them.
\<close>

locale accepting_layer =
  fixes layer :: "world HandlerFunc \<Rightarrow> world HandlerFunc"
  assumes through: "settled Q \<Longrightarrow> not_created c \<Longrightarrow>
    (\<And>c'. forwards c c' \<Longrightarrow> leads queue_kept (h c') (created Q)) \<Longrightarrow> leads queue_kept (layer h c) (created Q)"
begin

text \<open>A claim of a handler for a request and an identity is one of the layer.\<close>

lemma claims_through:
  assumes "settled Q" "\<And>c'. forwards c c' \<Longrightarrow> leads queue_kept (h c') (created Q)" "forwards c c'"
  shows "leads queue_kept (layer h c') (created Q)"
proof (rule through [OF assms(1)])
  show "not_created c'" using assms(3) by (simp add: forwards_def)
  show "leads queue_kept (h d) (created Q)" if "forwards c' d" for d
    by (rule assms(2)) (use that assms(3) in \<open>simp add: forwards_def\<close>)
qed

end

lemma gin_keys [simp]:
  "Gin_Keys (gin_Header k v c) = Gin_Keys c" "Gin_Keys (gin_Set k v c) = (Gin_Keys c)(k := v)"
  by (simp_all add: gin_Header_def gin_Set_def)

text \<open>The middleware of an API server, with or without Redis for its limits and a database for its gate.\<close>

definition sys_mw :: "bool \<Rightarrow> bool \<Rightarrow> AuthService option \<Rightarrow> int \<Rightarrow> duration \<Rightarrow> world Middleware" where
  "sys_mw limited gated auth n d =
     NewMiddleware (if limited then Some sys_redis else None) (if gated then Some sys_db else None) auth n d"

lemma sys_mw_simps [simp]:
  "MW_redis (sys_mw limited gated auth n d) = (if limited then Some sys_redis else None)"
  "MW_db (sys_mw limited gated auth n d) = (if gated then Some sys_db else None)"
  "MW_auth (sys_mw limited gated auth n d) = auth"
  by (simp_all add: sys_mw_def NewMiddleware_def)

interpretation rate_accepts: accepting_layer "Middleware_RateLimit sys_rt (sys_mw limited gated auth n d)"
proof
  fix Q c and h :: "world HandlerFunc"
  assume Q: "settled Q" and c: "not_created c" and h: "\<And>c'. forwards c c' \<Longrightarrow> leads queue_kept (h c') (created Q)"
  have refused: "leads queue_kept (do { RecordRateLimitExceeded sys_rt x; ret (gin_Abort (gin_JSON 429 b c')) }) (created Q)" for x b c'
    by (intro leads_not_created yields_then yields_ret) simp
  show "leads queue_kept (Middleware_RateLimit sys_rt (sys_mw limited gated auth n d) h c) (created Q)"
    unfolding Middleware_RateLimit_def sys_mw_simps Let_def
    by (cases limited; simp only: if_True if_False option.case)
      (intro leads_if leads_sum leads_after queue_calls queue_rate refused h; simp add: forwards_def c)+
qed

interpretation audit_accepts: accepting_layer "Middleware_AuditLog G sys_rt (sys_mw limited gated auth n d)"
proof
  fix Q c and h :: "world HandlerFunc"
  assume Q: "settled Q" and c: "not_created c" and h: "\<And>c'. forwards c c' \<Longrightarrow> leads queue_kept (h c') (created Q)"
  have "leads queue_kept (h c) (created Q)" by (rule h) (simp add: forwards_def c)
  then show "leads queue_kept (Middleware_AuditLog G sys_rt (sys_mw limited gated auth n d) h c) (created Q)"
    unfolding Middleware_AuditLog_def sys_mw_simps
  proof (rule leads_then_quiet [OF _ Q], goal_cases)
    case (1 c)
    then show ?case
      unfolding Let_def by (intro yields_option yields_if yields_then yields_prod yields_sum yields_ret refl)
  next
    case (2 c s T)
    then show ?case
      unfolding Middleware_resolveAuditTenantID_def Middleware_resolveAuditAgentID_def resolveAuditReference_def
        PostgresDB_TenantExists_def PostgresDB_AgentExists_def RecordAuditLog_def Let_def
      by (cases gated; simp only: if_True if_False option.case) (intro keeps_rules quiet_calls)+
  qed
qed

interpretation logging_accepts: accepting_layer "Middleware_Logging sys_rt"
proof
  fix Q c and h :: "world HandlerFunc"
  assume Q: "settled Q" and c: "not_created c" and h: "\<And>c'. forwards c c' \<Longrightarrow> leads queue_kept (h c') (created Q)"
  have p: "leads queue_kept (h c) (created Q)" by (rule h) (simp add: forwards_def c)
  show "leads queue_kept (Middleware_Logging sys_rt h c) (created Q)"
    unfolding Middleware_Logging_def
  proof (rule leads_after [OF queue_calls(1)], rule leads_then_quiet [OF p Q], goal_cases)
    case (1 t c)
    then show ?case by (intro yields_then yields_ret refl)
  next
    case (2 t c s T)
    then show ?case unfolding time_Since_def RecordAPIRequest_def by (intro keeps_rules quiet_calls)
  qed
qed

interpretation tracing_accepts: accepting_layer "\<lambda>h c. Middleware_Tracing G sys_rt spanTraceID h c"
proof
  fix Q c and h :: "world HandlerFunc"
  assume Q: "settled Q" and c: "not_created c" and h: "\<And>c'. forwards c c' \<Longrightarrow> leads queue_kept (h c') (created Q)"
  have new: "keeps queue_kept (let h = Req_GetHeader (Gin_Request c) ''X-Request-ID'' in if h = [] then uuid_NewString G sys_rt else ret h)"
    unfolding Let_def by (intro keeps_rules queue_metrics)
  show "leads queue_kept (Middleware_Tracing G sys_rt spanTraceID h c) (created Q)"
    unfolding Middleware_Tracing_def
    by (rule leads_after [OF new]) (simp add: Let_def h forwards_def c)
qed

section \<open>Who a request speaks for\<close>

text \<open>The agent and the tenant that a request's signed bearer token names.\<close>

definition bearer_identity :: "go_env \<Rightarrow> AuthService option \<Rightarrow> gin_request \<Rightarrow> (uuid \<times> uuid) option" where
  "bearer_identity G auth' r =
     (let authHeader = Req_GetHeader r ''Authorization''; token = strings_TrimPrefix authHeader ''Bearer ''
      in if token = authHeader then None
         else Option.bind auth' (\<lambda>auth. if Auth_jwtSecret auth = [] then None
           else Option.bind (token_parts auth token) (\<lambda>j. Option.bind (uuid_Parse G (Jwt_AgentID j)) (\<lambda>a.
             map_option (Pair a) (uuid_Parse G (Jwt_TenantID j))))))"

lemma yields_identity:
  "yields (\<lambda>v. \<forall>claims. v = Inr claims \<longrightarrow> (\<exists>j. Auth_jwtSecret s \<noteq> [] \<and> token_parts s token = Some j \<and>
       uuid_Parse G (Jwt_AgentID j) = Some (Claims_AgentID claims) \<and> uuid_Parse G (Jwt_TenantID j) = Some (Claims_TenantID claims)))
     (AuthService_ValidateToken G R s token)"
  unfolding AuthService_ValidateToken_def Let_def
  by (intro yields_if yields_option yields_then yields_ret) auto

lemma authenticated_claims:
  assumes "\<And>claims :: TokenClaims. bearer_identity G auth (Gin_Request c) = Some (Claims_AgentID claims, Claims_TenantID claims) \<Longrightarrow>
      leads queue_kept (h (set_identity G claims c)) (created Q)"
  shows "leads queue_kept (Middleware_Authenticate G sys_rt (sys_mw limited gated auth n d) h c) (created Q)"
proof -
  have refused: "leads queue_kept (refuse sys_rt reason st k msg c) (created Q)" if "st \<noteq> 201" for reason st k msg
    by (rule leads_not_created) (rule refuse_not_created [OF that])
  have next': "leads queue_kept (h (set_identity G claims c)) (created Q)"
    if "auth = Some s" "Auth_jwtSecret s \<noteq> []" "strings_TrimPrefix (Req_GetHeader (Gin_Request c) ''Authorization'') ''Bearer '' \<noteq> Req_GetHeader (Gin_Request c) ''Authorization''"
      "token_parts s (strings_TrimPrefix (Req_GetHeader (Gin_Request c) ''Authorization'') ''Bearer '') = Some j"
      "uuid_Parse G (Jwt_AgentID j) = Some (Claims_AgentID claims)" "uuid_Parse G (Jwt_TenantID j) = Some (Claims_TenantID claims)"
    for s claims j
    by (rule assms) (use that in \<open>simp add: bearer_identity_def\<close>)
  show ?thesis
    unfolding Middleware_Authenticate_def sys_mw_simps Let_def
    by (intro leads_if leads_option leads_after_yields [OF queue_metrics(6) yields_identity] leads_sum
        leads_after [OF queue_metrics(3)] leads_after [OF queue_metrics(4)]; (rule refused, simp)?)
      (auto split: if_splits intro!: leads_after queue_metrics leads_sum leads_if refused next')
qed

section \<open>The handler\<close>

text \<open>
  The request \<open>req\<close> of agent \<open>a\<close> of tenant \<open>t\<close> is accepted: the body names a stored message that
  says what the request says and comes from that agent, and its JSON is on the queue.
\<close>

definition accepted :: "go_env \<Rightarrow> uuid \<Rightarrow> uuid \<Rightarrow> MessageRequest \<Rightarrow> gin_body \<Rightarrow> world \<Rightarrow> bool" where
  "accepted G a t req b w \<longleftrightarrow> (\<exists>m p now.
     b = Body_SendResult \<lparr>Send_MessageID = Message_ID m, Send_Status = MessageStatusPending, Send_DeliveredAt = None\<rparr> \<and>
     Message_SenderID m = a \<and> Message_TenantID m = t \<and> a \<in> agent_ids (W_db w) \<and> t \<in> set (T_tenants (W_db w)) \<and>
     Message_RecipientIDs m = MR_Recipients req \<and> elems (MR_Recipients req) \<noteq> [] \<and>
     Message_MessageType m = MR_MessageType req \<and>
     (\<exists>contentType. serializeContent (MR_Content req) = Inr (Message_Content m, contentType)) \<and>
     m\<lparr>Message_RecipientIDs := None, Message_CreatedAt := now, Message_ExpiresAt := None, Message_ProcessedAt := None\<rparr>
       \<in> set (T_messages (W_db w)) \<and>
     Marshal_Message G m = Inr p \<and> p \<in> set (pending w))"

lemma filled_type: "Message_MessageType (filled G m w) = Message_MessageType m"
proof -
  obtain d v where run: "run_state (send_defaults sys_rt m) (w\<lparr>W_reads := W_reads w + 1\<rparr>) = (d, v)" by fastforce
  show ?thesis
    using send_defaults_run(6) [OF run] run SetRecipients_same [of G d] unfolding filled_def
    by (metis Message.select_convs(3) Message.surjective Message.update_convs(6) fst_conv)
qed

lemma Send_created:
  assumes "queue_kept w" "run_state (MessageService_Send G sys_rt sys_messages (Some m)) w = ((msg', Inr res), w')"
  shows "\<exists>p now. res = \<lparr>Send_MessageID = Message_ID (filled G m w), Send_Status = MessageStatusPending, Send_DeliveredAt = None\<rparr> \<and>
    elems (Message_RecipientIDs m) \<noteq> [] \<and> Marshal_Message G (filled G m w) = Inr p \<and> p \<in> set (pending w') \<and>
    Message_SenderID m \<in> agent_ids (W_db w') \<and> Message_TenantID m \<in> set (T_tenants (W_db w')) \<and>
    (filled G m w)\<lparr>Message_RecipientIDs := None, Message_CreatedAt := now, Message_ExpiresAt := None, Message_ProcessedAt := None\<rparr>
      \<in> set (T_messages (W_db w'))"
proof -
  have valid: "\<not> send_invalid (Some m)"
    using assms(2) by (auto simp: MessageService_Send_def NewMessageService_def run_sys_rt split: if_splits)
  show ?thesis
    using Send_outcomes [OF valid assms(2)]
  proof (elim conjE disjE exE)
    fix x p q v v'
    assume fd: "fst (db_exec (w_now (at_insert m w)) (insert_of (filled G m w)) (W_db w)) = Inr x"
      and db: "W_db w' = snd (db_exec (w_now (at_insert m w)) (insert_of (filled G m w)) (W_db w))"
      and p: "Marshal_Message G (filled G m w) = Inr p" and v: "W_redis v = W_redis w"
      and q: "run_state (RedisClient_LPush sys_redis pending_key [p]) v = (q, v')" and w': "W_redis w' = W_redis v'"
      and r: "Inr res = (case q of Inl e \<Rightarrow> Inl e | Inr _ \<Rightarrow>
            Inr \<lparr>Send_MessageID = Message_ID (filled G m w), Send_Status = MessageStatusPending, Send_DeliveredAt = None\<rparr>)"
    have res: "q = Inr ()" "res = \<lparr>Send_MessageID = Message_ID (filled G m w), Send_Status = MessageStatusPending, Send_DeliveredAt = None\<rparr>"
      using r by (auto split: sum.splits)
    have "queue_kept v" using persistent_cong [OF v] assms(1) by simp
    then have "p \<in> set (pending w')" using pq.push_ok q res(1) persistent_cong [OF w'] by fastforce
    moreover have "Message_SenderID m \<in> agent_ids (W_db w) \<and> Message_TenantID m \<in> set (T_tenants (W_db w))"
      using fd by (auto simp: insert_of_def db_exec.simps filled_simps split: if_splits)
    ultimately show ?thesis using res(2) p insert_done [OF fd] db valid by (auto simp: send_invalid_def agent_ids_def)
  qed auto
qed

lemma yields_request:
  "yields (\<lambda>b. \<forall>m. b = Inr m \<longrightarrow> Message_SenderID m = a \<and> Message_TenantID m = t \<and> Message_RecipientIDs m = MR_Recipients req \<and>
     Message_MessageType m = MR_MessageType req \<and>
     (\<exists>contentType. serializeContent (MR_Content req) = Inr (Message_Content m, contentType)))
   (buildMessageFromRequest R a t tr req)"
  unfolding buildMessageFromRequest_def Let_def
  by (intro yields_sum yields_prod yields_then yields_ret) auto

lemma queue_build: "keeps queue_kept (buildMessageFromRequest sys_rt a t tr req)"
  unfolding buildMessageFromRequest_def Let_def by (intro keeps_rules queue_calls)

lemma sent_created:
  assumes "Message_SenderID m = a" "Message_TenantID m = t" "Message_RecipientIDs m = MR_Recipients req"
    "Message_MessageType m = MR_MessageType req" "serializeContent (MR_Content req) = Inr (Message_Content m, contentType)" "P req"
  shows "leads queue_kept (do {
      (msg', r) \<leftarrow> MessageService_Send G sys_rt sys_messages (Some m);
      ret (service_reply r ''message_not_found'' (\<lambda>res. gin_JSON 201 (Body_SendResult res)) c)
    }) (created (\<lambda>b w. \<exists>req. P req \<and> accepted G a t req b w))"
proof (rule leadsI)
  fix w c' w'
  assume w: "queue_kept w" and run: "run_state (do {
      (msg', r) \<leftarrow> MessageService_Send G sys_rt sys_messages (Some m);
      ret (service_reply r ''message_not_found'' (\<lambda>res. gin_JSON 201 (Body_SendResult res)) c)
    }) w = (c', w')"
  obtain msg' r v where send: "run_state (MessageService_Send G sys_rt sys_messages (Some m)) w = ((msg', r), v)"
    by (metis prod.collapse)
  show "created (\<lambda>b w. \<exists>req. P req \<and> accepted G a t req b w) c' w'"
  proof (cases r)
    case (Inl e)
    then show ?thesis using run send by (auto simp: service_reply_def created_def)
  next
    case (Inr res)
    note sent = Send_created [OF w send [unfolded Inr]]
    have "c' = gin_JSON 201 (Body_SendResult res) c" "w' = v" using run send Inr by (auto simp: service_reply_def)
    moreover have "accepted G a t req (Body_SendResult res) v"
      unfolding accepted_def using sent assms(1-5) by (elim exE, intro exI [of _ "filled G m w"]) (auto simp: filled_simps filled_type)
    ultimately show ?thesis using assms(6) by (auto simp: created_def)
  qed
qed

lemma leads_bound:
  "(\<And>x. r = Inr x \<Longrightarrow> leads A (f x) (created Q)) \<Longrightarrow> leads A (or_return (bound r c) f) (created Q)"
  by (cases r) (auto simp: bound_def intro!: leads_not_created yields_ret)

lemma key_uuid:
  assumes "uuid_text (uuid_String G) (uuid_Parse G)" "Gin_Keys c k = uuid_String G u"
  shows "contextUUID G c k = Inr u"
  using assms(2) uuid_text.parse_text [OF assms(1)] uuid_text.text_ne [OF assms(1)]
  by (simp add: contextUUID_def parseUUIDValue_def)

text \<open>The message a request's body describes.\<close>

definition request_of :: "go_env \<Rightarrow> gin_request \<Rightarrow> MessageRequest \<Rightarrow> bool" where
  "request_of G r req \<longleftrightarrow> ShouldBindJSON (MessageRequest_fields G) zero_MessageRequest (gin_new r) = Inr req"

lemma handler_created:
  assumes "uuid_text (uuid_String G) (uuid_Parse G)"
    and "Gin_Keys c ''agent_id'' = uuid_String G a" "Gin_Keys c ''tenant_id'' = uuid_String G t"
  shows "leads queue_kept (Server_sendMessage G sys_rt (sys_deps pg rd mw) c)
    (created (\<lambda>b w. \<exists>req. request_of G (Gin_Request c) req \<and> accepted G a t req b w))"
proof -
  have req: "request_of G (Gin_Request c) req" if "ShouldBindJSON (MessageRequest_fields G) zero_MessageRequest c = Inr req" for req
    using that by (simp add: request_of_def ShouldBindJSON_def gin_new_def)
  show ?thesis
    unfolding Server_sendMessage_def sys_deps_simps key_uuid [OF assms(1,2)] key_uuid [OF assms(1,3)] or_return_simps
    by (intro leads_bound leads_after_yields [OF queue_build yields_request]) (auto intro: sent_created req)
qed

section \<open>From the request to the row\<close>

text \<open>
  C3. What the API accepts it has stored and queued for its sender: when \<open>POST /api/v1/messages\<close>
  is answered 201, by a server with any limits and gate and under any schedule of faults, the
  request carries a signed token; the body names a message whose row is in the table, with
  the recipients, the type and the content of the request's JSON and the agent and tenant of
  the token; and the JSON of that message was put on the queue.
\<close>
theorem created_message_attributed:
  assumes "codec G" "queue_kept w" "Req_Method r = ''POST''" "Req_FullPath r = ''/api/v1/messages''"
    and run: "run_state (NewServer G sys_rt spanTraceID spec (sys_deps pg rd (sys_mw limited gated auth n d)) r) w = (c, w')"
    and "Gin_Status c = 201"
  shows "\<exists>a t req. bearer_identity G auth r = Some (a, t) \<and> request_of G r req \<and> accepted G a t req (Gin_Body c) w'"
proof -
  let ?Q = "\<lambda>b w. \<exists>req a t. (bearer_identity G auth r = Some (a, t) \<and> request_of G r req) \<and> accepted G a t req b w"
  let ?deps = "sys_deps pg rd (sys_mw limited gated auth n d)"
  note texts = codec.axioms(1) [OF assms(1)]
  have Q: "settled ?Q" by (auto simp: settled_def accepted_def list_contents_def same_rows_def agent_ids_def)
  have routes: "leads queue_kept (setupRoutes G sys_rt spec ?deps c') (created ?Q)" if c': "forwards (gin_new r) c'" for c'
  proof -
    have req: "Gin_Request c' = r" "not_created c'" using c' by (simp_all add: forwards_def gin_new_def)
    have "setupRoutes G sys_rt spec ?deps c' = v1_chain G sys_rt ?deps (Server_sendMessage G sys_rt ?deps) c'"
      by (simp add: setupRoutes_def req(1) assms(3,4) public_routes_def v1_routes_def)
    also have "leads queue_kept \<dots> (created ?Q)"
      unfolding v1_chain_def Let_def sys_deps_simps
    proof (rule authenticated_claims)
      fix claims :: TokenClaims
      let ?a = "Claims_AgentID claims" and ?t = "Claims_TenantID claims" and ?c = "set_identity G claims c'"
      assume id: "bearer_identity G auth (Gin_Request c') = Some (?a, ?t)"
      have handler: "leads queue_kept (Server_sendMessage G sys_rt ?deps d) (created ?Q)" if d: "forwards ?c d" for d
      proof (rule leads_post [OF handler_created [OF texts]])
        show "Gin_Keys d ''agent_id'' = uuid_String G ?a" "Gin_Keys d ''tenant_id'' = uuid_String G ?t"
          using d by (simp_all add: forwards_def set_identity_def)
        show "created ?Q x v" if "created (\<lambda>b w. \<exists>req. request_of G (Gin_Request d) req \<and> accepted G ?a ?t req b w) x v" for x v
          using that d id req(1) by (auto simp: created_def forwards_def set_identity_def)
      qed
      have "forwards ?c ?c" using req(2) by (simp add: forwards_def set_identity_def)
      then show "leads queue_kept (Middleware_RateLimit sys_rt (sys_mw limited gated auth n d)
          (Middleware_AuditLog G sys_rt (sys_mw limited gated auth n d) (Server_sendMessage G sys_rt ?deps)) ?c) (created ?Q)"
        by (intro rate_accepts.claims_through [OF Q] audit_accepts.claims_through [OF Q] handler)
    qed
    finally show ?thesis .
  qed
  have "forwards (gin_new r) (gin_new r)" by (simp add: forwards_def gin_new_def)
  then have "leads queue_kept (NewServer G sys_rt spanTraceID spec ?deps r) (created ?Q)"
    unfolding NewServer_def
    by (intro tracing_accepts.claims_through [OF Q] logging_accepts.claims_through [OF Q] routes)
  from leadsD [OF this assms(2) run] show ?thesis using assms(6) by (auto simp: created_def)
qed

section \<open>A request that is accepted\<close>

definition sample_body :: json where
  "sample_body = JObj [(''messageType'', JStr ''task''), (''recipients'', JArr [JStr (uuid_String reference_env 12)]),
     (''content'', JStr ''hi'')]"

definition sample_secret :: AuthService where
  "sample_secret = NewAuthService ''s3cret''"

definition sample_post :: gin_request where
  "sample_post = sample_request\<lparr>Req_Body := json_text sample_body,
     Req_GetHeader := (\<lambda>k. if k = ''Authorization'' then ''Bearer '' @ token_text reference_env sample_secret 11 1 0 else [])\<rparr>"

text \<open>The sample world with its clock stopped after two seconds.\<close>

definition still_world :: "nat \<Rightarrow> nat \<Rightarrow> world" where
  "still_world reads drawn = sample_world\<lparr>W_clock := \<lambda>_. 2 * Second, W_reads := reads, W_drawn := drawn\<rparr>"

lemma still_world_simps [simp]:
  "W_faults (still_world n k) i = Works" "W_reads (still_world n k) = n" "W_drawn (still_world n k) = k"
  "W_calls (still_world n k) = 0" "W_db (still_world n k) = sample_tables" "W_redis (still_world n k) = (\<lambda>_. None)"
  "w_now (still_world n k) = 2 * Second" "W_uuids (still_world n k) i = of_nat (1000 + i)"
  "(still_world n k)\<lparr>W_reads := n'\<rparr> = still_world n' k" "(still_world n k)\<lparr>W_drawn := k'\<rparr> = still_world n k'"
  by (simp_all add: still_world_def w_now_def)

lemma sample_request_read:
  assumes "Gin_Request c = sample_post"
  shows "ShouldBindJSON (MessageRequest_fields reference_env) zero_MessageRequest c =
    Inr (zero_MessageRequest\<lparr>MR_MessageType := ''task'', MR_Recipients := Some [12], MR_Content := Some (Content_String ''hi'')\<rparr>)"
proof -
  have ascii: "utf8_ok ''messageType''" "utf8_ok ''recipients''" "utf8_ok ''content''" "utf8_ok ''task''" "utf8_ok ''hi''"
    by ((rule utf8_ok_ascii, simp add: is_ascii_def byte_def)+)
  have "value_ok (Suc 0) (JArr [JStr (uuid_String reference_env 12)])"
    using reference.value_ok_uuids [of 0 "Some [12]"] by (simp add: enc_slice_def enc_uuid_def)
  then have "value_ok (Suc (Suc 0)) sample_body"
    by (simp add: sample_body_def value_ok_obj ascii del: utf8_ok.simps)
  then have "value_ok 10000 sample_body" by (rule value_ok_mono) simp
  moreover have "Req_Body (Gin_Request c) = json_text sample_body" by (simp add: assms sample_post_def)
  ultimately show ?thesis
    by (simp add: bind_text sample_body_def dec_struct_obj)
      (simp add: MessageRequest_fields_def field_def zero_MessageRequest_def dec_slice_def dec_uuid_def reference.parse_text
        dec_content_def key_matches_def key_fold_def byte_def chr_def)
qed

lemma sample_validated:
  "run_state (AuthService_ValidateToken reference_env sys_rt sample_secret (token_text reference_env sample_secret 11 1 0))
     (still_world n k) = (Inr \<lparr>Claims_AgentID = 11, Claims_TenantID = 1, Claims_IssuedAt = 0, Claims_ExpiresAt = 86400\<rparr>,
       still_world (Suc n) k)"
proof -
  have "token_parts sample_secret (token_text reference_env sample_secret 11 1 0) = Some (issued_claims reference_env 11 1 0)"
    by (rule token_parts_issued [OF reference.codec_axioms]) (simp add: int64_def)
  moreover have "time_Unix (2 * Second) \<le> 86400" by (simp add: time_Unix_def Second_def unix_epoch_def)
  ultimately show ?thesis
    by (simp add: AuthService_ValidateToken_def issued_claims_def reference.parse_text Let_def run_sys_rt wrap64_id
        sample_secret_def NewAuthService_def)
qed

lemma sample_sent:
  assumes "Message_SenderID m = 11" "Message_TenantID m = 1" "Message_RecipientIDs m = Some [12]" "Message_Content m = Some ''hi''"
    "Message_ID m = uuid_Nil" "Message_TaskContext m = None" "Message_ExpiresAt m = None" "Message_ProcessedAt m = None"
    "Message_CreatedAt m = 0"
  shows "\<exists>f v res. run_state (MessageService_Send reference_env sys_rt sys_messages (Some m)) (still_world n 2) = ((f, Inr res), v)"
proof -
  let ?w = "still_world n 2"
  have valid: "\<not> send_invalid (Some m)" using assms by (simp add: send_invalid_def)
  have id: "Message_ID (filled reference_env m ?w) = 1002" using assms by (simp add: filled_simps)
  have fresh: "1002 \<notin> message_ids sample_tables" "11 \<in> agent_ids sample_tables" "1 \<in> set (T_tenants sample_tables)"
    by (simp_all add: agent_ids_def message_ids_def sample_tables_def sample_row_def sample_agent_def sample_message_def)
  obtain d v where d: "run_state (send_defaults sys_rt m) (still_world (Suc n) 2) = (d, v)" by fastforce
  have f: "filled reference_env m ?w = d\<lparr>Message_RecipientStr := Message_RecipientStr (fst (SetRecipients reference_env d))\<rparr>"
    using d SetRecipients_same [of reference_env d] by (simp add: filled_def)
  have "Message_TaskContext d = None" "Message_ExpiresAt d = None" "Message_ProcessedAt d = None" "Message_CreatedAt d = 2 * Second"
    using d assms by (auto simp: send_defaults_def uuid_or_new_def time_or_now_def run_sys_rt split: if_splits)
  then obtain p where p: "Marshal_Message reference_env (filled reference_env m ?w) = Inr p"
    using Marshal_plain [of "filled reference_env m ?w" reference_env] by (auto simp: f reference_time rfc3339_two_seconds)
  obtain f r v where run: "run_state (MessageService_Send reference_env sys_rt sys_messages (Some m)) ?w = ((f, r), v)"
    by (metis prod.collapse)
  from accepted_send(1) [OF valid _ _ _ _ _ _ p run] id fresh assms(1,2) run show ?thesis
    by (simp add: queue_open_def)
qed

text \<open>The handler answers 201 on the identity of the token.\<close>

lemma sample_handled:
  assumes "Gin_Request c = sample_post" "Gin_Keys c ''agent_id'' = uuid_String reference_env 11" "Gin_Keys c ''tenant_id'' = uuid_String reference_env 1"
  shows "Gin_Status (fst (run_state (Server_sendMessage reference_env sys_rt (sys_deps pg rd mw) c) (still_world n 1))) = 201"
proof -
  let ?req = "zero_MessageRequest\<lparr>MR_MessageType := ''task'', MR_Recipients := Some [12], MR_Content := Some (Content_String ''hi'')\<rparr>"
  obtain m where b: "run_state (buildMessageFromRequest sys_rt 11 1 (Gin_Keys c ''trace_id'') ?req) (still_world n 1) = (Inr m, still_world n 2)"
    and m: "Message_SenderID m = 11" "Message_TenantID m = 1" "Message_RecipientIDs m = Some [12]" "Message_Content m = Some ''hi''"
      "Message_ID m = uuid_Nil" "Message_TaskContext m = None" "Message_ExpiresAt m = None" "Message_ProcessedAt m = None" "Message_CreatedAt m = 0"
    by (simp add: buildMessageFromRequest_def serializeContent_def run_sys_rt zero_MessageRequest_def numeral_2_eq_2)
      (simp add: zero_Message_def)
  obtain f v res where "run_state (MessageService_Send reference_env sys_rt sys_messages (Some m)) (still_world n 2) = ((f, Inr res), v)"
    using sample_sent [OF m] by blast
  then show ?thesis
    using b by (simp add: Server_sendMessage_def sample_request_read [OF assms(1)] bound_def
        key_uuid [OF reference.uuid_text_axioms assms(2)] key_uuid [OF reference.uuid_text_axioms assms(3)] service_reply_def)
qed

lemma logging_status:
  "Gin_Status (fst (run_state (Middleware_Logging sys_rt h c) w)) = Gin_Status (fst (run_state (h c) (w\<lparr>W_reads := W_reads w + 1\<rparr>)))"
  by (simp add: Middleware_Logging_def time_Since_def RecordAPIRequest_def run_sys_rt split: prod.split)

lemma tracing_run:
  "Req_GetHeader (Gin_Request c) ''X-Request-ID'' = [] \<Longrightarrow> \<exists>c'. Gin_Request c' = Gin_Request c \<and>
     run_state (Middleware_Tracing G sys_rt spanTraceID h c) w = run_state (h c') (w\<lparr>W_drawn := W_drawn w + 1\<rparr>)"
  by (simp add: Middleware_Tracing_def uuid_NewString_def run_sys_rt Let_def, intro conjI impI; rule exI, rule conjI [rotated], rule refl, simp)

lemma created_message_attributed_witness:
  "let run = run_state (NewServer reference_env sys_rt (\<lambda>_. []) []
       (sys_deps None None (sys_mw False False (Some sample_secret) 600 Minute)) sample_post) (still_world 0 0)
   in Gin_Status (fst run) = 201 \<and> (\<exists>req. accepted reference_env 11 1 req (Gin_Body (fst run)) (snd run))"
proof -
  let ?mw = "sys_mw False False (Some sample_secret) 600 Minute :: world Middleware"
  let ?deps = "sys_deps None None ?mw" and ?bearer = "''Bearer '' @ token_text reference_env sample_secret 11 1 0"
  obtain c w' where run: "run_state (NewServer reference_env sys_rt (\<lambda>_. []) [] ?deps sample_post) (still_world 0 0) = (c, w')"
    by fastforce
  have trim: "strings_TrimPrefix ?bearer ''Bearer '' = token_text reference_env sample_secret 11 1 0"
    by (simp add: strings_TrimPrefix_def strings_HasPrefix_def)
  have chain: "Gin_Status (fst (run_state (v1_chain reference_env sys_rt ?deps (Server_sendMessage reference_env sys_rt ?deps) c') (still_world n 1))) = 201"
    if "Gin_Request c' = sample_post" for c' n
  proof -
    let ?claims = "\<lparr>Claims_AgentID = 11, Claims_TenantID = 1, Claims_IssuedAt = 0, Claims_ExpiresAt = 86400\<rparr>"
    have "Gin_Status (fst (run_state (Server_sendMessage reference_env sys_rt ?deps (set_identity reference_env ?claims c')) (still_world (Suc n) 1))) = 201"
      by (rule sample_handled) (simp_all add: set_identity_def that)
    moreover have "Req_GetHeader sample_post ''Authorization'' = ?bearer" by (simp add: sample_post_def)
    ultimately show ?thesis
      using that trim sample_validated [of n 1]
      by (simp add: v1_chain_def Middleware_Authenticate_def Middleware_RateLimit_def Middleware_AuditLog_def Let_def
          split: prod.split)
  qed
  have status: "Gin_Status c = 201"
  proof -
    have "setupRoutes reference_env sys_rt [] ?deps c' = v1_chain reference_env sys_rt ?deps (Server_sendMessage reference_env sys_rt ?deps) c'"
      if "Gin_Request c' = sample_post" for c'
      by (simp add: setupRoutes_def that public_routes_def v1_routes_def sample_post_def sample_request_def)
    with chain have routes: "Gin_Status (fst (run_state (setupRoutes reference_env sys_rt [] ?deps c') (still_world 1 1))) = 201"
      if "Gin_Request c' = sample_post" for c'
      using that by simp
    from tracing_run [of "gin_new sample_post" reference_env "\<lambda>_. []" "Middleware_Logging sys_rt (setupRoutes reference_env sys_rt [] ?deps)" "still_world 0 0"]
    obtain c' where c': "Gin_Request c' = sample_post"
      "run_state (Middleware_Logging sys_rt (setupRoutes reference_env sys_rt [] ?deps) c') (still_world 0 1) = (c, w')"
      using run by (auto simp: NewServer_def gin_new_def sample_post_def)
    from logging_status [of "setupRoutes reference_env sys_rt [] ?deps" c' "still_world 0 1"] routes [OF c'(1)] c'(2)
    show ?thesis by simp
  qed
  have "bearer_identity reference_env (Some sample_secret) sample_post = Some (11, 1)"
    using token_parts_issued [OF reference.codec_axioms, of 0 sample_secret 11 1] trim
    by (simp add: bearer_identity_def sample_post_def Let_def issued_claims_def reference.parse_text int64_def
        sample_secret_def NewAuthService_def)
  moreover have "queue_kept (still_world 0 0)" by (simp add: persistent_def)
  ultimately show ?thesis
    using created_message_attributed [OF reference.codec_axioms _ _ _ run status] run status
    by (auto simp: sample_post_def sample_request_def)
qed
end
