(* ===== verification/Dedup_Window.thy ===== *)
theory Dedup_Window
  imports World
begin

text \<open>
  Deduplication within a window: the specification that the exactly-once engine and the
  idempotency service share, and the contract (locale \<open>dedup_store\<close>) under which a check
  against a store with expiring keys implements it.
\<close>

section \<open>Specification\<close>

text \<open>
  A visit is a key with the times just before and just after its check. A key is remembered
  until a deadline, or for ever when the window is not positive; \<open>dedup_flags\<close> says for each
  visit whether the key was still remembered.
\<close>

type_synonym visit = "string \<times> time \<times> time"

definition remembered :: "time \<Rightarrow> time option option \<Rightarrow> bool" where
  "remembered t u = (case u of None \<Rightarrow> False | Some None \<Rightarrow> True | Some (Some d) \<Rightarrow> t < d)"

definition until :: "duration \<Rightarrow> time \<Rightarrow> time option" where
  "until ttl t = (if ttl > 0 then Some (t + ttl) else None)"

fun dedup_flags :: "duration \<Rightarrow> (string \<Rightarrow> time option option) \<Rightarrow> visit list \<Rightarrow> bool list" where
  "dedup_flags ttl U [] = []"
| "dedup_flags ttl U ((k, t, t') # vs) =
     (if remembered t (U k) then True # dedup_flags ttl U vs
      else False # dedup_flags ttl (U(k \<mapsto> until ttl t')) vs)"

lemma length_dedup_flags [simp]: "length (dedup_flags ttl U vs) = length vs"
  by (induction ttl U vs rule: dedup_flags.induct) (auto simp: fun_upd_def)

text \<open>While a key is remembered, every visit of it before its deadline is a duplicate.\<close>

lemma flagged_until:
  assumes "U k = Some u" "i < length vs" "vs ! i = (k, t, t')" "\<not> dedup_flags ttl U vs ! i"
  shows "\<exists>d. u = Some d \<and> (\<exists>j \<le> i. fst (vs ! j) = k \<and> d \<le> fst (snd (vs ! j)))"
  using assms
proof (induction ttl U vs arbitrary: i rule: dedup_flags.induct)
  case (2 ttl U k0 t0 t0' vs)
  show ?case
  proof (cases i)
    case 0
    then show ?thesis using 2(3-6) by (auto simp: remembered_def split: option.splits if_splits)
  next
    case (Suc n)
    note i = 2(4-6) [unfolded Suc]
    show ?thesis
    proof (cases "remembered t0 (U k0)")
      case True
      with 2(1) [OF True 2(3), of n] i obtain d j where "u = Some d" "j \<le> n" "fst (vs ! j) = k" "d \<le> fst (snd (vs ! j))"
        by (auto simp: True)
      then show ?thesis using Suc by (intro exI [of _ d] conjI exI [of _ "Suc j"]) auto
    next
      case False
      show ?thesis
      proof (cases "k0 = k")
        case True
        then show ?thesis using False 2(3) Suc
          by (auto simp: remembered_def split: option.splits intro!: exI [of _ 0])
      next
        case other: False
        with 2(2) [OF False, of n] 2(3) i obtain d j where "u = Some d" "j \<le> n" "fst (vs ! j) = k" "d \<le> fst (snd (vs ! j))"
          by (auto simp: False fun_upd_def)
        then show ?thesis using Suc by (intro exI [of _ d] conjI exI [of _ "Suc j"]) auto
      qed
    qed
  qed
qed simp

text \<open>Two visits of one key that both pass are a window apart: in the clock's order, the
  second comes when the time since the first has reached the window.\<close>

lemma passed_apart:
  assumes "i < j" "j < length vs" "fst (vs ! i) = k" "fst (vs ! j) = k" "\<not> dedup_flags ttl U vs ! i" "\<not> dedup_flags ttl U vs ! j"
    and "sorted (map (fst \<circ> snd) vs)"
  shows "0 < ttl \<and> snd (snd (vs ! i)) + ttl \<le> fst (snd (vs ! j))"
  using assms
proof (induction ttl U vs arbitrary: i j rule: dedup_flags.induct)
  case (2 ttl U k0 t0 t0' vs)
  obtain m where j: "j = Suc m" using 2(3) by (cases j) auto
  have sorted: "sorted (map (fst \<circ> snd) vs)" using 2(9) by (simp add: comp_def)
  show ?case
  proof (cases i)
    case (Suc n)
    show ?thesis
    proof (cases "remembered t0 (U k0)")
      case True
      from 2(1) [OF True, of n m] show ?thesis using 2(3-8) sorted Suc j True by (auto simp: comp_def)
    next
      case False
      from 2(2) [OF False, of n m] show ?thesis using 2(3-8) sorted Suc j False by (auto simp: fun_upd_def comp_def)
    qed
  next
    case 0
    then have k0: "k0 = k" and new: "\<not> remembered t0 (U k0)" using 2(5,7) by (auto split: if_splits)
    have m: "m < length vs" "fst (vs ! m) = k" "\<not> dedup_flags ttl (U(k \<mapsto> until ttl t0')) vs ! m"
      using 2(4,6,8) j new k0 by auto
    obtain t t' where "vs ! m = (k, t, t')" using m(2) by (cases "vs ! m") auto
    from flagged_until [OF _ m(1) this m(3)]
    obtain d l where d: "until ttl t0' = Some d" "l \<le> m" "d \<le> fst (snd (vs ! l))" by auto
    have "fst (snd (vs ! l)) \<le> fst (snd (vs ! m))"
      using sorted_nth_mono [OF sorted d(2)] m(1) d(2) by simp
    then show ?thesis using d 0 j by (auto simp: until_def split: if_splits)
  qed
qed simp

section \<open>The contract of a check\<close>

text \<open>The log of a run of checks: for each pause and key, the visit and the answer.\<close>

fun visits :: "('w \<Rightarrow> time) \<Rightarrow> (nat \<Rightarrow> ('w, unit) io) \<Rightarrow> ('k \<Rightarrow> string) \<Rightarrow> ('k \<Rightarrow> ('w, bool result) io) \<Rightarrow>
    (nat \<times> 'k) list \<Rightarrow> ('w, (visit \<times> bool result) list) io" where
  "visits now pass key check [] = ret []"
| "visits now pass key check ((n, k) # xs) = do {
     pass n;
     t \<leftarrow> State (\<lambda>w. (now w, w));
     r \<leftarrow> check k;
     t' \<leftarrow> State (\<lambda>w. (now w, w));
     vs \<leftarrow> visits now pass key check xs;
     ret (((key k, t, t'), r) # vs)
   }"

text \<open>
  \<open>deadlines\<close> reads from the world until when a key is remembered, \<open>now\<close> its clock; time
  passes by \<open>pass\<close>, which changes nothing else. A check answers whether the key is
  remembered, and makes a key that is not remembered until a window after the check.
\<close>

locale dedup_store =
  fixes check :: "'k \<Rightarrow> ('w, bool result) io"
    and key :: "'k \<Rightarrow> string"
    and pass :: "nat \<Rightarrow> ('w, unit) io"
    and now :: "'w \<Rightarrow> time"
    and deadlines :: "'w \<Rightarrow> string \<Rightarrow> time option option"
    and ok :: "'w \<Rightarrow> bool"
    and ttl :: duration
  assumes pass_ok: "ok w \<Longrightarrow> ok (snd (run_state (pass n) w)) \<and> deadlines (snd (run_state (pass n) w)) = deadlines w"
    and check_ok: "ok w \<Longrightarrow> run_state (check k) w = (r, w') \<Longrightarrow> ok w' \<and>
      (if remembered (now w) (deadlines w (key k)) then r = Inr True \<and> deadlines w' = deadlines w
       else r = Inr False \<and> deadlines w' = (deadlines w)(key k \<mapsto> until ttl (now w')))"
begin

lemma visits_flags:
  assumes "ok w" "run_state (visits now pass key check xs) w = (vs, w')"
  shows "map snd vs = map Inr (dedup_flags ttl (deadlines w) (map fst vs)) \<and> ok w' \<and> map (fst \<circ> fst) vs = map (key \<circ> snd) xs"
  using assms
proof (induction xs arbitrary: w vs w')
  case (Cons x xs)
  obtain n k where x: "x = (n, k)" by fastforce
  define u where "u = snd (run_state (pass n) w)"
  have u: "ok u" "deadlines u = deadlines w" using pass_ok [OF Cons(2), of n] by (simp_all add: u_def)
  obtain r v where v: "run_state (check k) u = (r, v)" by fastforce
  note c = check_ok [OF u(1) v]
  obtain vs' v' where vs': "run_state (visits now pass key check xs) v = (vs', v')" by fastforce
  have "vs = ((key k, now u, now v), r) # vs'" "w' = v'"
    using Cons(3) v vs' by (auto simp: x u_def split: prod.splits)
  then show ?case using Cons(1) [OF _ vs'] c u(2) by (auto simp: x)
qed simp

text \<open>Exactly once per window: two accepted visits of one key are at least a window apart.\<close>

lemma accepted_apart:
  assumes "ok w" "run_state (visits now pass key check xs) w = (vs, w')" "sorted (map (fst \<circ> snd \<circ> fst) vs)"
    and "i < j" "j < length vs" "fst (fst (vs ! i)) = fst (fst (vs ! j))" "snd (vs ! i) = Inr False" "snd (vs ! j) = Inr False"
  shows "0 < ttl \<and> snd (snd (fst (vs ! i))) + ttl \<le> fst (snd (fst (vs ! j)))"
proof -
  have flags: "map snd vs = map Inr (dedup_flags ttl (deadlines w) (map fst vs))"
    using visits_flags [OF assms(1,2)] by simp
  have at: "snd (vs ! n) = Inr (dedup_flags ttl (deadlines w) (map fst vs) ! n)" if "n < length vs" for n
    using arg_cong [OF flags, of "\<lambda>ys. ys ! n"] that by simp
  show ?thesis
    using passed_apart [of i j "map fst vs" "fst (fst (vs ! i))" ttl "deadlines w"] assms(3-8) at [of i] at [of j]
    by (auto simp: comp_def)
qed

end

section \<open>Keys of the key space\<close>

text \<open>Until when the keys with a prefix are kept, by their names after it.\<close>

definition kept_until :: "string \<Rightarrow> world \<Rightarrow> string \<Rightarrow> time option option" where
  "kept_until prefix w k = map_option snd (W_redis w (prefix @ k))"

definition all_works :: "world \<Rightarrow> bool" where
  "all_works w \<longleftrightarrow> (\<forall>n. W_faults w n = Works)"

text \<open>Time passes for the world when its clock is read by others.\<close>

definition pass_time :: "nat \<Rightarrow> (world, unit) io" where
  "pass_time n = State (\<lambda>w. ((), w\<lparr>W_reads := W_reads w + n\<rparr>))"

lemma pass_time_run: "run_state (pass_time n) w = ((), w\<lparr>W_reads := W_reads w + n\<rparr>)"
  by (simp add: pass_time_def)

lemma lookup_remembered: "lookup t s k \<noteq> None \<longleftrightarrow> remembered t (map_option snd (s k))"
  by (auto simp: lookup_def remembered_def split: option.splits)

end
