(* ===== verification/Exactly_Once.thy ===== *)
theory Exactly_Once
  imports Engine Go_Crypto Go_Time Dedup_Window Sample_World
begin

text \<open>
  The exactly-once engine and the idempotency tracker of \<open>internal/engine/exactly_once.go\<close>: the
  deduplication of messages by a digest of sender, conversation, task and content against
  Redis keys that expire, the fallback to the database, acknowledgements, and the in-memory
  map with its cleanup loop.
\<close>

section \<open>Engine\<close>

record ExactlyOnceConfig =
  EO_DeduplicationWindow :: duration
  EO_MaxCacheSize :: int
  EO_CleanupInterval :: duration

record 'w ExactlyOnceEngine =
  EO_config :: ExactlyOnceConfig
  EO_db :: "'w sqlx option"
  EO_redis :: "'w goredis option"
  EO_processedIDs :: "(string \<times> time) list"
  EO_cancelled :: bool

text \<open>The second component: whether the cleanup goroutine is started.\<close>

definition NewExactlyOnceEngine ::
    "ExactlyOnceConfig \<Rightarrow> 'w sqlx option \<Rightarrow> 'w goredis option \<Rightarrow> 'w ExactlyOnceEngine \<times> bool" where
  "NewExactlyOnceEngine cfg db redis =
     (\<lparr>EO_config = cfg, EO_db = db, EO_redis = redis, EO_processedIDs = [], EO_cancelled = False\<rparr>, EO_CleanupInterval cfg > 0)"

definition ExactlyOnceEngine_Start :: "'w ExactlyOnceEngine \<Rightarrow> unit result" where
  "ExactlyOnceEngine_Start e = Inr ()"

definition ExactlyOnceEngine_Stop :: "'w ExactlyOnceEngine \<Rightarrow> 'w ExactlyOnceEngine" where
  "ExactlyOnceEngine_Stop e = e\<lparr>EO_cancelled := True\<rparr>"

definition ExactlyOnceEngine_generateDeduplicationKey :: "go_env \<Rightarrow> Message \<Rightarrow> string" where
  "ExactlyOnceEngine_generateDeduplicationKey G msg =
     (let data = uuid_String G (Message_SenderID msg) @ '':'' @ uuid_String G (Message_ConversationID msg);
          data = (case Message_TaskContext msg of
                    None \<Rightarrow> data | Some task \<Rightarrow> data @ '':'' @ uuid_String G (Task_TaskID task));
          data = data @ '':'' @ elems (Message_Content msg);
          hash = sha256_Sum256 data
      in hex_EncodeToString (take 16 hash))"

definition ExactlyOnceEngine_checkInDB :: "go_env \<Rightarrow> 'w ExactlyOnceEngine \<Rightarrow> uuid \<Rightarrow> ('w, bool result) io" where
  "ExactlyOnceEngine_checkInDB G e messageID = (case EO_db e of
     None \<Rightarrow> ret (Inl ErrEngineDependenciesNotConfigured)
   | Some db \<Rightarrow> try_io (PostgresDB_GetMessageByID G db messageID) (\<lambda>msg. ret (Inr (msg \<noteq> None))))"

text \<open>The seconds of the window, 24 hours when none is configured.\<close>

definition dedup_seconds :: "ExactlyOnceConfig \<Rightarrow> int" where
  "dedup_seconds cfg =
     (let ttl = (if EO_DeduplicationWindow cfg = 0 then 24 * Hour else EO_DeduplicationWindow cfg) in whole_seconds ttl)"

text \<open>\<open>msgData, _ := json.Marshal(msg)\<close> drops an error and stores the empty text.\<close>

definition ExactlyOnceEngine_markAsProcessed ::
    "go_env \<Rightarrow> 'w ExactlyOnceEngine \<Rightarrow> 'w goredis \<Rightarrow> Message \<Rightarrow> ('w, unit result) io" where
  "ExactlyOnceEngine_markAsProcessed G e redis msg =
     (let key = ExactlyOnceEngine_generateDeduplicationKey G msg;
          msgData = (case Marshal_Message G msg of Inl err \<Rightarrow> [] | Inr s \<Rightarrow> s)
      in RedisClient_SetWithExpiry redis (''dedup:'' @ key) msgData (dedup_seconds (EO_config e)))"

text \<open>What \<open>IsDuplicate\<close> does with the answer of \<open>Exists\<close>.\<close>

definition dedup_decide ::
    "go_env \<Rightarrow> 'w ExactlyOnceEngine \<Rightarrow> 'w goredis \<Rightarrow> Message \<Rightarrow> bool \<times> go_error option \<Rightarrow> ('w, bool result) io" where
  "dedup_decide G e redis msg answer = (case answer of
     (exists, Some err) \<Rightarrow> ExactlyOnceEngine_checkInDB G e (Message_ID msg)
   | (exists, None) \<Rightarrow>
       (if exists then ret (Inr True)
        else try_io (ExactlyOnceEngine_markAsProcessed G e redis msg) (\<lambda>_. ret (Inr False))))"

definition dedup_lookup :: "go_env \<Rightarrow> 'w goredis \<Rightarrow> Message \<Rightarrow> ('w, bool \<times> go_error option) io" where
  "dedup_lookup G redis msg = RedisClient_Exists redis (''dedup:'' @ ExactlyOnceEngine_generateDeduplicationKey G msg)"

definition ExactlyOnceEngine_IsDuplicate :: "go_env \<Rightarrow> 'w ExactlyOnceEngine \<Rightarrow> Message \<Rightarrow> ('w, bool result) io" where
  "ExactlyOnceEngine_IsDuplicate G e msg = (case EO_redis e of
     None \<Rightarrow> ret (Inl ErrEngineDependenciesNotConfigured)
   | Some redis \<Rightarrow> do {
       answer \<leftarrow> dedup_lookup G redis msg;
       dedup_decide G e redis msg answer
     })"

text \<open>\<open>now.Sub(timestamp)\<close> saturates at the bounds of a duration.\<close>

definition time_Sub :: "time \<Rightarrow> time \<Rightarrow> duration" where
  "time_Sub t u = max (- (2 ^ 63)) (min (2 ^ 63 - 1) (t - u))"

definition ExactlyOnceEngine_cleanup :: "'w runtime \<Rightarrow> 'w ExactlyOnceEngine \<Rightarrow> ('w, 'w ExactlyOnceEngine) io" where
  "ExactlyOnceEngine_cleanup R e = do {
     now \<leftarrow> time_Now R;
     ret (e\<lparr>EO_processedIDs :=
       filter (\<lambda>(key, timestamp). \<not> time_Sub now timestamp > EO_DeduplicationWindow (EO_config e)) (EO_processedIDs e)\<rparr>)
   }"

fun ExactlyOnceEngine_cleanupLoop ::
    "'w runtime \<Rightarrow> 'w ExactlyOnceEngine \<Rightarrow> loop_event list \<Rightarrow> ('w, 'w ExactlyOnceEngine) io" where
  "ExactlyOnceEngine_cleanupLoop R e [] = ret e"
| "ExactlyOnceEngine_cleanupLoop R e (Cancelled # es) = ret e"
| "ExactlyOnceEngine_cleanupLoop R e (Ticked # es) = do {
     e \<leftarrow> ExactlyOnceEngine_cleanup R e;
     ExactlyOnceEngine_cleanupLoop R e es
   }"

definition ExactlyOnceEngine_GetDeliveryStatus ::
    "go_env \<Rightarrow> 'w ExactlyOnceEngine \<Rightarrow> uuid \<Rightarrow> ('w, MessageStatus result) io" where
  "ExactlyOnceEngine_GetDeliveryStatus G e messageID = (case EO_db e of
     None \<Rightarrow> ret (Inl ErrEngineDependenciesNotConfigured)
   | Some db \<Rightarrow> try_io (PostgresDB_GetMessageByID G db messageID)
       (\<lambda>msg. ret (Inr (case msg of None \<Rightarrow> [] | Some m \<Rightarrow> Message_Status m))))"

definition ExactlyOnceEngine_RecordAcknowledgement ::
    "'w ExactlyOnceEngine \<Rightarrow> Acknowledgement \<Rightarrow> ('w, unit result) io" where
  "ExactlyOnceEngine_RecordAcknowledgement e ack = (case EO_db e of
     None \<Rightarrow> ret (Inl ErrEngineDependenciesNotConfigured)
   | Some db \<Rightarrow> PostgresDB_CreateAcknowledgement db ack)"

definition ExactlyOnceEngine_VerifyAcknowledgement ::
    "'w ExactlyOnceEngine \<Rightarrow> uuid \<Rightarrow> string \<Rightarrow> ('w, bool result) io" where
  "ExactlyOnceEngine_VerifyAcknowledgement e messageID nonce = (case EO_db e of
     None \<Rightarrow> ret (Inl ErrEngineDependenciesNotConfigured)
   | Some db \<Rightarrow> try_io (PostgresDB_GetAcknowledgement db messageID)
       (\<lambda>ack. ret (Inr (case ack of None \<Rightarrow> False | Some a \<Rightarrow> Ack_Nonce a = nonce))))"

section \<open>Idempotency tracker\<close>

record 'w IdempotencyTracker =
  Tracker_redis :: "'w goredis option"

definition NewIdempotencyTracker :: "'w goredis option \<Rightarrow> 'w IdempotencyTracker" where
  "NewIdempotencyTracker redis = \<lparr>Tracker_redis = redis\<rparr>"

definition IdempotencyTracker_Check :: "'w IdempotencyTracker \<Rightarrow> string \<Rightarrow> ('w, bool \<times> go_error option) io" where
  "IdempotencyTracker_Check t idempotencyKey = (case Tracker_redis t of
     None \<Rightarrow> ret (False, Some ErrEngineDependenciesNotConfigured)
   | Some redis \<Rightarrow> RedisClient_Exists redis (''idempotency:'' @ idempotencyKey))"

text \<open>\<open>Format(time.RFC3339Nano)\<close>, in the years in which it is the text of \<open>MarshalJSON\<close>.\<close>

definition format_nano :: "go_env \<Rightarrow> time \<Rightarrow> string" where
  "format_nano G t = (case time_Text G t of None \<Rightarrow> [] | Some s \<Rightarrow> s)"

definition IdempotencyTracker_Record ::
    "go_env \<Rightarrow> 'w runtime \<Rightarrow> 'w IdempotencyTracker \<Rightarrow> string \<Rightarrow> string \<Rightarrow> int \<Rightarrow> ('w, unit result) io" where
  "IdempotencyTracker_Record G R t idempotencyKey resultID ttlSeconds = (case Tracker_redis t of
     None \<Rightarrow> ret (Inl ErrEngineDependenciesNotConfigured)
   | Some redis \<Rightarrow> do {
       now \<leftarrow> time_Now R;
       let v = resultID @ '':'' @ format_nano G now;
       RedisClient_SetWithExpiry redis (''idempotency:'' @ idempotencyKey) v ttlSeconds
     })"

definition IdempotencyTracker_GetResult :: "'w IdempotencyTracker \<Rightarrow> string \<Rightarrow> ('w, string result) io" where
  "IdempotencyTracker_GetResult t idempotencyKey = (case Tracker_redis t of
     None \<Rightarrow> ret (Inl ErrEngineDependenciesNotConfigured)
   | Some redis \<Rightarrow> RedisClient_Get redis (''idempotency:'' @ idempotencyKey))"

section \<open>Redis keeps the windows\<close>

abbreviation sys_once :: "ExactlyOnceConfig \<Rightarrow> world ExactlyOnceEngine" where
  "sys_once cfg \<equiv> fst (NewExactlyOnceEngine cfg (Some sys_db) (Some sys_redis))"

lemma sys_once_simps [simp]:
  "EO_redis (sys_once cfg) = Some sys_redis" "EO_db (sys_once cfg) = Some sys_db" "EO_config (sys_once cfg) = cfg"
  by (simp_all add: NewExactlyOnceEngine_def)

lemma dedup_lookup_run:
  assumes "all_works w"
  shows "run_state (dedup_lookup G sys_redis m) w =
    ((remembered (w_now w) (kept_until ''dedup:'' w (ExactlyOnceEngine_generateDeduplicationKey G m)), None), called w)"
  using assms lookup_remembered [of "w_now w" "W_redis w" "''dedup:'' @ ExactlyOnceEngine_generateDeduplicationKey G m"]
  by (auto simp: dedup_lookup_def RedisClient_Exists_def run_sys_redis st_Exists_def kept_until_def sys_reply_works all_works_def)

text \<open>The window, in the nanoseconds that Redis is given.\<close>

definition dedup_window :: "ExactlyOnceConfig \<Rightarrow> duration" where
  "dedup_window cfg = wrap64 (dedup_seconds cfg * Second)"

lemma decide_new_run:
  assumes "all_works w"
  shows "run_state (dedup_decide G (sys_once cfg) sys_redis m (False, None)) w = (Inr False,
    (called w)\<lparr>W_redis := snd (st_Set (w_now w) (''dedup:'' @ ExactlyOnceEngine_generateDeduplicationKey G m)
      (case Marshal_Message G m of Inl err \<Rightarrow> [] | Inr s \<Rightarrow> s) (dedup_window cfg) (W_redis w))\<rparr>)"
  using assms
  by (simp add: dedup_decide_def ExactlyOnceEngine_markAsProcessed_def RedisClient_SetWithExpiry_def run_sys_redis
      sys_reply_works all_works_def dedup_window_def Let_def st_Set_def)

lemma is_duplicate_run:
  assumes "all_works w" "run_state (ExactlyOnceEngine_IsDuplicate G (sys_once cfg) m) w = (r, w')"
  shows "all_works w' \<and>
    (if remembered (w_now w) (kept_until ''dedup:'' w (ExactlyOnceEngine_generateDeduplicationKey G m))
     then r = Inr True \<and> kept_until ''dedup:'' w' = kept_until ''dedup:'' w
     else r = Inr False \<and> kept_until ''dedup:'' w' =
       (kept_until ''dedup:'' w)(ExactlyOnceEngine_generateDeduplicationKey G m \<mapsto> until (dedup_window cfg) (w_now w')))"
proof -
  let ?k = "ExactlyOnceEngine_generateDeduplicationKey G m"
  have c: "all_works (called w)" using assms(1) by (simp add: all_works_def)
  show ?thesis
  proof (cases "remembered (w_now w) (kept_until ''dedup:'' w ?k)")
    case True
    then show ?thesis using assms dedup_lookup_run [OF assms(1)]
      by (auto simp: ExactlyOnceEngine_IsDuplicate_def dedup_decide_def all_works_def kept_until_def)
  next
    case False
    then have "(r, w') = run_state (dedup_decide G (sys_once cfg) sys_redis m (False, None)) (called w)"
      using assms dedup_lookup_run [OF assms(1)] by (simp add: ExactlyOnceEngine_IsDuplicate_def)
    then show ?thesis using False decide_new_run [OF c] c
      by (auto simp: st_Set_def kept_until_def until_def all_works_def fun_eq_iff)
  qed
qed

text \<open>A check leaves the clock where it is.\<close>

lemma is_duplicate_clock:
  assumes "all_works w" "run_state (ExactlyOnceEngine_IsDuplicate G (sys_once cfg) m) w = (r, w')"
  shows "W_reads w' = W_reads w \<and> W_clock w' = W_clock w"
proof (cases "remembered (w_now w) (kept_until ''dedup:'' w (ExactlyOnceEngine_generateDeduplicationKey G m))")
  case True
  then show ?thesis using assms dedup_lookup_run [OF assms(1)]
    by (auto simp: ExactlyOnceEngine_IsDuplicate_def dedup_decide_def)
next
  case False
  have "all_works (called w)" using assms(1) by (simp add: all_works_def)
  with False show ?thesis using assms dedup_lookup_run [OF assms(1)] decide_new_run [of "called w" G cfg m]
    by (auto simp: ExactlyOnceEngine_IsDuplicate_def)
qed

interpretation once: dedup_store "ExactlyOnceEngine_IsDuplicate G (sys_once cfg)"
  "ExactlyOnceEngine_generateDeduplicationKey G" pass_time w_now "kept_until ''dedup:''" all_works "dedup_window cfg"
  by unfold_locales (use is_duplicate_run in \<open>auto simp: pass_time_run all_works_def kept_until_def fun_eq_iff\<close>)

section \<open>Properties\<close>

text \<open>The log of arrivals at the engine: pauses and messages in, visits and answers out.\<close>

abbreviation arrivals :: "go_env \<Rightarrow> ExactlyOnceConfig \<Rightarrow> (nat \<times> Message) list \<Rightarrow> (world, (visit \<times> bool result) list) io" where
  "arrivals G cfg \<equiv> visits w_now pass_time (ExactlyOnceEngine_generateDeduplicationKey G)
     (ExactlyOnceEngine_IsDuplicate G (sys_once cfg))"

text \<open>
  C16. Deduplication in a window: where the servers answer and Redis holds no deduplication
  key yet, \<open>IsDuplicate\<close> answers as the specification over the arrivals' digests and times
  does; and two messages with one digest that both pass arrive at least the configured
  window (in whole seconds) apart, never when the window comes to less than a second.
\<close>
theorem IsDuplicate_windowed:
  assumes "\<And>n. W_faults w n = Works" "\<And>k. W_redis w (''dedup:'' @ k) = None"
    and "run_state (arrivals G cfg xs) w = (vs, w')"
  shows "map snd vs = map Inr (dedup_flags (dedup_window cfg) Map.empty (map fst vs)) \<and>
    (sorted (map (fst \<circ> snd \<circ> fst) vs) \<longrightarrow> (\<forall>i j. i < j \<and> j < length vs \<and> fst (fst (vs ! i)) = fst (fst (vs ! j)) \<and>
      snd (vs ! i) = Inr False \<and> snd (vs ! j) = Inr False \<longrightarrow>
      0 < dedup_window cfg \<and> snd (snd (fst (vs ! i))) + dedup_window cfg \<le> fst (snd (fst (vs ! j)))))"
proof -
  have ok: "all_works w" and new: "kept_until ''dedup:'' w = Map.empty"
    using assms(1,2) by (auto simp: all_works_def kept_until_def)
  show ?thesis
    using once.visits_flags [OF ok assms(3)] once.accepted_apart [OF ok assms(3)] unfolding new by blast
qed

text \<open>Two messages of one digest in the first hour: the first passes, the second does not.\<close>

lemma IsDuplicate_windowed_witness:
  "let cfg = \<lparr>EO_DeduplicationWindow = Hour, EO_MaxCacheSize = 0, EO_CleanupInterval = 0\<rparr>;
       vs = fst (run_state (arrivals reference_env cfg [(0, sample_draft), (1, sample_draft)]) sample_world)
   in map snd vs = [Inr False, Inr True]"
proof -
  define cfg where "cfg = \<lparr>EO_DeduplicationWindow = Hour, EO_MaxCacheSize = 0, EO_CleanupInterval = 0\<rparr>"
  define vs where "vs = fst (run_state (arrivals reference_env cfg [(0, sample_draft), (1, sample_draft)]) sample_world)"
  obtain w' where run: "run_state (arrivals reference_env cfg [(0, sample_draft), (1, sample_draft)]) sample_world = (vs, w')"
    by (metis vs_def prod.collapse)
  let ?k = "ExactlyOnceEngine_generateDeduplicationKey reference_env sample_draft"
  obtain r1 v1 where v1: "run_state (ExactlyOnceEngine_IsDuplicate reference_env (sys_once cfg) sample_draft)
      (sample_world\<lparr>W_reads := 0\<rparr>) = (r1, v1)" by fastforce
  obtain r2 v2 where v2: "run_state (ExactlyOnceEngine_IsDuplicate reference_env (sys_once cfg) sample_draft)
      (v1\<lparr>W_reads := 1\<rparr>) = (r2, v2)" by fastforce
  have works: "all_works (sample_world\<lparr>W_reads := 0\<rparr>)" by (simp add: all_works_def)
  have c1: "W_reads v1 = 0" "W_clock v1 = (\<lambda>n. (int n + 1) * Second)"
    using is_duplicate_clock [OF works v1] by simp_all
  have "vs = [((?k, Second, Second), r1), ((?k, 2 * Second, w_now v2), r2)]"
    using run v1 v2 c1 by (auto simp: pass_time_run w_now_def)
  moreover have "dedup_window cfg = Hour" by (simp add: cfg_def) code_simp
  moreover have "map snd vs = map Inr (dedup_flags (dedup_window cfg) Map.empty (map fst vs))"
    using IsDuplicate_windowed [OF _ _ run] by simp
  ultimately have "map snd vs = [Inr False, Inr True]"
    by (simp add: remembered_def until_def duration_units)
  then show ?thesis unfolding vs_def cfg_def Let_def .
qed

text \<open>
  C30. The check and the mark are two commands: when two copies of a message are looked up
  before either is marked, both pass, whatever the window.
\<close>
theorem concurrent_copies_pass:
  assumes "\<And>n. W_faults w n = Works" "W_redis w (''dedup:'' @ ExactlyOnceEngine_generateDeduplicationKey G m) = None"
  shows "fst (run_state (do {
      a \<leftarrow> dedup_lookup G sys_redis m;
      b \<leftarrow> dedup_lookup G sys_redis m;
      r \<leftarrow> dedup_decide G (sys_once cfg) sys_redis m a;
      s \<leftarrow> dedup_decide G (sys_once cfg) sys_redis m b;
      ret (r, s)
    }) w) = (Inr False, Inr False)"
proof -
  let ?k = "ExactlyOnceEngine_generateDeduplicationKey G m" and ?w = "called (called w)"
  have w: "all_works w" "all_works (called w)" "all_works ?w" using assms(1) by (simp_all add: all_works_def)
  have new: "\<not> remembered t (kept_until ''dedup:'' w ?k)" "\<not> remembered t (kept_until ''dedup:'' (called w) ?k)" for t
    using assms(2) by (simp_all add: kept_until_def remembered_def)
  obtain v where v: "run_state (dedup_decide G (sys_once cfg) sys_redis m (False, None)) ?w = (Inr False, v)" "all_works v"
    using decide_new_run [OF w(3), of G cfg m] w(3) by (simp add: all_works_def)
  show ?thesis
    using dedup_lookup_run [OF w(1), of G m] dedup_lookup_run [OF w(2), of G m] new v decide_new_run [OF v(2), of G cfg m] by simp
qed

lemma concurrent_copies_pass_witness:
  "fst (run_state (do {
      a \<leftarrow> dedup_lookup reference_env sys_redis sample_draft;
      b \<leftarrow> dedup_lookup reference_env sys_redis sample_draft;
      r \<leftarrow> dedup_decide reference_env (sys_once \<lparr>EO_DeduplicationWindow = Hour, EO_MaxCacheSize = 0, EO_CleanupInterval = 0\<rparr>)
        sys_redis sample_draft a;
      s \<leftarrow> dedup_decide reference_env (sys_once \<lparr>EO_DeduplicationWindow = Hour, EO_MaxCacheSize = 0, EO_CleanupInterval = 0\<rparr>)
        sys_redis sample_draft b;
      ret (r, s)
    }) sample_world) = (Inr False, Inr False)"
  by (rule concurrent_copies_pass) simp_all

text \<open>
  Without Redis the engine asks the database: a message whose row is stored counts as a
  duplicate, one whose row is not stored passes, unmarked.
\<close>
theorem IsDuplicate_degraded:
  assumes "W_faults w (W_calls w) = Refused e" "W_faults w (W_calls w + 1) = Works"
    and "run_state (ExactlyOnceEngine_IsDuplicate G (sys_once cfg) m) w = (r, w')"
  shows "W_redis w' = W_redis w \<and> W_db w' = W_db w \<and>
    (Message_ID m \<notin> message_ids (W_db w) \<longrightarrow> r = Inr False) \<and>
    (r = Inr False \<longrightarrow> Message_ID m \<notin> message_ids (W_db w))"
proof -
  have lookup: "run_state (dedup_lookup G sys_redis m) w = ((False, Some (failure_error e)), called w)"
    using assms(1) by (simp add: dedup_lookup_def RedisClient_Exists_def run_sys_redis sys_reply_def)
  have works: "sys_reply (called w) x = x" for x :: "Message result" using assms(2) sys_reply_works [of "called w" x] by simp
  have run: "w' = called (called w)" "r = (case scan_one G (db_get_message (Message_ById (Message_ID m)) (W_db w)) of
      Inl x \<Rightarrow> Inl x | Inr q \<Rightarrow> Inr (q \<noteq> None))"
    using assms(3) lookup works
    by (auto simp: ExactlyOnceEngine_IsDuplicate_def dedup_decide_def ExactlyOnceEngine_checkInDB_def PostgresDB_GetMessageByID_def
        run_sys_queries split: sum.splits)
  have "message_rows (Message_ById (Message_ID m)) (W_db w) = [] \<longleftrightarrow> Message_ID m \<notin> message_ids (W_db w)"
    by (simp add: message_rows_def message_ids_def filter_empty_conv image_iff) metis
  then show ?thesis unfolding run
    by (auto simp: db_get_message_def scan_one_def split: list.splits sum.splits prod.splits)
qed

lemma IsDuplicate_degraded_witness:
  "fst (run_state (ExactlyOnceEngine_IsDuplicate reference_env (sys_once \<lparr>EO_DeduplicationWindow = Hour, EO_MaxCacheSize = 0,
      EO_CleanupInterval = 0\<rparr>) sample_draft) (sample_world\<lparr>W_faults := \<lambda>n. if n = 0 then Refused (Net_Failure ''timeout'') else Works\<rparr>)) = Inr False"
proof -
  let ?e = "sys_once \<lparr>EO_DeduplicationWindow = Hour, EO_MaxCacheSize = 0, EO_CleanupInterval = 0\<rparr>"
    and ?w = "sample_world\<lparr>W_faults := \<lambda>n. if n = 0 then Refused (Net_Failure ''timeout'') else Works\<rparr>"
  obtain r w' where run: "run_state (ExactlyOnceEngine_IsDuplicate reference_env ?e sample_draft) ?w = (r, w')" by fastforce
  have "Message_ID sample_draft \<notin> message_ids (W_db ?w)"
    by (simp add: message_ids_def sample_tables_def sample_message_def sample_draft_def zero_Message_def uuid_Nil_def)
  then show ?thesis using IsDuplicate_degraded [OF _ _ run, of "Net_Failure ''timeout''"] run by simp
qed

text \<open>
  An idempotency record is read back until it expires: after a successful \<open>Record\<close>, for
  as long as the window lasts (for ever, when it is not positive), \<open>Check\<close> is true and
  \<open>GetResult\<close> gives the recorded result with the time of recording; later there is none.
\<close>
theorem tracker_roundtrip:
  assumes "\<And>n. W_faults w n = Works"
    and "run_state (IdempotencyTracker_Record G sys_rt (NewIdempotencyTracker (Some sys_redis)) k result ttl) w = (r, w1)"
    and "run_state (pass_time n) w1 = ((), w2)"
  shows "r = Inr () \<and>
    (if remembered (w_now w2) (Some (until (wrap64 (ttl * Second)) (w_now w1)))
     then fst (run_state (IdempotencyTracker_Check (NewIdempotencyTracker (Some sys_redis)) k) w2) = (True, None) \<and>
       fst (run_state (IdempotencyTracker_GetResult (NewIdempotencyTracker (Some sys_redis)) k) w2) =
         Inr (result @ '':'' @ format_nano G (w_now w))
     else fst (run_state (IdempotencyTracker_Check (NewIdempotencyTracker (Some sys_redis)) k) w2) = (False, None) \<and>
       fst (run_state (IdempotencyTracker_GetResult (NewIdempotencyTracker (Some sys_redis)) k) w2) = Inl ErrRedisNil)"
proof -
  let ?v = "result @ '':'' @ format_nano G (w_now w)" and ?u = "until (wrap64 (ttl * Second)) (w_now w1)"
  have works: "W_faults z (W_calls z) = Works" if "W_faults z = W_faults w" for z using that assms(1) by simp
  have w1: "r = Inr ()" "W_faults w1 = W_faults w" "W_redis w1 (''idempotency:'' @ k) = Some (RString ?v, ?u)"
    using assms(2) sys_reply_works [OF works [of "w\<lparr>W_reads := Suc (W_reads w)\<rparr>"]]
    by (auto simp: IdempotencyTracker_Record_def NewIdempotencyTracker_def RedisClient_SetWithExpiry_def run_sys Let_def
        st_Set_def until_def w_now_def)
  have w2: "W_faults w2 = W_faults w" "W_redis w2 = W_redis w1" using assms(3) w1(2) by (auto simp: pass_time_run)
  have look: "lookup (w_now w2) (W_redis w2) (''idempotency:'' @ k) = (if remembered (w_now w2) (Some ?u) then Some (RString ?v) else None)"
    using w1(3) w2(2) by (auto simp: lookup_def remembered_def split: option.split)
  show ?thesis
    using w1(1) look
    by (simp add: sys_reply_works [OF works [OF w2(1)]] IdempotencyTracker_Check_def IdempotencyTracker_GetResult_def NewIdempotencyTracker_def RedisClient_Exists_def
        RedisClient_Get_def run_sys_redis st_Exists_def st_Get_def)
qed

lemma tracker_roundtrip_witness:
  "let t = NewIdempotencyTracker (Some sys_redis);
       w1 = snd (run_state (IdempotencyTracker_Record reference_env sys_rt t ''k'' ''r'' 2) sample_world)
   in fst (run_state (IdempotencyTracker_Check t ''k'') (snd (run_state (pass_time 1) w1))) = (True, None) \<and>
      fst (run_state (IdempotencyTracker_Check t ''k'') (snd (run_state (pass_time 2) w1))) = (False, None)"
proof -
  define w1 where "w1 = snd (run_state (IdempotencyTracker_Record reference_env sys_rt (NewIdempotencyTracker (Some sys_redis)) ''k'' ''r'' 2) sample_world)"
  obtain r where run: "run_state (IdempotencyTracker_Record reference_env sys_rt (NewIdempotencyTracker (Some sys_redis)) ''k'' ''r'' 2) sample_world = (r, w1)"
    by (metis w1_def prod.collapse)
  have clock: "w_now w1 = 2 * Second" "w_now (snd (run_state (pass_time 1) w1)) = 3 * Second"
      "w_now (snd (run_state (pass_time 2) w1)) = 4 * Second"
    by (simp_all add: w1_def IdempotencyTracker_Record_def NewIdempotencyTracker_def RedisClient_SetWithExpiry_def run_sys Let_def
        w_now_def pass_time_run)
  have ttl: "wrap64 (2 * Second) = 2 * Second" by (simp add: wrap64_id Second_def)
  have works: "W_faults sample_world n = Works" for n by simp
  note at = tracker_roundtrip [OF works run]
  have p: "run_state (pass_time n) w1 = ((), snd (run_state (pass_time n) w1))" for n by (simp add: pass_time_run)
  show ?thesis
    unfolding Let_def w1_def [symmetric]
    using at [OF p [of 1]] at [OF p [of 2]] clock ttl by (simp add: remembered_def until_def Second_def)
qed

end
