(* ===== verification/Migrations.thy ===== *)
theory Migrations
  imports Prelude "HOL-Library.List_Lexorder" "HOL-Library.Char_ord"
begin

text \<open>
  The migration runner: internal/repository/migration_runner.go. The embedded files are an
  argument; a database with transactions, whose calls fail at the choice of a schedule, is
  the interface's instance, and what runs of the migrations leave in it is proved for every
  schedule.
\<close>

section \<open>The runner\<close>

text \<open>An \<open>embed.FS\<close>: the entries of a directory (name, and whether it is a directory), the
  contents of a file.\<close>

record embed_fs =
  FS_ReadDir :: "string \<Rightarrow> (string \<times> bool) list result"
  FS_ReadFile :: "string \<Rightarrow> string result"

text \<open>The statements the runner executes. A transaction is the connection's open one.\<close>

record 'w migration_db =
  Create_MigrationTable :: "('w, unit result) io"
  Advisory_Lock :: "int \<Rightarrow> ('w, unit result) io"
  Advisory_Unlock :: "int \<Rightarrow> ('w, unit result) io"
  Count_Applied :: "string \<Rightarrow> ('w, int result) io"
  BeginTxx :: "('w, unit result) io"
  Tx_Exec :: "string \<Rightarrow> ('w, unit result) io"
  Tx_InsertFilename :: "string \<Rightarrow> ('w, unit result) io"
  Tx_Rollback :: "('w, unit result) io"
  Tx_Commit :: "('w, unit result) io"

definition migrationLockKey :: int where
  "migrationLockKey = 73194201"

definition ensureMigrationTable :: "'w migration_db \<Rightarrow> ('w, unit result) io" where
  "ensureMigrationTable db = Create_MigrationTable db"

definition migrationApplied :: "'w migration_db \<Rightarrow> string \<Rightarrow> ('w, bool result) io" where
  "migrationApplied db filename = try_io (Count_Applied db filename) (\<lambda>count. ret (Inr (count > 0)))"

text \<open>One round of the loop over the names, and the transaction in it.\<close>

definition migrate_tx :: "'w migration_db \<Rightarrow> string \<Rightarrow> string \<Rightarrow> ('w, unit result) io" where
  "migrate_tx db name content = do {
     x \<leftarrow> Tx_Exec db content;
     (case x of
        Inl e \<Rightarrow> do { _ \<leftarrow> Tx_Rollback db; ret (Inl e) }
      | Inr _ \<Rightarrow> do {
          y \<leftarrow> Tx_InsertFilename db name;
          (case y of
             Inl e \<Rightarrow> do { _ \<leftarrow> Tx_Rollback db; ret (Inl e) }
           | Inr _ \<Rightarrow> Tx_Commit db)
        })
   }"

definition migrate_file :: "embed_fs \<Rightarrow> 'w migration_db \<Rightarrow> string \<Rightarrow> ('w, unit result) io" where
  "migrate_file fs db name =
     try_io (migrationApplied db name) (\<lambda>applied.
       if applied then ret (Inr ())
       else (case FS_ReadFile fs (''migrations/'' @ name) of
         Inl e \<Rightarrow> ret (Inl e)
       | Inr content \<Rightarrow>
           try_io (BeginTxx db) (\<lambda>_. migrate_tx db name content)))"

definition migration_names :: "(string \<times> bool) list \<Rightarrow> string list" where
  "migration_names entries = sort (map fst (filter (\<lambda>e. \<not> snd e) entries))"

definition RunMigrations :: "embed_fs \<Rightarrow> 'w migration_db option \<Rightarrow> ('w, unit result) io" where
  "RunMigrations fs db0 = (case db0 of
     None \<Rightarrow> ret (Inl (OtherError ''database is not configured''))
   | Some db \<Rightarrow>
       try_io (ensureMigrationTable db) (\<lambda>_.
       try_io (Advisory_Lock db migrationLockKey) (\<lambda>_. do {
         r \<leftarrow> (case FS_ReadDir fs ''migrations'' of
                Inl e \<Rightarrow> ret (Inl e)
              | Inr entries \<Rightarrow> for_err (migrate_file fs db) (migration_names entries));
         _ \<leftarrow> Advisory_Unlock db migrationLockKey;
         ret r
       })))"

section \<open>A database with transactions\<close>

text \<open>
  The scripts run so far and the names recorded in \<open>schema_migrations\<close>, and the state that
  an open transaction would commit. Every call is answered, refused, or carried out with
  its answer lost, as the schedule says; a script may be refused for its content. After a
  failed statement a transaction refuses all but its rollback, and it does not survive a
  rollback or commit, whatever their answers.
\<close>

datatype call_outcome = Answered | Call_Refused string | Answer_Lost string

record schema =
  Schema_Scripts :: "string list"
  Schema_Names :: "string list"

record migration_world =
  MW_table :: bool
  MW_schema :: schema
  MW_tx :: "schema option option"
  MW_locked :: bool
  MW_schedule :: "nat \<Rightarrow> call_outcome"
  MW_calls :: nat

definition mig_call :: "(migration_world \<Rightarrow> 'a result \<times> migration_world) \<Rightarrow> (migration_world \<Rightarrow> migration_world) \<Rightarrow>
    (migration_world, 'a result) io" where
  "mig_call f broken = State (\<lambda>w0.
     let w = w0\<lparr>MW_calls := MW_calls w0 + 1\<rparr>
     in case MW_schedule w0 (MW_calls w0) of
          Answered \<Rightarrow> f w
        | Call_Refused e \<Rightarrow> (Inl (OtherError e), broken w)
        | Answer_Lost e \<Rightarrow> (Inl (OtherError e), snd (f w)))"

text \<open>\<open>MW_tx\<close> is \<open>None\<close> outside a transaction, \<open>Some None\<close> in a failed one.\<close>

definition in_tx :: "(schema \<Rightarrow> schema option) \<Rightarrow> migration_world \<Rightarrow> unit result \<times> migration_world" where
  "in_tx f w = (case MW_tx w of
     Some (Some s) \<Rightarrow> (case f s of
        None \<Rightarrow> (Inl (PqError ''42601'' ''statement failed''), w\<lparr>MW_tx := Some None\<rparr>)
      | Some s' \<Rightarrow> (Inr (), w\<lparr>MW_tx := Some (Some s')\<rparr>))
   | _ \<Rightarrow> (Inl (PqError ''25P02'' ''current transaction is aborted''), w))"

definition fail_tx :: "migration_world \<Rightarrow> migration_world" where
  "fail_tx w = w\<lparr>MW_tx := map_option (\<lambda>_. None) (MW_tx w)\<rparr>"

definition migration_server :: "(string \<Rightarrow> bool) \<Rightarrow> migration_world migration_db" where
  "migration_server valid = \<lparr>
     Create_MigrationTable = mig_call (\<lambda>w. (Inr (), w\<lparr>MW_table := True\<rparr>)) id,
     Advisory_Lock = (\<lambda>k. mig_call (\<lambda>w. (Inr (), w\<lparr>MW_locked := True\<rparr>)) id),
     Advisory_Unlock = (\<lambda>k. mig_call (\<lambda>w. (Inr (), w\<lparr>MW_locked := False\<rparr>)) id),
     Count_Applied = (\<lambda>n. mig_call (\<lambda>w.
       (if MW_table w then Inr (int (count_list (Schema_Names (MW_schema w)) n)) else Inl (PqError ''42P01'' ''no such table''), w)) id),
     BeginTxx = mig_call (\<lambda>w. (Inr (), w\<lparr>MW_tx := Some (Some (MW_schema w))\<rparr>)) id,
     Tx_Exec = (\<lambda>c. mig_call (in_tx (\<lambda>s. if valid c then Some (s\<lparr>Schema_Scripts := Schema_Scripts s @ [c]\<rparr>) else None)) fail_tx),
     Tx_InsertFilename = (\<lambda>n. mig_call (in_tx (\<lambda>s. if n \<in> set (Schema_Names s) then None
       else Some (s\<lparr>Schema_Names := Schema_Names s @ [n]\<rparr>))) fail_tx),
     Tx_Rollback = mig_call (\<lambda>w. (Inr (), w\<lparr>MW_tx := None\<rparr>)) (\<lambda>w. w\<lparr>MW_tx := None\<rparr>),
     Tx_Commit = mig_call (\<lambda>w. case MW_tx w of
         Some (Some s) \<Rightarrow> (Inr (), w\<lparr>MW_schema := s, MW_tx := None\<rparr>)
       | _ \<Rightarrow> (Inl (OtherError ''transaction rolled back''), w\<lparr>MW_tx := None\<rparr>)) (\<lambda>w. w\<lparr>MW_tx := None\<rparr>)\<rparr>"

section \<open>Exactly once\<close>

definition script :: "embed_fs \<Rightarrow> string \<Rightarrow> string" where
  "script fs n = (case FS_ReadFile fs (''migrations/'' @ n) of Inl e \<Rightarrow> [] | Inr c \<Rightarrow> c)"

text \<open>The schema after the first files of a list.\<close>

definition migrated :: "embed_fs \<Rightarrow> string list \<Rightarrow> schema" where
  "migrated fs ns = \<lparr>Schema_Scripts = map (script fs) ns, Schema_Names = ns\<rparr>"

lemma mig_call_cases:
  assumes "run_state (mig_call f b) w = (r, w')"
  obtains "(r, w') = f (w\<lparr>MW_calls := MW_calls w + 1\<rparr>)"
  | e where "r = Inl e" "w' = b (w\<lparr>MW_calls := MW_calls w + 1\<rparr>)"
  | e where "r = Inl e" "w' = snd (f (w\<lparr>MW_calls := MW_calls w + 1\<rparr>))"
  using assms by (auto simp: mig_call_def Let_def split: call_outcome.splits)

lemma server_schema:
  "run_state (Create_MigrationTable (migration_server v)) w = (r, w') \<Longrightarrow> MW_schema w' = MW_schema w"
  "run_state (Advisory_Lock (migration_server v) k) w = (r, w') \<Longrightarrow> MW_schema w' = MW_schema w"
  "run_state (Advisory_Unlock (migration_server v) k) w = (r, w') \<Longrightarrow> MW_schema w' = MW_schema w"
  "run_state (Tx_Rollback (migration_server v)) w = (r, w') \<Longrightarrow> MW_schema w' = MW_schema w"
  by (auto simp: migration_server_def elim!: mig_call_cases)

lemma count_list_pos: "0 < count_list xs x \<longleftrightarrow> x \<in> set xs"
  using count_list_0_iff [of xs x] by linarith

lemma count_applied_run:
  assumes "run_state (Count_Applied (migration_server v) n) w = (r, w')"
  shows "MW_schema w' = MW_schema w \<and>
    (case r of Inl e \<Rightarrow> True | Inr c \<Rightarrow> c > 0 \<longleftrightarrow> n \<in> set (Schema_Names (MW_schema w)))"
  using assms by (auto simp: migration_server_def count_list_pos elim!: mig_call_cases split: if_splits)

lemma begin_run:
  assumes "run_state (BeginTxx (migration_server v)) w = (r, w')"
  shows "MW_schema w' = MW_schema w \<and> (r = Inr () \<longrightarrow> MW_tx w' = Some (Some (MW_schema w)))"
  using assms by (auto simp: migration_server_def elim!: mig_call_cases)

lemma tx_exec_run:
  assumes "run_state (Tx_Exec (migration_server v) c) w = (r, w')" "MW_tx w = Some (Some s)"
  shows "MW_schema w' = MW_schema w \<and>
    (r = Inr () \<longrightarrow> MW_tx w' = Some (Some (s\<lparr>Schema_Scripts := Schema_Scripts s @ [c]\<rparr>)))"
  using assms by (auto simp: migration_server_def in_tx_def fail_tx_def elim!: mig_call_cases split: if_splits)

lemma tx_insert_run:
  assumes "run_state (Tx_InsertFilename (migration_server v) n) w = (r, w')" "MW_tx w = Some (Some s)"
  shows "MW_schema w' = MW_schema w \<and>
    (r = Inr () \<longrightarrow> MW_tx w' = Some (Some (s\<lparr>Schema_Names := Schema_Names s @ [n]\<rparr>)))"
  using assms by (auto simp: migration_server_def in_tx_def fail_tx_def elim!: mig_call_cases split: if_splits)

lemma tx_commit_run:
  assumes "run_state (Tx_Commit (migration_server v)) w = (r, w')" "MW_tx w = Some (Some s)"
  shows "MW_schema w' = s \<or> MW_schema w' = MW_schema w \<and> r \<noteq> Inr ()"
  using assms by (auto simp: migration_server_def elim!: mig_call_cases)

lemma migrate_tx_run:
  assumes "run_state (try_io (BeginTxx (migration_server v)) (\<lambda>_. migrate_tx (migration_server v) n c)) w = (r, w')"
  shows "MW_schema w' = MW_schema w \<and> r \<noteq> Inr () \<or>
    MW_schema w' = \<lparr>Schema_Scripts = Schema_Scripts (MW_schema w) @ [c], Schema_Names = Schema_Names (MW_schema w) @ [n]\<rparr>"
proof -
  obtain b w2 where b: "run_state (BeginTxx (migration_server v)) w = (b, w2)" by fastforce
  show ?thesis
  proof (cases b)
    case (Inl e)
    then show ?thesis using assms b begin_run [OF b] by auto
  next
    case Inr
    then have tx: "MW_tx w2 = Some (Some (MW_schema w))" "MW_schema w2 = MW_schema w" using begin_run [OF b] by simp_all
    have run: "run_state (migrate_tx (migration_server v) n c) w2 = (r, w')" using assms b Inr by simp
    obtain x w3 where x: "run_state (Tx_Exec (migration_server v) c) w2 = (x, w3)" by fastforce
    note X = tx_exec_run [OF x tx(1)]
    show ?thesis
    proof (cases x)
      case (Inl e)
      then show ?thesis using run x X tx server_schema(4) by (fastforce simp: migrate_tx_def split: prod.splits)
    next
      case x': Inr
      obtain y w4 where y: "run_state (Tx_InsertFilename (migration_server v) n) w3 = (y, w4)" by fastforce
      note Y = tx_insert_run [OF y, of "(MW_schema w)\<lparr>Schema_Scripts := Schema_Scripts (MW_schema w) @ [c]\<rparr>"]
      show ?thesis
      proof (cases y)
        case (Inl e)
        then show ?thesis using run x y x' X Y tx server_schema(4) by (fastforce simp: migrate_tx_def split: prod.splits)
      next
        case Inr
        then have "run_state (Tx_Commit (migration_server v)) w4 = (r, w')" using run x y x' by (simp add: migrate_tx_def)
        from tx_commit_run [OF this] show ?thesis using X x' Y Inr tx(2) by (auto intro: schema.equality)
      qed
    qed
  qed
qed

text \<open>One file: it is recorded and its script run, both or neither.\<close>

lemma migrate_file_run:
  assumes "run_state (migrate_file fs (migration_server v) n) w = (r, w')"
  shows "if n \<in> set (Schema_Names (MW_schema w)) then MW_schema w' = MW_schema w
    else MW_schema w' = MW_schema w \<and> r \<noteq> Inr () \<or>
      MW_schema w' = \<lparr>Schema_Scripts = Schema_Scripts (MW_schema w) @ [script fs n],
        Schema_Names = Schema_Names (MW_schema w) @ [n]\<rparr>"
proof -
  obtain c w1 where c: "run_state (Count_Applied (migration_server v) n) w = (c, w1)" by fastforce
  note count = count_applied_run [OF c]
  show ?thesis
  proof (cases "\<exists>k. c = Inr k \<and> \<not> 0 < k")
    case False
    then show ?thesis using assms c count
      by (auto simp: migrate_file_def migrationApplied_def split: sum.splits if_splits)
  next
    case True
    then obtain k where k: "c = Inr k" "\<not> 0 < k" by auto
    then have new: "n \<notin> set (Schema_Names (MW_schema w))" "MW_schema w1 = MW_schema w" using count by auto
    have "MW_schema w' = MW_schema w1 \<and> r \<noteq> Inr () \<or>
      MW_schema w' = \<lparr>Schema_Scripts = Schema_Scripts (MW_schema w1) @ [script fs n], Schema_Names = Schema_Names (MW_schema w1) @ [n]\<rparr>"
    proof (cases "FS_ReadFile fs (''migrations/'' @ n)")
      case (Inl e)
      then show ?thesis using assms c k by (auto simp: migrate_file_def migrationApplied_def)
    next
      case (Inr content)
      then have "run_state (try_io (BeginTxx (migration_server v)) (\<lambda>_. migrate_tx (migration_server v) n (script fs n))) w1 = (r, w')"
        using assms c k by (simp add: migrate_file_def migrationApplied_def migrate_tx_def script_def)
      then show ?thesis using migrate_tx_run by blast
    qed
    then show ?thesis using new by simp
  qed
qed

lemma migrated_snoc: "\<lparr>Schema_Scripts = map (script fs) ns @ [script fs n], Schema_Names = ns @ [n]\<rparr> = migrated fs (ns @ [n])"
  by (simp add: migrated_def)

text \<open>The loop from the file at \<open>i\<close> on, where at least the files before it are in.\<close>

lemma migrate_files_run:
  assumes "run_state (for_err (migrate_file fs (migration_server v)) (drop i ns)) w = (r, w')" "distinct ns"
    and "MW_schema w = migrated fs (take k ns)" "i \<le> k" "k \<le> length ns"
  shows "\<exists>k'. k' \<le> length ns \<and> k \<le> k' \<and> MW_schema w' = migrated fs (take k' ns) \<and> (r = Inr () \<longrightarrow> k' = length ns)"
  using assms
proof (induction "drop i ns" arbitrary: i k w)
  case Nil
  then show ?case by auto
next
  case (Cons n xs)
  have i: "i < length ns" using Cons(2) by (metis drop_all leI list.distinct(1))
  then have n: "n = ns ! i" "xs = drop (Suc i) ns" using Cons(2) by (simp_all add: Cons_nth_drop_Suc [symmetric])
  obtain x w1 where x: "run_state (migrate_file fs (migration_server v) n) w = (x, w1)" by fastforce
  note one = migrate_file_run [OF x]
  have names: "Schema_Names (MW_schema w) = take k ns" using Cons(5) by (simp add: migrated_def)
  have known: "n \<in> set (take k ns) \<longleftrightarrow> i < k"
    using i n(1) Cons(4,6,7) by (auto simp: in_set_conv_nth nth_eq_iff_index_eq)
  obtain j where j: "Suc i \<le> j \<or> x \<noteq> Inr ()" "k \<le> j" "j \<le> length ns" "MW_schema w1 = migrated fs (take j ns)"
  proof (cases "i < k")
    case True
    then show ?thesis using that [of k] one known names Cons(5,7) by simp
  next
    case False
    then have k: "k = i" using Cons(6) by simp
    have "take (Suc i) ns = take i ns @ [n]" using i n(1) by (simp add: take_Suc_conv_app_nth)
    then have "MW_schema w1 = migrated fs (take i ns) \<and> x \<noteq> Inr () \<or> MW_schema w1 = migrated fs (take (Suc i) ns)"
      using one known names False Cons(5) k by (auto simp: migrated_def)
    then show ?thesis using that [of i] that [of "Suc i"] k i by auto
  qed
  have loop: "run_state (try_io (migrate_file fs (migration_server v) n) (\<lambda>_. for_err (migrate_file fs (migration_server v)) (drop (Suc i) ns))) w = (r, w')"
    using Cons(3) unfolding Cons(2) [symmetric] n(2) [symmetric] by simp
  show ?case
  proof (cases x)
    case (Inl e)
    then show ?thesis using loop x j by auto
  next
    case Inr
    then have "run_state (for_err (migrate_file fs (migration_server v)) (drop (Suc i) ns)) w1 = (r, w')" using loop x by simp
    from Cons(1) [OF n(2) this Cons(4) j(4) _ j(3)] show ?thesis using Inr j(1,2) by (auto intro: le_trans)
  qed
qed

lemma RunMigrations_run:
  assumes "run_state (RunMigrations fs (Some (migration_server v))) w = (r, w')" "FS_ReadDir fs ''migrations'' = Inr entries"
    and "distinct (migration_names entries)" "MW_schema w = migrated fs (take k (migration_names entries))" "k \<le> length (migration_names entries)"
  shows "\<exists>k'. k' \<le> length (migration_names entries) \<and> k \<le> k' \<and> MW_schema w' = migrated fs (take k' (migration_names entries)) \<and>
    (r = Inr () \<longrightarrow> k' = length (migration_names entries))"
proof -
  let ?ns = "migration_names entries" and ?db = "migration_server v"
  obtain a w1 where a: "run_state (Create_MigrationTable ?db) w = (a, w1)" by fastforce
  obtain b w2 where b: "run_state (Advisory_Lock ?db migrationLockKey) w1 = (b, w2)" by fastforce
  obtain c w3 where c: "run_state (for_err (migrate_file fs ?db) ?ns) w2 = (c, w3)" by fastforce
  obtain d w4 where d: "run_state (Advisory_Unlock ?db migrationLockKey) w3 = (d, w4)" by fastforce
  note same = server_schema(1) [OF a] server_schema(2) [OF b] server_schema(3) [OF d]
  show ?thesis
  proof (cases "\<exists>e. a = Inl e \<or> b = Inl e")
    case True
    then have "MW_schema w' = MW_schema w \<and> r \<noteq> Inr ()"
      using assms(1) a b same by (cases a; cases b) (auto simp: RunMigrations_def ensureMigrationTable_def)
    then show ?thesis using assms(4,5) by auto
  next
    case False
    then have "a = Inr ()" "b = Inr ()" by (metis sum.exhaust old.unit.exhaust)+
    then have "r = c \<and> w' = w4"
      using assms(1,2) a b c d by (simp add: RunMigrations_def ensureMigrationTable_def)
    moreover have "\<exists>k'. k' \<le> length ?ns \<and> k \<le> k' \<and> MW_schema w3 = migrated fs (take k' ?ns) \<and> (c = Inr () \<longrightarrow> k' = length ?ns)"
      using migrate_files_run [of fs v 0 ?ns w2 c w3 k] c same assms(3-5) by simp
    ultimately show ?thesis using same by auto
  qed
qed

text \<open>
  C22. Migrations run exactly once: over any number of runs, whatever calls fail and
  whatever answers are lost, the files recorded as applied are the first of the sorted
  directory, and the scripts run are theirs, each once and in that order; once a run
  succeeds, they are all.
\<close>
theorem migrations_exactly_once:
  assumes "FS_ReadDir fs ''migrations'' = Inr entries" "distinct (map fst entries)" "MW_schema w = \<lparr>Schema_Scripts = [], Schema_Names = []\<rparr>"
    and "run_state (map_io (\<lambda>_. RunMigrations fs (Some (migration_server valid))) runs) w = (rs, w')"
  shows "\<exists>k \<le> length (migration_names entries).
    Schema_Names (MW_schema w') = take k (migration_names entries) \<and>
    Schema_Scripts (MW_schema w') = map (script fs) (take k (migration_names entries)) \<and>
    (Inr () \<in> set rs \<longrightarrow> k = length (migration_names entries))"
proof -
  let ?ns = "migration_names entries"
  have ns: "distinct ?ns" using assms(2) by (auto simp: migration_names_def distinct_map inj_on_def)
  have "\<exists>k' \<le> length ?ns. k \<le> k' \<and> MW_schema w' = migrated fs (take k' ?ns) \<and> (Inr () \<in> set rs \<longrightarrow> k' = length ?ns)"
    if "run_state (map_io (\<lambda>_. RunMigrations fs (Some (migration_server valid))) xs) u = (rs, w')"
      "MW_schema u = migrated fs (take k ?ns)" "k \<le> length ?ns" for xs :: "'a list" and u k rs
    using that
  proof (induction xs arbitrary: u k rs)
    case (Cons x xs)
    obtain r v where r: "run_state (RunMigrations fs (Some (migration_server valid))) u = (r, v)" by fastforce
    obtain rs' where rs': "run_state (map_io (\<lambda>_. RunMigrations fs (Some (migration_server valid))) xs) v = (rs', w')" "rs = r # rs'"
      using Cons(2) r by (auto split: prod.splits)
    from RunMigrations_run [OF r assms(1) ns Cons(3,4)] obtain j where j: "j \<le> length ?ns" "k \<le> j"
      "MW_schema v = migrated fs (take j ?ns)" "r = Inr () \<Longrightarrow> j = length ?ns" by blast
    from Cons(1) [OF rs'(1) j(3,1)] show ?case using j(2,4) rs'(2) by fastforce
  qed auto
  from this [OF assms(4), of 0] show ?thesis using assms(3) by (auto simp: migrated_def)
qed

definition sample_fs :: embed_fs where
  "sample_fs = \<lparr>FS_ReadDir = (\<lambda>_. Inr [(''002_billing_schema.sql'', False), (''001_initial_schema.sql'', False), (''archive'', True)]),
     FS_ReadFile = Inr\<rparr>"

definition sample_migration_world :: migration_world where
  "sample_migration_world = \<lparr>MW_table = False, MW_schema = \<lparr>Schema_Scripts = [], Schema_Names = []\<rparr>, MW_tx = None, MW_locked = False,
     MW_schedule = (\<lambda>n. if n = 6 then Answer_Lost ''EOF'' else Answered), MW_calls = 0\<rparr>"

text \<open>The answer of the first commit is lost; a second run goes on from there.\<close>

lemma migrations_exactly_once_witness:
  "let out = run_state (map_io (\<lambda>_. RunMigrations sample_fs (Some (migration_server (\<lambda>_. True)))) [1, 2 :: nat]) sample_migration_world
   in fst out = [Inl (OtherError ''EOF''), Inr ()] \<and>
     Schema_Names (MW_schema (snd out)) = [''001_initial_schema.sql'', ''002_billing_schema.sql'']"
proof -
  define out where "out = run_state (map_io (\<lambda>_. RunMigrations sample_fs (Some (migration_server (\<lambda>_. True)))) [1, 2 :: nat]) sample_migration_world"
  have first: "fst out = [Inl (OtherError ''EOF''), Inr ()]" unfolding out_def by code_simp
  have dir: "FS_ReadDir sample_fs ''migrations'' = Inr [(''002_billing_schema.sql'', False), (''001_initial_schema.sql'', False), (''archive'', True)]"
    by (simp add: sample_fs_def)
  have names: "migration_names [(''002_billing_schema.sql'', False), (''001_initial_schema.sql'', False), (''archive'', True)] =
      [''001_initial_schema.sql'', ''002_billing_schema.sql'']" by code_simp
  have empty: "MW_schema sample_migration_world = \<lparr>Schema_Scripts = [], Schema_Names = []\<rparr>" by (simp add: sample_migration_world_def)
  obtain rs w' where run: "run_state (map_io (\<lambda>_. RunMigrations sample_fs (Some (migration_server (\<lambda>_. True)))) [1, 2 :: nat]) sample_migration_world = (rs, w')"
    by fastforce
  from migrations_exactly_once [OF dir _ empty run] first run show ?thesis
    unfolding names by (auto simp: out_def)
qed

end
