(* ===== verification/Go_Float.thy ===== *)
theory Go_Float
  imports Complex_Main "HOL-Library.Log_Nat"
begin

text \<open>
  Arithmetic of \<open>float64\<close> for finite values in the normal range: a value is the rational number
  it denotes, an operation is the exact result rounded to 53 significant bits, ties to even.
  Overflow, subnormal results, infinities and NaN are outside the model; the sums of money
  in the program are far from them.
\<close>

section \<open>Rounding\<close>

type_synonym f64 = rat

definition round_half_even :: "rat \<Rightarrow> int" where
  "round_half_even x =
     (let f = \<lfloor>x\<rfloor>; r = x - of_int f
      in if r < 1 / 2 then f else if 1 / 2 < r then f + 1 else if even f then f else f + 1)"

text \<open>The exponent \<open>e\<close> of a positive number: \<open>2 ^ e\<close> is at most the number, which is less than twice that.\<close>

definition exponent :: "rat \<Rightarrow> int" where
  "exponent q =
     (let (n, d) = quotient_of q; k = int (floorlog 2 (nat n)) - int (floorlog 2 (nat d))
      in if 2 powi k \<le> q then k else k - 1)"

definition fl :: "rat \<Rightarrow> f64" where
  "fl q = (if q = 0 then 0
     else let u = 2 powi (exponent \<bar>q\<bar> - 52) in sgn q * of_int (round_half_even (\<bar>q\<bar> / u)) * u)"

definition f_add :: "f64 \<Rightarrow> f64 \<Rightarrow> f64" where "f_add a b = fl (a + b)"
definition f_mul :: "f64 \<Rightarrow> f64 \<Rightarrow> f64" where "f_mul a b = fl (a * b)"
definition f_of_int :: "int \<Rightarrow> f64" where "f_of_int n = fl (of_int n)"

section \<open>The error of one rounding\<close>

lemma round_half_even_error: "\<bar>of_int (round_half_even x) - x\<bar> \<le> 1 / 2"
proof -
  have "of_int \<lfloor>x\<rfloor> \<le> x" "x < of_int \<lfloor>x\<rfloor> + 1" by (rule of_int_floor_le, rule floor_correct [THEN conjunct2, simplified])
  then show ?thesis by (simp add: round_half_even_def Let_def)
qed

lemma exponent_le:
  assumes "0 < q"
  shows "2 powi exponent q \<le> q"
proof -
  obtain n d where nd: "quotient_of q = (n, d)" by fastforce
  have d: "0 < d" and q: "q = of_int n / of_int d" using quotient_of_denom_pos [OF nd] quotient_of_div [OF nd] by auto
  have n: "0 < n" using assms d by (simp add: q zero_less_divide_iff)
  define a where "a = floorlog 2 (nat n)"
  define c where "c = floorlog 2 (nat d)"
  have b: "2 ^ (a - 1) \<le> nat n" "nat d < 2 ^ c"
    using floorlog_bounds [of "nat n" 2] floorlog_bounds [of "nat d" 2] n d unfolding a_def c_def by simp_all
  have a: "1 \<le> a" using n by (simp add: a_def floorlog_def)
  have "rat_of_nat (2 ^ (a - 1)) \<le> rat_of_nat (nat n)" by (simp only: of_nat_le_iff b)
  moreover have "rat_of_nat (nat d) \<le> rat_of_nat (2 ^ c)" unfolding of_nat_le_iff using b(2) by (rule less_imp_le)
  ultimately have "(2::rat) ^ (a - 1) \<le> of_int n" "of_int d \<le> (2::rat) ^ c" using n d by simp_all
  then have "(2::rat) ^ (a - 1) / 2 ^ c \<le> q" unfolding q using d n by (intro frac_le) auto
  moreover have "(2::rat) ^ (a - 1) / 2 ^ c = 2 powi (int a - int c - 1)"
  proof -
    have "int a - int c - 1 = int (a - 1) - int c" using a by linarith
    moreover have "(2::rat) powi (int (a - 1) - int c) = 2 powi int (a - 1) / 2 powi int c" by (rule power_int_diff) (rule disjI1, rule zero_neq_numeral [symmetric])
    ultimately show ?thesis by (simp only: power_int_of_nat)
  qed
  ultimately have "2 powi (int a - int c - 1) \<le> q" by simp
  then show ?thesis by (simp add: exponent_def nd Let_def a_def c_def)
qed

definition eps :: rat where "eps = 1 / 2 ^ 53"

lemma eps_bounds: "0 < eps" "eps < 1" "16 * eps \<le> 1"
  by (simp_all add: eps_def)

lemma fl_error: "\<bar>fl q - q\<bar> \<le> \<bar>q\<bar> * eps"
proof (cases "q = 0")
  case False
  define u :: rat where "u = 2 powi (exponent \<bar>q\<bar> - 52)"
  define r where "r = rat_of_int (round_half_even (\<bar>q\<bar> / u))"
  have u: "0 < u" by (simp add: u_def)
  have "2 powi exponent \<bar>q\<bar> = u * 2 ^ 52" by (simp add: u_def power_int_diff)
  then have small: "u * 2 ^ 52 \<le> \<bar>q\<bar>" using exponent_le [of "\<bar>q\<bar>"] False by simp
  have q: "q = sgn q * (\<bar>q\<bar> / u * u)" using u by (simp add: sgn_mult_abs)
  have "fl q - q = sgn q * (r * u) - sgn q * (\<bar>q\<bar> / u * u)"
    using False q by (simp add: fl_def u_def [symmetric] r_def)
  also have "\<dots> = sgn q * ((r - \<bar>q\<bar> / u) * u)" by (simp only: left_diff_distrib right_diff_distrib)
  finally have "\<bar>fl q - q\<bar> = \<bar>r - \<bar>q\<bar> / u\<bar> * u"
    using False u by (simp add: abs_mult abs_sgn_eq)
  also have "\<dots> \<le> 1 / 2 * u" using round_half_even_error [of "\<bar>q\<bar> / u"] u unfolding r_def by (intro mult_right_mono) auto
  also have "\<dots> = u * 2 ^ 52 * eps" by (simp add: eps_def)
  also have "\<dots> \<le> \<bar>q\<bar> * eps" using small eps_bounds by (intro mult_right_mono) auto
  finally show ?thesis .
qed (simp add: fl_def)

section \<open>Errors of a computation\<close>

text \<open>\<open>y\<close> is \<open>x\<close> after at most \<open>k\<close> roundings, for non-negative numbers.\<close>

definition near :: "nat \<Rightarrow> rat \<Rightarrow> rat \<Rightarrow> bool" where
  "near k x y \<longleftrightarrow> 0 \<le> x \<and> x * (1 - eps) ^ k \<le> y \<and> y \<le> x * (1 + eps) ^ k"

lemma near_refl: "0 \<le> x \<Longrightarrow> near 0 x x"
  by (simp add: near_def)

lemma near_nonneg: "near k x y \<Longrightarrow> 0 \<le> y"
proof -
  assume n: "near k x y"
  have "0 \<le> x * (1 - eps) ^ k" using n eps_bounds by (simp add: near_def)
  then show ?thesis using n by (simp add: near_def)
qed

lemma near_fl: "near k x y \<Longrightarrow> near (Suc k) x (fl y)"
proof -
  assume n: "near k x y"
  have y: "0 \<le> y" by (rule near_nonneg [OF n])
  have b: "y * (1 - eps) \<le> fl y" "fl y \<le> y * (1 + eps)"
    using fl_error [of y] y unfolding right_diff_distrib distrib_left abs_le_iff by linarith+
  have "x * (1 - eps) ^ k * (1 - eps) \<le> y * (1 - eps)" "y * (1 + eps) \<le> x * (1 + eps) ^ k * (1 + eps)"
    using n eps_bounds by (auto simp: near_def intro!: mult_right_mono)
  then have "x * (1 - eps) ^ Suc k \<le> fl y" "fl y \<le> x * (1 + eps) ^ Suc k"
    using b by (simp_all only: power_Suc2 mult.assoc [symmetric])
  then show ?thesis using n by (simp only: near_def)
qed

lemma near_mult:
  assumes "near j a b" "near k c d"
  shows "near (j + k) (a * c) (b * d)"
proof -
  have l: "0 \<le> (1 - eps) ^ n" "0 \<le> (1 + eps) ^ n" for n using eps_bounds by simp_all
  have "(a * (1 - eps) ^ j) * (c * (1 - eps) ^ k) \<le> b * d"
    by (rule mult_mono) (use assms near_nonneg [OF assms(1)] l in \<open>auto simp: near_def\<close>)
  moreover have "b * d \<le> (a * (1 + eps) ^ j) * (c * (1 + eps) ^ k)"
    by (rule mult_mono) (use assms near_nonneg [OF assms(2)] l in \<open>auto simp: near_def\<close>)
  ultimately show ?thesis using assms by (simp add: near_def power_add mult.commute mult.left_commute)
qed

lemma near_mono: "near j x y \<Longrightarrow> j \<le> k \<Longrightarrow> near k x y"
proof -
  assume n: "near j x y" and "j \<le> k"
  have "(1 - eps) ^ k \<le> (1 - eps) ^ j" "(1 + eps) ^ j \<le> (1 + eps) ^ k"
    using \<open>j \<le> k\<close> eps_bounds by (auto intro: power_decreasing power_increasing)
  then have "x * (1 - eps) ^ k \<le> x * (1 - eps) ^ j" "x * (1 + eps) ^ j \<le> x * (1 + eps) ^ k"
    using n by (simp_all add: near_def mult_left_mono)
  then show ?thesis using n unfolding near_def by linarith
qed

lemma near_add:
  assumes "near k a b" "near k c d"
  shows "near k (a + c) (b + d)"
  using assms by (simp add: near_def distrib_right)

lemma one_plus: "0 \<le> e \<Longrightarrow> 2 * of_nat n * e \<le> 1 \<Longrightarrow> (1 + e) ^ n \<le> 1 + 2 * of_nat n * (e :: rat)"
proof (induction n)
  case (Suc n)
  have small: "2 * of_nat n * e \<le> 1" using Suc(2,3) by (simp add: algebra_simps)
  then have "(1 + e) ^ Suc n \<le> (1 + 2 * of_nat n * e) * (1 + e)"
    using Suc by (simp add: mult.commute mult_left_mono)
  moreover have "2 * of_nat n * e * e \<le> 1 * e" using small Suc(2) by (rule mult_right_mono)
  ultimately show ?case by (simp add: algebra_simps)
qed simp

lemma one_minus: "0 \<le> e \<Longrightarrow> e \<le> 1 \<Longrightarrow> 1 - of_nat n * e \<le> (1 - (e :: rat)) ^ n"
proof (induction n)
  case (Suc n)
  have "(1 - of_nat n * e) * (1 - e) \<le> (1 - e) ^ n * (1 - e)" using Suc by (intro mult_right_mono) auto
  moreover have "0 \<le> of_nat n * e * e" using Suc(2) by simp
  ultimately show ?case by (simp add: algebra_simps)
qed simp

text \<open>Eight roundings stay within a relative error of \<open>2 ^ (- 49)\<close>.\<close>

lemma near_close:
  assumes "near 8 x y"
  shows "\<bar>y - x\<bar> \<le> x / 2 ^ 49"
proof -
  have "(1 + eps) ^ 8 \<le> 1 + 16 * eps" using one_plus [of eps 8] eps_bounds by simp
  moreover have "1 - 16 * eps \<le> (1 - eps) ^ 8" using one_minus [of eps 8] eps_bounds by simp
  ultimately have "x * (1 - 16 * eps) \<le> y" "y \<le> x * (1 + 16 * eps)"
    using assms mult_left_mono [of "(1 + eps) ^ 8" "1 + 16 * eps" x] mult_left_mono [of "1 - 16 * eps" "(1 - eps) ^ 8" x]
    by (auto simp: near_def)
  then have "\<bar>y - x\<bar> \<le> x * (16 * eps)" unfolding right_diff_distrib distrib_left abs_le_iff by linarith
  moreover have "x * (16 * eps) = x / 2 ^ 49" by (simp add: eps_def)
  ultimately show ?thesis by simp
qed

end
