(* ===== verification/Tracing.thy ===== *)
theory Tracing
  imports Go_Strings Go_Float
begin

text \<open>
  The set-up of tracing, \<open>internal/observability/tracing.go\<close>. The OpenTelemetry library is an
  argument: its calls are the fields of \<open>otel\<close>, its resources, exporters and providers are
  handles.
\<close>

record TraceConfig =
  TC_ServiceName :: string
  TC_Environment :: string
  TC_Enabled :: bool
  TC_Endpoint :: string
  TC_Insecure :: bool

datatype propagator = Propagate_TraceContext | Propagate_Baggage

datatype sampler = TraceIDRatioBased rat | ParentBased sampler

datatype otlp_option = WithEndpointURL string | WithEndpoint string | WithInsecure

datatype provider_option = WithResource nat | WithSampler sampler | WithBatcher nat

record 'w otel =
  SetTextMapPropagator :: "propagator list \<Rightarrow> ('w, unit) io"
  resource_New :: "(string \<times> string) list \<Rightarrow> ('w, nat result) io"
  otlptracehttp_New :: "otlp_option list \<Rightarrow> ('w, nat result) io"
  NewTracerProvider :: "provider_option list \<Rightarrow> ('w, nat) io"
  SetTracerProvider :: "nat \<Rightarrow> ('w, unit) io"
  provider_Shutdown :: "nat \<Rightarrow> ('w, unit result) io"

definition exporter_options :: "TraceConfig \<Rightarrow> otlp_option list" where
  "exporter_options cfg =
     (if strings_HasPrefix (TC_Endpoint cfg) ''http://'' \<or> strings_HasPrefix (TC_Endpoint cfg) ''https://''
      then [WithEndpointURL (TC_Endpoint cfg)] else [WithEndpoint (TC_Endpoint cfg)]) @
     (if TC_Insecure cfg then [WithInsecure] else [])"

definition set_provider :: "'w otel \<Rightarrow> provider_option list \<Rightarrow> ('w, nat result) io" where
  "set_provider T options = do {
     provider \<leftarrow> NewTracerProvider T options;
     SetTracerProvider T provider;
     ret (Inr provider)
   }"

text \<open>The result is the provider whose \<open>Shutdown\<close> method the source returns.\<close>

definition InitTracing :: "'w otel \<Rightarrow> TraceConfig \<Rightarrow> ('w, nat result) io" where
  "InitTracing T cfg = do {
     SetTextMapPropagator T [Propagate_TraceContext, Propagate_Baggage];
     r \<leftarrow> resource_New T [(''service.name'', TC_ServiceName cfg), (''deployment.environment'', TC_Environment cfg)];
     (case r of
        Inl e \<Rightarrow> ret (Inl e)
      | Inr res \<Rightarrow>
          (let options = [WithResource res, WithSampler (ParentBased (TraceIDRatioBased 1))]
           in if TC_Enabled cfg \<and> TC_Endpoint cfg \<noteq> [] then do {
                x \<leftarrow> otlptracehttp_New T (exporter_options cfg);
                (case x of
                   Inl e \<Rightarrow> ret (Inl e)
                 | Inr exporter \<Rightarrow> set_provider T (options @ [WithBatcher exporter]))
              }
              else set_provider T options))
   }"

text \<open>No exporter is made for a service whose tracing is disabled or has no endpoint.\<close>

lemma InitTracing_disabled:
  assumes "\<not> TC_Enabled cfg \<or> TC_Endpoint cfg = []"
  shows "InitTracing (T\<lparr>otlptracehttp_New := f\<rparr>) cfg = InitTracing T cfg"
proof -
  have provider: "set_provider (T\<lparr>otlptracehttp_New := f\<rparr>) = set_provider T"
    by (intro ext) (simp add: set_provider_def)
  have off: "(TC_Enabled cfg \<and> TC_Endpoint cfg \<noteq> []) = False" using assms by auto
  show ?thesis unfolding InitTracing_def Let_def off if_False provider by simp
qed

end
