(* ===== verification/Engine_Lifecycle.thy ===== *)
theory Engine_Lifecycle
  imports Engine "HOL-Library.Multiset"
begin

text \<open>
  \<open>Start\<close> and \<open>Stop\<close> of the message engine (\<open>internal/engine/engine.go\<close>) as transitions between
  their critical sections. Contexts are numbered in the order \<open>Start\<close> makes them, the last one
  being \<open>e.ctx\<close>; a worker reads \<open>e.ctx\<close> anew in every iteration, the retry loop once, when its
  goroutine begins. The body of an iteration is in theory Engine; here a worker is running
  or has returned. The transitions are those of an engine with a Redis client.
\<close>

section \<open>State and transitions\<close>

text \<open>The points of a call that lie outside the mutex: after \<open>Start\<close> has unlocked, and before the
  cancellation, in \<open>wg.Wait\<close> and after it for \<open>Stop\<close>, which holds the context it cancels.\<close>

datatype call_pc = Start_unlocked | Stop_cancelling nat | Stop_waiting | Stop_waited

record lifecycle =
  LC_running :: bool
  LC_ctx :: nat
  LC_cancelled :: "nat set"
  LC_wg :: nat
  LC_workers :: nat
  LC_loops :: "nat option multiset"
  LC_calls :: "call_pc multiset"

definition engine_made :: lifecycle where
  "engine_made = \<lparr>LC_running = False, LC_ctx = 0, LC_cancelled = {}, LC_wg = 0, LC_workers = 0, LC_loops = {#}, LC_calls = {#}\<rparr>"

definition worker_count :: "EngineConfig option \<Rightarrow> nat" where
  "worker_count cfg = nat (Engine_WorkerCount (engine_defaults cfg))"

definition call_to :: "call_pc \<Rightarrow> call_pc \<Rightarrow> lifecycle \<Rightarrow> lifecycle" where
  "call_to a b s = s\<lparr>LC_calls := add_mset b (LC_calls s - {#a#})\<rparr>"

definition call_returns :: "call_pc \<Rightarrow> lifecycle \<Rightarrow> lifecycle" where
  "call_returns a s = s\<lparr>LC_calls := LC_calls s - {#a#}\<rparr>"

definition loop_to :: "nat option \<Rightarrow> nat option multiset \<Rightarrow> lifecycle \<Rightarrow> lifecycle" where
  "loop_to a bs s = s\<lparr>LC_loops := bs + (LC_loops s - {#a#})\<rparr>"

text \<open>\<open>Start\<close>: without Redis an error, otherwise the section under the mutex, and the launch after it.\<close>

definition start_locked :: "lifecycle \<Rightarrow> lifecycle" where
  "start_locked s =
     (if LC_running s then s
      else s\<lparr>LC_ctx := LC_ctx s + 1, LC_running := True, LC_calls := add_mset Start_unlocked (LC_calls s)\<rparr>)"

definition MessageEngine_Start :: "'w goredis option \<Rightarrow> lifecycle \<Rightarrow> unit result \<times> lifecycle" where
  "MessageEngine_Start redis s =
     (case redis of None \<Rightarrow> (Inl ErrEngineDependenciesNotConfigured, s) | Some _ \<Rightarrow> (Inr (), start_locked s))"

definition start_launch :: "nat \<Rightarrow> lifecycle \<Rightarrow> lifecycle" where
  "start_launch n s = (call_returns Start_unlocked s)\<lparr>LC_wg := LC_wg s + (n + 1), LC_workers := LC_workers s + n,
     LC_loops := add_mset None (LC_loops s)\<rparr>"

definition MessageEngine_Stop :: "lifecycle \<Rightarrow> lifecycle" where
  "MessageEngine_Stop s =
     (if \<not> LC_running s then s else s\<lparr>LC_calls := add_mset (Stop_cancelling (LC_ctx s)) (LC_calls s)\<rparr>)"

datatype lc_event =
    Start_called
  | Launched
  | Loop_began
  | Worker_returned
  | Loop_returned nat
  | Stop_called
  | Stop_cancelled nat
  | Waited
  | Stop_returned
  | Parent_cancelled nat

fun lc_step :: "nat \<Rightarrow> lc_event \<Rightarrow> lifecycle \<Rightarrow> lifecycle option" where
  "lc_step n Start_called s = Some (start_locked s)"
| "lc_step n Launched s = (if Start_unlocked \<in># LC_calls s then Some (start_launch n s) else None)"
| "lc_step n Loop_began s = (if None \<in># LC_loops s then Some (loop_to None {#Some (LC_ctx s)#} s) else None)"
| "lc_step n Worker_returned s =
     (if 0 < LC_workers s \<and> LC_ctx s \<in> LC_cancelled s
      then Some (s\<lparr>LC_workers := LC_workers s - 1, LC_wg := LC_wg s - 1\<rparr>) else None)"
| "lc_step n (Loop_returned g) s =
     (if Some g \<in># LC_loops s \<and> g \<in> LC_cancelled s
      then Some ((loop_to (Some g) {#} s)\<lparr>LC_wg := LC_wg s - 1\<rparr>) else None)"
| "lc_step n Stop_called s = Some (MessageEngine_Stop s)"
| "lc_step n (Stop_cancelled g) s =
     (if Stop_cancelling g \<in># LC_calls s
      then Some ((call_to (Stop_cancelling g) Stop_waiting s)\<lparr>LC_cancelled := insert g (LC_cancelled s)\<rparr>) else None)"
| "lc_step n Waited s =
     (if Stop_waiting \<in># LC_calls s \<and> LC_wg s = 0 then Some (call_to Stop_waiting Stop_waited s) else None)"
| "lc_step n Stop_returned s =
     (if Stop_waited \<in># LC_calls s then Some ((call_returns Stop_waited s)\<lparr>LC_running := False\<rparr>) else None)"
| "lc_step n (Parent_cancelled g) s =
     (if g \<le> LC_ctx s then Some (s\<lparr>LC_cancelled := insert g (LC_cancelled s)\<rparr>) else None)"

fun lc_run :: "nat \<Rightarrow> lc_event list \<Rightarrow> lifecycle \<Rightarrow> lifecycle option" where
  "lc_run n [] s = Some s"
| "lc_run n (e # es) s = (case lc_step n e s of None \<Rightarrow> None | Some s' \<Rightarrow> lc_run n es s')"

lemmas lc_defs = start_locked_def MessageEngine_Stop_def start_launch_def call_to_def call_returns_def loop_to_def

text \<open>Calls do not overlap when each begins after the last one has returned.\<close>

definition is_call :: "lc_event \<Rightarrow> bool" where
  "is_call e \<longleftrightarrow> e = Start_called \<or> e = Stop_called"

fun one_caller :: "nat \<Rightarrow> lc_event list \<Rightarrow> lifecycle \<Rightarrow> bool" where
  "one_caller n [] s = True"
| "one_caller n (e # es) s \<longleftrightarrow> (is_call e \<longrightarrow> LC_calls s = {#}) \<and>
     (case lc_step n e s of None \<Rightarrow> True | Some s' \<Rightarrow> one_caller n es s')"

section \<open>Calls that do not overlap\<close>

definition lc_inv :: "nat \<Rightarrow> lifecycle \<Rightarrow> bool" where
  "lc_inv n s \<longleftrightarrow> LC_wg s = LC_workers s + size (LC_loops s) \<and> LC_workers s \<le> n \<and> size (LC_loops s) \<le> 1 \<and>
     (\<forall>g. Some g \<in># LC_loops s \<longrightarrow> g = LC_ctx s) \<and>
     (LC_calls s = {#} \<and> (LC_running s \<or> LC_wg s = 0) \<or>
      LC_running s \<and> (LC_calls s = {#Start_unlocked#} \<and> LC_wg s = 0 \<or> LC_calls s = {#Stop_cancelling (LC_ctx s)#} \<or>
        LC_calls s = {#Stop_waiting#} \<and> LC_ctx s \<in> LC_cancelled s \<or> LC_calls s = {#Stop_waited#} \<and> LC_wg s = 0))"

lemma size_one: "size M \<le> Suc 0 \<Longrightarrow> x \<in># M \<Longrightarrow> M = {#x#}"
  by (metis One_nat_def add_mset_remove_trivial_If insert_DiffM le_zero_eq less_Suc_eq_le size_Diff1_less size_add_mset
      size_eq_0_iff_empty Suc_le_mono)

lemma lc_inv_loop: "lc_inv n s \<Longrightarrow> x \<in># LC_loops s \<Longrightarrow> LC_loops s = {#x#}"
  using size_one by (auto simp: lc_inv_def)

lemma lc_inv_step:
  assumes "lc_step n e s = Some s'" "is_call e \<Longrightarrow> LC_calls s = {#}" "lc_inv n s"
  shows "lc_inv n s'"
proof (cases e)
  case Loop_began
  then have "LC_loops s = {#None#}" using assms(1) lc_inv_loop [OF assms(3), of None] by (simp split: if_splits)
  then show ?thesis using assms(1,3) Loop_began by (auto simp: lc_inv_def lc_defs)
next
  case (Loop_returned g)
  then have "LC_loops s = {#Some g#}" using assms(1) lc_inv_loop [OF assms(3), of "Some g"] by (simp split: if_splits)
  then show ?thesis using assms(1,3) Loop_returned by (auto simp: lc_inv_def lc_defs split: if_splits)
next
  case Start_called
  then show ?thesis using assms by (cases "LC_running s") (auto simp: lc_inv_def lc_defs is_call_def)
next
  case Launched
  then have "LC_calls s = {#Start_unlocked#}" using assms(1,3) by (auto simp: lc_inv_def split: if_splits)
  then show ?thesis using assms(1,3) Launched by (auto simp: lc_inv_def lc_defs)
next
  case Worker_returned
  then show ?thesis using assms(1,3) by (auto simp: lc_inv_def split: if_splits)
next
  case Stop_called
  then show ?thesis using assms by (cases "LC_running s") (auto simp: lc_inv_def lc_defs is_call_def)
next
  case (Stop_cancelled g)
  then have "LC_calls s = {#Stop_cancelling g#}" "g = LC_ctx s" using assms(1,3) by (auto simp: lc_inv_def split: if_splits)
  then show ?thesis using assms(1,3) Stop_cancelled by (auto simp: lc_inv_def lc_defs)
next
  case Waited
  then have "LC_calls s = {#Stop_waiting#}" using assms(1,3) by (auto simp: lc_inv_def split: if_splits)
  then show ?thesis using assms(1,3) Waited by (auto simp: lc_inv_def lc_defs split: if_splits)
next
  case Stop_returned
  then have "LC_calls s = {#Stop_waited#}" using assms(1,3) by (auto simp: lc_inv_def split: if_splits)
  then show ?thesis using assms(1,3) Stop_returned by (auto simp: lc_inv_def lc_defs)
next
  case (Parent_cancelled g)
  then show ?thesis using assms(1,3) by (auto simp: lc_inv_def split: if_splits)
qed

lemma lc_inv_run: "lc_run n es s = Some s' \<Longrightarrow> one_caller n es s \<Longrightarrow> lc_inv n s \<Longrightarrow> lc_inv n s'"
  by (induction n es s rule: lc_run.induct) (auto split: option.splits intro: lc_inv_step)

lemma lc_inv_made: "lc_inv n engine_made"
  by (simp add: lc_inv_def engine_made_def)

section \<open>Stop returns\<close>

text \<open>The transitions left once \<open>Stop\<close> has been called, and the states from there on.\<close>

definition stop_work :: "lifecycle \<Rightarrow> nat" where
  "stop_work s = LC_workers s + size (LC_loops s) + count (LC_loops s) None +
     (if LC_calls s = {#} then 0 else if LC_calls s = {#Stop_waited#} then 1 else if LC_calls s = {#Stop_waiting#} then 2 else 3)"

definition stopping :: "lifecycle \<Rightarrow> bool" where
  "stopping s \<longleftrightarrow> LC_calls s \<noteq> {#} \<and> Start_unlocked \<notin># LC_calls s"

definition stopped :: "lifecycle \<Rightarrow> bool" where
  "stopped s \<longleftrightarrow> LC_calls s = {#} \<and> \<not> LC_running s \<and> LC_workers s = 0 \<and> LC_loops s = {#}"

definition progress :: "lc_event \<Rightarrow> bool" where
  "progress e \<longleftrightarrow> \<not> is_call e \<and> (\<forall>g. e \<noteq> Parent_cancelled g)"

lemma stop_step:
  assumes "lc_step n e s = Some s'" "lc_inv n s" "stopping s \<or> stopped s" "\<not> is_call e"
  shows "(stopping s' \<or> stopped s') \<and> stop_work s' + (if progress e then 1 else 0) \<le> stop_work s"
proof (cases e)
  case Loop_began
  then have "LC_loops s = {#None#}" using assms(1) lc_inv_loop [OF assms(2), of None] by (simp split: if_splits)
  then show ?thesis using assms(1,3) Loop_began
    by (auto simp: stopping_def stopped_def stop_work_def lc_defs progress_def is_call_def)
next
  case (Loop_returned g)
  then have "LC_loops s = {#Some g#}" using assms(1) lc_inv_loop [OF assms(2), of "Some g"] by (simp split: if_splits)
  then show ?thesis using assms(1,3) Loop_returned
    by (auto simp: stopping_def stopped_def stop_work_def lc_defs progress_def is_call_def split: if_splits)
qed (use assms in \<open>auto simp: lc_inv_def stopping_def stopped_def stop_work_def progress_def is_call_def lc_defs split: if_splits\<close>)

lemma stop_run:
  assumes "lc_run n es s = Some s'" "lc_inv n s" "stopping s \<or> stopped s" "\<forall>e \<in> set es. \<not> is_call e"
  shows "(stopping s' \<or> stopped s') \<and> length (filter progress es) + stop_work s' \<le> stop_work s"
  using assms
proof (induction n es s rule: lc_run.induct)
  case (2 n e es s)
  then obtain t where t: "lc_step n e s = Some t" "lc_run n es t = Some s'" by (auto split: option.splits)
  have "lc_inv n t" using lc_inv_step [OF t(1) _ 2(3)] 2(5) by simp
  then show ?case using 2(1) [OF t(1)] t(2) stop_step [OF t(1) 2(3,4)] 2(5) by auto
qed simp

lemma stop_progress:
  assumes "lc_inv n s" "stopping s"
  shows "\<exists>e. lc_step n e s \<noteq> None \<and> progress e"
proof -
  consider g where "LC_calls s = {#Stop_cancelling g#}" | "LC_calls s = {#Stop_waited#}"
    | "LC_calls s = {#Stop_waiting#}" "LC_ctx s \<in> LC_cancelled s"
    using assms by (auto simp: lc_inv_def stopping_def)
  then show ?thesis
  proof cases
    case 1
    then show ?thesis by (intro exI [of _ "Stop_cancelled g"]) (simp add: progress_def is_call_def)
  next
    case 2
    then show ?thesis by (intro exI [of _ Stop_returned]) (simp add: progress_def is_call_def)
  next
    case 3
    have sum: "LC_wg s = LC_workers s + size (LC_loops s)" using assms(1) by (simp add: lc_inv_def)
    consider "LC_wg s = 0" | "0 < LC_workers s" | "None \<in># LC_loops s" | "Some (LC_ctx s) \<in># LC_loops s"
    proof (cases "LC_loops s = {#}")
      case True
      then show ?thesis using that(1,2) sum by (cases "LC_workers s") simp_all
    next
      case False
      then obtain x where x: "x \<in># LC_loops s" by blast
      show ?thesis
      proof (cases x)
        case None
        then show ?thesis using that(3) x by simp
      next
        case (Some g)
        then have "g = LC_ctx s" using x assms(1) by (simp add: lc_inv_def)
        then show ?thesis using that(4) x Some by simp
      qed
    qed
    then show ?thesis
    proof cases
      case 1
      then show ?thesis using 3 by (intro exI [of _ Waited]) (simp add: progress_def is_call_def)
    next
      case 2
      then show ?thesis using 3 by (intro exI [of _ Worker_returned]) (simp add: progress_def is_call_def)
    next
      case 3
      then show ?thesis by (intro exI [of _ Loop_began]) (simp add: progress_def is_call_def)
    next
      case 4
      then show ?thesis using 3 by (intro exI [of _ "Loop_returned (LC_ctx s)"]) (simp add: progress_def is_call_def)
    qed
  qed
qed

text \<open>
  C6. One caller at a time: whenever \<open>Start\<close> and \<open>Stop\<close> do not overlap, no more than the
  configured workers run; an engine that is not running has no goroutine left; and once
  \<open>Stop\<close> is called, it always can go on, and after at most five transitions beyond the
  number of workers it has returned with the engine stopped.
\<close>
theorem engine_stops_clean:
  assumes "lc_run n es engine_made = Some s" "one_caller n es engine_made" "n = worker_count cfg"
  shows "LC_workers s \<le> n \<and> (\<not> LC_running s \<longrightarrow> LC_workers s = 0 \<and> LC_loops s = {#}) \<and>
    (stopping s \<longrightarrow> (\<exists>e. lc_step n e s \<noteq> None \<and> progress e) \<and>
      (\<forall>es' s'. lc_run n es' s = Some s' \<and> (\<forall>e \<in> set es'. \<not> is_call e) \<longrightarrow>
        (stopping s' \<or> stopped s') \<and> length (filter progress es') \<le> n + 5))"
proof -
  have inv: "lc_inv n s" by (rule lc_inv_run [OF assms(1,2) lc_inv_made])
  have "count (LC_loops s) None \<le> size (LC_loops s)" by (rule count_le_size)
  then have work: "stop_work s \<le> n + 5" using inv by (auto simp: lc_inv_def stop_work_def)
  have "length (filter progress es') \<le> n + 5 \<and> (stopping s' \<or> stopped s')"
    if "stopping s" "lc_run n es' s = Some s'" "\<forall>e \<in> set es'. \<not> is_call e" for es' s'
    using stop_run [OF that(2) inv _ that(3)] that(1) work by auto
  then show ?thesis using inv stop_progress [OF inv] by (auto simp: lc_inv_def)
qed

definition stop_trace :: "lc_event list" where
  "stop_trace = [Start_called, Launched, Loop_began, Stop_called, Stop_cancelled 1, Worker_returned, Loop_returned 1, Waited, Stop_returned]"

lemma one_worker: "worker_count None = 1"
  by (simp add: worker_count_def engine_defaults_def zero_EngineConfig_def)

theorem engine_stops_clean_witness:
  "\<exists>s. lc_run 1 stop_trace engine_made = Some s \<and> \<not> LC_running s \<and> LC_workers s = 0 \<and> LC_loops s = {#}"
proof -
  obtain s where s: "lc_run 1 stop_trace engine_made = Some s" "\<not> LC_running s"
    by (simp add: stop_trace_def engine_made_def lc_defs)
  have "one_caller 1 stop_trace engine_made" by (simp add: stop_trace_def engine_made_def lc_defs is_call_def)
  from engine_stops_clean [OF s(1) this one_worker [symmetric]] s show ?thesis by blast
qed

section \<open>Calls that overlap\<close>

text \<open>
  Two overlapping calls of \<open>Stop\<close> can leave a later \<open>Start\<close> believing that nothing runs: the
  second \<open>Stop\<close> clears the flag of an engine that has been started again meanwhile.
\<close>

theorem overlapping_stops_double_workers:
  "map_option LC_workers (lc_run 1 [Start_called, Launched, Loop_began, Stop_called, Stop_called, Stop_cancelled 1, Stop_cancelled 1,
     Worker_returned, Loop_returned 1, Waited, Waited, Stop_returned, Start_called, Launched, Stop_returned, Start_called, Launched]
     engine_made) = Some 2"
  by (simp add: engine_made_def lc_defs)

section \<open>The engine's process\<close>

text \<open>
  From \<open>Start\<close> on, \<open>run\<close> of \<open>cmd/message-engine/main.go\<close> waits for a signal or for one of its two
  servers to fail, cancels the context it gave to the engine, and calls \<open>Stop\<close>, which has to
  return before the servers are shut down and the process exits.
\<close>

datatype stop_reason = Signal_received | Server_failed go_error

definition exit_code :: "stop_reason \<Rightarrow> int" where
  "exit_code r = (case r of Signal_received \<Rightarrow> 0 | Server_failed _ \<Rightarrow> 1)"

text \<open>\<open>serving\<close> happens before the signal, \<open>closing\<close> from the call of \<open>Stop\<close> to its return.\<close>

definition engine_process :: "lc_event list \<Rightarrow> lc_event list \<Rightarrow> lc_event list" where
  "engine_process serving closing = [Start_called, Launched] @ serving @ [Parent_cancelled 1, Stop_called] @ closing"

lemma lc_run_append:
  "lc_run n (es @ es') s = (case lc_run n es s of None \<Rightarrow> None | Some t \<Rightarrow> lc_run n es' t)"
  by (induction n es s rule: lc_run.induct) (auto split: option.splits)

lemma one_caller_calls: "\<forall>e \<in> set es. \<not> is_call e \<Longrightarrow> one_caller n es s"
  by (induction n es s rule: one_caller.induct) (auto split: option.splits)

lemma serving_step:
  assumes "lc_step n e s = Some s'" "LC_calls s = {#}" "LC_running s" "LC_ctx s = 1" "\<not> is_call e"
  shows "LC_calls s' = {#} \<and> LC_running s' \<and> LC_ctx s' = 1"
  using assms by (cases e) (auto simp: lc_defs is_call_def split: if_splits)

lemma serving_run:
  assumes "lc_run n es s = Some s'" "LC_calls s = {#}" "LC_running s" "LC_ctx s = 1" "\<forall>e \<in> set es. \<not> is_call e"
  shows "LC_calls s' = {#} \<and> LC_running s' \<and> LC_ctx s' = 1"
  using assms
proof (induction n es s rule: lc_run.induct)
  case (2 n e es s)
  then obtain t where t: "lc_step n e s = Some t" "lc_run n es t = Some s'" by (auto split: option.splits)
  with 2(1) [OF t(1)] serving_step [OF t(1)] 2(3-6) show ?case by auto
qed simp

text \<open>When the process goes on to exit, every worker and the retry loop have returned.\<close>

theorem engine_exits_clean:
  assumes "lc_run n (engine_process serving closing) engine_made = Some s"
    and "\<forall>e \<in> set serving \<union> set closing. \<not> is_call e" "LC_calls s = {#}"
  shows "stopped s"
proof -
  define s1 where "s1 = start_launch n (start_locked engine_made)"
  have s1: "LC_calls s1 = {#}" "LC_running s1" "LC_ctx s1 = 1" "lc_inv n s1"
    by (simp_all add: s1_def lc_defs engine_made_def lc_inv_def)
  obtain s2 where s2: "lc_run n serving s1 = Some s2" "lc_run n ([Parent_cancelled 1, Stop_called] @ closing) s2 = Some s"
    using assms(1) by (auto simp: engine_process_def lc_run_append s1_def lc_defs engine_made_def split: option.splits)
  have up: "LC_calls s2 = {#}" "LC_running s2" "LC_ctx s2 = 1"
    using serving_run [OF s2(1) s1(1-3)] assms(2) by auto
  have inv: "lc_inv n s2" using lc_inv_run [OF s2(1) one_caller_calls s1(4)] assms(2) by auto
  let ?s3 = "MessageEngine_Stop (s2\<lparr>LC_cancelled := insert 1 (LC_cancelled s2)\<rparr>)"
  have s3: "lc_run n closing ?s3 = Some s" using s2(2) up by simp
  have "lc_inv n ?s3" "stopping ?s3" using inv up by (auto simp: lc_inv_def lc_defs stopping_def)
  from stop_run [OF s3 this(1)] this(2) assms(2,3) show ?thesis by (auto simp: stopping_def)
qed

end
