(* ===== verification/Executables.thy ===== *)
theory Executables
  imports Config Tracing Server Engine_Lifecycle Migrations
begin

text \<open>
  The executables: \<open>cmd/api-gateway\<close>, \<open>cmd/message-engine\<close> and \<open>cmd/migrate\<close>, from the loading of the
  configuration to the exit code, with the connections of package repository and the HTTP
  servers. The deferred calls of a \<open>run\<close> are an explicit stack. Drivers, sockets, goroutines,
  signals and OpenTelemetry are the fields of \<open>platform\<close>.
\<close>

section \<open>HTTP servers\<close>

record ServerConfig =
  SC_Addr :: string
  SC_ReadTimeout :: duration
  SC_WriteTimeout :: duration
  SC_IdleTimeout :: duration

text \<open>A reply that a handler writes without gin, and the handlers that the servers get.\<close>

record http_reply =
  RP_Status :: int
  RP_ContentType :: string
  RP_Body :: string

datatype 'w http_handler =
    Gin_Router "gin_request \<Rightarrow> ('w, gin_ctx) io"
  | Serve_Mux "(string \<times> ('w, http_reply) io) list"
  | Prometheus_Handler

text \<open>\<open>http.Server\<close>; a timeout of 0 is none.\<close>

record 'w http_server =
  HS_Addr :: string
  HS_Handler :: "'w http_handler"
  HS_ReadTimeout :: duration
  HS_WriteTimeout :: duration
  HS_IdleTimeout :: duration
  HS_ReadHeaderTimeout :: duration

definition server_with :: "ServerConfig \<Rightarrow> (gin_request \<Rightarrow> ('w, gin_ctx) io) \<Rightarrow> 'w http_server" where
  "server_with cfg router = \<lparr>HS_Addr = SC_Addr cfg, HS_Handler = Gin_Router router, HS_ReadTimeout = SC_ReadTimeout cfg,
     HS_WriteTimeout = SC_WriteTimeout cfg, HS_IdleTimeout = SC_IdleTimeout cfg, HS_ReadHeaderTimeout = 0\<rparr>"

definition side_server :: "string \<Rightarrow> 'w http_handler \<Rightarrow> 'w http_server" where
  "side_server addr h = \<lparr>HS_Addr = addr, HS_Handler = h, HS_ReadTimeout = 0, HS_WriteTimeout = 0, HS_IdleTimeout = 0,
     HS_ReadHeaderTimeout = 5 * Second\<rparr>"

section \<open>The platform\<close>

text \<open>\<open>redis.Options\<close>: the pool size, and the rest of what \<open>ParseURL\<close> reads from the URL.\<close>

record redis_Options =
  Opt_PoolSize :: int
  Opt_Parsed :: string

text \<open>
  \<open>go_Listen name s\<close> starts the goroutine that serves \<open>s\<close> and reports a failure under that name on
  \<open>errCh\<close>; \<open>select_stop\<close> waits for a signal or such a report. \<open>go_Workers\<close> starts an engine's
  goroutines, \<open>stop_Workers\<close> cancels their context and waits for them (theory Engine_Lifecycle).
\<close>

record 'w platform =
  sqlx_Connect :: "string \<Rightarrow> ('w, 'w sqlx result) io"
  SetMaxOpenConns :: "'w sqlx \<Rightarrow> int \<Rightarrow> ('w, unit) io"
  SetMaxIdleConns :: "'w sqlx \<Rightarrow> int \<Rightarrow> ('w, unit) io"
  sqlx_Close :: "'w sqlx \<Rightarrow> ('w, unit result) io"
  migration_conn :: "'w sqlx \<Rightarrow> 'w migration_db"
  embeddedMigrations :: embed_fs
  redis_ParseURL :: "string \<Rightarrow> redis_Options result"
  redis_NewClient :: "redis_Options \<Rightarrow> ('w, 'w goredis) io"
  redis_Close :: "'w goredis \<Rightarrow> ('w, unit result) io"
  otel_calls :: "'w otel"
  go_Listen :: "string \<Rightarrow> 'w http_server \<Rightarrow> ('w, unit) io"
  server_Shutdown :: "'w http_server \<Rightarrow> ('w, unit result) io"
  select_stop :: "('w, stop_reason) io"
  go_Workers :: "'w MessageEngine \<Rightarrow> ('w, unit) io"
  stop_Workers :: "'w MessageEngine \<Rightarrow> ('w, unit) io"

section \<open>Connections\<close>

definition NewPostgresDB :: "'w platform \<Rightarrow> string \<Rightarrow> ('w, 'w sqlx result) io" where
  "NewPostgresDB P dsn = do {
     r \<leftarrow> sqlx_Connect P dsn;
     (case r of
        Inl e \<Rightarrow> ret (Inl (OtherError (''failed to connect to postgres: '' @ err_Error e)))
      | Inr db \<Rightarrow> do {
          SetMaxOpenConns P db 25;
          SetMaxIdleConns P db 5;
          ret (Inr db)
        })
   }"

definition PostgresDB_Close :: "'w platform \<Rightarrow> 'w sqlx \<Rightarrow> ('w, unit result) io" where
  "PostgresDB_Close P db = sqlx_Close P db"

definition NewRedisClient :: "'w platform \<Rightarrow> string \<Rightarrow> ('w, 'w goredis result) io" where
  "NewRedisClient P redisURL =
     (case redis_ParseURL P redisURL of
        Inl e \<Rightarrow> ret (Inl e)
      | Inr opts \<Rightarrow> do {
          client \<leftarrow> redis_NewClient P (opts\<lparr>Opt_PoolSize := 100\<rparr>);
          r \<leftarrow> cmd_Ping client;
          (case r of Inl e \<Rightarrow> ret (Inl e) | Inr _ \<Rightarrow> ret (Inr client))
        })"

definition RedisClient_Close :: "'w platform \<Rightarrow> 'w goredis \<Rightarrow> ('w, unit result) io" where
  "RedisClient_Close P c = redis_Close P c"

section \<open>Deferred calls\<close>

text \<open>The last deferred call runs first. Their errors are at most logged.\<close>

datatype 'w deferred = Close_Postgres "'w sqlx" | Close_Redis "'w goredis" | Shutdown_Tracing nat

definition deferred_call :: "'w platform \<Rightarrow> 'w deferred \<Rightarrow> ('w, unit) io" where
  "deferred_call P d = (case d of
     Close_Postgres db \<Rightarrow> do { _ \<leftarrow> PostgresDB_Close P db; ret () }
   | Close_Redis c \<Rightarrow> do { _ \<leftarrow> RedisClient_Close P c; ret () }
   | Shutdown_Tracing provider \<Rightarrow> do { _ \<leftarrow> provider_Shutdown (otel_calls P) provider; ret () })"

definition trace_config :: "string \<Rightarrow> Config \<Rightarrow> TraceConfig" where
  "trace_config name cfg = \<lparr>TC_ServiceName = name, TC_Environment = Cfg_Env cfg, TC_Enabled = Cfg_OTELEnabled cfg,
     TC_Endpoint = Cfg_OTELExporterOTLPEndpoint cfg, TC_Insecure = Cfg_OTELInsecure cfg\<rparr>"

section \<open>cmd/api-gateway\<close>

definition gateway_deps :: "Config \<Rightarrow> 'w sqlx \<Rightarrow> 'w goredis \<Rightarrow> 'w Dependencies" where
  "gateway_deps cfg db redis =
     (let authService = NewAuthService (Cfg_JWTSecret cfg)
      in \<lparr>Deps_AgentService = Some (NewAgentService (Some db) (Some redis)),
          Deps_MessageService = Some (NewMessageService (Some db) (Some db) (Some redis)),
          Deps_Database = Some db, Deps_Redis = Some redis,
          Deps_Middleware = NewMiddleware (Some redis) (Some db) (Some authService)
            (Cfg_RateLimitRequests cfg) (Cfg_RateLimitWindow cfg)\<rparr>)"

text \<open>Start-up: the calls deferred so far, and the exit code of an early return or the dependencies of the server.\<close>

definition gateway_start ::
    "'z unicode_tables_scheme \<Rightarrow> 'w platform \<Rightarrow> environ \<Rightarrow> ('w, 'w deferred list \<times> (int + 'w Dependencies)) io" where
  "gateway_start U P E =
     (let cfg = Load E
      in case Config_Validate U (Some cfg) True of
           Inl e \<Rightarrow> ret ([], Inl 1)
         | Inr _ \<Rightarrow> do {
             p \<leftarrow> NewPostgresDB P (Cfg_DatabaseURL cfg);
             (case p of
                Inl e \<Rightarrow> ret ([], Inl 1)
              | Inr db \<Rightarrow> do {
                  m \<leftarrow> (if Cfg_AutoMigrate cfg then RunMigrations (embeddedMigrations P) (Some (migration_conn P db)) else ret (Inr ()));
                  (case m of
                     Inl e \<Rightarrow> ret ([Close_Postgres db], Inl 1)
                   | Inr _ \<Rightarrow> do {
                       r \<leftarrow> NewRedisClient P (Cfg_RedisURL cfg);
                       (case r of
                          Inl e \<Rightarrow> ret ([Close_Postgres db], Inl 1)
                        | Inr redis \<Rightarrow> do {
                            t \<leftarrow> InitTracing (otel_calls P) (trace_config ''agentmsg-api-gateway'' cfg);
                            (case t of
                               Inl e \<Rightarrow> ret ([Close_Redis redis, Close_Postgres db], Inl 1)
                             | Inr provider \<Rightarrow>
                                 ret ([Shutdown_Tracing provider, Close_Redis redis, Close_Postgres db], Inr (gateway_deps cfg db redis)))
                          })
                     })
                })
           })"

definition gateway_serve ::
    "'w platform \<Rightarrow> Config \<Rightarrow> (gin_request \<Rightarrow> ('w, gin_ctx) io) \<Rightarrow> ('w, int) io" where
  "gateway_serve P cfg router =
     (let server = server_with \<lparr>SC_Addr = Cfg_Host cfg @ '':'' @ Cfg_APIGatewayPort cfg, SC_ReadTimeout = 30 * Second,
            SC_WriteTimeout = 30 * Second, SC_IdleTimeout = 120 * Second\<rparr> router;
          metricsServer = side_server '':9090'' Prometheus_Handler
      in do {
           go_Listen P ''api gateway'' server;
           go_Listen P ''metrics server'' metricsServer;
           reason \<leftarrow> select_stop P;
           _ \<leftarrow> server_Shutdown P server;
           _ \<leftarrow> server_Shutdown P metricsServer;
           ret (exit_code reason)
         })"

definition gateway_run :: "go_env \<Rightarrow> 'w runtime \<Rightarrow> (gin_request \<Rightarrow> string) \<Rightarrow> string \<Rightarrow>
    'z unicode_tables_scheme \<Rightarrow> 'w platform \<Rightarrow> environ \<Rightarrow> ('w, int) io" where
  "gateway_run G R spanTraceID openAPISpec U P E = do {
     (defers, s) \<leftarrow> gateway_start U P E;
     code \<leftarrow> (case s of
                Inl code \<Rightarrow> ret code
              | Inr deps \<Rightarrow> gateway_serve P (Load E) (NewServer G R spanTraceID openAPISpec deps));
     for_io (deferred_call P) defers;
     ret code
   }"

section \<open>cmd/message-engine\<close>

definition engine_of_main :: "'w sqlx \<Rightarrow> 'w goredis \<Rightarrow> 'w MessageEngine" where
  "engine_of_main db redis = NewMessageEngine (Some \<lparr>Engine_WorkerCount = 16, Engine_BatchSize = 100,
     Engine_FlushInterval = 100 * Millisecond, Engine_MaxRetries = 3, Engine_RetryBaseDelay = 0\<rparr>) (Some db) (Some redis)"

definition writeJSON :: "int \<Rightarrow> string \<Rightarrow> http_reply" where
  "writeJSON statusCode body = \<lparr>RP_Status = statusCode, RP_ContentType = ''application/json'', RP_Body = body\<rparr>"

definition engine_ready :: "'w sqlx \<Rightarrow> 'w goredis \<Rightarrow> ('w, http_reply) io" where
  "engine_ready db redis = do {
     p \<leftarrow> PostgresDB_Ping (Some db);
     (case p of
        Inl e \<Rightarrow> ret (writeJSON 503 ''{\"status\":\"not_ready\",\"database\":\"error\"}'')
      | Inr _ \<Rightarrow> do {
          q \<leftarrow> RedisClient_Ping (Some redis);
          (case q of
             Inl e \<Rightarrow> ret (writeJSON 503 ''{\"status\":\"not_ready\",\"redis\":\"error\"}'')
           | Inr _ \<Rightarrow> ret (writeJSON 200 ''{\"status\":\"ready\"}''))
        })
   }"

definition health_mux :: "'w sqlx \<Rightarrow> 'w goredis \<Rightarrow> 'w http_handler" where
  "health_mux db redis = Serve_Mux
     [(''/health'', ret (writeJSON 200 ''{\"status\":\"healthy\"}'')), (''/ready'', engine_ready db redis)]"

definition engine_start ::
    "'z unicode_tables_scheme \<Rightarrow> 'w platform \<Rightarrow> environ \<Rightarrow> ('w, 'w deferred list \<times> (int + 'w sqlx \<times> 'w goredis)) io" where
  "engine_start U P E =
     (let cfg = Load E
      in case Config_Validate U (Some cfg) False of
           Inl e \<Rightarrow> ret ([], Inl 1)
         | Inr _ \<Rightarrow> do {
             p \<leftarrow> NewPostgresDB P (Cfg_DatabaseURL cfg);
             (case p of
                Inl e \<Rightarrow> ret ([], Inl 1)
              | Inr db \<Rightarrow> do {
                  r \<leftarrow> NewRedisClient P (Cfg_RedisURL cfg);
                  (case r of
                     Inl e \<Rightarrow> ret ([Close_Postgres db], Inl 1)
                   | Inr redis \<Rightarrow> do {
                       t \<leftarrow> InitTracing (otel_calls P) (trace_config ''agentmsg-message-engine'' cfg);
                       (case t of
                          Inl e \<Rightarrow> ret ([Close_Redis redis, Close_Postgres db], Inl 1)
                        | Inr provider \<Rightarrow>
                            ret ([Shutdown_Tracing provider, Close_Redis redis, Close_Postgres db], Inr (db, redis)))
                     })
                })
           })"

text \<open>\<open>Start\<close> of the engine: theory Engine_Lifecycle has the transitions of its goroutines.\<close>

definition engine_Start :: "'w platform \<Rightarrow> 'w MessageEngine \<Rightarrow> ('w, unit result) io" where
  "engine_Start P e = (case ME_redis e of
     None \<Rightarrow> ret (Inl ErrEngineDependenciesNotConfigured)
   | Some _ \<Rightarrow> do { go_Workers P e; ret (Inr ()) })"

definition engine_serve :: "'w platform \<Rightarrow> Config \<Rightarrow> 'w sqlx \<Rightarrow> 'w goredis \<Rightarrow> ('w, int) io" where
  "engine_serve P cfg db redis =
     (let msgEngine = engine_of_main db redis;
          healthServer = side_server ('':'' @ Cfg_MessageEnginePort cfg) (health_mux db redis);
          metricsServer = side_server '':9091'' Prometheus_Handler
      in do {
           r \<leftarrow> engine_Start P msgEngine;
           (case r of
              Inl e \<Rightarrow> ret 1
            | Inr _ \<Rightarrow> do {
                go_Listen P ''health server'' healthServer;
                go_Listen P ''metrics server'' metricsServer;
                reason \<leftarrow> select_stop P;
                stop_Workers P msgEngine;
                _ \<leftarrow> server_Shutdown P healthServer;
                _ \<leftarrow> server_Shutdown P metricsServer;
                ret (exit_code reason)
              })
         })"

definition engine_run :: "'z unicode_tables_scheme \<Rightarrow> 'w platform \<Rightarrow> environ \<Rightarrow> ('w, int) io" where
  "engine_run U P E = do {
     (defers, s) \<leftarrow> engine_start U P E;
     code \<leftarrow> (case s of Inl code \<Rightarrow> ret code | Inr (db, redis) \<Rightarrow> engine_serve P (Load E) db redis);
     for_io (deferred_call P) defers;
     ret code
   }"

section \<open>cmd/migrate\<close>

text \<open>The exit code. \<open>os.Exit\<close> runs no deferred call, so only the last return closes the pool.\<close>

definition migrate_main :: "'z unicode_tables_scheme \<Rightarrow> 'w platform \<Rightarrow> environ \<Rightarrow> ('w, int) io" where
  "migrate_main U P E =
     (let cfg = Load E
      in case Config_Validate U (Some cfg) False of
           Inl e \<Rightarrow> ret 1
         | Inr _ \<Rightarrow> do {
             p \<leftarrow> NewPostgresDB P (Cfg_DatabaseURL cfg);
             (case p of
                Inl e \<Rightarrow> ret 1
              | Inr db \<Rightarrow> do {
                  m \<leftarrow> RunMigrations (embeddedMigrations P) (Some (migration_conn P db));
                  (case m of
                     Inl e \<Rightarrow> ret 1
                   | Inr _ \<Rightarrow> do { for_io (deferred_call P) [Close_Postgres db]; ret 0 })
                })
           })"

end
