(* ===== verification/Process_Resources.thy ===== *)
theory Process_Resources
  imports Executables
begin

text \<open>
  What the two long-running executables do with what they open. The interface of the platform
  is a locale over a footprint: what is open, which servers listen, whether workers run. Its
  laws hold only for an orderly use (a server or a worker is started on open connections,
  nothing is closed under it), so the results of the locale show that the use is orderly. A
  platform that records any other use is the instance.
\<close>

section \<open>The interface of the platform\<close>

datatype held = Pool | Client | Tracer

record footprint =
  FP_open :: "held list"
  FP_serving :: "string list"
  FP_workers :: bool
  FP_stopped :: "stop_reason option"

definition nothing_held :: footprint where
  "nothing_held = \<lparr>FP_open = [], FP_serving = [], FP_workers = False, FP_stopped = None\<rparr>"

abbreviation opened :: "held \<Rightarrow> footprint \<Rightarrow> footprint" where
  "opened h f \<equiv> f\<lparr>FP_open := h # FP_open f\<rparr>"

abbreviation released :: "held \<Rightarrow> footprint \<Rightarrow> footprint" where
  "released h f \<equiv> f\<lparr>FP_open := remove1 h (FP_open f)\<rparr>"

text \<open>Nothing uses the connections, and everything that a server or worker uses is there.\<close>

definition idle :: "footprint \<Rightarrow> bool" where
  "idle f \<longleftrightarrow> FP_serving f = [] \<and> \<not> FP_workers f"

definition ready :: "footprint \<Rightarrow> bool" where
  "ready f \<longleftrightarrow> {Pool, Client, Tracer} \<subseteq> set (FP_open f)"

fun closes :: "'w deferred \<Rightarrow> held" where
  "closes (Close_Postgres db) = Pool"
| "closes (Close_Redis c) = Client"
| "closes (Shutdown_Tracing t) = Tracer"

locale orderly_platform =
  fixes P :: "'w platform" and fp :: "footprint \<Rightarrow> 'w \<Rightarrow> bool" and dialled :: "'w goredis \<Rightarrow> bool"
  assumes connect: "leads (fp f) (sqlx_Connect P dsn) (\<lambda>r. case r of Inl e \<Rightarrow> fp f | Inr db \<Rightarrow> fp (opened Pool f))"
    and settings: "keeps (fp f) (SetMaxOpenConns P db n)" "keeps (fp f) (SetMaxIdleConns P db n)"
    and migration: "keeps (fp f) (Create_MigrationTable (migration_conn P db))" "keeps (fp f) (Advisory_Lock (migration_conn P db) k)"
      "keeps (fp f) (Advisory_Unlock (migration_conn P db) k)" "keeps (fp f) (Count_Applied (migration_conn P db) s)"
      "keeps (fp f) (BeginTxx (migration_conn P db))" "keeps (fp f) (Tx_Exec (migration_conn P db) s)"
      "keeps (fp f) (Tx_InsertFilename (migration_conn P db) s)" "keeps (fp f) (Tx_Rollback (migration_conn P db))"
      "keeps (fp f) (Tx_Commit (migration_conn P db))"
    and client: "leads (fp f) (redis_NewClient P opts) (\<lambda>c w. dialled c \<and> fp (opened Client f) w)"
    and ping: "dialled c \<Longrightarrow> keeps (fp f) (cmd_Ping c)"
    and otel: "keeps (fp f) (SetTextMapPropagator (otel_calls P) ps)" "keeps (fp f) (resource_New (otel_calls P) attrs)"
      "keeps (fp f) (otlptracehttp_New (otel_calls P) os)" "keeps (fp f) (SetTracerProvider (otel_calls P) t)"
      "leads (fp f) (NewTracerProvider (otel_calls P) os') (\<lambda>_. fp (opened Tracer f))"
    and close: "idle f \<Longrightarrow> leads (fp f) (sqlx_Close P db) (\<lambda>_. fp (released Pool f))"
      "idle f \<Longrightarrow> leads (fp f) (redis_Close P c) (\<lambda>_. fp (released Client f))"
      "idle f \<Longrightarrow> leads (fp f) (provider_Shutdown (otel_calls P) t) (\<lambda>_. fp (released Tracer f))"
    and listen: "ready f \<Longrightarrow> leads (fp f) (go_Listen P name srv) (\<lambda>_. fp (f\<lparr>FP_serving := HS_Addr srv # FP_serving f\<rparr>))"
    and shut: "leads (fp f) (server_Shutdown P srv) (\<lambda>_. fp (f\<lparr>FP_serving := remove1 (HS_Addr srv) (FP_serving f)\<rparr>))"
    and stop: "leads (fp f) (select_stop P) (\<lambda>r. fp (f\<lparr>FP_stopped := Some r\<rparr>))"
    and workers: "ready f \<Longrightarrow> leads (fp f) (go_Workers P e) (\<lambda>_. fp (f\<lparr>FP_workers := True\<rparr>))"
      "leads (fp f) (stop_Workers P e) (\<lambda>_. fp (f\<lparr>FP_workers := False\<rparr>))"
begin

text \<open>What a start-up gives: everything it opened is deferred, but for a client that does not answer.\<close>

definition started :: "'w deferred list \<Rightarrow> int + 'x \<Rightarrow> footprint \<Rightarrow> bool" where
  "started ds r f \<longleftrightarrow> idle f \<and> FP_stopped f = None \<and> (case r of
     Inr _ \<Rightarrow> FP_open f = map closes ds \<and> ready f
   | Inl code \<Rightarrow> code = 1 \<and>
       (FP_open f = map closes ds \<or> Client \<notin> set (map closes ds) \<and> FP_open f = Client # map closes ds))"

text \<open>How a process ends: idle, with nothing open but that client.\<close>

definition ended :: "int \<Rightarrow> 'w \<Rightarrow> bool" where
  "ended code w \<longleftrightarrow> (\<exists>f. fp f w \<and> idle f \<and> code \<in> {0, 1} \<and> (code = 0 \<longleftrightarrow> FP_stopped f = Some Signal_received) \<and>
     (FP_open f = [] \<or> code = 1 \<and> FP_open f = [Client]))"

lemma postgres: "leads (fp f) (NewPostgresDB P dsn) (\<lambda>r. case r of Inl e \<Rightarrow> fp f | Inr db \<Rightarrow> fp (opened Pool f))"
  unfolding NewPostgresDB_def
  by (intro leads_bind [OF connect] leads_sum; simp)
    (intro leads_bind [OF leads_keeps [OF settings(1)]] leads_bind [OF leads_keeps [OF settings(2)]] leads_ret | simp)+

lemma redis:
  "leads (fp f) (NewRedisClient P url) (\<lambda>r w. case r of Inl e \<Rightarrow> fp f w \<or> fp (opened Client f) w | Inr c \<Rightarrow> fp (opened Client f) w)"
  unfolding NewRedisClient_def
proof (intro leads_sum leads_ret)
  fix opts
  show "leads (fp f) (do {
          client \<leftarrow> redis_NewClient P (opts\<lparr>Opt_PoolSize := 100\<rparr>);
          r \<leftarrow> cmd_Ping client;
          (case r of Inl e \<Rightarrow> ret (Inl e) | Inr _ \<Rightarrow> ret (Inr client))
        }) (\<lambda>r w. case r of Inl e \<Rightarrow> fp f w \<or> fp (opened Client f) w | Inr c \<Rightarrow> fp (opened Client f) w)"
    by (intro leads_bind [OF client] leads_pure leads_bind [OF leads_keeps [OF ping]] leads_sum leads_ret; simp)
qed simp

lemma tracing: "leads (fp f) (InitTracing (otel_calls P) cfg) (\<lambda>r. case r of Inl e \<Rightarrow> fp f | Inr t \<Rightarrow> fp (opened Tracer f))"
proof -
  have set: "leads (fp f) (set_provider (otel_calls P) os) (\<lambda>r. case r of Inl e \<Rightarrow> fp f | Inr t \<Rightarrow> fp (opened Tracer f))" for os
    unfolding set_provider_def
    by (intro leads_bind [OF otel(5)] leads_bind [OF leads_keeps [OF otel(4)]] leads_ret) simp
  show ?thesis
    unfolding InitTracing_def Let_def
    by (intro leads_bind [OF leads_keeps [OF otel(1)]] leads_bind [OF leads_keeps [OF otel(2)]] leads_sum)
      (auto intro!: leads_ret leads_bind [OF leads_keeps [OF otel(3)]] leads_sum set)
qed

lemma migrations: "keeps (fp f) (RunMigrations fs (Some (migration_conn P db)))"
  unfolding RunMigrations_def migrate_file_def migrate_tx_def ensureMigrationTable_def migrationApplied_def option.case
  by (intro keeps_rules migration)

lemma leads_fp: "(\<And>f. Q f \<Longrightarrow> leads (fp f) m B) \<Longrightarrow> leads (\<lambda>w. \<exists>f. fp f w \<and> Q f) m B"
  by (auto simp: leads_def)

lemma fp_now: "fp f w \<Longrightarrow> Q f \<Longrightarrow> \<exists>f. fp f w \<and> Q f"
  by blast

lemma tracing_started:
  assumes "f = nothing_held\<lparr>FP_open := [Client, Pool]\<rparr>"
  shows "leads (fp f)
     (do { t \<leftarrow> InitTracing (otel_calls P) cfg;
           (case t of
              Inl e \<Rightarrow> ret ([Close_Redis redis, Close_Postgres db], Inl 1)
            | Inr provider \<Rightarrow> ret ([Shutdown_Tracing provider, Close_Redis redis, Close_Postgres db], Inr x)) })
     (\<lambda>(ds, r) w. \<exists>f. fp f w \<and> started ds r f)"
  by (rule leads_bind [OF tracing])
    (auto intro!: leads_sum leads_ret elim!: fp_now simp: assms started_def idle_def ready_def nothing_held_def)

lemma redis_started:
  assumes "f = nothing_held\<lparr>FP_open := [Pool]\<rparr>"
  shows "leads (fp f)
     (do { r \<leftarrow> NewRedisClient P url;
           (case r of
              Inl e \<Rightarrow> ret ([Close_Postgres db], Inl 1)
            | Inr redis \<Rightarrow> do {
                t \<leftarrow> InitTracing (otel_calls P) cfg;
                (case t of
                   Inl e \<Rightarrow> ret ([Close_Redis redis, Close_Postgres db], Inl 1)
                 | Inr provider \<Rightarrow> ret ([Shutdown_Tracing provider, Close_Redis redis, Close_Postgres db], Inr (x redis)))
              }) })
     (\<lambda>(ds, r) w. \<exists>f. fp f w \<and> started ds r f)"
proof (rule leads_bind [OF redis], goal_cases)
  case (1 r)
  show ?case
  proof (cases r)
    case (Inl e)
    then show ?thesis
      by (auto intro!: leads_ret elim!: fp_now simp: assms started_def idle_def nothing_held_def)
  next
    case (Inr c)
    then show ?thesis
      by (auto simp: assms intro!: leads_post [OF tracing_started [OF refl]])
  qed
qed

lemma gateway_starts:
  "leads (fp nothing_held) (gateway_start U P E)
     (\<lambda>(ds, r) w. \<exists>f. fp f w \<and> started ds r f)"
proof -
  have pool: "opened Pool nothing_held = nothing_held\<lparr>FP_open := [Pool]\<rparr>" by (simp add: nothing_held_def)
  have fail: "started [] (Inl 1) nothing_held" "started [Close_Postgres db] (Inl 1) (nothing_held\<lparr>FP_open := [Pool]\<rparr>)" for db
    by (simp_all add: started_def idle_def nothing_held_def)
  show ?thesis
    unfolding gateway_start_def Let_def
    by (intro leads_sum leads_ret leads_bind [OF postgres])
      (auto simp: pool intro!: leads_ret fail exI leads_sum leads_bind [OF leads_keeps [OF migrations]] redis_started)
qed

lemma engine_starts:
  "leads (fp nothing_held) (engine_start U P E)
     (\<lambda>(ds, r) w. \<exists>f. fp f w \<and> started ds r f)"
proof -
  have pool: "opened Pool nothing_held = nothing_held\<lparr>FP_open := [Pool]\<rparr>" by (simp add: nothing_held_def)
  have fail: "started [] (Inl 1) nothing_held" by (simp_all add: started_def idle_def nothing_held_def)
  show ?thesis
    unfolding engine_start_def Let_def
    by (intro leads_sum leads_ret leads_bind [OF postgres]) (auto simp: pool intro!: leads_ret fail exI redis_started leads_sum)
qed

text \<open>Serving starts and ends every server and worker.\<close>

definition served :: "footprint \<Rightarrow> int \<Rightarrow> 'w \<Rightarrow> bool" where
  "served f code w \<longleftrightarrow> (\<exists>r. code = exit_code r \<and> fp (f\<lparr>FP_stopped := Some r\<rparr>) w)"

lemma ready_updates [simp]:
  "ready (f\<lparr>FP_serving := s\<rparr>) = ready f" "ready (f\<lparr>FP_workers := b\<rparr>) = ready f"
  by (simp_all add: ready_def)

lemma two_served: "remove1 m (remove1 a [m, a]) = []"
  by simp

lemma gateway_serves:
  assumes "ready f" "idle f"
  shows "leads (fp f) (gateway_serve P cfg router) (served f)"
proof -
  have f: "f\<lparr>FP_stopped := r, FP_serving := []\<rparr> = f\<lparr>FP_stopped := r\<rparr>" for r
    using assms(2) by (simp add: idle_def)
  show ?thesis
    unfolding gateway_serve_def Let_def
    by (intro leads_bind [OF listen] leads_bind [OF stop] leads_bind [OF shut] leads_ret)
      (use assms in \<open>auto simp: served_def idle_def two_served f simp del: remove1.simps\<close>)
qed

lemma engine_serves:
  assumes "ready f" "idle f"
  shows "leads (fp f) (engine_serve P cfg db rd) (served f)"
proof -
  have f: "f\<lparr>FP_stopped := r, FP_workers := False, FP_serving := []\<rparr> = f\<lparr>FP_stopped := r\<rparr>" for r
    using assms(2) by (simp_all add: idle_def)
  have e: "ME_redis (engine_of_main db rd) = Some rd" by (simp add: engine_of_main_def NewMessageEngine_def Let_def)
  have "leads (fp (f\<lparr>FP_workers := True\<rparr>)) (do {
          go_Listen P ''health server'' s1;
          go_Listen P ''metrics server'' s2;
          reason \<leftarrow> select_stop P;
          stop_Workers P e;
          _ \<leftarrow> server_Shutdown P s1;
          _ \<leftarrow> server_Shutdown P s2;
          ret (exit_code reason)
        }) (served f)" for s1 s2 e
    by (intro leads_bind [OF listen] leads_bind [OF stop] leads_bind [OF workers(2)] leads_bind [OF shut] leads_ret)
      (use assms in \<open>auto simp: served_def idle_def two_served f simp del: remove1.simps\<close>)
  then show ?thesis
    unfolding engine_serve_def engine_Start_def Let_def e option.case
    by (auto intro!: leads_bind [OF workers(1)] leads_bind [OF leads_bind [OF workers(1)]] leads_ret assms)
qed

text \<open>The deferred calls close what start-up opened.\<close>

lemma deferred_closes: "idle f \<Longrightarrow> leads (fp f) (deferred_call P d) (\<lambda>_. fp (released (closes d) f))"
  unfolding deferred_call_def PostgresDB_Close_def RedisClient_Close_def
  by (cases d) (auto intro!: leads_bind [OF close(1)] leads_bind [OF close(2)] leads_bind [OF close(3)] leads_ret)

lemma defers_close:
  "idle f \<Longrightarrow> leads (fp f) (for_io (deferred_call P) ds) (\<lambda>_. fp (f\<lparr>FP_open := fold remove1 (map closes ds) (FP_open f)\<rparr>))"
proof (induction ds arbitrary: f)
  case (Cons d ds)
  then have "idle (released (closes d) f)" by (simp add: idle_def)
  from leads_bind [OF deferred_closes [OF Cons(2), of d], OF Cons(1) [OF this]] show ?case by simp
qed (simp add: leads_ret)

lemma fold_remove1: "fold remove1 xs xs = []" "y \<notin> set xs \<Longrightarrow> fold remove1 xs (y # xs) = [y]"
  by (induction xs) auto

lemma idle_end:
  assumes "leads A m (\<lambda>code w. \<exists>f. fp f w \<and> idle f \<and> code \<in> {0, 1} \<and> (code = 0 \<longleftrightarrow> FP_stopped f = Some Signal_received) \<and>
     (FP_open f = map closes ds \<or> code = 1 \<and> Client \<notin> set (map closes ds) \<and> FP_open f = Client # map closes ds))"
  shows "leads A (do { code \<leftarrow> m; for_io (deferred_call P) ds; ret code }) ended"
proof (rule leads_bind [OF assms], rule leads_fp, goal_cases)
  case (1 code f)
  show ?case
  proof (rule leads_bind [OF defers_close], goal_cases)
    case 2
    show ?case using 1 by (intro leads_ret) (auto simp: ended_def idle_def fold_remove1 elim!: fp_now)
  qed (use 1 in simp)
qed

lemma exit_code_cases: "exit_code r = 0 \<longleftrightarrow> r = Signal_received" "exit_code r = 1 \<longleftrightarrow> r \<noteq> Signal_received"
  by (cases r; simp add: exit_code_def)+

text \<open>A \<open>run\<close> that starts up, serves and closes.\<close>

lemma run_ends:
  assumes "leads (fp nothing_held) start (\<lambda>(ds, r) w. \<exists>f. fp f w \<and> started ds r f)"
    and "\<And>x f. ready f \<Longrightarrow> idle f \<Longrightarrow> leads (fp f) (serve x) (served f)"
  shows "leads (fp nothing_held) (do {
       (defers, s) \<leftarrow> start;
       code \<leftarrow> (case s of Inl code \<Rightarrow> ret code | Inr x \<Rightarrow> serve x);
       for_io (deferred_call P) defers;
       ret code
     }) ended"
proof (rule leads_bind [OF assms(1)], clarify, rule leads_fp, rule idle_end, goal_cases)
  case s: (1 ds r f)
  show "leads (fp f) (case r of Inl code \<Rightarrow> ret code | Inr x \<Rightarrow> serve x)
      (\<lambda>code w. \<exists>f. fp f w \<and> idle f \<and> code \<in> {0, 1} \<and> (code = 0 \<longleftrightarrow> FP_stopped f = Some Signal_received) \<and>
        (FP_open f = map closes ds \<or> code = 1 \<and> Client \<notin> set (map closes ds) \<and> FP_open f = Client # map closes ds))"
  proof (cases r)
    case (Inl code)
    then show ?thesis using s by (auto simp: started_def intro!: leads_ret elim!: fp_now)
  next
    case (Inr x)
    then have "ready f" "idle f" "FP_open f = map closes ds" using s by (simp_all add: started_def)
    then show ?thesis
      using Inr by (auto simp: served_def idle_def exit_code_cases intro!: leads_post [OF assms(2)] elim!: fp_now)
  qed
qed

lemma gateway_ends: "leads (fp nothing_held) (gateway_run G R spanTraceID spec U P E) ended"
  unfolding gateway_run_def by (rule run_ends [OF gateway_starts gateway_serves])

lemma engine_ends: "leads (fp nothing_held) (engine_run U P E) ended"
proof -
  have "leads (fp f) (case x of (db, redis) \<Rightarrow> engine_serve P (Load E) db redis) (served f)" if "ready f" "idle f" for x f
    by (cases x) (simp add: engine_serves that)
  from run_ends [OF engine_starts this] show ?thesis unfolding engine_run_def .
qed

end
section \<open>A platform that records its use\<close>

text \<open>
  The state of a process: the footprint, whether it was misused, which of its calls succeed and
  what will stop it. To start a server or worker without its connections, or to close a
  connection under one, is a misuse.
\<close>

record proc = footprint +
  PR_misused :: bool
  PR_ok :: "nat \<Rightarrow> bool"
  PR_calls :: nat
  PR_reason :: stop_reason

definition proc_start :: "(nat \<Rightarrow> bool) \<Rightarrow> stop_reason \<Rightarrow> proc" where
  "proc_start oks reason = \<lparr>FP_open = [], FP_serving = [], FP_workers = False, FP_stopped = None,
     PR_misused = False, PR_ok = oks, PR_calls = 0, PR_reason = reason\<rparr>"

definition pr_call :: "'a \<Rightarrow> (proc \<Rightarrow> proc) \<Rightarrow> (proc \<Rightarrow> proc) \<Rightarrow> (proc, 'a result) io" where
  "pr_call x good bad = State (\<lambda>s.
     let s' = s\<lparr>PR_calls := PR_calls s + 1\<rparr>
     in if PR_ok s (PR_calls s) then (Inr x, good s') else (Inl (OtherError ''call failed''), bad s'))"

definition pr_do :: "(proc \<Rightarrow> proc) \<Rightarrow> (proc, unit) io" where
  "pr_do f = State (\<lambda>s. ((), f s))"

definition pr_open :: "held \<Rightarrow> proc \<Rightarrow> proc" where
  "pr_open h s = s\<lparr>FP_open := h # FP_open s\<rparr>"

definition pr_close :: "held \<Rightarrow> proc \<Rightarrow> proc" where
  "pr_close h s = s\<lparr>PR_misused := PR_misused s \<or> FP_serving s \<noteq> [] \<or> FP_workers s, FP_open := remove1 h (FP_open s)\<rparr>"

definition pr_use :: "proc \<Rightarrow> proc" where
  "pr_use s = s\<lparr>PR_misused := PR_misused s \<or> \<not> {Pool, Client, Tracer} \<subseteq> set (FP_open s)\<rparr>"

definition proc_migrations :: "proc migration_db" where
  "proc_migrations = \<lparr>Create_MigrationTable = pr_call () id id, Advisory_Lock = (\<lambda>k. pr_call () id id),
     Advisory_Unlock = (\<lambda>k. pr_call () id id), Count_Applied = (\<lambda>s. pr_call 0 id id), BeginTxx = pr_call () id id,
     Tx_Exec = (\<lambda>s. pr_call () id id), Tx_InsertFilename = (\<lambda>s. pr_call () id id), Tx_Rollback = pr_call () id id,
     Tx_Commit = pr_call () id id\<rparr>"

text \<open>The connections: an empty database and an empty cache.\<close>

definition proc_pool :: "proc sqlx" where
  "proc_pool = \<lparr>ExecContext = (\<lambda>q. pr_call (Inr 0) id id), GetAgent = (\<lambda>q. ret (Inl ErrNoRows)),
     SelectAgents = (\<lambda>q. pr_call [] id id), GetMessage = (\<lambda>q. ret (Inl ErrNoRows)), SelectMessages = (\<lambda>q. pr_call [] id id),
     GetAck = (\<lambda>i. ret (Inl ErrNoRows)), SelectDeadLetters = (\<lambda>n. pr_call [] id id), GetExists = (\<lambda>q. pr_call False id id),
     PingDB = pr_call () id id\<rparr>"

definition proc_client :: "proc goredis" where
  "proc_client = \<lparr>cmd_Publish = (\<lambda>c m. pr_call () id id), cmd_LPush = (\<lambda>k vs. pr_call () id id), cmd_RPop = (\<lambda>k. ret (Inl ErrRedisNil)),
     cmd_Set = (\<lambda>k v d. pr_call () id id), cmd_Get = (\<lambda>k. ret (Inl ErrRedisNil)), cmd_Del = (\<lambda>ks. pr_call () id id),
     cmd_HSet = (\<lambda>k f v. pr_call () id id), cmd_HGetAll = (\<lambda>k. pr_call [] id id), cmd_HDel = (\<lambda>k f. pr_call () id id),
     cmd_Expire = (\<lambda>k d. pr_call () id id), cmd_Incr = (\<lambda>k. pr_call 1 id id), cmd_ZAdd = (\<lambda>k xs. pr_call () id id),
     cmd_ZRange = (\<lambda>k a b. pr_call [] id id), cmd_Exists = (\<lambda>k. pr_call 0 id id), cmd_Ping = pr_call () id id\<rparr>"

definition proc_otel :: "proc otel" where
  "proc_otel = \<lparr>SetTextMapPropagator = (\<lambda>ps. ret ()), resource_New = (\<lambda>attrs. pr_call 0 id id),
     otlptracehttp_New = (\<lambda>os. pr_call 0 id id), NewTracerProvider = (\<lambda>os. do { pr_do (pr_open Tracer); ret 0 }),
     SetTracerProvider = (\<lambda>t. ret ()), provider_Shutdown = (\<lambda>t. pr_call () (pr_close Tracer) (pr_close Tracer))\<rparr>"

definition proc_platform :: "embed_fs \<Rightarrow> proc platform" where
  "proc_platform fs = \<lparr>
     sqlx_Connect = (\<lambda>dsn. pr_call proc_pool (pr_open Pool) id),
     SetMaxOpenConns = (\<lambda>db n. ret ()), SetMaxIdleConns = (\<lambda>db n. ret ()),
     sqlx_Close = (\<lambda>db. pr_call () (pr_close Pool) (pr_close Pool)),
     migration_conn = (\<lambda>db. proc_migrations), embeddedMigrations = fs,
     redis_ParseURL = (\<lambda>url. Inr \<lparr>Opt_PoolSize = 0, Opt_Parsed = url\<rparr>),
     redis_NewClient = (\<lambda>opts. do { pr_do (pr_open Client); ret proc_client }),
     redis_Close = (\<lambda>c. pr_call () (pr_close Client) (pr_close Client)),
     otel_calls = proc_otel,
     go_Listen = (\<lambda>name srv. pr_do (\<lambda>s. (pr_use s)\<lparr>FP_serving := HS_Addr srv # FP_serving s\<rparr>)),
     server_Shutdown = (\<lambda>srv. pr_call () (\<lambda>s. s\<lparr>FP_serving := remove1 (HS_Addr srv) (FP_serving s)\<rparr>)
       (\<lambda>s. s\<lparr>FP_serving := remove1 (HS_Addr srv) (FP_serving s)\<rparr>)),
     select_stop = State (\<lambda>s. (PR_reason s, s\<lparr>FP_stopped := Some (PR_reason s)\<rparr>)),
     go_Workers = (\<lambda>e. pr_do (\<lambda>s. (pr_use s)\<lparr>FP_workers := True\<rparr>)),
     stop_Workers = (\<lambda>e. pr_do (\<lambda>s. s\<lparr>FP_workers := False\<rparr>))\<rparr>"

definition proc_at :: "footprint \<Rightarrow> proc \<Rightarrow> bool" where
  "proc_at f s \<longleftrightarrow> footprint.truncate s = f \<and> \<not> PR_misused s"

lemma keeps_pr: "keeps (proc_at f) (pr_call x id id)"
  by (auto simp: keeps_def pr_call_def proc_at_def Let_def footprint.defs)

lemma pr_leads:
  "(\<And>s. proc_at f s \<Longrightarrow> proc_at g (good s)) \<Longrightarrow> (\<And>s. proc_at f s \<Longrightarrow> proc_at h (bad s)) \<Longrightarrow>
    leads (proc_at f) (pr_call x good bad) (\<lambda>r. case r of Inl e \<Rightarrow> proc_at h | Inr y \<Rightarrow> proc_at g)"
  "(\<And>s. proc_at f s \<Longrightarrow> proc_at g (good s)) \<Longrightarrow> leads (proc_at f) (pr_do good) (\<lambda>_. proc_at g)"
  "(\<And>s. proc_at f s \<Longrightarrow> proc_at g (good s)) \<Longrightarrow> leads (proc_at f) (pr_call x good good) (\<lambda>_. proc_at g)"
  by (auto simp: leads_def pr_call_def pr_do_def Let_def) (auto simp: proc_at_def footprint.defs)
lemma proc_at_simps:
  "proc_at f s \<Longrightarrow> proc_at (opened h f) (pr_open h s)"
  "proc_at f s \<Longrightarrow> idle f \<Longrightarrow> proc_at (released h f) (pr_close h s)"
  "proc_at f s \<Longrightarrow> ready f \<Longrightarrow> proc_at (f\<lparr>FP_serving := a # FP_serving f\<rparr>) ((pr_use s)\<lparr>FP_serving := a # FP_serving s\<rparr>)"
  "proc_at f s \<Longrightarrow> ready f \<Longrightarrow> proc_at (f\<lparr>FP_workers := True\<rparr>) ((pr_use s)\<lparr>FP_workers := True\<rparr>)"
  "proc_at f s \<Longrightarrow> proc_at (f\<lparr>FP_workers := b\<rparr>) (s\<lparr>FP_workers := b\<rparr>)"
  "proc_at f s \<Longrightarrow> proc_at (f\<lparr>FP_serving := remove1 a (FP_serving f)\<rparr>) (s\<lparr>FP_serving := remove1 a (FP_serving s)\<rparr>)"
  by (auto simp: proc_at_def pr_open_def pr_close_def pr_use_def idle_def ready_def footprint.defs)

interpretation process: orderly_platform "proc_platform fs" proc_at "\<lambda>c. c = proc_client" for fs
proof (unfold_locales, goal_cases)
  case (13 f opts)
  show ?case by (auto simp: proc_platform_def leads_def pr_do_def proc_at_simps)
next
  case (14 c f)
  then show ?case by (simp add: proc_client_def keeps_pr)
next
  case (19 f os')
  show ?case by (auto simp: proc_platform_def proc_otel_def leads_def pr_do_def proc_at_simps)
next
  case (25 f)
  show ?case by (auto simp: proc_platform_def leads_def proc_at_def footprint.defs)
qed (simp_all add: proc_platform_def proc_otel_def proc_migrations_def keeps_pr keeps_ret pr_leads proc_at_simps)
lemma proc_at_start: "proc_at nothing_held (proc_start oks reason)"
  by (simp add: proc_at_def proc_start_def nothing_held_def footprint.defs)


section \<open>What the gateway serves with\<close>

lemma gateway_Inr:
  assumes "run_state (gateway_start U P E) w = ((ds, Inr deps), w')"
  obtains db redis where "config_issues U (Load E) True = []" "deps = gateway_deps (Load E) db redis"
  using assms
  by (auto simp: gateway_start_def Let_def Validate_ok [symmetric] split: sum.splits prod.splits if_splits)


text \<open>An environment, and the process in it when every call succeeds.\<close>

definition sample_environ :: "string \<Rightarrow> environ" where
  "sample_environ window k = (if k = ''JWT_SECRET'' then ''s3cret'' else if k = ''ENV'' then ''production''
     else if k = ''RATE_LIMIT_WINDOW_SECONDS'' then window else [])"

definition plain_tables :: unicode_tables where
  "plain_tables = \<lparr>U_ToLower = id, U_TrimSpace = id\<rparr>"

definition no_files :: embed_fs where
  "no_files = \<lparr>FS_ReadDir = (\<lambda>d. Inr []), FS_ReadFile = (\<lambda>f. Inl (OtherError ''no such file''))\<rparr>"

abbreviation all_well :: proc where
  "all_well \<equiv> proc_start (\<lambda>n. True) Signal_received"

lemma sample_load:
  "Cfg_JWTSecret (Load (sample_environ s)) = ''s3cret''" "Cfg_Env (Load (sample_environ s)) = ''production''"
  "Cfg_RateLimitRequests (Load (sample_environ s)) = 600" "Cfg_OTELEnabled (Load (sample_environ s)) = False"
  "Cfg_AutoMigrate (Load (sample_environ s)) = False"
  by (simp_all add: Load_def Let_def getEnv_def getEnvInt_def getEnvBool_def sample_environ_def)

lemma sample_valid:
  assumes "0 < Cfg_RateLimitWindow (Load (sample_environ s))"
  shows "Config_Validate plain_tables (Some (Load (sample_environ s))) b = Inr ()"
proof -
  have "isProductionEnv plain_tables ''production''" "\<not> isInsecureJWTSecret plain_tables ''s3cret''"
      "strings_TrimSpace plain_tables ''s3cret'' \<noteq> []" by code_simp+
  then show ?thesis using assms by (simp add: Validate_ok config_issues_def sample_load)
qed

lemma ping_client: "cmd_Ping proc_client = pr_call () id id"
  by (simp add: proc_client_def)

lemmas proc_run = NewPostgresDB_def NewRedisClient_def InitTracing_def set_provider_def proc_platform_def proc_otel_def ping_client
  pr_call_def pr_do_def

lemma sample_run:
  assumes "0 < Cfg_RateLimitWindow (Load (sample_environ s))"
  shows "\<exists>ds deps w. run_state (gateway_start plain_tables (proc_platform no_files) (sample_environ s)) all_well = ((ds, Inr deps), w)"
  by (simp add: gateway_start_def sample_valid [OF assms] sample_load proc_run trace_config_def proc_start_def pr_open_def)

lemma sample_window: "0 < Cfg_RateLimitWindow (Load (sample_environ []))"
proof -
  have "Cfg_RateLimitWindow (Load (sample_environ [])) = 60 * Second"
    by (simp add: Load_def Let_def getEnvInt_def sample_environ_def wrap64_id Second_def)
  then show ?thesis by (simp add: Second_def)
qed


lemma ME_redis_of_main: "ME_redis (engine_of_main db redis) = Some redis"
  by (simp add: engine_of_main_def NewMessageEngine_def Let_def)

text \<open>An engine that starts up, serves until a signal arrives, and exits with code 0.\<close>

lemma sample_engine:
  "fst (run_state (engine_run plain_tables (proc_platform no_files) (sample_environ [])) all_well) = 0"
  by (simp add: engine_run_def engine_start_def sample_valid [OF sample_window] sample_load proc_run trace_config_def proc_start_def
      pr_open_def pr_use_def engine_serve_def engine_Start_def ME_redis_of_main exit_code_def Let_def split: prod.split)


text \<open>
  Seconds are seconds: a window of \<open>n\<close> seconds in the environment, as long as \<open>n\<close> seconds
  are a 64-bit duration, is the window of \<open>n\<close> seconds that the rate limiter counts in.
\<close>
theorem rate_window_configured:
  assumes "E ''RATE_LIMIT_WINDOW_SECONDS'' = strconv_Itoa n" "0 < n" "n * Second < 2 ^ 63"
    and "run_state (gateway_start U P E) w = ((ds, Inr deps), w')"
  shows "rate_window (Deps_Middleware deps) = n"
proof -
  obtain db redis where d: "deps = gateway_deps (Load E) db redis"
    by (rule gateway_Inr [OF assms(4)])
  have "n < 2 ^ 63" using assms(2,3) by (simp add: Second_def)
  then have "strconv_Atoi (strconv_Itoa n) = Some n" using assms(2) by (intro strconv_Atoi_Itoa) simp_all
  moreover have "strconv_Itoa n \<noteq> []" using calculation by (auto simp: strconv_Atoi_def)
  ultimately have "Cfg_RateLimitWindow (Load E) = n * Second"
    using assms(1,2,3) by (simp add: Load_def Let_def getEnvInt_def wrap64_id Second_def)
  then show ?thesis
    using assms(2) by (simp add: d gateway_deps_def NewMiddleware_def rate_window_def whole_seconds_def go_quot_pos Let_def Second_def)
qed

lemma rate_window_configured_witness:
  "\<exists>ds deps w. run_state (gateway_start plain_tables (proc_platform no_files) (sample_environ (strconv_Itoa 90))) all_well = ((ds, Inr deps), w) \<and>
     rate_window (Deps_Middleware deps) = 90"
proof -
  have e: "sample_environ (strconv_Itoa 90) ''RATE_LIMIT_WINDOW_SECONDS'' = strconv_Itoa 90" by (simp add: sample_environ_def)
  have "strconv_Atoi (strconv_Itoa 90) = Some 90" "strconv_Itoa 90 \<noteq> []" by code_simp+
  then have "0 < Cfg_RateLimitWindow (Load (sample_environ (strconv_Itoa 90)))"
    by (simp add: Load_def Let_def getEnvInt_def e wrap64_id Second_def)
  then obtain ds deps w where run: "run_state (gateway_start plain_tables (proc_platform no_files) (sample_environ (strconv_Itoa 90))) all_well = ((ds, Inr deps), w)"
    using sample_run by blast
  from rate_window_configured [OF e _ _ run] run show ?thesis by (auto simp: Second_def)
qed

text \<open>
  Beyond that range the product wraps around: 18446744074 seconds become 0.29 seconds,
  which validation accepts, and the limiter falls back to windows of a minute.
\<close>
theorem rate_window_overflow:
  "Cfg_RateLimitWindow (Load (sample_environ ''18446744074'')) = 290448384 \<and>
   (\<exists>ds deps w. run_state (gateway_start plain_tables (proc_platform no_files) (sample_environ ''18446744074'')) all_well = ((ds, Inr deps), w) \<and>
     rate_window (Deps_Middleware deps) = 60)"
proof -
  have "strconv_Atoi ''18446744074'' = Some 18446744074"
    by (simp add: strconv_Atoi_def digits_val_def is_digit_def digit_val_def byte_def Let_def)
  moreover have "wrap64 (18446744074 * Second) = 290448384"
    by (simp add: wrap64_def signed_take_bit_eq_take_bit_shift take_bit_eq_mod Second_def)
  ultimately have w: "Cfg_RateLimitWindow (Load (sample_environ ''18446744074'')) = 290448384"
    by (simp add: Load_def Let_def getEnvInt_def sample_environ_def)
  then obtain ds deps w where run: "run_state (gateway_start plain_tables (proc_platform no_files) (sample_environ ''18446744074'')) all_well = ((ds, Inr deps), w)"
    using sample_run [of "''18446744074''"] by (metis zero_less_numeral)
  obtain db redis where "deps = gateway_deps (Load (sample_environ ''18446744074'')) db redis"
    by (rule gateway_Inr [OF run])
  then have "rate_window (Deps_Middleware deps) = 60"
    using w by (simp add: gateway_deps_def NewMiddleware_def rate_window_def whole_seconds_sub_second Let_def Second_def)
  then show ?thesis using w run by blast
qed

end
