(* ===== verification/Store_Calls.thy ===== *)
theory Store_Calls
  imports Server Engine Message_Acks
begin

text \<open>
  What every operation of the program keeps, from what each single call of a server keeps. The
  locale \<open>kept_calls\<close> takes the calls that write neither a message nor an acknowledgement,
  \<open>program_calls\<close> adds those two; their consequence is for every request, worker iteration and
  retry pass over any clients \<open>R\<close>, \<open>db\<close> and \<open>rd\<close>. Theories Store_Integrity and Store_Concurrency
  give them servers of one process and of many.
\<close>

section \<open>Rows\<close>

text \<open>The recipients a stored row stands for.\<close>

definition row_recipients :: "go_env \<Rightarrow> Message \<Rightarrow> uuid set" where
  "row_recipients G m = set (elems (Message_RecipientIDs (fst (ScanRecipients G m))))"

definition message_row_ok :: "go_env \<Rightarrow> Message \<Rightarrow> bool" where
  "message_row_ok G m \<longleftrightarrow> elems (Message_Content m) \<noteq> [] \<and>
     Message_ContentSize m = int (length (elems (Message_Content m))) \<and>
     (\<exists>rs. rs \<noteq> [] \<and> Message_RecipientStr m = Marshal_Recipients G (Some rs)) \<and>
     Message_Status m \<noteq> [] \<and> Message_DeliveryGuarantee m \<noteq> [] \<and> Message_ContentType m \<noteq> []"

fun benign :: "sql_exec \<Rightarrow> bool" where
  "benign (Messages_Insert _ _ _ _ _ _ _ _ _ _ _ _ _ _) = False"
| "benign (Acks_Insert _ _ _ _ _ _ _ _) = False"
| "benign (Messages_Status i st) = (st \<noteq> [])"
| "benign _ = True"

section \<open>The program over its clients\<close>

abbreviation agents_on :: "'w sqlx \<Rightarrow> 'w goredis \<Rightarrow> 'w AgentService option" where
  "agents_on db rd \<equiv> Some (NewAgentService (Some db) (Some rd))"

abbreviation messages_on :: "'w sqlx \<Rightarrow> 'w goredis \<Rightarrow> 'w MessageService option" where
  "messages_on db rd \<equiv> Some (NewMessageService (Some db) (Some db) (Some rd))"

abbreviation engine_on :: "EngineConfig option \<Rightarrow> 'w sqlx \<Rightarrow> 'w goredis \<Rightarrow> 'w MessageEngine" where
  "engine_on cfg db rd \<equiv> NewMessageEngine cfg (Some db) (Some rd)"

abbreviation dlq_on :: "int \<Rightarrow> 'w sqlx \<Rightarrow> 'w goredis \<Rightarrow> 'w DeadLetterQueue" where
  "dlq_on mx db rd \<equiv> NewDeadLetterQueue (Some rd) (Some db) mx"

definition deps_on ::
  "'w sqlx \<Rightarrow> 'w goredis \<Rightarrow> 'w sqlx option \<Rightarrow> 'w goredis option \<Rightarrow> 'w Middleware \<Rightarrow> 'w Dependencies" where
  "deps_on db rd pg prd m = \<lparr>Deps_AgentService = agents_on db rd, Deps_MessageService = messages_on db rd,
     Deps_Database = pg, Deps_Redis = prd, Deps_Middleware = m\<rparr>"

lemma deps_on_simps [simp]:
  "Deps_AgentService (deps_on db rd pg prd m) = agents_on db rd" "Deps_MessageService (deps_on db rd pg prd m) = messages_on db rd"
  "Deps_Middleware (deps_on db rd pg prd m) = m"
  by (simp_all add: deps_on_def)

definition mw_on :: "'w sqlx \<Rightarrow> 'w goredis \<Rightarrow> 'w Middleware \<Rightarrow> bool" where
  "mw_on db rd m \<longleftrightarrow> MW_db m \<in> {None, Some db} \<and> MW_redis m \<in> {None, Some rd}"

section \<open>Calls that write neither messages nor acknowledgements\<close>

locale kept_calls =
  fixes I :: "'w \<Rightarrow> bool" and R :: "'w runtime" and db :: "'w sqlx" and rd :: "'w goredis"
  assumes rt: "keeps I (time_Now R)" "keeps I (uuid_New R)"
    and metrics: "labels_fit CounterVec c l \<Longrightarrow> keeps I (counter_Inc R c l)"
      "labels_fit HistogramVec c l \<Longrightarrow> keeps I (histogram_Observe R c l d)"
    and redis: "keeps I (cmd_Publish rd k v)" "keeps I (cmd_RPop rd k)"
      "keeps I (cmd_HSet rd k f v)" "keeps I (cmd_HGetAll rd k)" "keeps I (cmd_HDel rd k f)" "keeps I (cmd_Expire rd k d)"
      "keeps I (cmd_Incr rd k)" "keeps I (cmd_Ping rd)"
    and queries: "keeps I (GetAgent db aq)" "keeps I (SelectAgents db aq)" "keeps I (GetMessage db mq)"
      "keeps I (SelectMessages db mq)" "keeps I (SelectDeadLetters db n)" "keeps I (GetExists db eq)" "keeps I (PingDB db)"
    and exec: "benign q \<Longrightarrow> keeps I (ExecContext db q)"
begin

lemmas call_rules = keeps_rules rt metrics redis queries exec

lemma keeps_status: "st \<noteq> [] \<Longrightarrow> keeps I (set_status_if (Some db) i st)"
  unfolding set_status_if_def PostgresDB_UpdateMessageStatus_def exec_only_def option.case
  by (intro call_rules) simp

lemma keeps_metrics:
  "keeps I (record_op R t a b)" "keeps I (record_ret R t a b x)"
  "keeps I (RecordAuthFailure R s)" "keeps I (RecordRateLimitExceeded R s)"
  "keeps I (RecordMessageOperation R a b d)" "keeps I (RecordAuditLog R s n)" "keeps I (RecordAPIRequest R a b n d)"
  "keeps I (time_Since R t)" "keeps I (uuid_NewString G R)"
  unfolding record_op_def record_ret_def RecordAuthFailure_def RecordRateLimitExceeded_def RecordAuditLog_def RecordAPIRequest_def
    RecordMessageOperation_def time_Since_def uuid_NewString_def Let_def
  by (intro call_rules; simp add: labels_fit_def registered_vecs_def vec_defs)+

lemma keeps_rows: "benign q \<Longrightarrow> keeps I (exec_rows db q)" "benign q \<Longrightarrow> keeps I (exec_only db q)"
  unfolding exec_rows_def exec_only_def by (intro call_rules; assumption)+

lemma keeps_agents:
  "keeps I (AgentService_Register G R (agents_on db rd) a)"
  "keeps I (AgentService_GetByIDForTenant (agents_on db rd) t i)"
  "keeps I (AgentService_UpdateForTenant R (agents_on db rd) t a)"
  "keeps I (AgentService_DeleteForTenant (agents_on db rd) t i)"
  "keeps I (AgentService_ListByTenant (agents_on db rd) t)"
  "keeps I (AgentService_HeartbeatForTenant (agents_on db rd) t i)"
  "keeps I (AgentService_QueryByCapabilities U (agents_on db rd) t cs)"
  unfolding AgentService_Register_def AgentService_GetByIDForTenant_def AgentService_UpdateForTenant_def
    AgentService_DeleteForTenant_def AgentService_ListByTenant_def AgentService_HeartbeatForTenant_def
    AgentService_QueryByCapabilities_def AS_with_repo_def AS_with_agent_def NewAgentService_def
    AgentRepository_Create_def AgentRepository_GetByIDForTenant_def AgentRepository_UpdateForTenant_def
    AgentRepository_DeleteForTenant_def AgentRepository_ListByTenant_def AgentRepository_UpdateStatusForTenant_def
    AgentRepository_QueryByCapabilities_def RedisClient_Publish_def Let_def option.case prod.case AgentService.select_convs
  by (intro call_rules keeps_rows; simp)+

lemma keeps_reads:
  "keeps I (MessageService_GetByIDForTenant G (messages_on db rd) t i)"
  "keeps I (MessageService_ListByConversationForTenant G (messages_on db rd) t i n)"
  "keeps I (MessageService_ListByTenant G (messages_on db rd) t n k)"
  unfolding MessageService_GetByIDForTenant_def MessageService_ListByConversationForTenant_def MessageService_ListByTenant_def
    MS_with_repo_def NewMessageService_def MessageRepository_GetByIDForTenant_def
    MessageRepository_ListByConversationForTenant_def MessageRepository_ListByTenant_def option.case MessageService.select_convs
  by (intro call_rules)+

lemma keeps_subscriptions:
  "keeps I (MessageService_CreateSubscription G R (messages_on db rd) sub)"
  "keeps I (MessageService_ListSubscriptions G (messages_on db rd) i)"
  "keeps I (MessageService_DeleteSubscription G (messages_on db rd) i j)"
  unfolding MessageService_CreateSubscription_def MessageService_ListSubscriptions_def MessageService_DeleteSubscription_def
    MS_with_redis_def NewMessageService_def RedisClient_CreateSubscription_def RedisClient_ListSubscriptions_def
    RedisClient_DeleteSubscription_def option.case MessageService.select_convs Let_def
  by (intro call_rules)+

lemma keeps_exists:
  "keeps I (PostgresDB_TenantExists (Some db) i)" "keeps I (PostgresDB_AgentExists (Some db) i)"
  unfolding PostgresDB_TenantExists_def PostgresDB_AgentExists_def option.case by (intro call_rules)+

text \<open>The layers of the chain pass on what the handler behind them keeps.\<close>

lemma keeps_layers:
  assumes "mw_on db rd m" "\<And>c. keeps I (h c)"
  shows "keeps I (Middleware_Authenticate G R m h c)" "keeps I (Middleware_RateLimit R m h c)"
    "keeps I (Middleware_AuditLog G R m h c)" "keeps I (Middleware_Logging R h c)"
    "keeps I (Middleware_Tracing G R spanTraceID h c)"
proof -
  have db: "MW_db m = None \<or> MW_db m = Some db" and rd: "MW_redis m = None \<or> MW_redis m = Some rd"
    using assms(1) by (auto simp: mw_on_def)
  show "keeps I (Middleware_Authenticate G R m h c)"
    using db unfolding Middleware_Authenticate_def refuse_def AuthService_ValidateToken_def Let_def
    by (elim disjE; simp only: option.case) (intro call_rules keeps_exists keeps_metrics assms(2))+
  show "keeps I (Middleware_RateLimit R m h c)"
    using rd unfolding Middleware_RateLimit_def rate_count_def RedisClient_Incr_def RedisClient_Expire_def Let_def
    by (elim disjE; simp only: option.case) (intro call_rules keeps_metrics assms(2))+
  show "keeps I (Middleware_AuditLog G R m h c)"
    using db unfolding Middleware_AuditLog_def Middleware_resolveAuditTenantID_def Middleware_resolveAuditAgentID_def
      resolveAuditReference_def PostgresDB_CreateAuditLog_def Let_def
    by (elim disjE; simp only: option.case) (intro call_rules keeps_exists keeps_rows keeps_metrics assms(2); simp)+
  show "keeps I (Middleware_Logging R h c)"
    unfolding Middleware_Logging_def by (intro call_rules keeps_metrics assms(2))
  show "keeps I (Middleware_Tracing G R spanTraceID h c)"
    unfolding Middleware_Tracing_def Let_def by (intro call_rules keeps_metrics assms(2))
qed

text \<open>The engine only changes the status of a message, and dead letters.\<close>

lemma keeps_engine:
  assumes "\<And>d. keeps I (sleep d)"
  shows "keeps I (worker_iteration G R sleep (engine_on cfg db rd) rd)"
proof -
  have e: "ME_db (engine_on cfg db rd) = Some db" "ME_dlq (engine_on cfg db rd) = dlq_on (Engine_MaxRetries (engine_defaults cfg)) db rd"
    by (simp_all add: NewMessageEngine_def Let_def)
  have "keeps I (MessageEngine_routeMessage G R (engine_on cfg db rd) rd m)" for m
    unfolding MessageEngine_routeMessage_def NewMessageEngine_def Let_def MessageEngine.select_convs option.case publish_all_def
      RedisClient_Publish_def PostgresDB_UpdateMessageStatus_def
    by (intro call_rules keeps_rows keeps_metrics; simp add: message_status_defs)
  moreover have "keeps I (DeadLetterQueue_Enqueue G R (dlq_on mx db rd) m reason)" for mx m reason
    unfolding DeadLetterQueue_Enqueue_def NewDeadLetterQueue_def DeadLetterQueue.select_convs option.case Let_def
      PostgresDB_CreateDeadLetterEntry_def
    by (intro call_rules keeps_rows keeps_metrics; simp)
  ultimately show ?thesis
    unfolding worker_iteration_def e RedisClient_RPop_def
    by (intro call_rules keeps_status assms; simp add: message_status_defs)
qed

lemma keeps_retries: "keeps I (DeadLetterQueue_process G R (dlq_on mx db rd))"
proof -
  have db: "DLQ_db (dlq_on mx db rd) = Some db" "DLQ_redis (dlq_on mx db rd) = Some rd"
    by (simp_all add: NewDeadLetterQueue_def)
  have mark: "keeps I (DeadLetterQueue_markEntry R (dlq_on mx db rd) x st n)" for x st n
    unfolding DeadLetterQueue_markEntry_def db PostgresDB_UpdateDeadLetterEntry_def option.case Let_def
    by (intro call_rules keeps_rows; simp)
  have publish: "keeps I (DeadLetterQueue_publishMessage G (dlq_on mx db rd) m)" for m
    unfolding DeadLetterQueue_publishMessage_def db option.case publish_all_def RedisClient_Publish_def
    by (intro call_rules)
  have "keeps I (DeadLetterQueue_retryEntry G R (dlq_on mx db rd) x)" for x
    unfolding DeadLetterQueue_retryEntry_def db Let_def
    by (intro call_rules mark keeps_status publish keeps_metrics; simp add: message_status_defs)
  then show ?thesis
    unfolding DeadLetterQueue_process_def db option.case prod.case PostgresDB_ListRetryableDeadLetterEntries_def
    by (intro call_rules)
qed

end

section \<open>Messages and acknowledgements\<close>

text \<open>
  \<open>stored i\<close> is what the insert of message \<open>i\<close> establishes and what its payload on the queue needs;
  \<open>addressed i a\<close> is what the reading of message \<open>i\<close> establishes when \<open>a\<close> is a recipient, and what
  an acknowledgement of \<open>i\<close> by \<open>a\<close> needs; the calls between keep it.
\<close>

locale program_calls = kept_calls I R db rd for I :: "'w \<Rightarrow> bool" and R db rd +
  fixes G :: go_env and stored :: "uuid \<Rightarrow> 'w \<Rightarrow> bool" and addressed :: "uuid \<Rightarrow> uuid \<Rightarrow> 'w \<Rightarrow> bool"
  assumes insert_kept: "message_row_ok G f \<Longrightarrow> keeps I (ExecContext db (insert_of f))"
    and insert_stores: "I w \<Longrightarrow> run_state (ExecContext db (insert_of f)) w = (Inr n, w') \<Longrightarrow> stored (Message_ID f) w'"
    and push_kept: "I w \<Longrightarrow> stored (Message_ID f) w \<Longrightarrow> Marshal_Message G f = Inr p \<Longrightarrow>
      I (snd (run_state (cmd_LPush rd ''message:pending'' [p]) w))"
    and read_addressed: "I w \<Longrightarrow> run_state (GetMessage db (Message_ByIdTenant i t)) w = (Inr m, w') \<Longrightarrow>
      a \<in> row_recipients G m \<Longrightarrow> addressed i a w'"
    and addressed_kept: "keeps (\<lambda>w. I w \<and> addressed i a w) (time_Now R)" "keeps (\<lambda>w. I w \<and> addressed i a w) (uuid_New R)"
    and ack_kept: "I w \<Longrightarrow> addressed (Ack_MessageID b) (Ack_AgentID b) w \<Longrightarrow> I (snd (run_state (ExecContext db (ack_insert b)) w))"
begin

lemma keeps_bind_yields:
  assumes "yields Q m" "keeps J m" "\<And>x. Q x \<Longrightarrow> keeps J (f x)"
  shows "keeps J (State_Monad.bind m f)"
proof
  fix w assume J: "J w"
  obtain x v where m: "run_state m w = (x, v)" by fastforce
  have "J v" using keepsD [OF assms(2) J] m by simp
  then show "J (snd (run_state (State_Monad.bind m f) w))"
    using keepsD [OF assms(3) [OF yieldsD [OF assms(1) m]]] m by simp
qed

text \<open>\<open>Send\<close> stores a sound row.\<close>

lemma yields_defaults:
  "yields (\<lambda>d. \<exists>i c t. d = m\<lparr>Message_ID := i, Message_ConversationID := c, Message_CreatedAt := t,
      Message_Status := (if Message_Status m = [] then MessageStatusPending else Message_Status m),
      Message_DeliveryGuarantee := (if Message_DeliveryGuarantee m = [] then DeliveryAtLeastOnce else Message_DeliveryGuarantee m),
      Message_ContentType := (if Message_ContentType m = [] then ''application/json'' else Message_ContentType m),
      Message_ContentSize := int (length (elems (Message_Content m)))\<rparr>) (send_defaults R m)"
  unfolding send_defaults_def by (intro yields_then yields_ret) blast

lemma defaults_row:
  assumes "\<not> send_invalid (Some m)" "d = m\<lparr>Message_ID := i, Message_ConversationID := c, Message_CreatedAt := t,
      Message_Status := (if Message_Status m = [] then MessageStatusPending else Message_Status m),
      Message_DeliveryGuarantee := (if Message_DeliveryGuarantee m = [] then DeliveryAtLeastOnce else Message_DeliveryGuarantee m),
      Message_ContentType := (if Message_ContentType m = [] then ''application/json'' else Message_ContentType m),
      Message_ContentSize := int (length (elems (Message_Content m)))\<rparr>"
  shows "message_row_ok G (fst (SetRecipients G d))"
proof -
  obtain rs where "Message_RecipientIDs m = Some rs" "rs \<noteq> []"
    using assms by (cases "Message_RecipientIDs m") (auto simp: send_invalid_def)
  then show ?thesis
    using assms by (auto simp: SetRecipients_def message_row_ok_def send_invalid_def message_status_defs DeliveryAtLeastOnce_def)
qed

text \<open>The insert of a sound row, and the push of its payload if it was stored.\<close>

lemma keeps_dead_lettering:
  assumes "message_row_ok G f"
  shows "keeps I (do {
     (m, r) \<leftarrow> MessageRepository_Create G db f;
     (case r of
        Inl e \<Rightarrow> record_ret R start ''send'' ''db_error'' (Some m, Inl e)
      | Inr _ \<Rightarrow>
          (case Marshal_Message G m of
             Inl e \<Rightarrow> record_ret R start ''send'' ''marshal_error'' (Some m, Inl e)
           | Inr payload \<Rightarrow> do {
               p \<leftarrow> RedisClient_LPush rd ''message:pending'' [payload];
               (case p of
                  Inl e \<Rightarrow> record_ret R start ''send'' ''queue_error'' (Some m, Inl e)
                | Inr _ \<Rightarrow> record_ret R start ''send'' ''queued'' (Some m, Inr (result m)))
             }))
   })"
proof
  fix w assume I: "I w"
  have "Message_RecipientStr f \<noteq> []"
    using assms by (auto simp: message_row_ok_def Marshal_Recipients_def enc_slice_def)
  then have create: "run_state (MessageRepository_Create G db f) w = ((f, r), w1)"
    if "run_state (exec_only db (insert_of f)) w = (r, w1)" for r w1
    using that by (simp add: MessageRepository_Create_def insert_of_def)
  obtain n w1 where n: "run_state (ExecContext db (insert_of f)) w = (n, w1)" by fastforce
  have w1: "I w1" using keepsD [OF insert_kept [OF assms] I] n by simp
  note ret = keepsD [OF keeps_metrics(2)]
  show "I (snd (run_state (do {
     (m, r) \<leftarrow> MessageRepository_Create G db f;
     (case r of
        Inl e \<Rightarrow> record_ret R start ''send'' ''db_error'' (Some m, Inl e)
      | Inr _ \<Rightarrow>
          (case Marshal_Message G m of
             Inl e \<Rightarrow> record_ret R start ''send'' ''marshal_error'' (Some m, Inl e)
           | Inr payload \<Rightarrow> do {
               p \<leftarrow> RedisClient_LPush rd ''message:pending'' [payload];
               (case p of
                  Inl e \<Rightarrow> record_ret R start ''send'' ''queue_error'' (Some m, Inl e)
                | Inr _ \<Rightarrow> record_ret R start ''send'' ''queued'' (Some m, Inr (result m)))
             }))
   }) w))"
  proof (cases n)
    case (Inl e)
    then have "run_state (exec_only db (insert_of f)) w = (Inl e, w1)" using n by (simp add: exec_only_def)
    from create [OF this] show ?thesis using ret [OF w1] by simp
  next
    case (Inr k)
    then have "run_state (exec_only db (insert_of f)) w = (Inr (), w1)" using n by (simp add: exec_only_def)
    note made = create [OF this]
    have stored: "stored (Message_ID f) w1" using insert_stores [OF I] n Inr by simp
    show ?thesis
    proof (cases "Marshal_Message G f")
      case (Inl e)
      then show ?thesis using made ret [OF w1] by simp
    next
      case (Inr payload)
      obtain p w2 where p: "run_state (cmd_LPush rd ''message:pending'' [payload]) w1 = (p, w2)" by fastforce
      have "I w2" using push_kept [OF w1 stored Inr] p by simp
      from ret [OF this] show ?thesis using made Inr p by (auto simp: RedisClient_LPush_def split: sum.splits)
    qed
  qed
qed

lemma keeps_send: "keeps I (MessageService_Send G R (messages_on db rd) (Some m))"
proof (cases "send_invalid (Some m)")
  case True
  then show ?thesis
    unfolding MessageService_Send_def NewMessageService_def MessageService.select_convs option.case prod.case
    by (auto intro!: call_rules keeps_metrics)
next
  case False
  have defaults: "keeps I (send_defaults R m)"
    unfolding send_defaults_def uuid_or_new_def time_or_now_def by (intro call_rules)
  have set: "SetRecipients G d = (fst (SetRecipients G d), Inr ())" for d
    by (metis SetRecipients_ok prod.collapse)
  show ?thesis
    unfolding MessageService_Send_def NewMessageService_def MessageService.select_convs option.case prod.case if_not_P [OF False] option.sel
  proof (rule keeps_bind [OF rt(1)], rule keeps_bind_yields [OF yields_defaults defaults], elim exE)
    fix start d i c t
    assume d: "d = m\<lparr>Message_ID := i, Message_ConversationID := c, Message_CreatedAt := t,
      Message_Status := (if Message_Status m = [] then MessageStatusPending else Message_Status m),
      Message_DeliveryGuarantee := (if Message_DeliveryGuarantee m = [] then DeliveryAtLeastOnce else Message_DeliveryGuarantee m),
      Message_ContentType := (if Message_ContentType m = [] then ''application/json'' else Message_ContentType m),
      Message_ContentSize := int (length (elems (Message_Content m)))\<rparr>"
    note enqueue = keeps_dead_lettering [OF defaults_row [OF False d],
        where result = "\<lambda>m. \<lparr>Send_MessageID = Message_ID m, Send_Status = MessageStatusPending, Send_DeliveredAt = None\<rparr>"]
    show "keeps I (case SetRecipients G d of
        (m, Inl e) \<Rightarrow> record_ret R start ''send'' ''recipient_encode_error'' (Some m, Inl e)
      | (m, Inr _) \<Rightarrow> do {
          (m, r) \<leftarrow> MessageRepository_Create G db m;
          (case r of
             Inl e \<Rightarrow> record_ret R start ''send'' ''db_error'' (Some m, Inl e)
           | Inr _ \<Rightarrow>
               (case Marshal_Message G m of
                  Inl e \<Rightarrow> record_ret R start ''send'' ''marshal_error'' (Some m, Inl e)
                | Inr payload \<Rightarrow> do {
                    p \<leftarrow> RedisClient_LPush rd ''message:pending'' [payload];
                    (case p of
                       Inl e \<Rightarrow> record_ret R start ''send'' ''queue_error'' (Some m, Inl e)
                     | Inr _ \<Rightarrow> record_ret R start ''send'' ''queued'' (Some m,
                         Inr \<lparr>Send_MessageID = Message_ID m, Send_Status = MessageStatusPending, Send_DeliveredAt = None\<rparr>))
                  }))
        })"
      by (subst set, unfold prod.case sum.case) (rule enqueue)
  qed
qed

text \<open>\<open>AcknowledgeForTenant\<close> writes only after the reading that shows the caller among the recipients.\<close>

lemma ack_store_kept:
  assumes "I w" "addressed (Ack_MessageID a) (Ack_AgentID a) w"
  shows "I (snd (run_state (ack_store G R start db db a) w))"
proof -
  let ?J = "\<lambda>w. I w \<and> addressed (Ack_MessageID a) (Ack_AgentID a) w"
  have keep: "keeps ?J (ack_defaults G R a)"
    unfolding ack_defaults_def uuid_or_new_def time_or_now_def uuid_NewString_def by (intro keeps_rules addressed_kept)
  have form: "yields (\<lambda>b. Ack_MessageID b = Ack_MessageID a \<and> Ack_AgentID b = Ack_AgentID a \<and> Ack_Status b = Ack_Status a)
      (ack_defaults G R a)"
    unfolding ack_defaults_def by (intro yields_then yields_ret) simp
  obtain b v where d: "run_state (ack_defaults G R a) w = (b, v)" by fastforce
  have J: "?J v" using keepsD [OF keep, of w] assms d by simp
  note b = yieldsD [OF form d]
  obtain r u where e: "run_state (ExecContext db (ack_insert b)) v = (r, u)" by fastforce
  have u: "I u" using ack_kept [of v b] J b e by simp
  have "mapAckToMessageStatus s \<noteq> []" for s by (simp add: mapAckToMessageStatus_def message_status_defs)
  then have rest: "keeps I (case c of Inl e \<Rightarrow> record_ret R start ''ack'' ''persist_error'' (Some b, Inl e)
      | Inr _ \<Rightarrow> do {
          u \<leftarrow> MessageRepository_UpdateStatus db (Ack_MessageID b) (mapAckToMessageStatus (Ack_Status b));
          (case u of
             Inl e \<Rightarrow> record_ret R start ''ack'' ''status_update_error'' (Some b, Inl e)
           | Inr _ \<Rightarrow> record_ret R start ''ack'' (Ack_Status b) (Some b, Inr ()))
        })" for c :: "unit result"
    unfolding MessageRepository_UpdateStatus_def exec_only_def by (intro call_rules keeps_metrics; simp)
  show ?thesis
    using keepsD [OF rest [of "case r of Inl e \<Rightarrow> Inl e | Inr _ \<Rightarrow> Inr ()"] u] d e
    by (cases r) (auto simp: ack_store_def AcknowledgementRepository_Create_def exec_only_def ack_insert_def [symmetric])
qed

lemma keeps_ack: "keeps I (MessageService_AcknowledgeForTenant G R (messages_on db rd) t (Some a))"
proof
  fix w assume I: "I w"
  let ?i = "Ack_MessageID a" and ?op = "MessageService_AcknowledgeForTenant G R (messages_on db rd) t (Some a)"
  obtain start v where st: "run_state (time_Now R) w = (start, v)" by fastforce
  have v: "I v" using keepsD [OF rt(1) I] st by simp
  note ret = keepsD [OF keeps_metrics(2)]
  show "I (snd (run_state ?op w))"
  proof (cases "ack_invalid a")
    case True
    then show ?thesis using ret [OF v] st by (simp add: MessageService_AcknowledgeForTenant_def NewMessageService_def)
  next
    case False
    obtain g u where g: "run_state (GetMessage db (Message_ByIdTenant ?i t)) v = (g, u)" by fastforce
    have "keeps I (GetMessage db (Message_ByIdTenant ?i t))" by (rule queries)
    from keepsD [OF this v] g have u: "I u" by simp
    have look: "run_state (MessageRepository_GetByIDForTenant G db t ?i) v = (scan_one G g, u)"
      using g by (simp add: MessageRepository_GetByIDForTenant_def)
    show ?thesis
    proof (cases "\<exists>m. scan_one G g = Inr (Some m) \<and> recipient_loop (elems (Message_RecipientIDs m)) (Ack_AgentID a)")
      case True
      then obtain m where m: "scan_one G g = Inr (Some m)" "Ack_AgentID a \<in> set (elems (Message_RecipientIDs m))"
        by (auto simp: recipient_loop_iff)
      obtain row where row: "g = Inr row" "m = fst (ScanRecipients G row)"
        using m(1) by (cases g) (auto simp: scan_one_def split: if_splits prod.splits sum.splits)
      have "addressed ?i (Ack_AgentID a) u" using read_addressed [OF v] g m(2) row by (simp add: row_recipients_def)
      then show ?thesis
        using ack_store_kept [OF u] False st look m(1,2)
        by (simp add: MessageService_AcknowledgeForTenant_def NewMessageService_def messageHasRecipient_def recipient_loop_iff)
    next
      case no: False
      show ?thesis
        using False st look no ret [OF u]
        by (auto simp: MessageService_AcknowledgeForTenant_def NewMessageService_def messageHasRecipient_def
            split: sum.splits option.splits if_splits)
    qed
  qed
qed

text \<open>The handlers and the server.\<close>

lemma keeps_or_return: "(\<And>x. keeps I (f x)) \<Longrightarrow> keeps I (or_return r f)"
  by (cases r) (simp_all add: keeps_ret)

lemma keeps_build: "keeps I (buildMessageFromRequest R s t i req)"
  unfolding buildMessageFromRequest_def Let_def by (intro call_rules)

lemma keeps_send_one: "keeps I (send_one G R (deps_on db rd pg prd m) s t i req)"
  unfolding send_one_def deps_on_simps by (intro call_rules keeps_build keeps_send)

lemma keeps_agent_handlers:
  "keeps I (Server_createAgent G R (deps_on db rd pg prd m) c)" "keeps I (Server_getAgent G (deps_on db rd pg prd m) c)"
  "keeps I (Server_listAgents G (deps_on db rd pg prd m) c)" "keeps I (Server_updateAgent G R (deps_on db rd pg prd m) c)"
  "keeps I (Server_deleteAgent G (deps_on db rd pg prd m) c)" "keeps I (Server_heartbeat G (deps_on db rd pg prd m) c)"
  "keeps I (Server_queryCapabilities G (deps_on db rd pg prd m) c)"
  unfolding Server_createAgent_def Server_getAgent_def Server_listAgents_def Server_updateAgent_def Server_deleteAgent_def
    Server_heartbeat_def Server_queryCapabilities_def deps_on_simps Let_def
  by (intro keeps_or_return call_rules keeps_agents)+

lemma keeps_message_handlers:
  "keeps I (Server_sendMessage G R (deps_on db rd pg prd m) c)" "keeps I (Server_getMessage G (deps_on db rd pg prd m) c)"
  "keeps I (Server_acknowledgeMessage G R (deps_on db rd pg prd m) c)"
  "keeps I (Server_sendBatchMessages G R (deps_on db rd pg prd m) c)"
  "keeps I (Server_listMessages G (deps_on db rd pg prd m) c)"
  "keeps I (Server_createSubscription G R (deps_on db rd pg prd m) c)"
  "keeps I (Server_listSubscriptions G (deps_on db rd pg prd m) c)"
  "keeps I (Server_deleteSubscription G (deps_on db rd pg prd m) c)"
  unfolding Server_sendMessage_def Server_getMessage_def Server_acknowledgeMessage_def Server_sendBatchMessages_def
    Server_listMessages_def Server_createSubscription_def Server_listSubscriptions_def Server_deleteSubscription_def
    deps_on_simps Let_def
  by (intro keeps_or_return call_rules keeps_build keeps_send keeps_send_one keeps_ack keeps_reads keeps_subscriptions)+

lemma keeps_public:
  assumes "pg \<in> {None, Some db}" "prd \<in> {None, Some rd}"
    and "map_of (public_routes spec (deps_on db rd pg prd m)) route = Some h"
  shows "keeps I (h c)"
proof -
  have "keeps I (Server_readinessCheck (deps_on db rd pg prd m) c)"
    using assms(1,2) unfolding Server_readinessCheck_def deps_on_def Dependencies.select_convs PostgresDB_Ping_def RedisClient_Ping_def
    by (elim insertE emptyE; simp only: option.case) (intro call_rules)+
  then show ?thesis
    using assms(3) by (auto simp: public_routes_def Server_healthCheck_def Server_openAPISpec_def keeps_ret split: if_splits)
qed

lemma keeps_request:
  assumes "mw_on db rd m" "pg \<in> {None, Some db}" "prd \<in> {None, Some rd}"
  shows "keeps I (NewServer G R spanTraceID spec (deps_on db rd pg prd m) r)"
proof -
  have chain: "keeps I (v1_chain G R (deps_on db rd pg prd m) h c)"
    if h: "map_of (v1_routes G R (deps_on db rd pg prd m)) route = Some h" for h route c
  proof -
    have "\<forall>h \<in> snd ` set (v1_routes G R (deps_on db rd pg prd m)). \<forall>c. keeps I (h c)"
      unfolding v1_routes_def by (simp add: keeps_agent_handlers keeps_message_handlers)
    then have "keeps I (h c)" for c using map_of_SomeD [OF h] by force
    then show ?thesis unfolding v1_chain_def Let_def deps_on_simps by (intro keeps_layers [OF assms(1)])
  qed
  have "keeps I (setupRoutes G R spec (deps_on db rd pg prd m) c)" for c
    unfolding setupRoutes_def Let_def
    by (intro call_rules) (use chain keeps_public [OF assms(2,3)] in blast)+
  then show ?thesis unfolding NewServer_def by (intro keeps_layers [OF assms(1)])
qed

end


end
