(* ===== verification/Store_Integrity.thy ===== *)
theory Store_Integrity
  imports Store_Calls Api_Isolation Dead_Letters
begin

text \<open>
  The whole program on its database, one request, worker iteration or retry pass at a time. A
  predicate on the tables that every statement but the inserts of messages and
  acknowledgements keeps is kept by the program's other calls (\<open>benign_store\<close>, a case of
  \<open>kept_calls\<close>); the predicates of interest are the soundness of the rows, that no row of an
  earlier state is lost, and that the pending queue holds messages of the tables only.
\<close>

section \<open>The invariant of the rows\<close>

text \<open>The message stands in the tables, and the agent is one of its recipients.\<close>

definition addressed_in :: "go_env \<Rightarrow> uuid \<Rightarrow> uuid \<Rightarrow> tables \<Rightarrow> bool" where
  "addressed_in G i a T \<longleftrightarrow> (\<exists>m \<in> set (T_messages T). Message_ID m = i \<and> a \<in> row_recipients G m)"

definition store_ok :: "go_env \<Rightarrow> tables \<Rightarrow> bool" where
  "store_ok G T \<longleftrightarrow> db_ok T \<and> (\<forall>m \<in> set (T_messages T). message_row_ok G m) \<and>
     (\<forall>a \<in> set (T_acks T). addressed_in G (Ack_MessageID a) (Ack_AgentID a) T)"

section \<open>One process at a time\<close>

locale benign_store =
  fixes P :: "tables \<Rightarrow> bool"
  assumes benign_kept: "benign q \<Longrightarrow> P T \<Longrightarrow> P (snd (db_exec now q T))"

sublocale benign_store \<subseteq> kept_calls "db_inv P" sys_rt sys_db sys_redis
proof
  fix q assume "benign q"
  then show "keeps (db_inv P) (ExecContext sys_db q)" by (intro keeps_db_exec benign_kept)
qed (rule keeps_db_rt keeps_db_redis keeps_db_queries)+

interpretation keys: benign_store db_ok
  by unfold_locales (rule db_ok_exec)

lemma sys_parts: "sys_deps pg rd m = deps_on sys_db sys_redis pg rd m"
  by (simp add: sys_deps_def deps_on_def)

lemma get_message_run:
  "run_state (GetMessage sys_db q) w = (Inr m, w') \<Longrightarrow> W_db w' = W_db w \<and> m \<in> set (message_rows q (W_db w))"
  by (auto simp: run_sys_queries db_get_message_def sys_reply_def split: list.splits fault.splits if_splits)

section \<open>The rows stay sound\<close>

lemma benign_acks: "benign q \<Longrightarrow> T_acks (snd (db_exec now q T)) = T_acks T"
  by (cases q) (simp_all add: db_exec.simps on_agents_def)

lemma benign_messages:
  "benign q \<Longrightarrow> \<exists>f. T_messages (snd (db_exec now q T)) = map f (T_messages T) \<and>
     (\<forall>m. f m = m \<or> (\<exists>st. st \<noteq> [] \<and> f m = set_message_status st now m))"
proof (cases q)
  case (Messages_Status i st)
  moreover assume "benign q"
  ultimately show ?thesis
    by (intro exI [of _ "\<lambda>m. if Message_ID m = i then set_message_status st now m else m"])
      (auto simp: db_exec.simps update_where_def)
qed (auto simp: db_exec.simps on_agents_def intro!: exI [of _ id])

lemma status_row [simp]:
  "Message_ID (set_message_status st now m) = Message_ID m"
  "row_recipients G (set_message_status st now m) = row_recipients G m"
  "st \<noteq> [] \<Longrightarrow> message_row_ok G m \<Longrightarrow> message_row_ok G (set_message_status st now m)"
  by (auto simp: set_message_status_def row_recipients_def ScanRecipients_def message_row_ok_def split: option.splits)

lemma store_ok_benign:
  assumes "benign q" "store_ok G T"
  shows "store_ok G (snd (db_exec now q T))"
proof -
  obtain f where f: "T_messages (snd (db_exec now q T)) = map f (T_messages T)"
      "\<And>m. f m = m \<or> (\<exists>st. st \<noteq> [] \<and> f m = set_message_status st now m)"
    using benign_messages [OF assms(1)] by blast
  have row: "Message_ID (f m) = Message_ID m" "row_recipients G (f m) = row_recipients G m"
      "message_row_ok G m \<Longrightarrow> message_row_ok G (f m)" for m
    using f(2) [of m] by auto
  show ?thesis
    using assms(2) row db_ok_exec [of T now q]
    by (auto simp: store_ok_def f(1) benign_acks [OF assms(1)] addressed_in_def)
qed

lemma insert_refused: "fst (db_exec now (insert_of f) T) = Inl e \<Longrightarrow> snd (db_exec now (insert_of f) T) = T"
  by (auto simp: insert_of_def db_exec.simps split: if_splits)

lemma store_ok_insert:
  assumes "store_ok G T" "message_row_ok G f"
  shows "store_ok G (snd (db_exec now (insert_of f) T))"
proof (cases "fst (db_exec now (insert_of f) T)")
  case (Inl e)
  then show ?thesis using assms(1) insert_refused by metis
next
  case (Inr x)
  show ?thesis
    using assms db_ok_exec [of T now "insert_of f"]
    by (auto simp: store_ok_def insert_done [OF Inr] addressed_in_def message_row_ok_def)
qed

lemma store_ok_ack:
  assumes "store_ok G T" "addressed_in G (Ack_MessageID b) (Ack_AgentID b) T"
  shows "store_ok G (snd (db_exec now (ack_insert b) T))"
  using assms db_ok_exec [of T now "ack_insert b"]
  by (auto simp: store_ok_def ack_insert_def db_exec.simps addressed_in_def)

section \<open>History\<close>

text \<open>
  What a later state keeps of an earlier one: nothing disappears, and of a message only the
  status and the time of processing change, of a dead letter its status and counters.
\<close>

definition same_message :: "Message \<Rightarrow> Message \<Rightarrow> bool" where
  "same_message m m' \<longleftrightarrow> m'\<lparr>Message_Status := Message_Status m, Message_ProcessedAt := Message_ProcessedAt m\<rparr> = m"

definition same_entry :: "DeadLetterEntry \<Rightarrow> DeadLetterEntry \<Rightarrow> bool" where
  "same_entry e e' \<longleftrightarrow> e'\<lparr>DL_Status := DL_Status e, DL_RetryCount := DL_RetryCount e, DL_ProcessedAt := DL_ProcessedAt e\<rparr> = e"

definition extends :: "tables \<Rightarrow> tables \<Rightarrow> bool" where
  "extends T T' \<longleftrightarrow> set (T_acks T) \<subseteq> set (T_acks T') \<and> set (T_audit T) \<subseteq> set (T_audit T') \<and> agent_ids T \<subseteq> agent_ids T' \<and>
     (\<forall>m \<in> set (T_messages T). \<exists>m' \<in> set (T_messages T'). same_message m m') \<and>
     (\<forall>e \<in> set (T_dlq T). \<exists>e' \<in> set (T_dlq T'). same_entry e e')"

lemma same_trans:
  "same_message a b \<Longrightarrow> same_message b c \<Longrightarrow> same_message a c"
  "same_entry x y \<Longrightarrow> same_entry y z \<Longrightarrow> same_entry x z"
  by (cases a; cases b; cases c; simp add: same_message_def) (cases x; cases y; cases z; simp add: same_entry_def)

lemma extends_trans: "extends T U \<Longrightarrow> extends U V \<Longrightarrow> extends T V"
  unfolding extends_def by (meson same_trans order_trans)

lemma same_updates [simp]:
  "same_message m m" "same_entry e e" "same_message m (set_message_status st now m)"
  "same_entry e (e\<lparr>DL_Status := s, DL_RetryCount := n, DL_ProcessedAt := p\<rparr>)"
  by (simp_all add: same_message_def same_entry_def set_message_status_def)

lemma same_found:
  "m \<in> set ms \<Longrightarrow> \<exists>m' \<in> set ms. same_message m m'" "e \<in> set es \<Longrightarrow> \<exists>e' \<in> set es. same_entry e e'"
  by (auto intro: rev_bexI)

lemma extends_refl: "extends T T"
  by (auto simp: extends_def intro: same_found)

lemma update_where_mem: "x \<in> set rs \<Longrightarrow> (if p x then f x else x) \<in> set (update_where p f rs)"
  by (simp add: update_where_def)

lemma extends_exec: "extends T (snd (db_exec now q T))"
proof (cases q)
  case (Messages_Status i st)
  have "\<exists>m' \<in> set (update_where (\<lambda>m. Message_ID m = i) (set_message_status st now) (T_messages T)). same_message m m'"
    if "m \<in> set (T_messages T)" for m
    using update_where_mem [OF that] by (rule rev_bexI) simp
  then show ?thesis using Messages_Status by (auto simp: db_exec.simps extends_def agent_ids_def intro: same_found)
next
  case (Dlq_Update i st n p)
  let ?f = "\<lambda>e. e\<lparr>DL_Status := st, DL_RetryCount := n, DL_ProcessedAt := p\<rparr>"
  have "\<exists>e' \<in> set (update_where (\<lambda>e. DL_ID e = i) ?f (T_dlq T)). same_entry e e'" if "e \<in> set (T_dlq T)" for e
    using update_where_mem [OF that] by (rule rev_bexI) simp
  then show ?thesis using Dlq_Update by (auto simp: db_exec.simps extends_def agent_ids_def intro: same_found)
next
  case (Agents_Insert i t d k n v p ti c e s)
  then show ?thesis
    by (auto simp: db_exec.simps extends_def agent_ids_def intro: same_found)
qed (use agent_ids_exec [of T now q] in
    \<open>auto simp: db_exec.simps extends_def on_agents_def agent_ids_def intro: same_found\<close>)

interpretation history: benign_store "extends T" for T
  by unfold_locales (rule extends_trans [OF _ extends_exec])

interpretation history: program_calls "db_inv (extends T)" sys_rt sys_db sys_redis G "\<lambda>_ _. True" "\<lambda>_ _ _. True" for T G
proof
  fix f show "keeps (db_inv (extends T)) (ExecContext sys_db (insert_of f))"
    by (intro keeps_db_exec extends_trans [OF _ extends_exec])
next
  fix w :: world and p assume "db_inv (extends T) w"
  then show "db_inv (extends T) (snd (run_state (cmd_LPush sys_redis ''message:pending'' [p]) w))"
    by (rule keepsD [OF keeps_db_redis(2)])
next
  fix w and b :: Acknowledgement assume "db_inv (extends T) w"
  moreover have "keeps (db_inv (extends T)) (ExecContext sys_db (ack_insert b))"
    by (intro keeps_db_exec extends_trans [OF _ extends_exec])
  ultimately show "db_inv (extends T) (snd (run_state (ExecContext sys_db (ack_insert b)) w))"
    by (rule keepsD [rotated])
qed (simp_all add: keeps_def db_inv_def sys_rt_def)

section \<open>The queue\<close>

text \<open>
  Every payload on the pending queue is the JSON of a message whose row is in the tables. The
  program pushes on that list in one place, after the insert; all other commands leave it or
  take from it.
\<close>

definition queue_ok :: "go_env \<Rightarrow> world \<Rightarrow> bool" where
  "queue_ok G w \<longleftrightarrow> (\<forall>p \<in> set (pending w). \<exists>m. Marshal_Message G m = Inr p \<and> Message_ID m \<in> message_ids (W_db w))"

definition world_ok :: "go_env \<Rightarrow> world \<Rightarrow> bool" where
  "world_ok G w \<longleftrightarrow> store_ok G (W_db w) \<and> queue_ok G w"

definition pushes_nothing :: "(world, 'a) io \<Rightarrow> bool" where
  "pushes_nothing m \<longleftrightarrow> (\<forall>w. set (pending (snd (run_state m w))) \<subseteq> set (pending w))"

lemma message_ids_extends: "extends T U \<Longrightarrow> message_ids T \<subseteq> message_ids U"
proof -
  have "Message_ID m' = Message_ID m" if "same_message m m'" for m m'
    using arg_cong [OF that [unfolded same_message_def], of Message_ID] by simp
  then show "extends T U \<Longrightarrow> message_ids T \<subseteq> message_ids U"
    unfolding extends_def message_ids_def by (auto, metis image_eqI)
qed

lemma queue_ok_step:
  assumes "queue_ok G w" "set (pending w') \<subseteq> set (pending w)" "extends (W_db w) (W_db w')"
  shows "queue_ok G w'"
  using assms message_ids_extends [OF assms(3)] unfolding queue_ok_def by blast

lemma keeps_world:
  assumes "keeps (db_inv (store_ok G)) m" "\<And>T. keeps (db_inv (extends T)) m" "pushes_nothing m"
  shows "keeps (world_ok G) m"
proof
  fix w assume w: "world_ok G w"
  let ?v = "snd (run_state m w)"
  have "store_ok G (W_db ?v)" using keepsD [OF assms(1)] w by (simp add: db_inv_def world_ok_def)
  moreover have "extends (W_db w) (W_db ?v)" using keepsD [OF assms(2), of "W_db w" w] extends_refl by (simp add: db_inv_def)
  moreover have "set (pending ?v) \<subseteq> set (pending w)" using assms(3) by (simp add: pushes_nothing_def)
  ultimately show "world_ok G ?v" using w queue_ok_step by (auto simp: world_ok_def)
qed

lemma pending_fields [simp]:
  "pending (w\<lparr>W_calls := n\<rparr>) = pending w" "pending (w\<lparr>W_db := T\<rparr>) = pending w" "pending (w\<lparr>W_reads := n\<rparr>) = pending w"
  "pending (w\<lparr>W_drawn := n\<rparr>) = pending w" "pending (w\<lparr>W_metrics := ms\<rparr>) = pending w" "pending (w\<lparr>W_published := p\<rparr>) = pending w"
  by (simp_all add: list_contents_def)

lemma pushes_nothing_call:
  "(\<And>w. set (pending (snd (f w))) \<subseteq> set (pending w)) \<Longrightarrow> pushes_nothing (w_call f)"
  unfolding pushes_nothing_def run_w_call Let_def
  by (auto split: fault.split) (metis pending_fields(1) subset_iff)+

lemma pushes_nothing_db: "pushes_nothing (on_db f)"
  unfolding on_db_def by (rule pushes_nothing_call) (simp split: prod.split)

definition queue_of :: "store \<Rightarrow> string set" where
  "queue_of s = (case s pending_key of Some (RList xs, d) \<Rightarrow> set xs | _ \<Rightarrow> {})"

lemma queue_of_pending: "queue_of (W_redis w) = set (pending w)"
  by (simp add: queue_of_def list_contents_def split: option.split prod.split redis_value.split)

lemma pushes_nothing_redis:
  assumes "\<And>now s. queue_of (snd (f now s)) \<subseteq> queue_of s"
  shows "pushes_nothing (on_redis f)"
  unfolding on_redis_def
  by (rule pushes_nothing_call) (use assms in \<open>auto simp flip: queue_of_pending split: prod.split, metis snd_conv subsetD\<close>)

lemma queue_of_other [simp]:
  "queue_of (put_value now k (RString v) s) \<subseteq> queue_of s" "queue_of (put_value now k (RHash h) s) \<subseteq> queue_of s"
  "queue_of (s(k := None)) \<subseteq> queue_of s" "queue_of (s(k := Some (RString v, d))) \<subseteq> queue_of s"
  "lookup now s k = Some v' \<Longrightarrow> queue_of (s(k := Some (v', d))) \<subseteq> queue_of s"
  by (auto simp: queue_of_def put_value_def lookup_def split: option.splits prod.splits redis_value.splits if_splits)

lemma rd_list_queue: "rd_list now s k = Inr xs \<Longrightarrow> set ys \<subseteq> set xs \<Longrightarrow> queue_of (put_value now k (RList ys) s) \<subseteq> queue_of s"
  by (auto simp: rd_list_def queue_of_def put_value_def lookup_def split: option.splits prod.splits redis_value.splits if_splits)

lemma pushes_nothing_commands:
  "pushes_nothing (cmd_Publish sys_redis k v)" "pushes_nothing (cmd_RPop sys_redis k)" "pushes_nothing (cmd_HSet sys_redis k f v)"
  "pushes_nothing (cmd_HGetAll sys_redis k)" "pushes_nothing (cmd_HDel sys_redis k f)" "pushes_nothing (cmd_Expire sys_redis k d)"
  "pushes_nothing (cmd_Incr sys_redis k)" "pushes_nothing (cmd_Ping sys_redis)"
proof -
  have "set (butlast xs) \<subseteq> set xs" for xs :: "string list" by (meson in_set_butlastD subsetI)
  then have pop: "queue_of (snd (st_RPop now k s)) \<subseteq> queue_of s" for now s
    by (auto simp: st_RPop_def intro: subsetD [OF rd_list_queue] subsetD [OF queue_of_other(3)] split: sum.split)
  show "pushes_nothing (cmd_RPop sys_redis k)"
    unfolding sys_redis_def goredis.select_convs by (rule pushes_nothing_redis) (rule pop)
  show "pushes_nothing (cmd_HSet sys_redis k f v)" "pushes_nothing (cmd_HGetAll sys_redis k)" "pushes_nothing (cmd_HDel sys_redis k f)"
    "pushes_nothing (cmd_Expire sys_redis k d)" "pushes_nothing (cmd_Incr sys_redis k)"
    unfolding sys_redis_def goredis.select_convs
    by (rule pushes_nothing_redis,
      simp add: st_HSet_def st_HGetAll_def st_HDel_def st_Expire_def st_Incr_def Let_def split: sum.split option.split redis_value.split)+
  show "pushes_nothing (cmd_Publish sys_redis k v)" "pushes_nothing (cmd_Ping sys_redis)"
    unfolding sys_redis_def goredis.select_convs by (rule pushes_nothing_call, simp)+
qed

lemma pushes_nothing_sys:
  "pushes_nothing (time_Now sys_rt)" "pushes_nothing (uuid_New sys_rt)" "pushes_nothing (counter_Inc sys_rt c l)"
  "pushes_nothing (histogram_Observe sys_rt c l d)"
  "pushes_nothing (ExecContext sys_db q)" "pushes_nothing (GetAgent sys_db aq)" "pushes_nothing (SelectAgents sys_db aq)"
  "pushes_nothing (GetMessage sys_db mq)" "pushes_nothing (SelectMessages sys_db mq)" "pushes_nothing (SelectDeadLetters sys_db n)"
  "pushes_nothing (GetExists sys_db eq)" "pushes_nothing (PingDB sys_db)"
  by (simp_all add: sys_db_def pushes_nothing_db) (simp_all add: pushes_nothing_def sys_rt_def)

section \<open>Rows and queue stay sound\<close>

interpretation rows: benign_store "store_ok G" for G
  by unfold_locales (rule store_ok_benign)

interpretation sound: kept_calls "world_ok G" sys_rt sys_db sys_redis for G
proof
  fix q assume "benign q"
  then show "keeps (world_ok G) (ExecContext sys_db q)"
    by (intro keeps_world rows.exec history.exec pushes_nothing_sys)
qed (intro keeps_world pushes_nothing_sys pushes_nothing_commands rows.rt rows.metrics rows.redis rows.queries
    history.rt history.metrics history.redis history.queries; assumption)+

lemma keeps_extends_exec: "keeps (db_inv (extends T)) (ExecContext sys_db q)"
  by (intro keeps_db_exec extends_trans [OF _ extends_exec])

lemma executed: "run_state (ExecContext sys_db q) w = (Inr n, w') \<Longrightarrow>
    fst (db_exec (w_now w) q (W_db w)) = Inr n \<and> W_db w' = snd (db_exec (w_now w) q (W_db w))"
  by (auto simp: run_sys_exec sys_reply_def sys_done_def split: fault.splits)

lemma pushed: "set (pending (snd (run_state (cmd_LPush sys_redis ''message:pending'' [p]) w))) \<subseteq> insert p (set (pending w))"
  unfolding queue_of_pending [symmetric]
  by (auto simp: run_sys_redis st_LPush_def rd_list_def queue_of_def put_value_def lookup_def pending_key_def
      split: sum.splits option.splits prod.splits redis_value.splits if_splits)

interpretation sound: program_calls "world_ok G" sys_rt sys_db sys_redis G "\<lambda>i w. i \<in> message_ids (W_db w)"
    "\<lambda>i a w. addressed_in G i a (W_db w)" for G
proof
  fix f assume "message_row_ok G f"
  then show "keeps (world_ok G) (ExecContext sys_db (insert_of f))"
    by (intro keeps_world keeps_extends_exec pushes_nothing_sys keeps_db_exec store_ok_insert)
next
  fix w f n w' assume "run_state (ExecContext sys_db (insert_of f)) w = (Inr n, w')"
  from executed [OF this] show "Message_ID f \<in> message_ids (W_db w')"
    by (auto simp: insert_done message_ids_def)
next
  fix w f p assume w: "world_ok G w" and f: "Message_ID f \<in> message_ids (W_db w)" "Marshal_Message G f = Inr p"
  let ?v = "snd (run_state (cmd_LPush sys_redis ''message:pending'' [p]) w)"
  have db: "W_db ?v = W_db w" by (simp add: run_sys_redis)
  have "queue_ok G ?v"
    unfolding queue_ok_def db
  proof
    fix q assume "q \<in> set (pending ?v)"
    then have "q = p \<or> q \<in> set (pending w)" using pushed by auto
    then show "\<exists>m. Marshal_Message G m = Inr q \<and> Message_ID m \<in> message_ids (W_db w)"
      using w f by (auto simp: world_ok_def queue_ok_def)
  qed
  then show "world_ok G ?v" using w db by (simp add: world_ok_def)
next
  fix i t w m w' a
  assume "run_state (GetMessage sys_db (Message_ByIdTenant i t)) w = (Inr m, w')" "a \<in> row_recipients G m"
  then show "addressed_in G i a (W_db w')"
    using get_message_run [of "Message_ByIdTenant i t" w m w'] by (auto simp: addressed_in_def message_rows_def)
next
  fix w and b :: Acknowledgement
  assume w: "world_ok G w" "addressed_in G (Ack_MessageID b) (Ack_AgentID b) (W_db w)"
  let ?v = "snd (run_state (ExecContext sys_db (ack_insert b)) w)"
  have "store_ok G (W_db ?v)" "extends (W_db w) (W_db ?v)"
    using w by (simp_all add: world_ok_def run_sys_exec store_ok_ack extends_exec extends_refl)
  moreover have "set (pending ?v) \<subseteq> set (pending w)" using pushes_nothing_sys(5) by (simp add: pushes_nothing_def)
  ultimately show "world_ok G ?v" using w(1) queue_ok_step by (auto simp: world_ok_def)
next
  fix i a show "keeps (\<lambda>w. world_ok G w \<and> addressed_in G i a (W_db w)) (time_Now sys_rt)"
    "keeps (\<lambda>w. world_ok G w \<and> addressed_in G i a (W_db w)) (uuid_New sys_rt)"
    by (simp_all add: keeps_def sys_rt_def world_ok_def queue_ok_def)
qed

section \<open>Runs of the system\<close>

text \<open>
  A step of the system: a request to an API server (with any configuration of its database,
  cache and limits), an iteration of a worker, a pass over the dead letters, or anything that
  leaves the database and the metrics alone and pushes nothing on the queue: the clock, the schedule of faults, other clients of Redis, a
  process that stops or starts.
\<close>

inductive system_step :: "go_env \<Rightarrow> world \<Rightarrow> world \<Rightarrow> bool" for G where
  request: "mw_on sys_db sys_redis m \<Longrightarrow> pg \<in> {None, Some sys_db} \<Longrightarrow> rd \<in> {None, Some sys_redis} \<Longrightarrow>
    run_state (NewServer G sys_rt spanTraceID spec (sys_deps pg rd m) r) w = (c, w') \<Longrightarrow> system_step G w w'"
| work: "run_state (worker_iteration G sys_rt (\<lambda>d. ret ()) (sys_engine cfg) sys_redis) w = ((), w') \<Longrightarrow> system_step G w w'"
| retry: "run_state (DeadLetterQueue_process G sys_rt (sys_dlq mx)) w = ((), w') \<Longrightarrow> system_step G w w'"
| elsewhere: "W_db w' = W_db w \<Longrightarrow> W_metrics w' = W_metrics w \<Longrightarrow> set (pending w') \<subseteq> set (pending w) \<Longrightarrow> system_step G w w'"

text \<open>What a process keeps and what no step elsewhere touches is kept by every run.\<close>

lemma system_step_keeps:
  assumes "system_step G w w'" "program_calls I sys_rt sys_db sys_redis G stored addressed" "I w"
    and elsewhere: "\<And>w w'. W_db w' = W_db w \<Longrightarrow> W_metrics w' = W_metrics w \<Longrightarrow> set (pending w') \<subseteq> set (pending w) \<Longrightarrow> I w \<Longrightarrow> I w'"
  shows "I w'"
  using assms(1)
proof cases
  case (request m pg rd spanTraceID spec r c)
  have "keeps I (NewServer G sys_rt spanTraceID spec (sys_deps pg rd m) r)"
    unfolding sys_parts by (rule program_calls.keeps_request [OF assms(2) request(1-3)])
  from keepsD [OF this, of w] request(4) assms(3) show ?thesis by simp
next
  case (work cfg)
  have "keeps I (worker_iteration G sys_rt (\<lambda>d. ret ()) (sys_engine cfg) sys_redis)"
    by (rule kept_calls.keeps_engine [OF program_calls.axioms(1) [OF assms(2)]]) (rule keeps_ret)
  from keepsD [OF this, of w] work assms(3) show ?thesis by simp
next
  case (retry mx)
  have "keeps I (DeadLetterQueue_process G sys_rt (sys_dlq mx))"
    by (rule kept_calls.keeps_retries [OF program_calls.axioms(1) [OF assms(2)]])
  from keepsD [OF this, of w] retry assms(3) show ?thesis by simp
qed (use assms(3) elsewhere in blast)

lemma system_run_kept:
  assumes "(system_step G)\<^sup>*\<^sup>* w w'" "program_calls I sys_rt sys_db sys_redis G stored addressed" "I w"
    and "\<And>w w'. W_db w' = W_db w \<Longrightarrow> W_metrics w' = W_metrics w \<Longrightarrow> set (pending w') \<subseteq> set (pending w) \<Longrightarrow> I w \<Longrightarrow> I w'"
  shows "I w'"
  using assms(1,3) by (induction rule: rtranclp_induct) (auto intro: system_step_keeps [OF _ assms(2) _ assms(4)])

lemma system_run_keeps:
  assumes "(system_step G)\<^sup>*\<^sup>* w w'" "program_calls (db_inv P) sys_rt sys_db sys_redis G stored addressed" "P (W_db w)"
  shows "P (W_db w')"
  using system_run_kept [OF assms(1,2)] assms(3) by (simp add: db_inv_def)

text \<open>
  The stored rows stay sound over every run of the whole system, and the queue holds only
  messages whose row is stored. Theory Store_Concurrency has the same of processes that
  interleave call by call.
\<close>
theorem store_stays_sound:
  assumes "(system_step G)\<^sup>*\<^sup>* w w'" "world_ok G w"
  shows "world_ok G w'"
proof -
  have "world_ok G w'" if "W_db w' = W_db w" "set (pending w') \<subseteq> set (pending w)" "world_ok G w" for w w'
    using that queue_ok_step [of G w w'] extends_refl by (simp add: world_ok_def)
  then show ?thesis by (rule system_run_kept [OF assms(1) sound.program_calls_axioms assms(2)])
qed

text \<open>
  C5. Nothing is lost from the database: over every run of the whole system, the
  acknowledgements and the audit log only grow, agents, messages and dead letters stay, and
  a stored message changes in nothing but its status and its time of processing.
\<close>
theorem history_only_grows:
  assumes "(system_step G)\<^sup>*\<^sup>* w w'"
  shows "extends (W_db w) (W_db w')"
  by (rule system_run_keeps [OF assms history.program_calls_axioms extends_refl])

lemma sample_store_ok: "store_ok reference_env sample_tables"
proof -
  have "\<exists>rs. rs \<noteq> [] \<and> Message_RecipientStr sample_message = Marshal_Recipients reference_env (Some rs)"
    by (rule exI [of _ "[12]"]) (simp add: sample_message_def)
  then have "message_row_ok reference_env sample_message"
    by (simp add: message_row_ok_def) (simp add: sample_message_def zero_Message_def message_status_defs DeliveryAtLeastOnce_def)
  then show ?thesis using sample_tables_ok by (simp add: store_ok_def) (simp add: sample_tables_def)
qed

lemma sample_step: "system_step reference_env sample_world
    (snd (run_state (worker_iteration reference_env sys_rt (\<lambda>d. ret ()) (sys_engine None) sys_redis) sample_world))"
  by (rule work) (rule prod_eqI; simp)

lemma sample_world_ok: "world_ok reference_env sample_world"
  using sample_store_ok by (simp add: world_ok_def queue_ok_def list_contents_def)

theorem store_stays_sound_witness:
  "world_ok reference_env (snd (run_state
     (worker_iteration reference_env sys_rt (\<lambda>d. ret ()) (sys_engine None) sys_redis) sample_world))"
  by (rule store_stays_sound [OF r_into_rtranclp [where r = "system_step reference_env", OF sample_step] sample_world_ok])

theorem history_only_grows_witness:
  "extends sample_tables (W_db (snd (run_state
     (worker_iteration reference_env sys_rt (\<lambda>d. ret ()) (sys_engine None) sys_redis) sample_world)))"
  using history_only_grows [OF r_into_rtranclp [where r = "system_step reference_env", OF sample_step]]
  by (simp add: sample_world_def)

end
