(* ===== verification/Observability.thy ===== *)
theory Observability
  imports Store_Integrity
begin

text \<open>
  The metrics of \<open>internal/observability/metrics.go\<close> in the running system: the vectors that
  \<open>registerMetrics\<close> gives to Prometheus, and that every value recorded belongs to one of them
  and has a value for each of its labels, without which \<open>WithLabelValues\<close> panics.
\<close>

section \<open>The registered vectors\<close>

text \<open>The names that Prometheus accepts, of metrics (which may have colons) and of labels.\<close>

definition valid_name :: "bool \<Rightarrow> string \<Rightarrow> bool" where
  "valid_name colons s \<longleftrightarrow> s \<noteq> [] \<and> \<not> hd s \<in> set ''0123456789'' \<and>
     (\<forall>c \<in> set s. c \<in> set ''abcdefghijklmnopqrstuvwxyzABCDEFGHIJKLMNOPQRSTUVWXYZ0123456789_'' \<or> colons \<and> c = CHR '':'')"

text \<open>\<open>MustRegister\<close> has no ground to panic on the first registration: the names are valid and distinct.\<close>

lemma registered_vecs_sound:
  "distinct (map Vec_Name registered_vecs)"
  "list_all (\<lambda>v. valid_name True (Vec_Name v) \<and> list_all (valid_name False) (Vec_Labels v) \<and> distinct (Vec_Labels v))
     registered_vecs"
  by code_simp+

section \<open>Recorded values\<close>

fun recorded_ok :: "metric \<Rightarrow> bool" where
  "recorded_ok (Counted name values) = labels_fit CounterVec name values"
| "recorded_ok (Observed name values d) = labels_fit HistogramVec name values"

definition metrics_inv :: "world \<Rightarrow> bool" where
  "metrics_inv w \<longleftrightarrow> list_all recorded_ok (W_metrics w)"

lemma metrics_inv_updates [simp]:
  "metrics_inv (w\<lparr>W_reads := n\<rparr>) = metrics_inv w" "metrics_inv (w\<lparr>W_drawn := n\<rparr>) = metrics_inv w"
  "metrics_inv (w\<lparr>W_calls := n\<rparr>) = metrics_inv w" "metrics_inv (w\<lparr>W_db := T\<rparr>) = metrics_inv w"
  "metrics_inv (w\<lparr>W_redis := s\<rparr>) = metrics_inv w" "metrics_inv (w\<lparr>W_published := p\<rparr>) = metrics_inv w"
  by (simp_all add: metrics_inv_def)

lemma keeps_metrics_servers: "keeps metrics_inv (on_db f)" "keeps metrics_inv (on_redis g)"
  unfolding on_db_def on_redis_def by (rule keeps_w_call; auto split: prod.split)+

lemma keeps_metrics_db:
  "keeps metrics_inv (ExecContext sys_db q)" "keeps metrics_inv (GetAgent sys_db aq)" "keeps metrics_inv (SelectAgents sys_db aq)"
  "keeps metrics_inv (GetMessage sys_db mq)" "keeps metrics_inv (SelectMessages sys_db mq)"
  "keeps metrics_inv (SelectDeadLetters sys_db n)" "keeps metrics_inv (GetExists sys_db eq)" "keeps metrics_inv (PingDB sys_db)"
  by (simp_all add: sys_db_def keeps_metrics_servers)

lemma keeps_metrics_redis:
  "keeps metrics_inv (cmd_Publish sys_redis k v)" "keeps metrics_inv (cmd_LPush sys_redis k vs)"
  "keeps metrics_inv (cmd_RPop sys_redis k)" "keeps metrics_inv (cmd_HSet sys_redis k f v)"
  "keeps metrics_inv (cmd_HGetAll sys_redis k)" "keeps metrics_inv (cmd_HDel sys_redis k f)"
  "keeps metrics_inv (cmd_Expire sys_redis k d)" "keeps metrics_inv (cmd_Incr sys_redis k)" "keeps metrics_inv (cmd_Ping sys_redis)"
  by (simp_all add: sys_redis_def keeps_metrics_servers) (auto intro!: keeps_w_call)

lemma keeps_metrics_rt:
  "keeps metrics_inv (time_Now sys_rt)" "keeps metrics_inv (uuid_New sys_rt)"
  "labels_fit CounterVec c l \<Longrightarrow> keeps metrics_inv (counter_Inc sys_rt c l)"
  "labels_fit HistogramVec c l \<Longrightarrow> keeps metrics_inv (histogram_Observe sys_rt c l d)"
  by (simp_all add: keeps_def sys_rt_def) (simp_all add: metrics_inv_def)

interpretation labelled: kept_calls metrics_inv sys_rt sys_db sys_redis
  by unfold_locales (rule keeps_metrics_rt keeps_metrics_redis keeps_metrics_db; assumption?)+

interpretation labelled: program_calls metrics_inv sys_rt sys_db sys_redis G "\<lambda>_ _. True" "\<lambda>_ _ _. True" for G
proof
  fix w b assume "metrics_inv w"
  then show "metrics_inv (snd (run_state (ExecContext sys_db (ack_insert b)) w))" by (rule keepsD [OF keeps_metrics_db(1)])
next
  fix w p assume "metrics_inv w"
  then show "metrics_inv (snd (run_state (cmd_LPush sys_redis ''message:pending'' [p]) w))" by (rule keepsD [OF keeps_metrics_redis(2)])
qed (simp_all add: keeps_metrics_db keeps_metrics_rt)



end
