(* ===== verification/Billing.thy ===== *)
theory Billing
  imports Go_Float Go_Crypto Go_Time Runtime Repository
begin

text \<open>
  Billing: the records of \<open>internal/model/billing.go\<close>, the statements of
  \<open>internal/repository/billing.go\<close> over a database handle of their own, and the billing and
  idempotency services of \<open>internal/service/billing.go\<close>. Amounts are \<open>f64\<close> values of theory
  Go_Float. The process runs in UTC, so that \<open>now.Year()\<close> and \<open>now.Month()\<close> are those of the
  calendar of theory Go_Time.
\<close>

section \<open>Records\<close>

type_synonym BillingEventType = string
type_synonym BillingStatus = string
type_synonym InvoiceStatus = string
type_synonym PlanType = string
type_synonym PlanStatus = string

definition BillingEventMessageSent :: BillingEventType where "BillingEventMessageSent = ''message_sent''"
definition BillingEventMessageReceived :: BillingEventType where "BillingEventMessageReceived = ''message_received''"
definition BillingEventAPICall :: BillingEventType where "BillingEventAPICall = ''api_call''"
definition BillingEventStorage :: BillingEventType where "BillingEventStorage = ''storage''"
definition BillingEventBandwidth :: BillingEventType where "BillingEventBandwidth = ''bandwidth''"
definition BillingEventSubscription :: BillingEventType where "BillingEventSubscription = ''subscription''"
definition BillingStatusPending :: BillingStatus where "BillingStatusPending = ''pending''"
definition BillingStatusActive :: BillingStatus where "BillingStatusActive = ''active''"
definition BillingStatusProcessed :: BillingStatus where "BillingStatusProcessed = ''processed''"
definition BillingStatusFailed :: BillingStatus where "BillingStatusFailed = ''failed''"
definition BillingStatusRefunded :: BillingStatus where "BillingStatusRefunded = ''refunded''"
definition InvoiceStatusDraft :: InvoiceStatus where "InvoiceStatusDraft = ''draft''"
definition InvoiceStatusPending :: InvoiceStatus where "InvoiceStatusPending = ''pending''"
definition InvoiceStatusPaid :: InvoiceStatus where "InvoiceStatusPaid = ''paid''"
definition InvoiceStatusOverdue :: InvoiceStatus where "InvoiceStatusOverdue = ''overdue''"
definition InvoiceStatusCancelled :: InvoiceStatus where "InvoiceStatusCancelled = ''cancelled''"
definition PlanTypeFree :: PlanType where "PlanTypeFree = ''free''"
definition PlanTypeStarter :: PlanType where "PlanTypeStarter = ''starter''"
definition PlanTypeProfessional :: PlanType where "PlanTypeProfessional = ''professional''"
definition PlanTypeEnterprise :: PlanType where "PlanTypeEnterprise = ''enterprise''"
definition PlanStatusActive :: PlanStatus where "PlanStatusActive = ''active''"
definition PlanStatusDeprecated :: PlanStatus where "PlanStatusDeprecated = ''deprecated''"

record BillingEvent =
  BE_ID :: uuid
  BE_TenantID :: uuid
  BE_AgentID :: uuid
  BE_EventType :: BillingEventType
  BE_MessageID :: "uuid option"
  BE_Quantity :: int
  BE_UnitPrice :: f64
  BE_TotalAmount :: f64
  BE_Currency :: string
  BE_PeriodStart :: time
  BE_PeriodEnd :: time
  BE_Status :: BillingStatus
  BE_CreatedAt :: time

record InvoiceLineItem =
  Item_Description :: string
  Item_Quantity :: int
  Item_UnitPrice :: f64
  Item_Amount :: f64

record Invoice =
  Inv_ID :: uuid
  Inv_TenantID :: uuid
  Inv_InvoiceNumber :: string
  Inv_PeriodStart :: time
  Inv_PeriodEnd :: time
  Inv_Subtotal :: f64
  Inv_Tax :: f64
  Inv_Total :: f64
  Inv_Currency :: string
  Inv_Status :: InvoiceStatus
  Inv_DueDate :: time
  Inv_PaidAt :: "time option"
  Inv_LineItems :: "InvoiceLineItem list"
  Inv_CreatedAt :: time

record PricingPlan =
  Plan_ID :: uuid
  Plan_Name :: string
  Plan_PlanType :: PlanType
  Plan_PriceMonthly :: f64
  Plan_PriceYearly :: f64
  Plan_MessageQuota :: int
  Plan_AgentLimit :: int
  Plan_Features :: "string slice"
  Plan_Status :: PlanStatus
  Plan_CreatedAt :: time

record UsageRecord =
  UR_ID :: uuid
  UR_TenantID :: uuid
  UR_Metric :: string
  UR_Value :: int
  UR_Unit :: string
  UR_Period :: string
  UR_Timestamp :: time

section \<open>Repositories\<close>

text \<open>The statements with their arguments; the insert of an invoice has no line items.\<close>

datatype billing_exec =
    Events_Insert BillingEvent
  | Invoices_Insert uuid uuid string time time f64 f64 f64 string InvoiceStatus time "time option" time

record 'w billing_db =
  Exec_Billing :: "billing_exec \<Rightarrow> ('w, unit result) io"
  Select_Events :: "uuid \<Rightarrow> time \<Rightarrow> time \<Rightarrow> ('w, BillingEvent list result) io"
  Count_Messages :: "uuid \<Rightarrow> time \<Rightarrow> ('w, int result) io"
  Get_Tenant :: "uuid \<Rightarrow> ('w, Tenant result) io"
  Select_ActivePlans :: "('w, PricingPlan list result) io"
  Get_Plan :: "uuid \<Rightarrow> ('w, PricingPlan result) io"

definition BillingRepository_CreateEvent :: "'w billing_db \<Rightarrow> BillingEvent \<Rightarrow> ('w, unit result) io" where
  "BillingRepository_CreateEvent db event = Exec_Billing db (Events_Insert event)"

definition BillingRepository_CreateInvoice :: "'w billing_db \<Rightarrow> Invoice \<Rightarrow> ('w, unit result) io" where
  "BillingRepository_CreateInvoice db v =
     Exec_Billing db (Invoices_Insert (Inv_ID v) (Inv_TenantID v) (Inv_InvoiceNumber v) (Inv_PeriodStart v)
       (Inv_PeriodEnd v) (Inv_Subtotal v) (Inv_Tax v) (Inv_Total v) (Inv_Currency v) (Inv_Status v) (Inv_DueDate v)
       (Inv_PaidAt v) (Inv_CreatedAt v))"

definition BillingRepository_GetEventsInPeriod ::
    "'w billing_db \<Rightarrow> uuid \<Rightarrow> time \<Rightarrow> time \<Rightarrow> ('w, BillingEvent list result) io" where
  "BillingRepository_GetEventsInPeriod db tenantID start stop = Select_Events db tenantID start stop"

definition BillingRepository_CountMessagesInPeriod :: "'w billing_db \<Rightarrow> uuid \<Rightarrow> time \<Rightarrow> ('w, int result) io" where
  "BillingRepository_CountMessagesInPeriod db tenantID since = Count_Messages db tenantID since"

definition BillingRepository_GetTenant :: "'w billing_db \<Rightarrow> uuid \<Rightarrow> ('w, Tenant result) io" where
  "BillingRepository_GetTenant db tenantID = Get_Tenant db tenantID"

text \<open>\<open>TenantRepository\<close> of \<open>postgres.go\<close>: the insert with its seven arguments, and the row of an id.\<close>

record 'w tenant_db =
  Insert_Tenant :: "uuid \<Rightarrow> string \<Rightarrow> string \<Rightarrow> string \<Rightarrow> TenantLimits \<Rightarrow> TenantUsage \<Rightarrow> string \<Rightarrow> ('w, unit result) io"
  Get_TenantRow :: "uuid \<Rightarrow> ('w, Tenant result) io"

definition TenantRepository_Create :: "'w tenant_db \<Rightarrow> Tenant \<Rightarrow> ('w, unit result) io" where
  "TenantRepository_Create db t = Insert_Tenant db (Tenant_ID t) (Tenant_Name t) (Tenant_Slug t) (Tenant_Plan t)
     (Tenant_Limits t) (Tenant_Usage t) (Tenant_Status t)"

definition TenantRepository_GetByID :: "'w tenant_db \<Rightarrow> uuid \<Rightarrow> ('w, Tenant option result) io" where
  "TenantRepository_GetByID db i = do { r \<leftarrow> Get_TenantRow db i; ret (no_rows_nil r) }"

definition PlanRepository_ListActivePlans :: "'w billing_db \<Rightarrow> ('w, PricingPlan list result) io" where
  "PlanRepository_ListActivePlans db = Select_ActivePlans db"

definition PlanRepository_GetPlanByID :: "'w billing_db \<Rightarrow> uuid \<Rightarrow> ('w, PricingPlan result) io" where
  "PlanRepository_GetPlanByID db i = Get_Plan db i"

section \<open>The calendar month\<close>

definition Day :: duration where "Day = 24 * Hour"

text \<open>Year and month of a time.\<close>

definition time_YearMonth :: "time \<Rightarrow> nat \<times> nat" where
  "time_YearMonth t =
     (let (y, yd) = year_of 1 (nat (t div Day)); (m, d) = month_of 1 (month_days y) yd in (y, m))"

text \<open>\<open>time.Date(y, m, d, 0, 0, 0, 0, time.UTC)\<close>, which carries a month past the twelfth and a
  day outside the month over.\<close>

definition time_Date :: "nat \<Rightarrow> nat \<Rightarrow> int \<Rightarrow> time" where
  "time_Date y m d =
     (let (y, m) = (if 12 < m then (y + 1, m - 12) else (y, m))
      in (int (days_before y + sum_list (take (m - 1) (month_days y))) + (d - 1)) * Day)"

definition getBillingPeriodStart :: "'w runtime \<Rightarrow> ('w, time) io" where
  "getBillingPeriodStart R = do { now \<leftarrow> time_Now R; let (y, m) = time_YearMonth now; ret (time_Date y m 1) }"

definition getBillingPeriodEnd :: "'w runtime \<Rightarrow> ('w, time) io" where
  "getBillingPeriodEnd R = do { now \<leftarrow> time_Now R; let (y, m) = time_YearMonth now; ret (time_Date y (m + 1) 0) }"

definition generateInvoiceNumber :: "go_env \<Rightarrow> 'w runtime \<Rightarrow> ('w, string) io" where
  "generateInvoiceNumber G R = do {
     now \<leftarrow> time_Now R;
     u \<leftarrow> uuid_New R;
     let (y, m) = time_YearMonth now;
     ret (''INV-'' @ pad 4 y @ pad 2 m @ ''-'' @ take 8 (uuid_String G u))
   }"

section \<open>The billing service\<close>

record 'w BillingService =
  BS_repo :: "'w billing_db"
  BS_redis :: "'w goredis option"
  BS_planRepo :: "'w billing_db"

definition NewBillingService :: "'w billing_db \<Rightarrow> 'w goredis option \<Rightarrow> 'w billing_db \<Rightarrow> 'w BillingService" where
  "NewBillingService repo redis planRepo = \<lparr>BS_repo = repo, BS_redis = redis, BS_planRepo = planRepo\<rparr>"

text \<open>The constant \<open>0.001\<close>.\<close>

definition message_price :: f64 where
  "message_price = fl (1 / 1000)"

definition BillingService_RecordMessageSent ::
    "'w runtime \<Rightarrow> 'w BillingService \<Rightarrow> uuid \<Rightarrow> uuid \<Rightarrow> uuid \<Rightarrow> ('w, unit result) io" where
  "BillingService_RecordMessageSent R s tenantID agentID messageID = do {
     i \<leftarrow> uuid_New R;
     periodStart \<leftarrow> getBillingPeriodStart R;
     periodEnd \<leftarrow> getBillingPeriodEnd R;
     created \<leftarrow> time_Now R;
     let event = \<lparr>BE_ID = i, BE_TenantID = tenantID, BE_AgentID = agentID, BE_EventType = BillingEventMessageSent,
       BE_MessageID = Some messageID, BE_Quantity = 1, BE_UnitPrice = message_price, BE_TotalAmount = message_price,
       BE_Currency = ''USD'', BE_PeriodStart = periodStart, BE_PeriodEnd = periodEnd, BE_Status = BillingStatusPending,
       BE_CreatedAt = created\<rparr>;
     BillingRepository_CreateEvent (BS_repo s) event
   }"

definition BillingService_GetUsageStats ::
    "'w runtime \<Rightarrow> 'w BillingService \<Rightarrow> uuid \<Rightarrow> ('w, TenantUsage result) io" where
  "BillingService_GetUsageStats R s tenantID = do {
     now \<leftarrow> time_Now R;
     let (y, m) = time_YearMonth now;
     try_io (BillingRepository_CountMessagesInPeriod (BS_repo s) tenantID (time_Date y m 1)) (\<lambda>messages. do {
       reset \<leftarrow> getBillingPeriodEnd R;
       ret (Inr \<lparr>Usage_MessageCount = messages, Usage_BandwidthBytes = 0, Usage_StorageBytes = 0,
         Usage_ApiCalls = messages, Usage_ResetAt = time_Unix reset\<rparr>)
     })
   }"

text \<open>The loop over the events, with \<open>int\<close> addition.\<close>

fun count_sent :: "int \<Rightarrow> BillingEvent list \<Rightarrow> int" where
  "count_sent messageCount [] = messageCount"
| "count_sent messageCount (event # events) =
     count_sent (if BE_EventType event = BillingEventMessageSent then wrap64 (messageCount + BE_Quantity event)
                 else messageCount) events"

definition BillingService_GenerateInvoice ::
    "go_env \<Rightarrow> 'w runtime \<Rightarrow> 'w BillingService \<Rightarrow> uuid \<Rightarrow> time \<Rightarrow> time \<Rightarrow> ('w, Invoice result) io" where
  "BillingService_GenerateInvoice G R s tenantID periodStart periodEnd =
     try_io (BillingRepository_GetEventsInPeriod (BS_repo s) tenantID periodStart periodEnd) (\<lambda>events. do {
       let messageCount = count_sent 0 events;
       let amount = f_mul (f_of_int messageCount) message_price;
       let lineItems = (if messageCount > 0 then
         [\<lparr>Item_Description = ''Message Delivery'', Item_Quantity = messageCount, Item_UnitPrice = message_price,
           Item_Amount = amount\<rparr>] else []);
       let subtotal = (if messageCount > 0 then f_add 0 amount else 0);
       let tax = f_mul subtotal (fl (1 / 10));
       let total = f_add subtotal tax;
       i \<leftarrow> uuid_New R;
       number \<leftarrow> generateInvoiceNumber G R;
       created \<leftarrow> time_Now R;
       let invoice = \<lparr>Inv_ID = i, Inv_TenantID = tenantID, Inv_InvoiceNumber = number, Inv_PeriodStart = periodStart,
         Inv_PeriodEnd = periodEnd, Inv_Subtotal = subtotal, Inv_Tax = tax, Inv_Total = total, Inv_Currency = ''USD'',
         Inv_Status = InvoiceStatusPending, Inv_DueDate = periodEnd + 30 * Day, Inv_PaidAt = None,
         Inv_LineItems = lineItems, Inv_CreatedAt = created\<rparr>;
       try_io (BillingRepository_CreateInvoice (BS_repo s) invoice) (\<lambda>_. ret (Inr invoice))
     })"

definition BillingService_GetPricingPlans :: "'w BillingService \<Rightarrow> ('w, PricingPlan list result) io" where
  "BillingService_GetPricingPlans s = PlanRepository_ListActivePlans (BS_planRepo s)"

definition BillingService_CheckQuota :: "'w runtime \<Rightarrow> 'w BillingService \<Rightarrow> uuid \<Rightarrow> ('w, bool result) io" where
  "BillingService_CheckQuota R s tenantID =
     try_io (BillingRepository_GetTenant (BS_repo s) tenantID) (\<lambda>tenant.
     try_io (BillingService_GetUsageStats R s tenantID) (\<lambda>usage.
       ret (Inr (Usage_MessageCount usage < Limits_MessagePerMonth (Tenant_Limits tenant)))))"

section \<open>The idempotency service\<close>

record 'w IdempotencyService =
  Idem_redis :: "'w goredis"

definition NewIdempotencyService :: "'w goredis \<Rightarrow> 'w IdempotencyService" where
  "NewIdempotencyService redis = \<lparr>Idem_redis = redis\<rparr>"

text \<open>\<open>Format(time.RFC3339)\<close> has no fraction.\<close>

definition format_seconds :: "go_env \<Rightarrow> time \<Rightarrow> string" where
  "format_seconds G t = (case time_Text G (t - t mod Second) of None \<Rightarrow> [] | Some s \<Rightarrow> s)"

definition IdempotencyService_CheckAndSet ::
    "go_env \<Rightarrow> 'w runtime \<Rightarrow> 'w IdempotencyService \<Rightarrow> string \<Rightarrow> uuid \<Rightarrow> duration \<Rightarrow> ('w, bool result) io" where
  "IdempotencyService_CheckAndSet G R s key messageID ttl = (do {
     let redis = Idem_redis s;
     let combinedKey = ''idempotency:'' @ key;
     existing \<leftarrow> RedisClient_Get redis combinedKey;
     (if (case existing of Inr x \<Rightarrow> x \<noteq> [] | Inl e \<Rightarrow> False) then ret (Inr False)
      else do {
        now \<leftarrow> time_Now R;
        let v = uuid_String G messageID @ '':'' @ format_seconds G now;
        try_io (RedisClient_Set redis combinedKey v) (\<lambda>_.
          (if ttl > 0 then do {
             r \<leftarrow> RedisClient_Expire redis combinedKey (whole_seconds ttl);
             (case r of
                Inl e \<Rightarrow> do { d \<leftarrow> RedisClient_Del redis [combinedKey]; ret (Inl e) }
              | Inr _ \<Rightarrow> ret (Inr True))
           }
           else ret (Inr True)))
      })
   })"

text \<open>The 16 bytes of a UUID.\<close>

definition uuid_bytes :: "uuid \<Rightarrow> bytes" where
  "uuid_bytes u = be_bytes 16 (unat u)"

definition GenerateIdempotencyKey :: "uuid \<Rightarrow> uuid \<Rightarrow> char slice \<Rightarrow> string" where
  "GenerateIdempotencyKey senderID recipientID content =
     (let hash = sha256_Sum256 (uuid_bytes senderID @ uuid_bytes recipientID @ elems content)
      in hex_EncodeToString (take 16 hash))"

end
