(* ===== verification/Billing_Ledger.thy ===== *)
theory Billing_Ledger
  imports Billing Exactly_Once Sample_World
begin

text \<open>
  What the billing services promise: an invoice bills the messages recorded in its period,
  at the price and tax up to rounding; a month's period covers the month but for its last
  day; a quota compares the month's messages with the limit; an idempotency key is
  accepted once per window. The billing tables stand beside the world of theory World.
\<close>

section \<open>The billing tables\<close>

record billing_tables =
  BT_events :: "BillingEvent list"
  BT_invoices :: "(uuid \<times> uuid \<times> string \<times> rat) list"
  BT_messages :: "(uuid \<times> time) list"
  BT_tenants :: "Tenant list"
  BT_plans :: "PricingPlan list"

type_synonym ledger = "world \<times> billing_tables"

definition lift_io :: "(world, 'a) io \<Rightarrow> (ledger, 'a) io" where
  "lift_io m = State (\<lambda>(w, B). case run_state m w of (r, w') \<Rightarrow> (r, (w', B)))"

lemma run_lift: "run_state (lift_io m) (w, B) = (fst (run_state m w), (snd (run_state m w), B))"
  by (simp add: lift_io_def split: prod.split)

definition ledger_rt :: "ledger runtime" where
  "ledger_rt = \<lparr>time_Now = lift_io (time_Now sys_rt), uuid_New = lift_io (uuid_New sys_rt),
     counter_Inc = (\<lambda>c ls. lift_io (counter_Inc sys_rt c ls)),
     histogram_Observe = (\<lambda>h ls d. lift_io (histogram_Observe sys_rt h ls d))\<rparr>"

definition on_ledger :: "(billing_tables \<Rightarrow> 'a result \<times> billing_tables) \<Rightarrow> (ledger, 'a result) io" where
  "on_ledger f = State (\<lambda>(w, B). case f B of (r, B') \<Rightarrow> (r, (w, B')))"

lemma run_on_ledger: "run_state (on_ledger f) (w, B) = (fst (f B), (w, snd (f B)))"
  by (simp add: on_ledger_def split: prod.split)

text \<open>A \<open>DECIMAL(10, 2)\<close> column keeps hundredths, rounded half up.\<close>

definition hundredths :: "rat \<Rightarrow> rat" where
  "hundredths x = of_int \<lfloor>x * 100 + 1 / 2\<rfloor> / 100"

fun ledger_exec :: "billing_exec \<Rightarrow> billing_tables \<Rightarrow> unit result \<times> billing_tables" where
  "ledger_exec (Events_Insert e) B =
     (if BE_ID e \<in> BE_ID ` set (BT_events B) then (Inl (PqError ''23505'' ''duplicate key''), B)
      else if BE_TenantID e \<notin> Tenant_ID ` set (BT_tenants B) then (Inl (PqError ''23503'' ''foreign key''), B)
      else (Inr (), B\<lparr>BT_events := BT_events B @ [e\<lparr>BE_TotalAmount := hundredths (BE_TotalAmount e)\<rparr>]\<rparr>))"
| "ledger_exec (Invoices_Insert i t number s e subtotal tax due_total currency st due paid created) B =
     (if i \<in> fst ` set (BT_invoices B) \<or> number \<in> (\<lambda>(a, b, c, d). c) ` set (BT_invoices B)
      then (Inl (PqError ''23505'' ''duplicate key''), B)
      else if t \<notin> Tenant_ID ` set (BT_tenants B) then (Inl (PqError ''23503'' ''foreign key''), B)
      else (Inr (), B\<lparr>BT_invoices := BT_invoices B @ [(i, t, number, hundredths due_total)]\<rparr>))"

definition events_in :: "uuid \<Rightarrow> time \<Rightarrow> time \<Rightarrow> BillingEvent list \<Rightarrow> BillingEvent list" where
  "events_in t s e = filter (\<lambda>x. BE_TenantID x = t \<and> s \<le> BE_CreatedAt x \<and> BE_CreatedAt x \<le> e)"

definition ledger_db :: "ledger billing_db" where
  "ledger_db = \<lparr>
     Exec_Billing = (\<lambda>q. on_ledger (ledger_exec q)),
     Select_Events = (\<lambda>t s e. on_ledger (\<lambda>B. (Inr (events_in t s e (BT_events B)), B))),
     Count_Messages = (\<lambda>t since. on_ledger (\<lambda>B. (Inr (int (length (filter (\<lambda>(u, c). u = t \<and> since \<le> c) (BT_messages B)))), B))),
     Get_Tenant = (\<lambda>t. on_ledger (\<lambda>B. (case filter (\<lambda>x. Tenant_ID x = t) (BT_tenants B) of [] \<Rightarrow> Inl ErrNoRows | x # _ \<Rightarrow> Inr x, B))),
     Select_ActivePlans = on_ledger (\<lambda>B. (Inr (sort_key Plan_PriceMonthly (filter (\<lambda>p. Plan_Status p = ''active'') (BT_plans B))), B)),
     Get_Plan = (\<lambda>i. on_ledger (\<lambda>B. (case filter (\<lambda>p. Plan_ID p = i) (BT_plans B) of [] \<Rightarrow> Inl ErrNoRows | p # _ \<Rightarrow> Inr p, B)))\<rparr>"

abbreviation ledger_svc :: "ledger BillingService" where
  "ledger_svc \<equiv> NewBillingService ledger_db None ledger_db"

lemma run_ledger_rt:
  "run_state (time_Now ledger_rt) (w, B) = (w_now w, (w\<lparr>W_reads := W_reads w + 1\<rparr>, B))"
  "run_state (uuid_New ledger_rt) (w, B) = (W_uuids w (W_drawn w), (w\<lparr>W_drawn := W_drawn w + 1\<rparr>, B))"
  by (simp_all add: ledger_rt_def run_lift run_sys_rt)

lemmas run_ledger = run_ledger_rt run_on_ledger ledger_db_def NewBillingService_def BillingRepository_CreateEvent_def
  BillingRepository_CreateInvoice_def BillingRepository_GetEventsInPeriod_def BillingRepository_GetTenant_def
  BillingRepository_CountMessagesInPeriod_def Let_def

section \<open>Invoices\<close>

lemma count_sent_sum:
  assumes "\<forall>e \<in> set es. 0 \<le> BE_Quantity e" "0 \<le> n"
    and "n + sum_list (map BE_Quantity (filter (\<lambda>e. BE_EventType e = BillingEventMessageSent) es)) < 2 ^ 63"
  shows "count_sent n es = n + sum_list (map BE_Quantity (filter (\<lambda>e. BE_EventType e = BillingEventMessageSent) es))"
  using assms
proof (induction n es rule: count_sent.induct)
  case (2 n e es)
  have "0 \<le> sum_list (map BE_Quantity (filter (\<lambda>e. BE_EventType e = BillingEventMessageSent) es))"
    using 2(2) by (intro sum_list_nonneg) auto
  then show ?case using 2 wrap64_id [of "n + BE_Quantity e"] by (auto simp: algebra_simps)
qed simp

text \<open>The total of an invoice, whose eight roundings are each within half a unit in the last place.\<close>

definition invoice_total :: "int \<Rightarrow> f64" where
  "invoice_total n =
     (let subtotal = (if n > 0 then f_add 0 (f_mul (f_of_int n) message_price) else 0)
      in f_add subtotal (f_mul subtotal (fl (1 / 10))))"

lemma invoice_total_close:
  assumes "0 \<le> n"
  shows "\<bar>invoice_total n - of_int n * 11 / 10000\<bar> \<le> of_int n * 11 / 10000 / 2 ^ 49"
proof (cases "n = 0")
  case True
  then show ?thesis by (simp add: invoice_total_def f_add_def f_mul_def fl_def Let_def)
next
  case False
  let ?x = "of_int n :: rat"
  have x: "0 \<le> ?x" "0 < n" using assms False by simp_all
  have lit: "near 1 q (fl q)" if "0 \<le> q" for q using near_fl [OF near_refl [OF that]] by simp
  have amount: "near 3 (?x * (1 / 1000)) (f_mul (f_of_int n) message_price)"
    using near_fl [OF near_mult [OF lit [OF x(1)] lit [of "1 / 1000"]]]
    by (simp add: f_mul_def f_of_int_def message_price_def eval_nat_numeral)
  define sub where "sub = f_add 0 (f_mul (f_of_int n) message_price)"
  have sub: "near 4 (?x * (1 / 1000)) sub" using near_fl [OF amount] by (simp add: sub_def f_add_def eval_nat_numeral)
  have tax: "near 6 (?x * (1 / 1000) * (1 / 10)) (f_mul sub (fl (1 / 10)))"
    using near_fl [OF near_mult [OF sub lit [of "1 / 10"]]] by (simp add: f_mul_def eval_nat_numeral)
  have "near 7 (?x * (1 / 1000) + ?x * (1 / 1000) * (1 / 10)) (f_add sub (f_mul sub (fl (1 / 10))))"
    using near_fl [OF near_add [OF near_mono [OF sub] tax]] by (simp add: f_add_def eval_nat_numeral)
  then have "near 8 (?x * (1 / 1000) + ?x * (1 / 1000) * (1 / 10)) (f_add sub (f_mul sub (fl (1 / 10))))"
    by (rule near_mono) simp
  moreover have "?x * (1 / 1000) + ?x * (1 / 1000) * (1 / 10) = ?x * 11 / 10000" by simp
  moreover have "invoice_total n = f_add sub (f_mul sub (fl (1 / 10)))"
    using x(2) by (simp add: invoice_total_def sub_def Let_def)
  ultimately show ?thesis by (metis near_close)
qed

lemma invoice_run:
  assumes "run_state (BillingService_GenerateInvoice G ledger_rt ledger_svc t s e) (w, B) = (Inr v, (w', B'))"
  shows "Inv_Total v = invoice_total (count_sent 0 (events_in t s e (BT_events B))) \<and>
    map Item_Quantity (Inv_LineItems v) =
      (if 0 < count_sent 0 (events_in t s e (BT_events B)) then [count_sent 0 (events_in t s e (BT_events B))] else []) \<and>
    Inv_TenantID v = t \<and> Inv_PeriodStart v = s \<and> Inv_PeriodEnd v = e \<and>
    B' = B\<lparr>BT_invoices := BT_invoices B @ [(Inv_ID v, t, Inv_InvoiceNumber v, hundredths (Inv_Total v))]\<rparr>"
  using assms
  by (auto simp: BillingService_GenerateInvoice_def generateInvoiceNumber_def run_ledger invoice_total_def split: if_splits prod.splits)

definition sent_quantity :: "uuid \<Rightarrow> time \<Rightarrow> time \<Rightarrow> BillingEvent list \<Rightarrow> int" where
  "sent_quantity t s e es = (\<Sum>x \<leftarrow> filter (\<lambda>x. BE_EventType x = BillingEventMessageSent) (events_in t s e es). BE_Quantity x)"


definition sample_tenant :: Tenant where
  "sample_tenant = \<lparr>Tenant_ID = 1, Tenant_Name = ''Acme'', Tenant_Slug = ''acme'', Tenant_Plan = ''free'',
     Tenant_Limits = \<lparr>Limits_MessagePerMonth = 2, Limits_MaxAgents = 5, Limits_MaxConnections = 5, Limits_RetentionDays = 30,
       Limits_SlaPercent = ''99''\<rparr>,
     Tenant_Usage = \<lparr>Usage_MessageCount = 0, Usage_BandwidthBytes = 0, Usage_StorageBytes = 0, Usage_ApiCalls = 0, Usage_ResetAt = 0\<rparr>,
     Tenant_MessageUsed = 0, Tenant_AgentCount = 0, Tenant_Status = ''active'', Tenant_SSOEnabled = False, Tenant_BillingEmail = []\<rparr>"

definition sample_event :: BillingEvent where
  "sample_event = \<lparr>BE_ID = 71, BE_TenantID = 1, BE_AgentID = 11, BE_EventType = ''message_sent'', BE_MessageID = Some 31,
     BE_Quantity = 3, BE_UnitPrice = 0, BE_TotalAmount = 0, BE_Currency = ''USD'', BE_PeriodStart = 0, BE_PeriodEnd = 9,
     BE_Status = ''pending'', BE_CreatedAt = 5\<rparr>"

definition sample_ledger :: billing_tables where
  "sample_ledger = \<lparr>BT_events = [sample_event], BT_invoices = [], BT_messages = [(1, 5)], BT_tenants = [sample_tenant], BT_plans = []\<rparr>"


section \<open>Recording\<close>

lemma record_run:
  assumes "run_state (BillingService_RecordMessageSent ledger_rt ledger_svc t a m) (w, B) = (Inr (), (w', B'))"
  shows "W_clock w' = W_clock w \<and> BT_tenants B' = BT_tenants B \<and>
    (\<exists>x c. BT_events B' = BT_events B @ [x] \<and> BE_TenantID x = t \<and> BE_EventType x = BillingEventMessageSent \<and>
      BE_Quantity x = 1 \<and> BE_CreatedAt x = W_clock w c)"
  using assms
  by (fastforce simp: BillingService_RecordMessageSent_def getBillingPeriodStart_def getBillingPeriodEnd_def run_ledger w_now_def
      split: if_splits prod.splits)

text \<open>Records of a batch of messages, one after the other.\<close>

lemma records_run:
  assumes "run_state (map_io (\<lambda>(a, m). BillingService_RecordMessageSent ledger_rt ledger_svc t a m) ms) (w, B) = (rs, (w', B'))"
    and "set rs \<subseteq> {Inr ()}" "\<And>n. s \<le> W_clock w n \<and> W_clock w n \<le> e"
  shows "sent_quantity t s e (BT_events B') = sent_quantity t s e (BT_events B) + int (length ms) \<and>
    ((\<forall>x \<in> set (BT_events B). 0 \<le> BE_Quantity x) \<longrightarrow> (\<forall>x \<in> set (BT_events B'). 0 \<le> BE_Quantity x))"
  using assms
proof (induction ms arbitrary: w B rs)
  case (Cons p ms)
  obtain a m where p: "p = (a, m)" by fastforce
  obtain r v C where r: "run_state (BillingService_RecordMessageSent ledger_rt ledger_svc t a m) (w, B) = (r, (v, C))"
    by (metis prod.collapse)
  obtain rs' where rs: "rs = r # rs'" "run_state (map_io (\<lambda>(a, m). BillingService_RecordMessageSent ledger_rt ledger_svc t a m) ms) (v, C) = (rs', (w', B'))"
    using Cons(2) r by (auto simp: p split: prod.splits)
  then have "r = Inr ()" using Cons(3) by simp
  from record_run [OF r [unfolded this]] obtain x c where x: "W_clock v = W_clock w" "BT_events C = BT_events B @ [x]" "BE_TenantID x = t"
      "BE_EventType x = BillingEventMessageSent" "BE_Quantity x = 1" "BE_CreatedAt x = W_clock w c" by blast
  have "sent_quantity t s e (BT_events C) = sent_quantity t s e (BT_events B) + 1"
    using x Cons(4) by (simp add: sent_quantity_def events_in_def)
  then show ?case using Cons(1) [OF rs(2)] Cons(3,4) rs(1) x by auto
qed simp



section \<open>Periods and quotas\<close>

lemma YearMonth_days:
  assumes "0 \<le> t" "time_YearMonth t = (y, m)"
  shows "1 \<le> m \<and> m \<le> 12 \<and> time_Date y m 1 \<le> t \<and> t < time_Date y (m + 1) 0 + Day"
proof -
  define n where "n = nat (t div Day)"
  obtain yd where y: "year_of 1 n = (y, yd)" and m': "\<exists>d. month_of 1 (month_days y) yd = (m, d)"
    using assms(2) by (auto simp: time_YearMonth_def n_def split: prod.splits)
  then obtain d where m: "month_of 1 (month_days y) yd = (m, d)" by blast
  have yd: "days_before y + yd = n" "yd < year_days y" using year_of_days [OF y] by (simp_all add: days_before_def)
  have md: "1 \<le> m" "m \<le> 12" "d < month_days y ! (m - 1)" "sum_list (take (m - 1) (month_days y)) + d = yd"
    using month_of_days [OF _ m] yd(2) by (auto simp: sum_month_days length_month_days)
  have "0 < Day" by (simp add: Day_def Hour_def)
  then have t: "int n * Day \<le> t" "t < (int n + 1) * Day"
  proof -
    have "0 \<le> t mod Day" "t mod Day < Day" using \<open>0 < Day\<close> by simp_all
    moreover have "int n = t div Day" using assms(1) \<open>0 < Day\<close> by (simp add: n_def pos_imp_zdiv_nonneg_iff)
    then have "int n * Day = t - t mod Day" by (simp only: minus_mod_eq_div_mult)
    ultimately show "int n * Day \<le> t" "t < (int n + 1) * Day" unfolding distrib_right mult_1 by linarith+
  qed
  have "take m (month_days y) = take (m - 1) (month_days y) @ [month_days y ! (m - 1)]"
    using md(1,2) take_Suc_conv_app_nth [of "m - 1" "month_days y"] by (simp add: length_month_days)
  then have later: "n < days_before y + sum_list (take m (month_days y))" using yd(1) md(3,4) by simp
  have start: "time_Date y m 1 \<le> t"
  proof -
    have "time_Date y m 1 = int (days_before y + sum_list (take (m - 1) (month_days y))) * Day"
      using md(2) by (simp add: time_Date_def)
    also have "\<dots> \<le> int n * Day" using yd(1) md(4) \<open>0 < Day\<close> by (intro mult_right_mono) simp_all
    finally show ?thesis using t(1) by simp
  qed
  have stop: "time_Date y (m + 1) 0 + Day = int (days_before y + sum_list (take m (month_days y))) * Day"
  proof (cases "m = 12")
    case True
    then have "sum_list (take m (month_days y)) = year_days y" by (simp add: sum_month_days length_month_days)
    moreover have "days_before (y + 1) = days_before y + year_days y"
      using year_of_days [OF y] by (simp add: days_before_def)
    ultimately show ?thesis using True by (simp add: time_Date_def algebra_simps)
  qed (use md(2) in \<open>simp add: time_Date_def algebra_simps\<close>)
  have "(int n + 1) * Day \<le> time_Date y (m + 1) 0 + Day"
    unfolding stop using later \<open>0 < Day\<close> by (intro mult_right_mono) simp_all
  then show ?thesis using t(2) start md(1,2) by simp
qed





section \<open>Idempotency keys\<close>

text \<open>\<open>CheckAndSet\<close> as a check: whether the key was taken.\<close>

definition key_taken :: "go_env \<Rightarrow> duration \<Rightarrow> string \<times> uuid \<Rightarrow> (world, bool result) io" where
  "key_taken G ttl x = do {
     r \<leftarrow> IdempotencyService_CheckAndSet G sys_rt (NewIdempotencyService sys_redis) (fst x) (snd x) ttl;
     ret (map_sum id Not r)
   }"

definition idem_window :: "duration \<Rightarrow> duration" where
  "idem_window ttl = (if ttl > 0 then whole_seconds ttl * Second else 0)"

definition idem_ok :: "world \<Rightarrow> bool" where
  "idem_ok w \<longleftrightarrow> all_works w \<and> (\<forall>k v d. W_redis w (''idempotency:'' @ k) = Some (v, d) \<longrightarrow> (\<exists>x. v = RString x \<and> x \<noteq> []))"

lemma works_reply: "all_works w \<Longrightarrow> sys_reply w r = r \<and> sys_done w"
  by (simp add: sys_reply_works all_works_def)

lemma idem_hit:
  assumes "idem_ok w"
  shows "(case sys_reply w (fst (st_Get (w_now w) (''idempotency:'' @ k) (W_redis w))) of Inr x \<Rightarrow> x \<noteq> [] | Inl e \<Rightarrow> False)
    = remembered (w_now w) (kept_until ''idempotency:'' w k)"
proof (cases "W_redis w (''idempotency:'' @ k)")
  case None
  have "sys_reply w r = r" for r :: "string result" using assms by (simp add: idem_ok_def works_reply)
  then show ?thesis using None by (simp add: kept_until_def remembered_def st_Get_def lookup_def)
next
  case (Some p)
  have works: "sys_reply w r = r" for r :: "string result" using assms by (simp add: idem_ok_def works_reply)
  obtain x d where "p = (RString x, d)" "x \<noteq> []" using assms Some by (cases p) (auto simp: idem_ok_def)
  then show ?thesis using Some works by (simp add: kept_until_def remembered_def st_Get_def lookup_def split: option.split)
qed

lemma expire_run:
  assumes "all_works w" "W_redis w c = Some (v, None)" "0 < n" "n * Second < 2 ^ 63"
  shows "run_state (RedisClient_Expire sys_redis c n) w =
    (Inr (), (called w)\<lparr>W_redis := (W_redis w)(c \<mapsto> (v, Some (w_now w + n * Second)))\<rparr>)"
proof -
  have "wrap64 (n * Second) = n * Second" using assms(3,4) by (intro wrap64_id) (simp_all add: Second_def)
  moreover have "0 < n * Second" using assms(3) by (simp add: Second_def)
  ultimately show ?thesis
    using assms(2) by (simp add: RedisClient_Expire_def run_sys_redis st_Expire_def lookup_def works_reply [OF assms(1)] del: sys_reply_Inr)
qed

lemma key_new_run:
  assumes "all_works w" "ttl \<le> 0 \<or> Second \<le> ttl \<and> ttl < 2 ^ 63"
  shows "\<exists>w'. run_state (try_io (RedisClient_Set sys_redis c v) (\<lambda>_.
          (if ttl > 0 then do {
             r \<leftarrow> RedisClient_Expire sys_redis c (whole_seconds ttl);
             (case r of
                Inl e \<Rightarrow> do { d \<leftarrow> RedisClient_Del sys_redis [c]; ret (Inl e) }
              | Inr _ \<Rightarrow> ret (Inr True))
           }
           else ret (Inr True)))) w = (Inr True, w') \<and> all_works w' \<and> W_reads w' = W_reads w \<and> W_clock w' = W_clock w \<and>
     W_redis w' = (W_redis w)(c \<mapsto> (RString v, until (idem_window ttl) (w_now w)))"
proof -
  define w2 where "w2 = (called w)\<lparr>W_redis := (W_redis w)(c \<mapsto> (RString v, None))\<rparr>"
  have set_run: "run_state (RedisClient_Set sys_redis c v) w = (Inr (), w2)"
    by (simp add: RedisClient_Set_def run_sys_redis st_Set_def w2_def works_reply [OF assms(1)] del: sys_reply_Inr)
  have w2: "all_works w2" "W_redis w2 c = Some (RString v, None)" "W_reads w2 = W_reads w" "W_clock w2 = W_clock w"
    using assms(1) by (simp_all add: w2_def all_works_def)
  show ?thesis
  proof (cases "0 < ttl")
    case True
    then have secs: "whole_seconds ttl = ttl div Second" "Second \<le> ttl" "ttl < 2 ^ 63"
      using assms(2) by (auto simp: whole_seconds_def go_quot_pos Second_def)
    then have n: "0 < whole_seconds ttl" by (simp add: Second_def pos_imp_zdiv_pos_iff)
    have "whole_seconds ttl * Second \<le> ttl" using secs(1) by (simp add: Second_def)
    then have "run_state (RedisClient_Expire sys_redis c (whole_seconds ttl)) w2 =
        (Inr (), (called w2)\<lparr>W_redis := (W_redis w2)(c \<mapsto> (RString v, Some (w_now w2 + whole_seconds ttl * Second)))\<rparr>)"
      using expire_run [OF w2(1,2) n] secs(3) by simp
    then show ?thesis using set_run True w2 n
      by (simp add: all_works_def until_def idem_window_def Second_def w2_def w_now_def)
  next
    case False
    then show ?thesis using set_run w2 by (simp add: until_def idem_window_def w2_def)
  qed
qed

lemma key_taken_run:
  assumes "idem_ok w" "ttl \<le> 0 \<or> Second \<le> ttl \<and> ttl < 2 ^ 63" "run_state (key_taken G ttl (k, i)) w = (r, w')"
  shows "idem_ok w' \<and>
    (if remembered (w_now w) (kept_until ''idempotency:'' w k) then r = Inr True \<and> kept_until ''idempotency:'' w' = kept_until ''idempotency:'' w
     else r = Inr False \<and> kept_until ''idempotency:'' w' = (kept_until ''idempotency:'' w)(k \<mapsto> until (idem_window ttl) (w_now w'))) \<and>
    W_clock w' = W_clock w \<and>
    W_reads w' = (if remembered (w_now w) (kept_until ''idempotency:'' w k) then W_reads w else Suc (W_reads w))"
proof (cases "remembered (w_now w) (kept_until ''idempotency:'' w k)")
  case True
  then have "r = Inr True \<and> w' = called w"
    using assms(3) idem_hit [OF assms(1), of k]
    by (simp add: key_taken_def IdempotencyService_CheckAndSet_def NewIdempotencyService_def RedisClient_Get_def run_sys_redis Let_def)
  then show ?thesis using assms(1) True by (auto simp: idem_ok_def all_works_def kept_until_def)
next
  case False
  define w1 where "w1 = (called w)\<lparr>W_reads := Suc (W_reads w)\<rparr>"
  define v where "v = uuid_String G i @ '':'' @ format_seconds G (w_now (called w))"
  have w1: "all_works w1" "W_redis w1 = W_redis w" using assms(1) by (simp_all add: w1_def idem_ok_def all_works_def)
  from key_new_run [OF w1(1) assms(2), of "''idempotency:'' @ k" v] obtain w2 where w2:
      "run_state (try_io (RedisClient_Set sys_redis (''idempotency:'' @ k) v) (\<lambda>_.
          (if ttl > 0 then do {
             r \<leftarrow> RedisClient_Expire sys_redis (''idempotency:'' @ k) (whole_seconds ttl);
             (case r of
                Inl e \<Rightarrow> do { d \<leftarrow> RedisClient_Del sys_redis [(''idempotency:'' @ k)]; ret (Inl e) }
              | Inr _ \<Rightarrow> ret (Inr True))
           }
           else ret (Inr True)))) w1 = (Inr True, w2)"
    and after: "all_works w2" "W_reads w2 = W_reads w1" "W_clock w2 = W_clock w1"
      "W_redis w2 = (W_redis w)((''idempotency:'' @ k) \<mapsto> (RString v, until (idem_window ttl) (w_now w1)))"
    unfolding w1(2) by blast
  have "r = Inr False \<and> w' = w2"
    using assms(3) idem_hit [OF assms(1), of k] False w2
    by (cases "0 < ttl")
      (simp_all add: key_taken_def IdempotencyService_CheckAndSet_def NewIdempotencyService_def RedisClient_Get_def run_sys Let_def
        w1_def v_def)
  moreover have "v \<noteq> []" by (simp add: v_def)
  moreover have "kept_until ''idempotency:'' w2 = (kept_until ''idempotency:'' w)(k \<mapsto> until (idem_window ttl) (w_now w2))"
    by (simp add: fun_eq_iff kept_until_def after w_now_def)
  moreover have "W_reads w1 = Suc (W_reads w)" "W_clock w1 = W_clock w" by (simp_all add: w1_def)
  ultimately show ?thesis using assms(1) False after by (auto simp: idem_ok_def)
qed

interpretation idem: dedup_store "key_taken G ttl" fst pass_time w_now "kept_until ''idempotency:''"
  "\<lambda>w. idem_ok w \<and> (ttl \<le> 0 \<or> Second \<le> ttl \<and> ttl < 2 ^ 63)" "idem_window ttl"
proof unfold_locales
  fix w and k :: "string \<times> uuid" and r w'
  assume "idem_ok w \<and> (ttl \<le> 0 \<or> Second \<le> ttl \<and> ttl < 2 ^ 63)" "run_state (key_taken G ttl k) w = (r, w')"
  then show "(idem_ok w' \<and> (ttl \<le> 0 \<or> Second \<le> ttl \<and> ttl < 2 ^ 63)) \<and>
      (if remembered (w_now w) (kept_until ''idempotency:'' w (fst k)) then r = Inr True \<and> kept_until ''idempotency:'' w' = kept_until ''idempotency:'' w
       else r = Inr False \<and> kept_until ''idempotency:'' w' = (kept_until ''idempotency:'' w)(fst k \<mapsto> until (idem_window ttl) (w_now w')))"
    using key_taken_run [of w ttl G "fst k" "snd k" r w'] by simp
qed (auto simp: pass_time_run idem_ok_def all_works_def kept_until_def fun_eq_iff)

text \<open>
  C35. An idempotency key is taken once per window: where Redis answers and holds no such
  key yet, of two requests with one key that are both let through, one after the other, the
  second comes at least \<open>ttl\<close> (in whole seconds) after the first, for a \<open>ttl\<close> of a second or
  more; with no \<open>ttl\<close> the second is never let through.
\<close>
theorem CheckAndSet_windowed:
  assumes "\<And>n. W_faults w n = Works" "\<And>k. W_redis w (''idempotency:'' @ k) = None" "ttl \<le> 0 \<or> Second \<le> ttl \<and> ttl < 2 ^ 63"
    and "run_state (visits w_now pass_time fst (key_taken G ttl) xs) w = (vs, w')" "sorted (map (fst \<circ> snd \<circ> fst) vs)"
    and "i < j" "j < length vs" "fst (snd (xs ! i)) = fst (snd (xs ! j))" "snd (vs ! i) = Inr False" "snd (vs ! j) = Inr False"
  shows "0 < ttl \<and> snd (snd (fst (vs ! i))) + whole_seconds ttl * Second \<le> fst (snd (fst (vs ! j)))"
proof -
  have ok: "idem_ok w \<and> (ttl \<le> 0 \<or> Second \<le> ttl \<and> ttl < 2 ^ 63)" using assms(1-3) by (simp add: idem_ok_def all_works_def)
  have names: "map (fst \<circ> fst) vs = map (fst \<circ> snd) xs" using idem.visits_flags [OF ok assms(4)] by simp
  then have "fst (fst (vs ! n)) = fst (snd (xs ! n))" if "n < length vs" for n
    using names that map_equality_iff [of "fst \<circ> fst" vs "fst \<circ> snd" xs] by simp
  then have "fst (fst (vs ! i)) = fst (fst (vs ! j))" using assms(6-8) by simp
  from idem.accepted_apart [OF ok assms(4-7) this assms(9,10)] show ?thesis by (simp add: idem_window_def split: if_splits)
qed

text \<open>With a \<open>ttl\<close> of one second, a key taken at the second second is taken again at the seventh.\<close>

lemma CheckAndSet_windowed_witness:
  "let vs = fst (run_state (visits w_now pass_time fst (key_taken reference_env Second) [(0, (''k'', 31)), (5, (''k'', 32))]) sample_world)
   in map snd vs = [Inr False, Inr False] \<and> snd (snd (fst (vs ! 0))) + 1 * Second \<le> fst (snd (fst (vs ! 1)))"
proof -
  define xs :: "(nat \<times> string \<times> uuid) list" where "xs = [(0, (''k'', 31)), (5, (''k'', 32))]"
  obtain vs w' where run: "run_state (visits w_now pass_time fst (key_taken reference_env Second) xs) sample_world = (vs, w')" by fastforce
  have one: "whole_seconds Second = 1" by (simp add: whole_seconds_def go_quot_pos Second_def)
  have ttl: "Second \<le> 0 \<or> Second \<le> Second \<and> Second < 2 ^ 63" by (simp add: Second_def)
  obtain r1 v1 where v1: "run_state (key_taken reference_env Second (''k'', 31)) (sample_world\<lparr>W_reads := 0\<rparr>) = (r1, v1)" by fastforce
  obtain r2 v2 where v2: "run_state (key_taken reference_env Second (''k'', 32)) (v1\<lparr>W_reads := W_reads v1 + 5\<rparr>) = (r2, v2)" by fastforce
  have ok: "idem_ok (sample_world\<lparr>W_reads := 0\<rparr>)" by (simp add: idem_ok_def all_works_def)
  have fresh: "kept_until ''idempotency:'' (sample_world\<lparr>W_reads := 0\<rparr>) = Map.empty" by (simp add: kept_until_def fun_eq_iff)
  have c1: "idem_ok v1" "r1 = Inr False" "W_reads v1 = 1" "W_clock v1 = (\<lambda>n. (int n + 1) * Second)"
      "kept_until ''idempotency:'' v1 = [''k'' \<mapsto> Some (3 * Second)]"
    using key_taken_run [OF ok ttl v1] unfolding fresh
    by (simp_all add: remembered_def until_def idem_window_def one [unfolded Second_def] w_now_def Second_def)
  have ok2: "idem_ok (v1\<lparr>W_reads := W_reads v1 + 5\<rparr>)" "kept_until ''idempotency:'' (v1\<lparr>W_reads := W_reads v1 + 5\<rparr>) = [''k'' \<mapsto> Some (3 * Second)]"
    using c1 by (simp_all add: idem_ok_def all_works_def kept_until_def fun_eq_iff)
  have c2: "r2 = Inr False"
    using key_taken_run [OF ok2(1) ttl v2] c1 unfolding ok2(2) by (simp add: remembered_def w_now_def Second_def)
  have vs: "vs = [((''k'', Second, 2 * Second), Inr False), ((''k'', 7 * Second, w_now v2), Inr False)]"
    using run v1 v2 c1 c2 by (auto simp: xs_def pass_time_run w_now_def)
  have "snd (snd (fst (vs ! 0))) + whole_seconds Second * Second \<le> fst (snd (fst (vs ! 1)))"
    using CheckAndSet_windowed [OF _ _ ttl run, of 0 1] by (simp add: vs xs_def Second_def)
  then show ?thesis using run vs by (simp add: xs_def one)
qed

end
