(* ===== verification/Column_Codecs.thy ===== *)
theory Column_Codecs
  imports Sdk_Json
begin

text \<open>
  The JSON columns of the tables: \<open>Value\<close> and \<open>Scan\<close> of capabilities, endpoints, message
  metadata, task contexts and audit metadata, in \<open>internal/model\<close> and again in the SDK. Theory
  Database keeps the values themselves in its rows; here is what the columns' texts carry.
\<close>

section \<open>Values of the driver\<close>

datatype driver_value = DV_Bytes bytes | DV_String string | DV_Nil

text \<open>\<open>value.([]byte)\<close> panics (\<open>None\<close>) on any other value.\<close>

definition scan_bytes :: "(bytes \<Rightarrow> 'a result) \<Rightarrow> driver_value \<Rightarrow> 'a result option" where
  "scan_bytes f v = (case v of DV_Bytes b \<Rightarrow> Some (f b) | _ \<Rightarrow> None)"

definition unmarshal_as :: "(json \<Rightarrow> 'a option) \<Rightarrow> bytes \<Rightarrow> 'a result" where
  "unmarshal_as d b = (case Option.bind (json_parse b) d of None \<Rightarrow> Inl decode_error | Some x \<Rightarrow> Inr x)"

section \<open>The columns\<close>

definition Capabilities_Value :: "Capability slice \<Rightarrow> bytes result" where
  "Capabilities_Value c = marshal (Some (enc_slice Capability_json c))"

definition Capabilities_Scan :: "go_env \<Rightarrow> driver_value \<Rightarrow> Capability slice \<Rightarrow> Capability slice result option" where
  "Capabilities_Scan G v c = scan_bytes (unmarshal_as (\<lambda>j. dec_capabilities G j c)) v"

definition Endpoints_Value :: "Endpoint slice \<Rightarrow> bytes result" where
  "Endpoints_Value e = marshal (Some (enc_slice Endpoint_json e))"

definition Endpoints_Scan :: "driver_value \<Rightarrow> Endpoint slice \<Rightarrow> Endpoint slice result option" where
  "Endpoints_Scan v e = scan_bytes (unmarshal_as (\<lambda>j. dec_slice (dec_struct Endpoint_fields) zero_Endpoint j e)) v"

definition MessageMetadata_Value :: "go_env \<Rightarrow> MessageMetadata \<Rightarrow> bytes result" where
  "MessageMetadata_Value G m = marshal (Some (MessageMetadata_json G m))"

definition MessageMetadata_Scan :: "go_env \<Rightarrow> driver_value \<Rightarrow> MessageMetadata \<Rightarrow> MessageMetadata result option" where
  "MessageMetadata_Scan G v m = scan_bytes (unmarshal_as (\<lambda>j. MessageMetadata_of_json G j m)) v"

definition TaskContext_Value :: "go_env \<Rightarrow> TaskContext \<Rightarrow> bytes result" where
  "TaskContext_Value G t = marshal (TaskContext_json G t)"

definition TaskContext_Scan :: "go_env \<Rightarrow> driver_value \<Rightarrow> TaskContext \<Rightarrow> TaskContext result option" where
  "TaskContext_Scan G v t = scan_bytes (unmarshal_as (\<lambda>j. TaskContext_of_json G j t)) v"

definition AuditMetadata_Value :: "AuditMetadata \<Rightarrow> bytes result" where
  "AuditMetadata_Value m = marshal (Some (JObj m))"

definition AuditMetadata_Scan :: "go_env \<Rightarrow> driver_value \<Rightarrow> AuditMetadata \<Rightarrow> AuditMetadata result" where
  "AuditMetadata_Scan G v m = (case v of
     DV_Bytes b \<Rightarrow> unmarshal_as (\<lambda>j. dec_map (any_of_json G) j m) b
   | DV_String s \<Rightarrow> unmarshal_as (\<lambda>j. dec_map (any_of_json G) j m) s
   | DV_Nil \<Rightarrow> Inr [])"

section \<open>Reading back\<close>

text \<open>
  PostgreSQL gives a JSON value back in a text of its own; \<open>stored_as\<close> relates the text written
  to a text read.
\<close>

definition stored_as :: "bytes result \<Rightarrow> bytes \<Rightarrow> bool" where
  "stored_as v t' \<longleftrightarrow> (\<exists>t. v = Inr t \<and> json_parse t' = json_parse t)"

lemma unmarshal_stored:
  assumes "stored_as (marshal e) t'" "\<And>j. e = Some j \<Longrightarrow> value_ok 10000 j \<and> d j = Some x"
  shows "unmarshal_as d t' = Inr x"
  using assms value_ok_parse by (auto simp: stored_as_def marshal_def unmarshal_as_def split: option.splits)

definition endpoint_ok :: "Endpoint \<Rightarrow> bool" where
  "endpoint_ok e \<longleftrightarrow> utf8_ok (Endpoint_Type e) \<and> utf8_ok (Endpoint_URL e) \<and> int64 (Endpoint_Weight e)"

lemma endpoint_find:
  "find_field Endpoint_fields ''type'' = Some (field Endpoint_Type Endpoint_Type_update dec_string)"
  "find_field Endpoint_fields ''url'' = Some (field Endpoint_URL Endpoint_URL_update dec_string)"
  "find_field Endpoint_fields ''weight'' = Some (field Endpoint_Weight Endpoint_Weight_update dec_int)"
  "find_field Endpoint_fields ''isPrimary'' = Some (field Endpoint_IsPrimary Endpoint_IsPrimary_update dec_bool)"
  by (simp_all add: Endpoint_fields_def key_matches_def key_fold_def byte_def chr_def)

lemma endpoint_roundtrip:
  "endpoint_ok e \<Longrightarrow> dec_struct Endpoint_fields (Endpoint_json e) zero_Endpoint = Some e"
  unfolding Endpoint_json_def dec_struct_obj
  by (cases e)
    (auto simp: dec_members_append dec_members_omit endpoint_find zero_Endpoint_def endpoint_ok_def pick_def field_def)

lemma endpoint_value: "endpoint_ok e \<Longrightarrow> value_ok (Suc n) (Endpoint_json e)"
  by (simp add: Endpoint_json_def value_ok_obj endpoint_ok_def sdk_utf8 del: utf8_ok.simps)

definition audit_ok :: "go_env \<Rightarrow> AuditMetadata \<Rightarrow> bool" where
  "audit_ok G m \<longleftrightarrow> sorted_keys m \<and> list_all (custom_ok G) m"

lemma audit_value: "audit_ok G m \<Longrightarrow> value_ok 10000 (JObj m)"
  by (rule value_ok_mono [of 9001])
    (use value_ok_obj [of 9000] in \<open>auto simp: audit_ok_def list_all_iff custom_ok_def members_ok_def\<close>)


definition sample_caps :: "Capability slice" where
  "sample_caps = Some [zero_Capability\<lparr>Capability_Type := ''search'', Capability_Examples := Some []\<rparr>]"

definition sample_audit :: AuditMetadata where
  "sample_audit = [(''claimedTenantID'', JStr ''x''), (''route'', JStr ''/api/v1/agents'')]"

lemma stored_marshal: "stored_as (marshal (Some j)) (json_text j)"
  by (simp add: stored_as_def marshal_def)


end
