(* ===== verification/Sdk_Types.thy ===== *)
theory Sdk_Types
  imports Column_Codecs Billing
begin

text \<open>
  The vocabulary of the string enumerations, on both sides: the constant blocks of
  \<open>internal/model\<close> and of the SDK (message.go, models.go) as tables from names to values, and the
  SDK's structs, which repeat the fields and JSON names of \<open>internal/model\<close> and share its records.
\<close>

section \<open>The server's constants\<close>

definition MessageType_consts :: "(string \<times> string) list" where
  "MessageType_consts =
     [(''MessageTypeTaskRequest'', ''task.request''), (''MessageTypeTaskResponse'', ''task.response''),
      (''MessageTypeTaskStatusUpdate'', ''task.status-update''), (''MessageTypeTaskDelegate'', ''task.delegate''),
      (''MessageTypeCapabilityQuery'', ''capability.query''),
      (''MessageTypeCapabilityAdvert'', ''capability.advertise''), (''MessageTypeErrorReport'', ''error.report''),
      (''MessageTypeHeartbeat'', ''heartbeat''), (''MessageTypeGeneric'', ''generic'')]"

definition DeliveryGuarantee_consts :: "(string \<times> string) list" where
  "DeliveryGuarantee_consts =
     [(''DeliveryAtMostOnce'', ''at_most_once''), (''DeliveryAtLeastOnce'', ''at_least_once''),
      (''DeliveryExactlyOnce'', ''exactly_once'')]"

definition MessageStatus_consts :: "(string \<times> string) list" where
  "MessageStatus_consts =
     [(''MessageStatusPending'', ''pending''), (''MessageStatusSent'', ''sent''),
      (''MessageStatusDelivered'', ''delivered''), (''MessageStatusProcessed'', ''processed''),
      (''MessageStatusFailed'', ''failed''), (''MessageStatusDeadLetter'', ''dead_letter'')]"

definition DeadLetterStatus_consts :: "(string \<times> string) list" where
  "DeadLetterStatus_consts =
     [(''DeadLetterStatusPending'', ''pending''), (''DeadLetterStatusProcessed'', ''processed''),
      (''DeadLetterStatusExhausted'', ''exhausted'')]"

definition AckStatus_consts :: "(string \<times> string) list" where
  "AckStatus_consts =
     [(''AckStatusReceived'', ''received''), (''AckStatusProcessed'', ''processed''),
      (''AckStatusRejected'', ''rejected''), (''AckStatusFailed'', ''failed'')]"

definition AgentStatus_consts :: "(string \<times> string) list" where
  "AgentStatus_consts =
     [(''AgentStatusOnline'', ''online''), (''AgentStatusAway'', ''away''), (''AgentStatusBusy'', ''busy''),
      (''AgentStatusOffline'', ''offline'')]"

definition CapabilityType_consts :: "(string \<times> string) list" where
  "CapabilityType_consts =
     [(''CapabilityTextGeneration'', ''text-generation''), (''CapabilityCodeGeneration'', ''code-generation''),
      (''CapabilityImageGeneration'', ''image-generation''), (''CapabilityReasoning'', ''reasoning''),
      (''CapabilitySearch'', ''search''), (''CapabilityDataAnalysis'', ''data-analysis'')]"

definition SubType_consts :: "(string \<times> string) list" where
  "SubType_consts =
     [(''SubTypeDirect'', ''direct''), (''SubTypeCapability'', ''capability''), (''SubTypeTopic'', ''topic''),
      (''SubTypePattern'', ''pattern'')]"

definition SubStatus_consts :: "(string \<times> string) list" where
  "SubStatus_consts =
     [(''SubStatusActive'', ''active''), (''SubStatusPaused'', ''paused''),
      (''SubStatusCancelled'', ''cancelled'')]"

definition BillingEventType_consts :: "(string \<times> string) list" where
  "BillingEventType_consts =
     [(''BillingEventMessageSent'', ''message_sent''), (''BillingEventMessageReceived'', ''message_received''),
      (''BillingEventAPICall'', ''api_call''), (''BillingEventStorage'', ''storage''),
      (''BillingEventBandwidth'', ''bandwidth''), (''BillingEventSubscription'', ''subscription'')]"

definition BillingStatus_consts :: "(string \<times> string) list" where
  "BillingStatus_consts =
     [(''BillingStatusPending'', ''pending''), (''BillingStatusActive'', ''active''),
      (''BillingStatusProcessed'', ''processed''), (''BillingStatusFailed'', ''failed''),
      (''BillingStatusRefunded'', ''refunded'')]"

definition InvoiceStatus_consts :: "(string \<times> string) list" where
  "InvoiceStatus_consts =
     [(''InvoiceStatusDraft'', ''draft''), (''InvoiceStatusPending'', ''pending''),
      (''InvoiceStatusPaid'', ''paid''), (''InvoiceStatusOverdue'', ''overdue''),
      (''InvoiceStatusCancelled'', ''cancelled'')]"

definition PlanType_consts :: "(string \<times> string) list" where
  "PlanType_consts =
     [(''PlanTypeFree'', ''free''), (''PlanTypeStarter'', ''starter''),
      (''PlanTypeProfessional'', ''professional''), (''PlanTypeEnterprise'', ''enterprise'')]"

definition PlanStatus_consts :: "(string \<times> string) list" where
  "PlanStatus_consts =
     [(''PlanStatusActive'', ''active''), (''PlanStatusDeprecated'', ''deprecated'')]"

text \<open>The constants that the other theories use are those of the tables.\<close>

lemma known_constants:
  "map (map_of MessageType_consts) [''MessageTypeTaskRequest'', ''MessageTypeGeneric''] = map Some
    [MessageTypeTaskRequest, MessageTypeGeneric]"
  "map (map_of DeliveryGuarantee_consts) [''DeliveryAtMostOnce'', ''DeliveryAtLeastOnce'',
    ''DeliveryExactlyOnce''] = map Some [DeliveryAtMostOnce, DeliveryAtLeastOnce, DeliveryExactlyOnce]"
  "map (map_of MessageStatus_consts) [''MessageStatusPending'', ''MessageStatusSent'',
    ''MessageStatusDelivered'', ''MessageStatusProcessed'', ''MessageStatusFailed'', ''MessageStatusDeadLetter'']
    = map Some [MessageStatusPending, MessageStatusSent, MessageStatusDelivered, MessageStatusProcessed,
    MessageStatusFailed, MessageStatusDeadLetter]"
  "map (map_of DeadLetterStatus_consts) [''DeadLetterStatusPending'', ''DeadLetterStatusProcessed'',
    ''DeadLetterStatusExhausted''] = map Some [DeadLetterStatusPending, DeadLetterStatusProcessed,
    DeadLetterStatusExhausted]"
  "map (map_of AckStatus_consts) [''AckStatusReceived'', ''AckStatusProcessed'', ''AckStatusRejected'',
    ''AckStatusFailed''] = map Some [AckStatusReceived, AckStatusProcessed, AckStatusRejected, AckStatusFailed]"
  "map (map_of AgentStatus_consts) [''AgentStatusOnline'', ''AgentStatusAway'', ''AgentStatusBusy'',
    ''AgentStatusOffline''] = map Some [AgentStatusOnline, AgentStatusAway, AgentStatusBusy, AgentStatusOffline]"
  "map (map_of SubStatus_consts) [''SubStatusActive''] = map Some [SubStatusActive]"
  "map (map_of BillingEventType_consts) [''BillingEventMessageSent'', ''BillingEventMessageReceived'',
    ''BillingEventAPICall'', ''BillingEventStorage'', ''BillingEventBandwidth'', ''BillingEventSubscription''] =
    map Some [BillingEventMessageSent, BillingEventMessageReceived, BillingEventAPICall, BillingEventStorage,
    BillingEventBandwidth, BillingEventSubscription]"
  "map (map_of BillingStatus_consts) [''BillingStatusPending'', ''BillingStatusActive'',
    ''BillingStatusProcessed'', ''BillingStatusFailed'', ''BillingStatusRefunded''] = map Some
    [BillingStatusPending, BillingStatusActive, BillingStatusProcessed, BillingStatusFailed,
    BillingStatusRefunded]"
  "map (map_of InvoiceStatus_consts) [''InvoiceStatusDraft'', ''InvoiceStatusPending'', ''InvoiceStatusPaid'',
    ''InvoiceStatusOverdue'', ''InvoiceStatusCancelled''] = map Some [InvoiceStatusDraft, InvoiceStatusPending,
    InvoiceStatusPaid, InvoiceStatusOverdue, InvoiceStatusCancelled]"
  "map (map_of PlanType_consts) [''PlanTypeFree'', ''PlanTypeStarter'', ''PlanTypeProfessional'',
    ''PlanTypeEnterprise''] = map Some [PlanTypeFree, PlanTypeStarter, PlanTypeProfessional, PlanTypeEnterprise]"
  "map (map_of PlanStatus_consts) [''PlanStatusActive'', ''PlanStatusDeprecated''] = map Some [PlanStatusActive,
    PlanStatusDeprecated]"
  by (simp_all add: MessageType_consts_def DeliveryGuarantee_consts_def MessageStatus_consts_def DeadLetterStatus_consts_def
    AckStatus_consts_def AgentStatus_consts_def SubStatus_consts_def BillingEventType_consts_def
    BillingStatus_consts_def InvoiceStatus_consts_def PlanType_consts_def PlanStatus_consts_def
    MessageTypeTaskRequest_def MessageTypeGeneric_def DeliveryAtMostOnce_def DeliveryAtLeastOnce_def
    DeliveryExactlyOnce_def MessageStatusPending_def MessageStatusSent_def MessageStatusDelivered_def
    MessageStatusProcessed_def MessageStatusFailed_def MessageStatusDeadLetter_def DeadLetterStatusPending_def
    DeadLetterStatusProcessed_def DeadLetterStatusExhausted_def AckStatusReceived_def AckStatusProcessed_def
    AckStatusRejected_def AckStatusFailed_def AgentStatusOnline_def AgentStatusAway_def AgentStatusBusy_def
    AgentStatusOffline_def SubStatusActive_def BillingEventMessageSent_def BillingEventMessageReceived_def
    BillingEventAPICall_def BillingEventStorage_def BillingEventBandwidth_def BillingEventSubscription_def
    BillingStatusPending_def BillingStatusActive_def BillingStatusProcessed_def BillingStatusFailed_def
    BillingStatusRefunded_def InvoiceStatusDraft_def InvoiceStatusPending_def InvoiceStatusPaid_def
    InvoiceStatusOverdue_def InvoiceStatusCancelled_def PlanTypeFree_def PlanTypeStarter_def
    PlanTypeProfessional_def PlanTypeEnterprise_def PlanStatusActive_def PlanStatusDeprecated_def)

section \<open>The SDK's constants\<close>

definition SDK_MessageType_consts :: "(string \<times> string) list" where
  "SDK_MessageType_consts =
     [(''MessageTypeTaskRequest'', ''task.request''), (''MessageTypeTaskResponse'', ''task.response''),
      (''MessageTypeTaskStatusUpdate'', ''task.status-update''), (''MessageTypeTaskDelegate'', ''task.delegate''),
      (''MessageTypeCapabilityQuery'', ''capability.query''),
      (''MessageTypeCapabilityAdvert'', ''capability.advertise''), (''MessageTypeErrorReport'', ''error.report''),
      (''MessageTypeHeartbeat'', ''heartbeat''), (''MessageTypeGeneric'', ''generic'')]"

definition SDK_DeliveryGuarantee_consts :: "(string \<times> string) list" where
  "SDK_DeliveryGuarantee_consts =
     [(''DeliveryAtMostOnce'', ''at_most_once''), (''DeliveryAtLeastOnce'', ''at_least_once''),
      (''DeliveryExactlyOnce'', ''exactly_once'')]"

definition SDK_MessageStatus_consts :: "(string \<times> string) list" where
  "SDK_MessageStatus_consts =
     [(''MessageStatusPending'', ''pending''), (''MessageStatusSent'', ''sent''),
      (''MessageStatusDelivered'', ''delivered''), (''MessageStatusProcessed'', ''processed''),
      (''MessageStatusFailed'', ''failed'')]"

definition SDK_AckStatus_consts :: "(string \<times> string) list" where
  "SDK_AckStatus_consts =
     [(''AckStatusReceived'', ''received''), (''AckStatusProcessed'', ''processed''),
      (''AckStatusRejected'', ''rejected''), (''AckStatusFailed'', ''failed'')]"

definition SDK_SubType_consts :: "(string \<times> string) list" where
  "SDK_SubType_consts =
     [(''SubTypeDirect'', ''direct''), (''SubTypeCapability'', ''capability''), (''SubTypeTopic'', ''topic''),
      (''SubTypePattern'', ''pattern'')]"

definition SDK_SubStatus_consts :: "(string \<times> string) list" where
  "SDK_SubStatus_consts =
     [(''SubStatusActive'', ''active''), (''SubStatusPaused'', ''paused''),
      (''SubStatusCancelled'', ''cancelled'')]"

definition SDK_AgentStatus_consts :: "(string \<times> string) list" where
  "SDK_AgentStatus_consts =
     [(''AgentStatusOnline'', ''online''), (''AgentStatusAway'', ''away''), (''AgentStatusBusy'', ''busy''),
      (''AgentStatusOffline'', ''offline'')]"

definition SDK_CapabilityType_consts :: "(string \<times> string) list" where
  "SDK_CapabilityType_consts =
     [(''CapabilityTextGeneration'', ''text-generation''), (''CapabilityCodeGeneration'', ''code-generation''),
      (''CapabilityImageGeneration'', ''image-generation''), (''CapabilityReasoning'', ''reasoning''),
      (''CapabilitySearch'', ''search''), (''CapabilityDataAnalysis'', ''data-analysis'')]"

text \<open>
  Both sides spell every name that they share in the same way, and the SDK knows every value of
  the enumerations it declares but the status of a dead letter.
\<close>

lemma sdk_vocabulary:
  "SDK_MessageType_consts = MessageType_consts"
  "SDK_DeliveryGuarantee_consts = DeliveryGuarantee_consts"
  "SDK_AckStatus_consts = AckStatus_consts"
  "SDK_SubType_consts = SubType_consts"
  "SDK_SubStatus_consts = SubStatus_consts"
  "SDK_AgentStatus_consts = AgentStatus_consts"
  "SDK_CapabilityType_consts = CapabilityType_consts"
  "SDK_MessageStatus_consts = filter (\<lambda>c. snd c \<noteq> MessageStatusDeadLetter) MessageStatus_consts"
    by (simp_all add: MessageStatusDeadLetter_def SDK_MessageType_consts_def MessageType_consts_def
    SDK_DeliveryGuarantee_consts_def DeliveryGuarantee_consts_def SDK_MessageStatus_consts_def
    MessageStatus_consts_def SDK_AckStatus_consts_def AckStatus_consts_def SDK_SubType_consts_def
    SubType_consts_def SDK_SubStatus_consts_def SubStatus_consts_def SDK_AgentStatus_consts_def
    AgentStatus_consts_def SDK_CapabilityType_consts_def CapabilityType_consts_def)

section \<open>The SDK's structs\<close>

type_synonym SDK_MessageMetadata = MessageMetadata
type_synonym SDK_RoutingHints = RoutingHints
type_synonym SDK_TaskContext = TaskContext
type_synonym SDK_RetryPolicy = RetryPolicy
type_synonym SDK_Acknowledgement = Acknowledgement
type_synonym SDK_SendResult = SendResult
type_synonym SDK_SubscriptionFilter = SubscriptionFilter
type_synonym SDK_Capabilities = "Capability slice"
type_synonym SDK_Endpoints = "Endpoint slice"

definition SDK_Capabilities_Value :: "SDK_Capabilities \<Rightarrow> bytes result" where
  "SDK_Capabilities_Value c = marshal (Some (enc_slice Capability_json c))"

definition SDK_Capabilities_Scan :: "go_env \<Rightarrow> driver_value \<Rightarrow> SDK_Capabilities \<Rightarrow> SDK_Capabilities result option" where
  "SDK_Capabilities_Scan G v c = scan_bytes (unmarshal_as (\<lambda>j. dec_capabilities G j c)) v"

definition SDK_Endpoints_Value :: "SDK_Endpoints \<Rightarrow> bytes result" where
  "SDK_Endpoints_Value e = marshal (Some (enc_slice Endpoint_json e))"

definition SDK_Endpoints_Scan :: "driver_value \<Rightarrow> SDK_Endpoints \<Rightarrow> SDK_Endpoints result option" where
  "SDK_Endpoints_Scan v e = scan_bytes (unmarshal_as (\<lambda>j. dec_slice (dec_struct Endpoint_fields) zero_Endpoint j e)) v"

definition SDK_TaskContext_Value :: "go_env \<Rightarrow> SDK_TaskContext \<Rightarrow> bytes result" where
  "SDK_TaskContext_Value G t = marshal (TaskContext_json G t)"

definition SDK_TaskContext_Scan :: "go_env \<Rightarrow> driver_value \<Rightarrow> SDK_TaskContext \<Rightarrow> SDK_TaskContext result option" where
  "SDK_TaskContext_Scan G v t = scan_bytes (unmarshal_as (\<lambda>j. TaskContext_of_json G j t)) v"

text \<open>What the server wrote in a column the SDK reads, and the other way round.\<close>

lemma sdk_columns:
  "SDK_Capabilities_Value = Capabilities_Value" "SDK_Capabilities_Scan = Capabilities_Scan"
  "SDK_Endpoints_Value = Endpoints_Value" "SDK_Endpoints_Scan = Endpoints_Scan"
  "SDK_TaskContext_Value = TaskContext_Value" "SDK_TaskContext_Scan = TaskContext_Scan"
  by (intro ext, simp add: SDK_Capabilities_Value_def Capabilities_Value_def SDK_Capabilities_Scan_def Capabilities_Scan_def
      SDK_Endpoints_Value_def Endpoints_Value_def SDK_Endpoints_Scan_def Endpoints_Scan_def SDK_TaskContext_Value_def
      TaskContext_Value_def SDK_TaskContext_Scan_def TaskContext_Scan_def)+

end
