(* ===== verification/Sdk_Examples.thy ===== *)
theory Sdk_Examples
  imports Sdk_Contract Sdk_Types Config
begin

text \<open>
  The example programs of the SDK, \<open>sdk/go/agentmsg/examples\<close>, over a client's transport and a
  source of UUIDs, and what becomes of them against the server of this repository. What they
  print is left out; a returned error is the text it is wrapped in and the SDK's error.
\<close>

section \<open>What the examples share\<close>

type_synonym example_error = "string \<times> sdk_error"

text \<open>The configuration, with the callbacks that only the first example sets.\<close>

definition example_config ::
    "environ \<Rightarrow> uuid \<Rightarrow> uuid \<Rightarrow> ('w, unit) io option \<Rightarrow> (go_error \<Rightarrow> ('w, unit) io) option \<Rightarrow> 'w ClientConfig" where
  "example_config E agentID tenantID onConnect onError =
     \<lparr>CC_APIKey = (let apiKey = E ''AGENTMSG_API_KEY'' in if apiKey = [] then ''test-api-key'' else apiKey),
      CC_AgentID = agentID, CC_TenantID = tenantID, CC_BaseURL = ''http://localhost:8080'', CC_WSURL = [],
      CC_Timeout = 30 * Second, CC_OnMessage = None, CC_OnError = onError, CC_OnConnect = onConnect, CC_OnDisconnect = None\<rparr>"

text \<open>A client that connects, the calls of the example, and the deferred \<open>Disconnect\<close>.\<close>

definition with_client ::
    "'w http_transport \<Rightarrow> 'w ClientConfig \<Rightarrow> ('w Client \<Rightarrow> ('w, example_error + unit) io) \<Rightarrow> ('w, example_error + unit) io" where
  "with_client T config calls = (case NewClient (Some config) of
     Inl e \<Rightarrow> ret (Inl (''failed to create client'', e))
   | Inr client \<Rightarrow> do {
       r \<leftarrow> Client_Connect T client;
       (case r of
          Inl e \<Rightarrow> ret (Inl (''failed to connect'', e))
        | Inr _ \<Rightarrow> do { x \<leftarrow> calls client; _ \<leftarrow> Client_Disconnect client; ret x })
     })"

section \<open>basic_example\<close>

definition example_agent :: "go_env \<Rightarrow> uuid \<Rightarrow> SDK_Agent" where
  "example_agent G agentID = zero_Agent\<lparr>Agent_ID := agentID, Agent_DID := ''did:agent:'' @ uuid_String G agentID,
     Agent_Name := ''example-agent'',
     Agent_Capabilities := Some [zero_Capability\<lparr>Capability_Type := ''text-generation'', Capability_Description := ''Text generation capability'',
       Capability_Examples := Some [''generate story'', ''write poem'']\<rparr>]\<rparr>"

definition text_message :: "uuid \<Rightarrow> uuid \<Rightarrow> string \<Rightarrow> DeliveryGuarantee \<Rightarrow> SDK_Message" where
  "text_message conversation recipient content guarantee = zero_Message\<lparr>Message_ConversationID := conversation,
     Message_MessageType := MessageTypeGeneric, Message_RecipientIDs := Some [recipient], Message_Content := Some content,
     Message_ContentType := ''text/plain'', Message_DeliveryGuarantee := guarantee\<rparr>"

text \<open>A registration that fails is only logged.\<close>

definition basic_calls ::
    "go_env \<Rightarrow> 'w runtime \<Rightarrow> 'w http_transport \<Rightarrow> uuid \<Rightarrow> 'w Client \<Rightarrow> ('w, example_error + unit) io" where
  "basic_calls G R T agentID client = do {
     (agent, err) \<leftarrow> Client_RegisterAgent G T client (example_agent G agentID);
     r \<leftarrow> Client_ListAgents G T client;
     (case r of
        Inl e \<Rightarrow> ret (Inl (''failed to list agents'', e))
      | Inr agents \<Rightarrow> do {
          conversation \<leftarrow> uuid_New R;
          s \<leftarrow> Client_SendMessage G R T client
                 (Some (text_message conversation agentID ''Hello, World!'' DeliveryAtLeastOnce));
          ret (case s of Inl e \<Rightarrow> Inl (''failed to send message'', e) | Inr result \<Rightarrow> Inr ())
        })
   }"

definition basic_example :: "go_env \<Rightarrow> 'w runtime \<Rightarrow> 'w http_transport \<Rightarrow> environ \<Rightarrow> ('w, example_error + unit) io" where
  "basic_example G R T E = do {
     agentID \<leftarrow> uuid_New R;
     tenantID \<leftarrow> uuid_New R;
     with_client T (example_config E agentID tenantID (Some (ret ())) (Some (\<lambda>err. ret ()))) (basic_calls G R T agentID)
   }"

section \<open>exactly_once_example\<close>

text \<open>An error is only logged.\<close>

definition sendMessageWithIdempotency ::
    "go_env \<Rightarrow> 'w runtime \<Rightarrow> 'w http_transport \<Rightarrow> 'w Client \<Rightarrow> string \<Rightarrow> ('w, unit) io" where
  "sendMessageWithIdempotency G R T client content = do {
     conversation \<leftarrow> uuid_New R;
     recipient \<leftarrow> uuid_New R;
     _ \<leftarrow> Client_SendMessage G R T client (Some (text_message conversation recipient content DeliveryExactlyOnce));
     ret ()
   }"

definition runExactlyOnceExample :: "go_env \<Rightarrow> 'w runtime \<Rightarrow> 'w http_transport \<Rightarrow> environ \<Rightarrow> ('w, example_error + unit) io" where
  "runExactlyOnceExample G R T E = do {
     agentID \<leftarrow> uuid_New R;
     tenantID \<leftarrow> uuid_New R;
     with_client T (example_config E agentID tenantID None None) (\<lambda>client. do {
       for_io (sendMessageWithIdempotency G R T client) (replicate 3 ''This message will be delivered exactly once'');
       ret (Inr ())
     })
   }"

section \<open>capability_discovery_example\<close>

definition runCapabilityDiscoveryExample ::
    "go_env \<Rightarrow> 'w runtime \<Rightarrow> 'w http_transport \<Rightarrow> environ \<Rightarrow> ('w, example_error + unit) io" where
  "runCapabilityDiscoveryExample G R T E = do {
     agentID \<leftarrow> uuid_New R;
     tenantID \<leftarrow> uuid_New R;
     with_client T (example_config E agentID tenantID None None) (\<lambda>client. do {
       r \<leftarrow> Client_QueryCapabilities G T client (Some [''text-generation'', ''code-generation'']);
       ret (case r of Inl e \<Rightarrow> Inl (''failed to query capabilities'', e) | Inr agents \<Rightarrow> Inr ())
     })
   }"
section \<open>The examples against the server\<close>

lemma example_message_ok:
  assumes "guarantee = DeliveryAtLeastOnce \<or> guarantee = DeliveryExactlyOnce"
  shows "message_ok G (text_message conversation recipient content guarantee)"
proof -
  have "utf8_ok ''generic''" "utf8_ok ''text/plain''" "utf8_ok ''at_least_once''" "utf8_ok ''exactly_once''" "utf8_ok []"
    by code_simp+
  then show ?thesis
    using assms by (auto simp: message_ok_def text_message_def zero_Message_def zero_MessageMetadata_def metadata_ok_def int64_def
        MessageTypeGeneric_def DeliveryAtLeastOnce_def DeliveryExactlyOnce_def simp del: utf8_ok.simps)
qed

lemma yields_with_client:
  assumes "\<And>e. P (Inl e)" "\<And>c. NewClient (Some config) = Inr c \<Longrightarrow> yields P (calls c)"
  shows "yields P (with_client T config calls)"
  unfolding with_client_def
  by (intro yields_sum yields_then yields_ret assms(1) yields_bind [OF assms(2)]) (assumption | rule yields_then yields_ret)+

lemma example_client: "NewClient (Some (example_config E a t f g)) = Inr c \<Longrightarrow> CC_BaseURL (Client_config c) = ''http://localhost:8080''"
  by (auto simp: NewClient_def example_config_def Let_def Second_def)

text \<open>
  The basic example cannot succeed against this server, whoever runs it: its last call sends a
  message, which the server refuses.
\<close>

theorem basic_example_fails:
  assumes "codec G" "\<And>q. Req_Method (recv q) = HQ_Method q \<and> Req_Body (recv q) = HQ_Body q"
    and "\<And>q. HQ_URL q = ''http://localhost:8080/api/v1/messages'' \<Longrightarrow> Req_FullPath (recv q) = ''/api/v1/messages''"
  shows "yields (\<lambda>r. \<exists>e. r = Inl e)
    (basic_example G R (server_transport (NewServer G R spanTraceID spec deps) recv render) E)"
proof -
  let ?T = "server_transport (NewServer G R spanTraceID spec deps) recv render"
  have calls: "yields (\<lambda>r. \<exists>e. r = Inl e) (basic_calls G R ?T agentID c)"
    if "CC_BaseURL (Client_config c) = ''http://localhost:8080''" for agentID c
  proof -
    have send: "yields (\<lambda>r. \<exists>e. r = Inl e) (Client_SendMessage G R ?T c (Some (text_message u agentID x DeliveryAtLeastOnce)))" for u x
      by (rule client_send_refused [OF assms(1) example_message_ok assms(2)]) (use that assms(3) in simp_all)
    show ?thesis
      unfolding basic_calls_def
      by (intro yields_then yields_prod yields_sum yields_ret yields_bind [OF send]) auto
  qed
  show ?thesis
    unfolding basic_example_def by (intro yields_then yields_with_client calls example_client) auto
qed

section \<open>What the exactly-once example sends\<close>

text \<open>A world of UUIDs and answers that records the requests of a client.\<close>

record example_world =
  EX_uuids :: "nat \<Rightarrow> uuid"
  EX_drawn :: nat
  EX_answer :: "nat \<Rightarrow> http_response result"
  EX_sent :: "http_request list"

definition example_rt :: "example_world runtime" where
  "example_rt = \<lparr>time_Now = ret 0, uuid_New = State (\<lambda>w. (EX_uuids w (EX_drawn w), w\<lparr>EX_drawn := EX_drawn w + 1\<rparr>)),
     counter_Inc = (\<lambda>c l. ret ()), histogram_Observe = (\<lambda>c l d. ret ())\<rparr>"

definition recorder :: "example_world http_transport" where
  "recorder = \<lparr>HT_ParseURL = (\<lambda>_. Inr ()),
     HT_Do = (\<lambda>timeout q. State (\<lambda>w. (EX_answer w (length (EX_sent w)), w\<lparr>EX_sent := EX_sent w @ [q]\<rparr>)))\<rparr>"

lemma run_recorder:
  "run_state (uuid_New example_rt) w = (EX_uuids w (EX_drawn w), w\<lparr>EX_drawn := EX_drawn w + 1\<rparr>)"
  "HT_ParseURL recorder u = Inr ()"
  "run_state (HT_Do recorder d q) w = (EX_answer w (length (EX_sent w)), w\<lparr>EX_sent := EX_sent w @ [q]\<rparr>)"
  by (simp_all add: example_rt_def recorder_def)

definition once_text :: string where
  "once_text = ''This message will be delivered exactly once''"

definition once_message :: "'w Client \<Rightarrow> uuid \<Rightarrow> uuid \<Rightarrow> SDK_Message" where
  "once_message c conversation recipient = (text_message conversation recipient once_text DeliveryExactlyOnce)\<lparr>
     Message_SenderID := CC_AgentID (Client_config c), Message_TenantID := CC_TenantID (Client_config c)\<rparr>"

text \<open>One send records one request, whatever the answer.\<close>

definition post_message :: "'w Client \<Rightarrow> json \<Rightarrow> http_request" where
  "post_message c j = \<lparr>HQ_Method = ''POST'', HQ_URL = CC_BaseURL (Client_config c) @ ''/api/v1/messages'',
     HQ_Headers = [(''Content-Type'', ''application/json''), (''Authorization'', ''Bearer '' @ CC_APIKey (Client_config c))],
     HQ_Body = json_text j\<rparr>"

lemma run_once:
  assumes "Message_json G (once_message c (EX_uuids w (EX_drawn w)) (EX_uuids w (EX_drawn w + 1))) = Some j"
    and "EX_uuids w (EX_drawn w) \<noteq> uuid_Nil"
  shows "run_state (sendMessageWithIdempotency G example_rt recorder c once_text) w =
     ((), w\<lparr>EX_drawn := EX_drawn w + 2, EX_sent := EX_sent w @ [post_message c j]\<rparr>)"
  using assms
  by (simp add: sendMessageWithIdempotency_def run_recorder Client_SendMessage_def identified_message_def text_message_def
      once_message_def marshal_def sdk_try_def api_call_def zero_Message_def post_message_def Let_def split: sum.split)

lemma once_json:
  assumes "time_Text G 0 = Some z"
  shows "\<exists>j. Message_json G (once_message c u v) = Some j"
  using assms by (simp add: Message_json_def once_message_def text_message_def zero_Message_def enc_ptr_opt_def enc_time_def enc_time_opt_def)

text \<open>
  What the exactly-once example asks for is not what it gets: its three sends of one text are
  three unrelated messages. None has an identifier, and each has a conversation and a recipient
  of its own, so that nothing in the requests, which are all it sends after the health check,
  tells the server that a message is repeated; and the run succeeds whatever is answered to them.
\<close>
theorem exactly_once_example_repeats:
  assumes "time_Text G 0 = Some z" "distinct (uuid_Nil # map (EX_uuids w) [EX_drawn w..<EX_drawn w + 8])" "EX_sent w = []"
    and "EX_answer w 0 = Inr resp" "HR_StatusCode resp = 200"
    and "run_state (runExactlyOnceExample G example_rt recorder E) w = (r, w')"
  shows "r = Inr () \<and> (\<exists>ms. map HQ_Body (EX_sent w') = [] # map (\<lambda>m. json_text (the (Message_json G m))) ms \<and>
    length ms = 3 \<and> (\<forall>m \<in> set ms. Message_ID m = uuid_Nil \<and> Message_Content m = Some once_text) \<and>
    distinct (map Message_ConversationID ms) \<and> distinct (map Message_RecipientIDs ms))"
proof -
  let ?u = "EX_uuids w" and ?n = "EX_drawn w"
  have drawn: "?u (?n + k) \<noteq> uuid_Nil" "?u (?n + k) = ?u (?n + k') \<longleftrightarrow> k = k'" if "k < 8" "k' < 8" for k k'
  proof -
    have range: "?n + k \<in> {?n..<?n + 8}" "?n + k' \<in> {?n..<?n + 8}" and inj: "inj_on ?u {?n..<?n + 8}" "uuid_Nil \<notin> ?u ` {?n..<?n + 8}"
      using assms(2) that by (simp_all add: distinct_map)
    show "?u (?n + k) \<noteq> uuid_Nil" using range(1) inj(2) by (metis imageI)
    show "?u (?n + k) = ?u (?n + k') \<longleftrightarrow> k = k'" using inj_on_eq_iff [OF inj(1) range] by simp
  qed
  obtain c :: "example_world Client" where c: "NewClient (Some (example_config E (?u ?n) (?u (?n + 1)) None None)) = Inr c" "CC_OnConnect (Client_config c) = None"
      "CC_OnDisconnect (Client_config c) = None"
    by (simp add: NewClient_def example_config_def Let_def Second_def)
  define m where "m k = once_message c (?u (?n + k)) (?u (?n + k + 1))" for k
  define j where "j k = the (Message_json G (m k))" for k
  have j: "Message_json G (m k) = Some (j k)" for k
    using once_json [OF assms(1)] unfolding j_def m_def by (metis option.sel)
  define health where "health = \<lparr>HQ_Method = ''GET'', HQ_URL = CC_BaseURL (Client_config c) @ ''/health'', HQ_Headers = [], HQ_Body = []\<rparr>"
  define st where "st k qs = w\<lparr>EX_drawn := ?n + k, EX_sent := qs\<rparr>" for k qs
  have step: "run_state (sendMessageWithIdempotency G example_rt recorder c once_text) (st k qs) = ((), st (k + 2) (qs @ [post_message c (j k)]))"
    if "k < 8" for k qs
    using run_once [of G c "w\<lparr>EX_drawn := ?n + k, EX_sent := qs\<rparr>" "j k"] j [of k] drawn(1) [OF that that]
    by (simp add: m_def st_def)
  have start: "run_state (uuid_New example_rt) w = (?u ?n, w\<lparr>EX_drawn := ?n + 1\<rparr>)"
      "run_state (uuid_New example_rt) (w\<lparr>EX_drawn := ?n + 1\<rparr>) = (?u (?n + 1), w\<lparr>EX_drawn := ?n + 2\<rparr>)"
    by (simp_all add: run_recorder)
  have connect: "run_state (Client_Connect recorder c) (w\<lparr>EX_drawn := ?n + 2\<rparr>) = (Inr (), st 2 [health])"
    using assms(3,4,5) c(2) by (simp add: Client_Connect_def run_recorder health_def st_def)
  have three: "replicate 3 x = [x, x, x]" for x :: string by (simp add: numeral_3_eq_3)
  have "run_state (runExactlyOnceExample G example_rt recorder E) w =
      (Inr (), st 8 [health, post_message c (j 2), post_message c (j 4), post_message c (j 6)])"
    by (simp add: runExactlyOnceExample_def with_client_def start [simplified] connect [simplified] c [simplified] step Client_Disconnect_def
        once_text_def [symmetric] three)
  then have run: "r = Inr ()" "EX_sent w' = [health, post_message c (j 2), post_message c (j 4), post_message c (j 6)]"
    using assms(6) by (auto simp: st_def)
  have ms: "length [m 2, m 4, m 6] = 3" "distinct (map Message_ConversationID [m 2, m 4, m 6])"
      "distinct (map Message_RecipientIDs [m 2, m 4, m 6])"
      "\<forall>x \<in> set [m 2, m 4, m 6]. Message_ID x = uuid_Nil \<and> Message_Content x = Some once_text"
    by (simp_all add: m_def once_message_def text_message_def zero_Message_def add.assoc drawn(2) del: add_2_eq_Suc' add_Suc_right)
  have bodies: "map HQ_Body (EX_sent w') = [] # map (\<lambda>m. json_text (the (Message_json G m))) [m 2, m 4, m 6]"
    by (simp add: run j post_message_def health_def)
  show ?thesis by (intro conjI run(1) exI [of _ "[m 2, m 4, m 6]"] bodies ms)
qed

lemma exactly_once_example_repeats_witness:
  "let w = \<lparr>EX_uuids = (\<lambda>n. of_nat n + 1), EX_drawn = 0, EX_answer = (\<lambda>n. Inr \<lparr>HR_StatusCode = 200, HR_Body = Inr []\<rparr>), EX_sent = []\<rparr>
   in fst (run_state (runExactlyOnceExample reference_env example_rt recorder (\<lambda>_. [])) w) = Inr ()"
proof -
  define w where "w = \<lparr>EX_uuids = (\<lambda>n. of_nat n + 1), EX_drawn = 0,
    EX_answer = (\<lambda>n. Inr \<lparr>HR_StatusCode = 200, HR_Body = Inr []\<rparr>), EX_sent = []\<rparr>"
  obtain z where z: "time_Text reference_env 0 = Some z"
  proof -
    have "rfc3339_Text 0 \<noteq> None" by (simp add: rfc3339_Text_def year_of_small month_days_def)
    then show thesis using that by (auto simp: reference_time)
  qed
  have drawn: "distinct (uuid_Nil # map (EX_uuids w) [EX_drawn w..<EX_drawn w + 8])" unfolding w_def by code_simp
  obtain r w' where run: "run_state (runExactlyOnceExample reference_env example_rt recorder (\<lambda>_. [])) w = (r, w')" by fastforce
  have "r = Inr ()"
    using exactly_once_example_repeats [OF z drawn _ _ _ run] by (simp add: w_def)
  then show ?thesis using run by (simp add: w_def [symmetric])
qed

end
