(* ===== verification/Sdk_Websocket.thy ===== *)
theory Sdk_Websocket
  imports Sdk_Client "HOL-Library.Multiset"
begin

text \<open>
  The WebSocket client of the SDK, sdk/go/agentmsg/websocket.go. Its goroutines interleave:
  the read loops are a multiset of the points they stand at, and every step between two
  critical sections is a transition. Connections are numbered in the order of their dials;
  a \<open>json.RawMessage\<close> is the value whose text it is.
\<close>

section \<open>Messages\<close>

record WSMessage =
  WS_Type :: string
  WS_Data :: json

definition WSMessage_json :: "WSMessage \<Rightarrow> json" where
  "WSMessage_json m = JObj [(''type'', JStr (WS_Type m)), (''data'', WS_Data m)]"

definition WSMessage_fields :: "(string \<times> (json \<Rightarrow> WSMessage \<Rightarrow> WSMessage option)) list" where
  "WSMessage_fields =
   [(''type'', field WS_Type WS_Type_update dec_string), (''data'', field WS_Data WS_Data_update (\<lambda>j _. Some j))]"

definition read_ws :: "bytes \<Rightarrow> WSMessage option" where
  "read_ws = Unmarshal_struct WSMessage_fields \<lparr>WS_Type = [], WS_Data = JNull\<rparr>"

section \<open>State\<close>

text \<open>Where a goroutine of \<open>readLoop\<close> stands: at \<open>ReadMessage\<close>, past \<open>canReconnect\<close>, or past the
  count of the retry, in its backoff or dial.\<close>

datatype read_pc = Reading | Retrying | Dialing

record 'w WebSocketClient =
  WSC_config :: "'w ClientConfig"
  WSC_conn :: "nat option"
  WSC_dials :: nat
  WSC_readers :: "read_pc multiset"
  WSC_writers :: nat
  WSC_recv :: "WSMessage list"
  WSC_doneClosed :: bool
  WSC_shouldReconnect :: bool
  WSC_maxRetries :: int
  WSC_retries :: int

definition NewWebSocketClient :: "'w ClientConfig \<Rightarrow> 'w WebSocketClient" where
  "NewWebSocketClient config = \<lparr>WSC_config = config, WSC_conn = None, WSC_dials = 0, WSC_readers = {#}, WSC_writers = 0,
     WSC_recv = [], WSC_doneClosed = False, WSC_shouldReconnect = False, WSC_maxRetries = 5, WSC_retries = 0\<rparr>"

definition websocket_url :: "go_env \<Rightarrow> 'w ClientConfig \<Rightarrow> string" where
  "websocket_url G config = CC_WSURL config @ ''/ws?agent_id='' @ uuid_String G (CC_AgentID config) @ ''&tenant_id='' @
     uuid_String G (CC_TenantID config)"

text \<open>\<open>Connect\<close> from the result of the dial on: the connection, both flags, and two goroutines.\<close>

definition connect_with :: "unit result \<Rightarrow> 'w WebSocketClient \<Rightarrow> unit result \<times> 'w WebSocketClient" where
  "connect_with dial c =
     (let c = c\<lparr>WSC_dials := WSC_dials c + 1\<rparr>
      in case dial of
           Inl e \<Rightarrow> (Inl (OtherError (''websocket dial failed: '' @ err_Error e)), c)
         | Inr _ \<Rightarrow> (Inr (), c\<lparr>WSC_conn := Some (WSC_dials c), WSC_shouldReconnect := True, WSC_retries := 0,
             WSC_readers := add_mset Reading (WSC_readers c), WSC_writers := WSC_writers c + 1\<rparr>))"

text \<open>\<open>dial\<close> is \<open>DialContext\<close>, given the URL and the header.\<close>

definition WebSocketClient_Connect ::
  "go_env \<Rightarrow> (string \<Rightarrow> (string \<times> string) list \<Rightarrow> unit result) \<Rightarrow> 'w WebSocketClient \<Rightarrow> unit result \<times> 'w WebSocketClient" where
  "WebSocketClient_Connect G dial c =
     connect_with (dial (websocket_url G (WSC_config c)) [(''Authorization'', ''Bearer '' @ CC_APIKey (WSC_config c))]) c"

text \<open>\<open>Close\<close> panics (\<open>None\<close>) when the channel is closed already.\<close>

definition WebSocketClient_Close :: "'w WebSocketClient \<Rightarrow> 'w WebSocketClient option" where
  "WebSocketClient_Close c =
     (if WSC_doneClosed c then None else Some (c\<lparr>WSC_shouldReconnect := False, WSC_doneClosed := True\<rparr>))"

definition WebSocketClient_canReconnect :: "'w WebSocketClient \<Rightarrow> bool" where
  "WebSocketClient_canReconnect c \<longleftrightarrow> WSC_shouldReconnect c \<and> WSC_retries c < WSC_maxRetries c"

definition reconnect_backoff :: "int \<Rightarrow> duration" where
  "reconnect_backoff retries =
     (let backoff = wrap64 (retries * Second) in if backoff > 30 * Second then 30 * Second else backoff)"

section \<open>Sending and reading\<close>

text \<open>\<open>WriteMessage\<close> on a connection is the parameter \<open>wr\<close>, \<open>ReadMessage\<close> under a deadline \<open>rd\<close>;
  a value to send is its JSON form, \<open>None\<close> when it has none.\<close>

definition WebSocketClient_Send :: "(nat \<Rightarrow> bytes \<Rightarrow> unit result) \<Rightarrow> 'w WebSocketClient \<Rightarrow> WSMessage \<Rightarrow> unit result" where
  "WebSocketClient_Send wr c msg =
     (case WSC_conn c of
        None \<Rightarrow> Inl (OtherError ''connection is nil'')
      | Some conn \<Rightarrow> wr conn (json_text (WSMessage_json msg)))"

definition WebSocketClient_SendMessage ::
  "(nat \<Rightarrow> bytes \<Rightarrow> unit result) \<Rightarrow> 'w WebSocketClient \<Rightarrow> string \<Rightarrow> json option \<Rightarrow> unit result" where
  "WebSocketClient_SendMessage wr c msgType data =
     (case data of
        None \<Rightarrow> Inl encode_error
      | Some rawData \<Rightarrow> WebSocketClient_Send wr c \<lparr>WS_Type = msgType, WS_Data = rawData\<rparr>)"

definition SendTextMessage :: "(bytes \<Rightarrow> unit result) \<Rightarrow> string \<Rightarrow> json option \<Rightarrow> unit result" where
  "SendTextMessage wr msgType data =
     (case data of
        None \<Rightarrow> Inl encode_error
      | Some v \<Rightarrow> wr (json_text (JObj [(''data'', v), (''type'', JStr msgType)])))"

definition ReadWSMessage :: "(duration \<Rightarrow> bytes result) \<Rightarrow> duration \<Rightarrow> WSMessage result" where
  "ReadWSMessage rd timeout =
     (case rd timeout of
        Inl e \<Rightarrow> Inl e
      | Inr data \<Rightarrow> (case read_ws data of None \<Rightarrow> Inl decode_error | Some msg \<Rightarrow> Inr msg))"

record IdempotencyKey =
  IK_Key :: string
  IK_MessageID :: uuid
  IK_CreatedAt :: time
  IK_ExpiresAt :: time

section \<open>Transitions\<close>

text \<open>
  The steps of \<open>readLoop\<close> with \<open>reconnectLoop\<close> (whose \<open>Connect\<close> starts further loops), of
  \<open>writeLoop\<close> (nothing is ever put on \<open>sendCh\<close>, so it waits for the end), of the goroutine of
  \<open>OnMessage\<close>, and of \<open>Close\<close>. A read loop whose channel is full waits for room or the end.
\<close>

definition reader_to :: "read_pc \<Rightarrow> read_pc \<Rightarrow> 'w WebSocketClient \<Rightarrow> 'w WebSocketClient" where
  "reader_to a b c = c\<lparr>WSC_readers := add_mset b (WSC_readers c - {#a#})\<rparr>"

definition reader_exit :: "'w WebSocketClient \<Rightarrow> 'w WebSocketClient" where
  "reader_exit c = c\<lparr>WSC_readers := WSC_readers c - {#Reading#}\<rparr>"

datatype ws_event =
    Frame_read bytes
  | Handled WSMessage
  | Read_broken
  | Gave_up
  | Retry_counted
  | Dial_succeeded
  | Dial_failed go_error
  | Reader_stopped
  | Writer_stopped
  | Closed

inductive ws_step :: "ws_event \<Rightarrow> 'w WebSocketClient \<Rightarrow> 'w WebSocketClient \<Rightarrow> bool" where
  frame_bad: "Reading \<in># WSC_readers c \<Longrightarrow> read_ws data = None \<Longrightarrow> ws_step (Frame_read data) c c"
| frame: "Reading \<in># WSC_readers c \<Longrightarrow> read_ws data = Some m \<Longrightarrow> length (WSC_recv c) < 100 \<Longrightarrow>
    ws_step (Frame_read data) c (c\<lparr>WSC_recv := WSC_recv c @ [m]\<rparr>)"
| handled: "WSC_recv c = m # ms \<Longrightarrow> ws_step (Handled m) c (c\<lparr>WSC_recv := ms\<rparr>)"
| retry: "Reading \<in># WSC_readers c \<Longrightarrow> WebSocketClient_canReconnect c \<Longrightarrow> ws_step Read_broken c (reader_to Reading Retrying c)"
| give_up: "Reading \<in># WSC_readers c \<Longrightarrow> \<not> WebSocketClient_canReconnect c \<Longrightarrow> ws_step Gave_up c (reader_exit c)"
| counted: "Retrying \<in># WSC_readers c \<Longrightarrow>
    ws_step Retry_counted c (reader_to Retrying Dialing (c\<lparr>WSC_retries := WSC_retries c + 1\<rparr>))"
| dial_ok: "Dialing \<in># WSC_readers c \<Longrightarrow>
    ws_step Dial_succeeded c (reader_to Dialing Reading (snd (connect_with (Inr ()) c)))"
| dial_failed: "Dialing \<in># WSC_readers c \<Longrightarrow>
    ws_step (Dial_failed e) c (reader_to Dialing Reading (snd (connect_with (Inl e) c)))"
| stopped: "Reading \<in># WSC_readers c \<Longrightarrow> WSC_doneClosed c \<Longrightarrow> ws_step Reader_stopped c (reader_exit c)"
| writer_stopped: "0 < WSC_writers c \<Longrightarrow> WSC_doneClosed c \<Longrightarrow>
    ws_step Writer_stopped c (c\<lparr>WSC_writers := WSC_writers c - 1\<rparr>)"
| closed: "WebSocketClient_Close c = Some c' \<Longrightarrow> ws_step Closed c c'"

inductive ws_run :: "'w WebSocketClient \<Rightarrow> ws_event list \<Rightarrow> 'w WebSocketClient \<Rightarrow> bool" where
  ws_nil: "ws_run c [] c"
| ws_cons: "ws_step e c c' \<Longrightarrow> ws_run c' es c'' \<Longrightarrow> ws_run c (e # es) c''"

inductive_cases ws_stepE: "ws_step e c c'"
inductive_cases ws_runE: "ws_run c [] c'" "ws_run c (e # es) c'"

lemmas ws_defs = reader_to_def reader_exit_def connect_with_def WebSocketClient_Close_def Let_def

definition connected :: "'w WebSocketClient \<Rightarrow> bool" where
  "connected c \<longleftrightarrow> WSC_readers c = {#Reading#} \<and> WSC_writers c = 1 \<and> \<not> WSC_doneClosed c \<and> WSC_retries c = 0 \<and> WSC_maxRetries c = 5"

section \<open>Losing the connection\<close>

text \<open>How many more transitions one read loop has before it ends, when no dial succeeds.\<close>

definition steps_left :: "'w WebSocketClient \<Rightarrow> int" where
  "steps_left c =
     (let d = WSC_maxRetries c - WSC_retries c
      in (if WSC_readers c = {#Reading#} then 3 * d + 1 else if WSC_readers c = {#Retrying#} then 3 * d
          else if WSC_readers c = {#Dialing#} then 3 * d + 2 else 0) + (if WSC_doneClosed c then 0 else 1) + int (WSC_writers c))"

definition one_reader :: "'w WebSocketClient \<Rightarrow> bool" where
  "one_reader c \<longleftrightarrow> WSC_retries c \<le> WSC_maxRetries c \<and>
     (WSC_readers c = {#} \<or> WSC_readers c = {#Reading#} \<or> WSC_readers c = {#Retrying#} \<and> WSC_retries c < WSC_maxRetries c \<or>
      WSC_readers c = {#Dialing#})"

definition traffic :: "ws_event \<Rightarrow> bool" where
  "traffic e \<longleftrightarrow> (case e of Frame_read _ \<Rightarrow> True | Handled _ \<Rightarrow> True | _ \<Rightarrow> False)"

definition dial_failure :: "ws_event \<Rightarrow> bool" where
  "dial_failure e \<longleftrightarrow> (case e of Dial_failed _ \<Rightarrow> True | _ \<Rightarrow> False)"

lemma lost_step:
  assumes "ws_step e c c'" "one_reader c" "e \<noteq> Dial_succeeded"
  shows "one_reader c' \<and> steps_left c' \<le> steps_left c - (if traffic e then 0 else 1)"
  using assms
  by (elim ws_stepE)
    (auto simp: one_reader_def steps_left_def ws_defs traffic_def WebSocketClient_canReconnect_def split: if_splits)

lemma steps_left_nonneg: "one_reader c \<Longrightarrow> 0 \<le> steps_left c"
  by (auto simp: one_reader_def steps_left_def Let_def)

lemma lost_run:
  assumes "ws_run c es c'" "one_reader c" "Dial_succeeded \<notin> set es"
  shows "one_reader c' \<and> int (length (filter (\<lambda>e. \<not> traffic e) es)) + steps_left c' \<le> steps_left c"
  using assms
proof (induction rule: ws_run.induct)
  case (ws_cons e c c' es c'')
  then show ?case using lost_step [OF ws_cons(1)] by (auto split: if_splits)
qed simp

lemma failed_dials:
  assumes "ws_run c es c'" "one_reader c" "Dial_succeeded \<notin> set es"
  shows "WSC_maxRetries c' = WSC_maxRetries c \<and>
    int (length (filter dial_failure es)) = (WSC_retries c' - (if WSC_readers c' = {#Dialing#} then 1 else 0))
      - (WSC_retries c - (if WSC_readers c = {#Dialing#} then 1 else 0))"
  using assms
proof (induction rule: ws_run.induct)
  case (ws_cons e c c' es c'')
  have "WSC_maxRetries c' = WSC_maxRetries c \<and> WSC_retries c' - (if WSC_readers c' = {#Dialing#} then 1 else 0) =
      WSC_retries c - (if WSC_readers c = {#Dialing#} then 1 else 0) + (if dial_failure e then 1 else 0)"
    using ws_cons(1,4,5)
    by (elim ws_stepE) (auto simp: one_reader_def ws_defs dial_failure_def split: if_splits)
  moreover have "one_reader c'" using lost_step [OF ws_cons(1,4)] ws_cons(5) by auto
  ultimately show ?case using ws_cons(3,5) by auto
qed simp

lemma reader_moves:
  assumes "one_reader c" "WSC_readers c \<noteq> {#}"
  shows "\<exists>e c'. ws_step e c c' \<and> \<not> traffic e \<and> e \<noteq> Dial_succeeded"
proof -
  consider "WSC_readers c = {#Reading#}" | "WSC_readers c = {#Retrying#}" | "WSC_readers c = {#Dialing#}"
    using assms by (auto simp: one_reader_def)
  then show ?thesis
  proof cases
    case 1
    then show ?thesis using retry [of c] give_up [of c] by (cases "WebSocketClient_canReconnect c") (force simp: traffic_def)+
  next
    case 2
    then show ?thesis using counted [of c] by (force simp: traffic_def)
  next
    case 3
    then show ?thesis using dial_failed [of c "OtherError []"] by (force simp: traffic_def)
  qed
qed


definition ws_config :: "unit ClientConfig" where
  "ws_config = \<lparr>CC_APIKey = ''sk'', CC_AgentID = 0, CC_TenantID = 0, CC_BaseURL = [], CC_WSURL = ''ws://h'',
     CC_Timeout = Second, CC_OnMessage = None, CC_OnError = None, CC_OnConnect = None, CC_OnDisconnect = None\<rparr>"

definition first_sample :: "unit WebSocketClient" where
  "first_sample = snd (WebSocketClient_Connect reference_env (\<lambda>u h. Inr ()) (NewWebSocketClient ws_config))"

lemma first_sample_eq:
  "first_sample = \<lparr>WSC_config = ws_config, WSC_conn = Some 1, WSC_dials = 1, WSC_readers = {#Reading#}, WSC_writers = 1,
     WSC_recv = [], WSC_doneClosed = False, WSC_shouldReconnect = True, WSC_maxRetries = 5, WSC_retries = 0\<rparr>"
  by (simp add: first_sample_def WebSocketClient_Connect_def connect_with_def NewWebSocketClient_def Let_def)

lemma lost_sample_run:
  "ws_run first_sample [Read_broken, Retry_counted, Dial_failed ErrNoRows]
     (first_sample\<lparr>WSC_dials := 2, WSC_retries := 1\<rparr>)"
  using retry [of first_sample] counted [of "reader_to Reading Retrying first_sample"]
    dial_failed [of "reader_to Retrying Dialing (reader_to Reading Retrying first_sample\<lparr>WSC_retries := 1\<rparr>)" ErrNoRows]
  by (auto intro!: ws_run.intros simp: numeral_2_eq_2 first_sample_eq ws_defs WebSocketClient_canReconnect_def)


section \<open>Coming back\<close>

definition reader_ended :: "ws_event \<Rightarrow> bool" where
  "reader_ended e \<longleftrightarrow> e = Gave_up \<or> e = Reader_stopped"

lemma loops_step:
  assumes "ws_step e c c'"
  shows "size (WSC_readers c') + (if reader_ended e then 1 else 0) = size (WSC_readers c) + (if e = Dial_succeeded then 1 else 0) \<and>
    WSC_writers c' + (if e = Writer_stopped then 1 else 0) = WSC_writers c + (if e = Dial_succeeded then 1 else 0) \<and>
    (WSC_doneClosed c \<longrightarrow> WSC_doneClosed c') \<and> (e = Writer_stopped \<longrightarrow> WSC_doneClosed c)"
  using assms
  by (elim ws_stepE)
    (auto simp: ws_defs reader_ended_def size_Diff_singleton nonempty_has_size [symmetric] split: if_splits dest: size_Diff1_less)

lemma loops_run:
  assumes "ws_run c es c'"
  shows "size (WSC_readers c') + length (filter reader_ended es) = size (WSC_readers c) + count_list es Dial_succeeded \<and>
    WSC_writers c' + count_list es Writer_stopped = WSC_writers c + count_list es Dial_succeeded \<and>
    (WSC_doneClosed c \<longrightarrow> WSC_doneClosed c') \<and> (Writer_stopped \<in> set es \<longrightarrow> WSC_doneClosed c')"
  using assms
proof (induction rule: ws_run.induct)
  case (ws_cons e c c' es c'')
  then show ?case using loops_step [OF ws_cons(1)] by (auto split: if_splits)
qed simp

text \<open>
  C40. A reconnection starts another pair of loops and ends none: from the first \<open>Connect\<close> on,
  the read loops and the write loops are one more than the reconnections, less the read loops
  that gave up or stopped and the write loops that stopped; while the client is not closed, no
  write loop has stopped.
\<close>
theorem reconnect_adds_loops:
  assumes "WebSocketClient_Connect G dial (NewWebSocketClient config) = (Inr (), c)" "ws_run c es c'"
  shows "size (WSC_readers c') + length (filter reader_ended es) = 1 + count_list es Dial_succeeded \<and>
    WSC_writers c' + count_list es Writer_stopped = 1 + count_list es Dial_succeeded \<and>
    (WSC_doneClosed c' \<or> WSC_writers c' = 1 + count_list es Dial_succeeded)"
proof -
  have "size (WSC_readers c) = 1" "WSC_writers c = 1"
    using assms(1) by (auto simp: WebSocketClient_Connect_def connect_with_def NewWebSocketClient_def Let_def split: sum.splits)
  then show ?thesis using loops_run [OF assms(2)] by (auto simp: count_list_0_iff)
qed

lemma back_sample_run:
  "ws_run first_sample [Read_broken, Retry_counted, Dial_succeeded]
     (first_sample\<lparr>WSC_conn := Some 2, WSC_dials := 2, WSC_readers := {#Reading, Reading#}, WSC_writers := 2\<rparr>)"
  using retry [of first_sample] counted [of "reader_to Reading Retrying first_sample"]
    dial_ok [of "reader_to Retrying Dialing (reader_to Reading Retrying first_sample\<lparr>WSC_retries := 1\<rparr>)"]
  by (auto intro!: ws_run.intros simp: numeral_2_eq_2 first_sample_eq ws_defs WebSocketClient_canReconnect_def)

theorem reconnect_adds_loops_witness:
  "\<exists>c. ws_run first_sample [Read_broken, Retry_counted, Dial_succeeded] c \<and> size (WSC_readers c) = 2 \<and> WSC_writers c = 2"
proof -
  have "WebSocketClient_Connect reference_env (\<lambda>u h. Inr ()) (NewWebSocketClient ws_config) = (Inr (), first_sample)"
    by (simp add: first_sample_def WebSocketClient_Connect_def connect_with_def)
  from reconnect_adds_loops [OF this back_sample_run] back_sample_run show ?thesis
    by (auto simp: reader_ended_def first_sample_eq)
qed

end
