(* ===== verification/Store_Concurrency.thy ===== *)
theory Store_Concurrency
  imports Store_Integrity
begin

text \<open>
  One process among others on the same database: between any two calls of a request, a worker
  iteration or a retry pass the other processes may act. A rely-guarantee argument: the others
  may do whatever keeps the rows sound and the history (\<open>others_ok\<close>), and every single write of
  the process is itself of this kind, so that any number of such processes can be put together.
\<close>

section \<open>Shared servers\<close>

text \<open>
  \<open>SH_others n\<close> is what the other processes do before the n-th call of this one, and \<open>SH_writes\<close>
  lists the states before and after each call.
\<close>

record shared =
  SH_world :: world
  SH_others :: "nat \<Rightarrow> world \<Rightarrow> world"
  SH_calls :: nat
  SH_writes :: "(world \<times> world) list"

definition others_acted :: "shared \<Rightarrow> world" where
  "others_acted s = SH_others s (SH_calls s) (SH_world s)"

definition sh_call :: "(world, 'a) io \<Rightarrow> (shared, 'a) io" where
  "sh_call m = State (\<lambda>s.
     let w = others_acted s; (x, w') = run_state m w
     in (x, s\<lparr>SH_world := w', SH_calls := SH_calls s + 1, SH_writes := SH_writes s @ [(w, w')]\<rparr>))"

lemma run_sh_call: "run_state (sh_call m) s =
    (fst (run_state m (others_acted s)),
     s\<lparr>SH_world := snd (run_state m (others_acted s)), SH_calls := SH_calls s + 1,
       SH_writes := SH_writes s @ [(others_acted s, snd (run_state m (others_acted s)))]\<rparr>)"
  by (simp add: sh_call_def Let_def split: prod.split)

definition sh_rt :: "shared runtime" where
  "sh_rt = \<lparr>time_Now = sh_call (time_Now sys_rt), uuid_New = sh_call (uuid_New sys_rt),
     counter_Inc = (\<lambda>c l. sh_call (counter_Inc sys_rt c l)),
     histogram_Observe = (\<lambda>c l d. sh_call (histogram_Observe sys_rt c l d))\<rparr>"

definition sh_db :: "shared sqlx" where
  "sh_db = \<lparr>
     ExecContext = (\<lambda>q. sh_call (ExecContext sys_db q)),
     GetAgent = (\<lambda>q. sh_call (GetAgent sys_db q)),
     SelectAgents = (\<lambda>q. sh_call (SelectAgents sys_db q)),
     GetMessage = (\<lambda>q. sh_call (GetMessage sys_db q)),
     SelectMessages = (\<lambda>q. sh_call (SelectMessages sys_db q)),
     GetAck = (\<lambda>i. sh_call (GetAck sys_db i)),
     SelectDeadLetters = (\<lambda>n. sh_call (SelectDeadLetters sys_db n)),
     GetExists = (\<lambda>q. sh_call (GetExists sys_db q)),
     PingDB = sh_call (PingDB sys_db)\<rparr>"

definition sh_redis :: "shared goredis" where
  "sh_redis = \<lparr>
     cmd_Publish = (\<lambda>c m. sh_call (cmd_Publish sys_redis c m)),
     cmd_LPush = (\<lambda>k vs. sh_call (cmd_LPush sys_redis k vs)),
     cmd_RPop = (\<lambda>k. sh_call (cmd_RPop sys_redis k)),
     cmd_Set = (\<lambda>k v d. sh_call (cmd_Set sys_redis k v d)),
     cmd_Get = (\<lambda>k. sh_call (cmd_Get sys_redis k)),
     cmd_Del = (\<lambda>ks. sh_call (cmd_Del sys_redis ks)),
     cmd_HSet = (\<lambda>k f v. sh_call (cmd_HSet sys_redis k f v)),
     cmd_HGetAll = (\<lambda>k. sh_call (cmd_HGetAll sys_redis k)),
     cmd_HDel = (\<lambda>k f. sh_call (cmd_HDel sys_redis k f)),
     cmd_Expire = (\<lambda>k d. sh_call (cmd_Expire sys_redis k d)),
     cmd_Incr = (\<lambda>k. sh_call (cmd_Incr sys_redis k)),
     cmd_ZAdd = (\<lambda>k xs. sh_call (cmd_ZAdd sys_redis k xs)),
     cmd_ZRange = (\<lambda>k a b. sh_call (cmd_ZRange sys_redis k a b)),
     cmd_Exists = (\<lambda>k. sh_call (cmd_Exists sys_redis k)),
     cmd_Ping = sh_call (cmd_Ping sys_redis)\<rparr>"

section \<open>Rely and guarantee\<close>

text \<open>What a process may rely on of the others, and what each of its own writes guarantees.\<close>

definition others_ok :: "go_env \<Rightarrow> (nat \<Rightarrow> world \<Rightarrow> world) \<Rightarrow> bool" where
  "others_ok G f \<longleftrightarrow> (\<forall>n w. extends (W_db w) (W_db (f n w)) \<and> (world_ok G w \<longrightarrow> world_ok G (f n w)))"

definition write_ok :: "go_env \<Rightarrow> world \<times> world \<Rightarrow> bool" where
  "write_ok G = (\<lambda>(v, w). extends (W_db v) (W_db w) \<and> world_ok G v \<and> world_ok G w)"

definition shared_inv :: "go_env \<Rightarrow> tables \<Rightarrow> shared \<Rightarrow> bool" where
  "shared_inv G T s \<longleftrightarrow> others_ok G (SH_others s) \<and> world_ok G (SH_world s) \<and>
     extends T (W_db (SH_world s)) \<and> list_all (write_ok G) (SH_writes s)"

lemma others_acted_ok:
  assumes "shared_inv G T s"
  shows "world_ok G (others_acted s)" "extends (W_db (SH_world s)) (W_db (others_acted s))"
    "extends T (W_db (others_acted s))"
  using assms by (auto simp: shared_inv_def others_ok_def others_acted_def intro: extends_trans)

lemma shared_inv_call:
  assumes "shared_inv G T s" and "world_ok G (snd (run_state m (others_acted s)))"
    and "extends (W_db (others_acted s)) (W_db (snd (run_state m (others_acted s))))"
  shows "shared_inv G T (snd (run_state (sh_call m) s))"
  using assms others_acted_ok [OF assms(1)]
  by (auto simp: run_sh_call shared_inv_def write_ok_def intro: extends_trans)

lemma keeps_sh_call:
  assumes "keeps (world_ok G) m" "\<And>T. keeps (db_inv (extends T)) m"
  shows "keeps (shared_inv G T) (sh_call m)"
proof
  fix s assume s: "shared_inv G T s"
  show "shared_inv G T (snd (run_state (sh_call m) s))"
  proof (rule shared_inv_call [OF s])
    show "world_ok G (snd (run_state m (others_acted s)))"
      using keepsD [OF assms(1)] others_acted_ok(1) [OF s] by simp
    show "extends (W_db (others_acted s)) (W_db (snd (run_state m (others_acted s))))"
      using keepsD [OF assms(2), of "W_db (others_acted s)" "others_acted s"] extends_refl by (simp add: db_inv_def)
  qed
qed

lemma addressed_in_extends: "addressed_in G i a T \<Longrightarrow> extends T U \<Longrightarrow> addressed_in G i a U"
proof -
  have same: "Message_ID m' = Message_ID m \<and> row_recipients G m' = row_recipients G m" if "same_message m m'" for m m'
  proof -
    from that obtain st p where m: "m = m'\<lparr>Message_Status := st, Message_ProcessedAt := p\<rparr>"
      by (metis same_message_def)
    show ?thesis by (simp add: m row_recipients_def ScanRecipients_def split: option.splits)
  qed
  assume "addressed_in G i a T" "extends T U"
  then show ?thesis unfolding addressed_in_def extends_def by (metis same)
qed

lemma addressed_sh_call:
  assumes "keeps (world_ok G) m" "\<And>T. keeps (db_inv (extends T)) m"
  shows "keeps (\<lambda>s. shared_inv G T s \<and> addressed_in G i a (W_db (SH_world s))) (sh_call m)"
proof
  fix s assume s: "shared_inv G T s \<and> addressed_in G i a (W_db (SH_world s))"
  let ?u = "others_acted s"
  have "addressed_in G i a (W_db ?u)"
    using s others_acted_ok(2) [of G T s] by (metis addressed_in_extends)
  moreover have "extends (W_db ?u) (W_db (snd (run_state m ?u)))"
    using keepsD [OF assms(2), of "W_db ?u" ?u] extends_refl by (simp add: db_inv_def)
  ultimately have "addressed_in G i a (W_db (snd (run_state m ?u)))" by (metis addressed_in_extends)
  then show "shared_inv G T (snd (run_state (sh_call m) s)) \<and> addressed_in G i a (W_db (SH_world (snd (run_state (sh_call m) s))))"
    using keepsD [OF keeps_sh_call [OF assms]] s by (simp add: run_sh_call)
qed

interpretation sharing: kept_calls "shared_inv G T" sh_rt sh_db sh_redis for G T
proof
  fix q assume "benign q"
  then show "keeps (shared_inv G T) (ExecContext sh_db q)"
    by (simp add: sh_db_def keeps_sh_call sound.exec history.exec)
qed (simp_all add: sh_rt_def sh_db_def sh_redis_def keeps_sh_call sound.rt sound.metrics sound.redis sound.queries
    keeps_db_rt keeps_db_redis keeps_db_queries)

lemma run_shared: "run_state (sh_call m) s = (x, s') \<Longrightarrow> run_state m (others_acted s) = (x, SH_world s')"
  by (auto simp: run_sh_call)

interpretation sharing: program_calls "shared_inv G T" sh_rt sh_db sh_redis G "\<lambda>i s. i \<in> message_ids (W_db (SH_world s))"
    "\<lambda>i a s. addressed_in G i a (W_db (SH_world s))"
  for G T
proof
  fix f assume "message_row_ok G f"
  then show "keeps (shared_inv G T) (ExecContext sh_db (insert_of f))"
    by (simp add: sh_db_def keeps_sh_call sound.insert_kept history.insert_kept)
next
  fix s f n s' assume s: "shared_inv G T s" and "run_state (ExecContext sh_db (insert_of f)) s = (Inr n, s')"
  then have "run_state (ExecContext sys_db (insert_of f)) (others_acted s) = (Inr n, SH_world s')"
    by (simp add: sh_db_def run_shared)
  then show "Message_ID f \<in> message_ids (W_db (SH_world s'))"
    by (rule sound.insert_stores [OF others_acted_ok(1) [OF s]])
next
  fix s f p assume s: "shared_inv G T s" and f: "Message_ID f \<in> message_ids (W_db (SH_world s))" "Marshal_Message G f = Inr p"
  let ?u = "others_acted s"
  have "Message_ID f \<in> message_ids (W_db ?u)" using f(1) message_ids_extends [OF others_acted_ok(2) [OF s]] by blast
  then have "world_ok G (snd (run_state (cmd_LPush sys_redis ''message:pending'' [p]) ?u))"
    using sound.push_kept [OF others_acted_ok(1) [OF s]] f(2) by simp
  moreover have "extends (W_db ?u) (W_db (snd (run_state (cmd_LPush sys_redis ''message:pending'' [p]) ?u)))"
    by (simp add: run_sys_redis extends_refl)
  ultimately have "shared_inv G T (snd (run_state (sh_call (cmd_LPush sys_redis ''message:pending'' [p])) s))"
    by (rule shared_inv_call [OF s])
  then show "shared_inv G T (snd (run_state (cmd_LPush sh_redis ''message:pending'' [p]) s))" by (simp add: sh_redis_def)
next
  fix i t s m s' a
  assume s: "shared_inv G T s" and read: "run_state (GetMessage sh_db (Message_ByIdTenant i t)) s = (Inr m, s')" and a: "a \<in> row_recipients G m"
  then have "run_state (GetMessage sys_db (Message_ByIdTenant i t)) (others_acted s) = (Inr m, SH_world s')"
    by (simp add: sh_db_def run_shared)
  then show "addressed_in G i a (W_db (SH_world s'))"
    by (rule sound.read_addressed [OF others_acted_ok(1) [OF s] _ a])
next
  fix s and b :: Acknowledgement
  assume s: "shared_inv G T s" and a: "addressed_in G (Ack_MessageID b) (Ack_AgentID b) (W_db (SH_world s))"
  let ?u = "others_acted s"
  have u: "addressed_in G (Ack_MessageID b) (Ack_AgentID b) (W_db ?u)"
    by (rule addressed_in_extends [OF a others_acted_ok(2) [OF s]])
  have "shared_inv G T (snd (run_state (sh_call (ExecContext sys_db (ack_insert b))) s))"
    by (rule shared_inv_call [OF s sound.ack_kept [OF others_acted_ok(1) [OF s] u]])
      (simp add: run_sys_exec extends_exec extends_refl)
  then show "shared_inv G T (snd (run_state (ExecContext sh_db (ack_insert b)) s))" by (simp add: sh_db_def)
qed (simp_all add: sh_rt_def addressed_sh_call keeps_db_rt sound.rt)

section \<open>A process at work\<close>

text \<open>
  A step of the process: a request to its server, an iteration of one of its workers or a pass
  over the dead letters, with the others acting before each call and while a worker sleeps.
\<close>

definition sh_sleep :: "duration \<Rightarrow> (shared, unit) io" where
  "sh_sleep d = sh_call (ret ())"

inductive process_step :: "go_env \<Rightarrow> shared \<Rightarrow> shared \<Rightarrow> bool" for G where
  request: "mw_on sh_db sh_redis m \<Longrightarrow> pg \<in> {None, Some sh_db} \<Longrightarrow> rd \<in> {None, Some sh_redis} \<Longrightarrow>
    run_state (NewServer G sh_rt spanTraceID spec (deps_on sh_db sh_redis pg rd m) r) s = (c, s') \<Longrightarrow> process_step G s s'"
| work: "run_state (worker_iteration G sh_rt sh_sleep (engine_on cfg sh_db sh_redis) sh_redis) s = ((), s') \<Longrightarrow>
    process_step G s s'"
| retry: "run_state (DeadLetterQueue_process G sh_rt (dlq_on mx sh_db sh_redis)) s = ((), s') \<Longrightarrow> process_step G s s'"

lemma process_step_keeps:
  assumes "process_step G s s'" "shared_inv G T s"
  shows "shared_inv G T s'"
  using assms(1)
proof cases
  case (request m pg rd spanTraceID spec r c)
  have "keeps (shared_inv G T) (NewServer G sh_rt spanTraceID spec (deps_on sh_db sh_redis pg rd m) r)"
    by (rule sharing.keeps_request [OF request(1-3)])
  from keepsD [OF this assms(2)] request(4) show ?thesis by simp
next
  case (work cfg)
  have "keeps (shared_inv G T) (sh_sleep d)" for d
    unfolding sh_sleep_def by (intro keeps_sh_call keeps_ret)
  then have "keeps (shared_inv G T) (worker_iteration G sh_rt sh_sleep (engine_on cfg sh_db sh_redis) sh_redis)"
    by (rule sharing.keeps_engine)
  from keepsD [OF this assms(2)] work show ?thesis by simp
next
  case (retry mx)
  have "keeps (shared_inv G T) (DeadLetterQueue_process G sh_rt (dlq_on mx sh_db sh_redis))" by (rule sharing.keeps_retries)
  from keepsD [OF this assms(2)] retry show ?thesis by simp
qed

lemma process_run_keeps:
  assumes "(process_step G)\<^sup>*\<^sup>* s s'" "shared_inv G T s"
  shows "shared_inv G T s'"
  using assms by (induction rule: rtranclp_induct) (auto intro: process_step_keeps)

lemma process_run_sound:
  assumes "(process_step G)\<^sup>*\<^sup>* s s'" "others_ok G (SH_others s)" "world_ok G (SH_world s)" "SH_writes s = []"
  shows "shared_inv G (W_db (SH_world s)) s'"
  by (rule process_run_keeps [OF assms(1)]) (simp add: shared_inv_def assms extends_refl)

text \<open>
  C4. The store stays sound when processes interleave call by call: rows are sound (keys unique,
  references resolve, a message has content of the recorded size and a recipient, an
  acknowledgement is by a recipient), and the queue holds stored messages only. If between any
  two calls of a process the others only do what keeps this and the history, then over every
  run of the process it holds, nothing of the first state is lost, and each single call of the
  process to a server itself keeps both, which is what the others rely on.
\<close>
theorem store_sound_when_shared:
  assumes "(process_step G)\<^sup>*\<^sup>* s s'" "others_ok G (SH_others s)" "world_ok G (SH_world s)" "SH_writes s = []"
  shows "world_ok G (SH_world s') \<and> extends (W_db (SH_world s)) (W_db (SH_world s')) \<and>
    (\<forall>(v, w) \<in> set (SH_writes s'). world_ok G v \<and> world_ok G w \<and> extends (W_db v) (W_db w))"
  using process_run_sound [OF assms] by (auto simp: shared_inv_def write_ok_def list_all_iff)

text \<open>The runs of a whole other process satisfy what is relied on.\<close>

lemma others_ok_steps:
  assumes "\<And>n w. (system_step G)\<^sup>*\<^sup>* w (f n w)"
  shows "others_ok G f"
  unfolding others_ok_def
  using store_stays_sound [OF assms] system_run_keeps [OF assms history.program_calls_axioms extends_refl] by blast

definition sample_others :: "nat \<Rightarrow> world \<Rightarrow> world" where
  "sample_others n w =
     (if n = 1 then snd (run_state (worker_iteration reference_env sys_rt (\<lambda>d. ret ()) (sys_engine None) sys_redis) w) else w)"

lemma sample_others_ok: "others_ok reference_env sample_others"
proof (rule others_ok_steps)
  fix n w show "(system_step reference_env)\<^sup>*\<^sup>* w (sample_others n w)"
    by (auto simp: sample_others_def intro!: r_into_rtranclp system_step.work prod_eqI)
qed

definition sample_shared :: shared where
  "sample_shared = \<lparr>SH_world = sample_world, SH_others = sample_others, SH_calls = 0, SH_writes = []\<rparr>"

lemma sample_shared_step: "process_step reference_env sample_shared
    (snd (run_state (worker_iteration reference_env sh_rt sh_sleep (engine_on None sh_db sh_redis) sh_redis) sample_shared))"
  by (rule process_step.work) (rule prod_eqI; simp)

theorem store_sound_when_shared_witness:
  "world_ok reference_env (SH_world (snd (run_state
     (worker_iteration reference_env sh_rt sh_sleep (engine_on None sh_db sh_redis) sh_redis) sample_shared)))"
  using store_sound_when_shared [OF r_into_rtranclp [where r = "process_step reference_env", OF sample_shared_step]]
    sample_others_ok sample_world_ok
  by (simp add: sample_shared_def)

end
